(* ===== verification/Go_Prelude.thy ===== *)
theory Go_Prelude
  imports Go_Strings "HOL-Library.Multiset" "HOL-Library.Word"
begin

text \<open>
  The lemmas the components share: results, maps, white space, duplicate-free lists, clocks,
  and the two generic interfaces that recur in the program. A \<open>normalizer\<close> is the contract behind
  every \<open>normalize\<close> function of the configuration and the renderer; an \<open>invariant_system\<close> is a
  step relation with a preserved predicate.
\<close>

named_theorems go_simps \<open>library facts that carry the component proofs\<close>

section \<open>Results\<close>

lemma result_bind_Inr [simp]:
  "result_bind r f = Inr y \<longleftrightarrow> (\<exists>x. r = Inr x \<and> f x = Inr y)"
  by (cases r) auto

lemma result_bind_Inl [simp]:
  "result_bind r f = Inl e \<longleftrightarrow> r = Inl e \<or> (\<exists>x. r = Inr x \<and> f x = Inl e)"
  by (cases r) auto

lemma check_Inr [simp]: "check ok e = Inr u \<longleftrightarrow> ok"
  by (simp add: check_def)

lemma check_Inl [simp]: "check ok e = Inl e' \<longleftrightarrow> \<not> ok \<and> e' = e"
  by (auto simp: check_def)

section \<open>Maps\<close>

lemma wf_map_Nil [simp]: "wf_map []"
  by (simp add: wf_map_def)

lemma wf_map_set [simp]: "wf_map m \<Longrightarrow> wf_map (map_set k v m)"
  by (simp add: wf_map_def distinct_update)

lemma wf_map_del [simp]: "wf_map m \<Longrightarrow> wf_map (map_del k m)"
  by (simp add: wf_map_def distinct_delete)

lemma map_of_set [simp]: "map_of (map_set k v m) k' = (if k' = k then Some v else map_of m k')"
  by (simp add: update_conv')

lemma map_of_del [simp]: "map_of (map_del k m) k' = (if k' = k then None else map_of m k')"
  by (simp add: delete_conv')

lemma set_del [simp]: "set (map_del k m) = {p \<in> set m. fst p \<noteq> k}"
  by (auto simp: AList.delete_eq)

lemma map_of_memb: "wf_map m \<Longrightarrow> (k, v) \<in> set m \<longleftrightarrow> map_of m k = Some v"
  by (simp add: wf_map_def)

lemma set_set: "wf_map m \<Longrightarrow> set (map_set k v m) = insert (k, v) {p \<in> set m. fst p \<noteq> k}"
proof -
  assume wf: "wf_map m"
  have "(a, b) \<in> set (map_set k v m) \<longleftrightarrow> (a, b) \<in> insert (k, v) {p \<in> set m. fst p \<noteq> k}" for a b
    by (cases "a = k") (simp_all add: map_of_memb [OF wf] map_of_memb [OF wf_map_set [OF wf]], auto)
  then show ?thesis by auto
qed

lemma map_set_fresh: "map_of m k = None \<Longrightarrow> map_set k v m = m @ [(k, v)]"
  by (induction m) auto

lemma map_del_filter: "map_del k m = filter (\<lambda>p. fst p \<noteq> k) m"
  by (auto simp: AList.delete_eq intro: filter_cong)

lemma keys_del [simp]: "fst ` set (map_del k m) = fst ` set m - {k}"
  by auto

lemma keys_set [simp]: "fst ` set (map_set k v m) = insert k (fst ` set m)"
  by (simp add: dom_update)

text \<open>Lookup of a literal key in a literal table, one comparison at a time.\<close>

lemma map_of_hit: "map_of ((k, v) # m) k = Some v"
  by simp

lemma map_of_skip: "k \<noteq> n \<Longrightarrow> map_of ((k, v) # m) n = map_of m n"
  by simp

lemmas literal_lookup = map_of_hit map_of_skip list.inject char.inject list.distinct simp_thms

section \<open>Prefixes and white space\<close>

lemma HasPrefix_iff: "HasPrefix s p \<longleftrightarrow> (\<exists>r. s = p @ r)"
proof
  assume "HasPrefix s p"
  then have "s = p @ drop (length p) s"
    unfolding HasPrefix_def by (metis append_take_drop_id)
  then show "\<exists>r. s = p @ r" by blast
qed (auto simp: HasPrefix_def)

lemma HasPrefix_prefix: "HasPrefix s p \<longleftrightarrow> prefix p s"
  by (auto simp: HasPrefix_iff prefix_def)

lemma TrimPrefix_append [simp]: "TrimPrefix (p @ s) p = s"
  by (simp add: TrimPrefix_def HasPrefix_def)

lemma strip_one_None:
  "strip_one ps s = None \<longleftrightarrow> (\<forall>p \<in> set ps. p \<noteq> [] \<longrightarrow> \<not> HasPrefix s p)"
  by (induction ps) auto

lemma strip_one_suffix: "strip_one ps s = Some r \<Longrightarrow> suffix r s"
  by (induction ps) (auto split: if_splits simp: suffix_drop)

lemma strip_all_None: "strip_one ps (strip_all ps s) = None"
proof (induction ps s rule: strip_all.induct)
  case (1 ps s)
  then show ?case
    by (cases "strip_one ps s") (simp_all add: strip_all.simps [of ps s])
qed

lemma strip_all_id: "strip_one ps s = None \<Longrightarrow> strip_all ps s = s"
  by (simp add: strip_all.simps [of ps s])

lemma strip_all_suffix: "suffix (strip_all ps s) s"
proof (induction ps s rule: strip_all.induct)
  case (1 ps s)
  then show ?case
    by (cases "strip_one ps s")
      (auto simp: strip_all.simps [of ps s] dest: strip_one_suffix intro: suffix_order.trans)
qed

lemma strip_one_prefix_None:
  "strip_one ps s = None \<Longrightarrow> prefix t s \<Longrightarrow> strip_one ps t = None"
  by (auto simp: strip_one_None HasPrefix_prefix intro: prefix_order.trans)

lemma TrimRightSpace_prefix: "prefix (TrimRightSpace s) s"
  using strip_all_suffix [of "map rev space_encodings" "rev s"]
  by (simp add: TrimRightSpace_def suffix_to_prefix)

text \<open>\<open>strings.TrimSpace\<close> is idempotent: the trimmed string has no white space at either end.\<close>

lemma TrimSpace_idem [simp]: "TrimSpace (TrimSpace s) = TrimSpace s"
proof -
  let ?l = "TrimLeftSpace s"
  have "strip_one space_encodings ?l = None"
    by (simp add: TrimLeftSpace_def strip_all_None)
  then have left: "TrimLeftSpace (TrimSpace s) = TrimSpace s"
    unfolding TrimSpace_def
    by (simp add: TrimLeftSpace_def strip_all_id strip_one_prefix_None [OF _ TrimRightSpace_prefix])
  have "TrimRightSpace (TrimRightSpace ?l) = TrimRightSpace ?l"
    by (simp add: TrimRightSpace_def strip_all_id strip_all_None)
  then show ?thesis
    using left by (simp add: TrimSpace_def)
qed

lemma TrimSpace_Nil [simp]: "TrimSpace [] = []"
  by code_simp

lemma ToLower_Nil [simp]: "ToLower [] = []"
  by code_simp

section \<open>Hexadecimal tokens\<close>

lemma hex_char_byte: "0 \<le> n \<Longrightarrow> n < 16 \<Longrightarrow> byte_of (hex_char n) = (if n < 10 then 48 + n else 87 + n)"
  by (simp add: hex_char_def)

lemma hex_char_ok:
  assumes "0 \<le> n" "n < 16"
  shows "hex_digit (hex_char n) \<noteq> None" "byte_of (hex_char n) < 128" "ascii_lower (hex_char n) = hex_char n"
  using assms by (auto simp: hex_digit_def ascii_lower_def is_upper_def Let_def hex_char_byte)

lemma hex_encode_length [simp]: "length (hex_encode bs) = 2 * length bs"
  by (induction bs) auto

lemma hex_encode_chars: "c \<in> set (hex_encode bs) \<Longrightarrow> \<exists>n. 0 \<le> n \<and> n < 16 \<and> c = hex_char n"
  by (induction bs) (auto intro: exI [of _ "_ mod 16"])

text \<open>What \<open>hex.EncodeToString\<close> prints is decodable and in lower case.\<close>

lemma hex_encode_decodable [simp]: "hex_decodable (hex_encode bs)"
  using hex_encode_chars hex_char_ok(1) by (fastforce simp: hex_decodable_def list_all_iff)

lemma hex_encode_lower [simp]: "ToLower (hex_encode bs) = hex_encode bs"
proof -
  have "is_ascii (hex_encode bs)"
    using hex_encode_chars hex_char_ok(2) by (fastforce simp: is_ascii_def list_all_iff)
  moreover have "map ascii_lower (hex_encode bs) = hex_encode bs"
    using hex_encode_chars hex_char_ok(3) by (fastforce intro: map_idI)
  ultimately show ?thesis
    by (simp add: ToLower_def)
qed

section \<open>Visible text\<close>

text \<open>Text without white space is its own trimmed form; numbers print as such text.\<close>

definition visible :: "char \<Rightarrow> bool" where
  "visible c \<longleftrightarrow> 33 \<le> byte_of c \<and> byte_of c < 128"

lemma strip_all_visible:
  assumes "list_all (\<lambda>p. p \<noteq> [] \<longrightarrow> \<not> visible (hd p)) ps" "list_all visible s"
  shows "strip_all ps s = s"
proof (rule strip_all_id, unfold strip_one_None, intro ballI impI)
  fix p assume "p \<in> set ps" "p \<noteq> []"
  then have "\<not> visible (hd p)"
    using assms(1) by (auto simp: list_all_iff)
  moreover have "hd p \<in> set s" if "HasPrefix s p"
    using that \<open>p \<noteq> []\<close> by (auto simp: HasPrefix_iff)
  ultimately show "\<not> HasPrefix s p"
    using assms(2) by (auto simp: list_all_iff)
qed

lemma TrimSpace_visible: "list_all visible s \<Longrightarrow> TrimSpace s = s"
proof -
  have front: "list_all (\<lambda>p. p \<noteq> [] \<longrightarrow> \<not> visible (hd p)) space_encodings"
    and behind: "list_all (\<lambda>p. p \<noteq> [] \<longrightarrow> \<not> visible (hd p)) (map rev space_encodings)"
    by code_simp+
  show "list_all visible s \<Longrightarrow> TrimSpace s = s"
    using strip_all_visible [OF front] strip_all_visible [OF behind, of "rev s"]
    by (simp add: TrimSpace_def TrimLeftSpace_def TrimRightSpace_def list_all_iff)
qed

lemma digit_visible: "0 \<le> n \<Longrightarrow> n < 10 \<Longrightarrow> visible (char_of (48 + n :: int))"
  by (simp add: visible_def of_char_of)

lemma itoa_visible: "list_all visible (itoa i)"
proof -
  have digits: "0 \<le> n \<Longrightarrow> list_all visible (int_digits n)" for n
    by (induction n rule: int_digits.induct) (simp add: int_digits.simps digit_visible)
  show ?thesis
    by (auto simp: itoa_def digits visible_def)
qed

lemma hex_char_visible: "0 \<le> n \<Longrightarrow> n < 16 \<Longrightarrow> visible (hex_char n)"
  by (simp add: visible_def hex_char_byte)

lemma Join_visible: "list_all visible d \<Longrightarrow> list_all (list_all visible) ws \<Longrightarrow> list_all visible (Join d ws)"
  by (induction d ws rule: Join.induct) auto

section \<open>Normalised lists\<close>

text \<open>
  The contract of a normalisation function: the empty string stays empty, so dropping the empty
  results drops the values that carry nothing. The lemmas hold for every loop of the program that
  skips empty and already seen values.
\<close>

locale normalizer =
  fixes norm :: "string \<Rightarrow> string"
  assumes norm_Nil: "norm [] = []"
begin

lemma dedup_set: "set (dedup_loop norm seen xs) = norm ` set xs - {[]} - set seen"
  by (induction xs arbitrary: seen) (auto simp: Let_def)

lemma dedup_distinct: "distinct (dedup_loop norm seen xs)"
  by (induction xs arbitrary: seen) (auto simp: Let_def dedup_set)

lemma dedup_nonempty: "[] \<notin> set (dedup_loop norm seen xs)"
  by (simp add: dedup_set)

lemma dedup_subseq: "subseq (dedup_loop norm seen xs) (map norm xs)"
  by (induction xs arbitrary: seen) (auto simp: Let_def)

lemma dedup_length: "length (dedup_loop norm seen xs) \<le> length xs"
  using list_emb_length [OF dedup_subseq [of seen xs]] by simp

lemma dedup_blank: "(\<forall>x \<in> set xs. norm x = []) \<Longrightarrow> dedup_loop norm seen xs = []"
  by (induction xs) (auto simp: Let_def)

end

text \<open>A normalisation function that is idempotent makes the whole loop idempotent.\<close>

locale idem_normalizer = normalizer +
  assumes norm_idem: "norm (norm s) = norm s"
begin

lemma dedup_fixed:
  "(\<forall>x \<in> set xs. norm x = x \<and> x \<noteq> []) \<Longrightarrow> distinct xs \<Longrightarrow> set xs \<inter> set seen = {} \<Longrightarrow>
    dedup_loop norm seen xs = xs"
  by (induction xs arbitrary: seen) (auto simp: Let_def)

lemma dedup_idem: "dedup_loop norm [] (dedup_loop norm [] xs) = dedup_loop norm [] xs"
  by (rule dedup_fixed) (auto simp: dedup_set dedup_distinct norm_idem)

end

interpretation trim: idem_normalizer TrimSpace
  by unfold_locales simp_all

section \<open>Step relations\<close>

text \<open>
  A machine: an initial predicate and a step relation. A predicate that holds initially and that
  every step keeps holds in every reachable state.
\<close>

inductive reaches :: "('s \<Rightarrow> bool) \<Rightarrow> ('s \<Rightarrow> 's \<Rightarrow> bool) \<Rightarrow> 's \<Rightarrow> bool"
  for start step where
  reaches_init: "start s \<Longrightarrow> reaches start step s"
| reaches_step: "reaches start step s \<Longrightarrow> step s t \<Longrightarrow> reaches start step t"

locale invariant_system =
  fixes start :: "'s \<Rightarrow> bool" and step :: "'s \<Rightarrow> 's \<Rightarrow> bool" and inv :: "'s \<Rightarrow> bool"
  assumes inv_init: "start s \<Longrightarrow> inv s"
    and inv_step: "inv s \<Longrightarrow> step s t \<Longrightarrow> inv t"
begin

lemma inv_reaches: "reaches start step s \<Longrightarrow> inv s"
  by (induction rule: reaches.induct) (auto intro: inv_init inv_step)

lemma inv_star: "step\<^sup>*\<^sup>* s t \<Longrightarrow> inv s \<Longrightarrow> inv t"
  by (induction rule: rtranclp_induct) (auto intro: inv_step)

end

section \<open>Time\<close>

text \<open>
  \<open>time.Time\<close> is an integer number of nanoseconds; Go's zero time lies before every reading of the
  clock. \<open>Time.Sub\<close> saturates at the bounds of a 64-bit duration.
\<close>

type_synonym go_time = int

type_synonym duration = int

definition zero_time :: go_time where
  "zero_time = - (2 ^ 63)"

definition second :: duration where
  "second = 1000000000"

definition time_Sub :: "go_time \<Rightarrow> go_time \<Rightarrow> duration" where
  "time_Sub a b = max (- (2 ^ 63)) (min (2 ^ 63 - 1) (a - b))"

end
