(* ===== verification/Go_Filepath.thy ===== *)
theory Go_Filepath
  imports Go_Prelude
begin

text \<open>
  Package \<open>path/filepath\<close> on Unix, as far as the program uses it: lexical cleaning, joining,
  splitting off the directory and the last element. Nothing here looks at a file system.
\<close>

section \<open>Definitions\<close>

abbreviation slash :: char where
  "slash \<equiv> CHR ''/''"

text \<open>One element of a path, on the reversed list of the elements kept so far.\<close>

fun clean_elem :: "bool \<Rightarrow> string \<Rightarrow> string list \<Rightarrow> string list" where
  "clean_elem rooted e out =
    (if e = [] \<or> e = ''.'' then out
     else if e = ''..'' then
       (case out of
          [] \<Rightarrow> if rooted then [] else [''..'']
        | t # rest \<Rightarrow> if t = ''..'' then ''..'' # out else rest)
     else e # out)"

declare clean_elem.simps [simp del, go_defs]

definition clean_elems :: "bool \<Rightarrow> string list \<Rightarrow> string list" where
  "clean_elems rooted es = rev (fold (clean_elem rooted) es [])"

definition IsAbs :: "string \<Rightarrow> bool" where
  "IsAbs p = HasPrefix p ''/''"

definition render_path :: "bool \<Rightarrow> string list \<Rightarrow> string" where
  "render_path rooted es =
    (if rooted then slash # Join ''/'' es else if es = [] then ''.'' else Join ''/'' es)"

definition Clean :: "string \<Rightarrow> string" where
  "Clean p = (if p = [] then ''.'' else render_path (IsAbs p) (clean_elems (IsAbs p) (Split slash p)))"

definition filepath_Join :: "string list \<Rightarrow> string" where
  "filepath_Join es =
    (case dropWhile (\<lambda>e. e = []) es of [] \<Rightarrow> [] | rest \<Rightarrow> Clean (Join ''/'' rest))"

definition upto_last_slash :: "string \<Rightarrow> string" where
  "upto_last_slash p = rev (dropWhile (\<lambda>c. c \<noteq> slash) (rev p))"

definition after_last_slash :: "string \<Rightarrow> string" where
  "after_last_slash p = rev (takeWhile (\<lambda>c. c \<noteq> slash) (rev p))"

definition Dir :: "string \<Rightarrow> string" where
  "Dir p = Clean (upto_last_slash p)"

definition Base :: "string \<Rightarrow> string" where
  "Base p =
    (if p = [] then ''.''
     else let q = rev (dropWhile (\<lambda>c. c = slash) (rev p)); b = after_last_slash q
          in if b = [] then ''/'' else b)"

definition Ext :: "string \<Rightarrow> string" where
  "Ext p =
    (let b = rev (after_last_slash p); e = takeWhile (\<lambda>c. c \<noteq> CHR ''.'') b
     in if length e = length b then [] else CHR ''.'' # rev e)"

declare Clean_def [go_defs] IsAbs_def [go_defs] clean_elems_def [go_defs] render_path_def [go_defs]
  filepath_Join_def [go_defs] upto_last_slash_def [go_defs] after_last_slash_def [go_defs]
  Dir_def [go_defs] Base_def [go_defs] Ext_def [go_defs]

section \<open>Splitting and joining\<close>

lemma Split_nonempty [simp]: "Split d s \<noteq> []"
  by (induction s) (auto split: list.splits)

lemma Split_no_sep: "\<forall>e \<in> set (Split d s). d \<notin> set e"
proof (induction s)
  case (Cons c s)
  show ?case
  proof (cases "Split d s")
    case (Cons w ws)
    then show ?thesis using Cons.IH by auto
  qed simp
qed simp

lemma Split_plain: "d \<notin> set w \<Longrightarrow> Split d w = [w]"
  by (induction w) auto

lemma Split_append_sep: "d \<notin> set w \<Longrightarrow> Split d (w @ d # s) = w # Split d s"
  by (induction w) auto

lemma Split_Join: "ws \<noteq> [] \<Longrightarrow> \<forall>w \<in> set ws. d \<notin> set w \<Longrightarrow> Split d (Join [d] ws) = ws"
proof (induction ws rule: induct_list012)
  case (3 x y zs)
  then show ?case by (simp add: Split_append_sep)
qed (auto simp: Split_plain)

lemma Join_Split: "Join [d] (Split d s) = s"
proof (induction s)
  case (Cons c s)
  obtain w ws where split: "Split d s = w # ws"
    by (cases "Split d s") auto
  then show ?case
    using Cons by (cases ws) auto
qed simp

section \<open>Clean paths\<close>

text \<open>
  The elements a cleaned path consists of: none is empty, a dot or (in a rooted path) two dots, and
  none contains a slash; in a relative path the leading elements may be two dots.
\<close>

definition proper_elem :: "string \<Rightarrow> bool" where
  "proper_elem e = (e \<noteq> [] \<and> e \<noteq> ''.'' \<and> e \<noteq> ''..'' \<and> slash \<notin> set e)"

definition clean_stack :: "bool \<Rightarrow> string list \<Rightarrow> bool" where
  "clean_stack rooted out =
    (\<exists>ps k. out = ps @ replicate k ''..'' \<and> list_all proper_elem ps \<and> (rooted \<longrightarrow> k = 0))"

lemma clean_stack_Nil: "clean_stack rooted []"
  unfolding clean_stack_def by (rule exI [of _ "[]"], rule exI [of _ 0]) simp

lemma clean_stack_elem:
  assumes "clean_stack rooted out" and "slash \<notin> set e"
  shows "clean_stack rooted (clean_elem rooted e out)"
proof -
  from assms(1) obtain ps k where out: "out = ps @ replicate k ''..''"
    "list_all proper_elem ps" "rooted \<longrightarrow> k = 0"
    unfolding clean_stack_def by blast
  consider (skip) "e = [] \<or> e = ''.''" | (up) "e = ''..''" | (push) "proper_elem e"
    using assms(2) by (auto simp: proper_elem_def)
  then show ?thesis
  proof cases
    case skip
    then show ?thesis using assms(1) by (auto simp: clean_elem.simps)
  next
    case up
    show ?thesis
    proof (cases ps)
      case Nil
      then have "clean_elem rooted e out = [] @ replicate (if rooted then 0 else Suc k) ''..''"
        using out up by (cases k) (auto simp: clean_elem.simps)
      then show ?thesis
        unfolding clean_stack_def
        by (intro exI [of _ "[]"] exI [of _ "if rooted then 0 else Suc k"]) simp
    next
      case (Cons p qs)
      then show ?thesis
        using out up unfolding clean_stack_def by (auto simp: proper_elem_def clean_elem.simps)
    qed
  next
    case push
    then have "clean_elem rooted e out = (e # ps) @ replicate k ''..''"
      using out by (auto simp: proper_elem_def clean_elem.simps)
    then show ?thesis
      using push out unfolding clean_stack_def
      by (intro exI [of _ "e # ps"] exI [of _ k]) simp
  qed
qed

lemma clean_stack_fold:
  "clean_stack rooted out \<Longrightarrow> \<forall>e \<in> set es. slash \<notin> set e \<Longrightarrow>
    clean_stack rooted (fold (clean_elem rooted) es out)"
  by (induction es arbitrary: out) (simp_all add: clean_stack_elem)

text \<open>Cleaning the elements of a clean stack again gives the same stack.\<close>

lemma clean_fold_proper:
  "list_all proper_elem ps \<Longrightarrow> fold (clean_elem rooted) ps out = rev ps @ out"
  by (induction ps arbitrary: out) (auto simp: proper_elem_def clean_elem.simps)

lemma clean_fold_dots:
  "fold (clean_elem False) (replicate k ''..'') (replicate j ''..'') = replicate (k + j) ''..''"
proof (induction k arbitrary: j)
  case (Suc k)
  have "clean_elem False ''..'' (replicate j ''..'') = replicate (Suc j) ''..''"
    by (cases j) (auto simp: clean_elem.simps)
  then show ?case
    using Suc [of "Suc j"] by simp
qed simp

lemma clean_stack_fixed:
  assumes "clean_stack rooted out"
  shows "fold (clean_elem rooted) (rev out) [] = out"
proof -
  from assms obtain ps k where out: "out = ps @ replicate k ''..''"
    "list_all proper_elem ps" "rooted \<longrightarrow> k = 0"
    unfolding clean_stack_def by blast
  have "fold (clean_elem rooted) (replicate k ''..'') [] = replicate k ''..''"
  proof (cases rooted)
    case False
    then show ?thesis using clean_fold_dots [of k 0] by simp
  qed (use out(3) in simp)
  moreover have "rev out = replicate k ''..'' @ rev ps"
    unfolding out(1) rev_append rev_replicate ..
  moreover have "list_all proper_elem (rev ps)"
    using out(2) by simp
  ultimately show ?thesis
    unfolding out(1) by (simp only: fold_append comp_apply clean_fold_proper rev_rev_ident rev_append rev_replicate)
qed

lemma clean_stack_elem_ok:
  assumes "clean_stack rooted out" and "e \<in> set out"
  shows "slash \<notin> set e \<and> e \<noteq> []"
proof -
  from assms(1) obtain ps k where out: "out = ps @ replicate k ''..''" and ps: "list_all proper_elem ps"
    unfolding clean_stack_def by blast
  from assms(2) out consider "e \<in> set ps" | "e = ''..''"
    by (cases "e \<in> set ps") (auto simp: in_set_replicate)
  then show ?thesis
    by cases (use ps in \<open>auto simp: list_all_iff proper_elem_def\<close>)
qed

lemma clean_elems_stack: "clean_stack (IsAbs p) (rev (clean_elems (IsAbs p) (Split slash p)))"
  unfolding clean_elems_def using clean_stack_fold [OF clean_stack_Nil] Split_no_sep by simp

lemma clean_elems_fixed:
  "clean_stack rooted (rev es) \<Longrightarrow> clean_elems rooted es = es"
  unfolding clean_elems_def using clean_stack_fixed [of rooted "rev es"] by simp

lemma clean_elems_skip_Nil: "clean_elems rooted ([] # es) = clean_elems rooted es"
  by (simp add: clean_elems_def clean_elem.simps)

text \<open>The elements of a rendered clean path are the elements it was rendered from.\<close>

lemma render_path_elems:
  assumes stack: "clean_stack rooted (rev es)"
  shows "IsAbs (render_path rooted es) = rooted"
    and "clean_elems rooted (Split slash (render_path rooted es)) = es"
proof -
  have noslash: "\<forall>e \<in> set es. slash \<notin> set e \<and> e \<noteq> []"
    using clean_stack_elem_ok [OF stack] by auto
  have hd_ok: "hd (Join ''/'' es) \<noteq> slash" if "es \<noteq> []"
    using that noslash by (cases es rule: remdups_adj.cases) (auto simp: hd_append neq_Nil_conv)
  show "IsAbs (render_path rooted es) = rooted"
  proof (cases "es = []")
    case False
    then have "Join ''/'' es \<noteq> []"
      using noslash by (cases es rule: remdups_adj.cases) auto
    then show ?thesis
      using hd_ok False by (cases "Join ''/'' es") (auto simp: render_path_def IsAbs_def HasPrefix_def)
  qed (simp add: render_path_def IsAbs_def HasPrefix_def)
  show "clean_elems rooted (Split slash (render_path rooted es)) = es"
  proof (cases "es = []")
    case True
    then show ?thesis
      by (cases rooted) (auto simp: render_path_def clean_elems_def clean_elem.simps)
  next
    case False
    then have "Split slash (Join ''/'' es) = es"
      using noslash by (intro Split_Join) auto
    then show ?thesis
      using False clean_elems_fixed [OF stack]
      by (cases rooted) (simp_all add: render_path_def clean_elems_skip_Nil)
  qed
qed

lemma render_path_nonempty: "clean_stack rooted (rev es) \<Longrightarrow> render_path rooted es \<noteq> []"
  using render_path_elems(1) [of rooted es]
  by (cases es rule: remdups_adj.cases)
    (auto simp: render_path_def IsAbs_def dest: clean_stack_elem_ok)

text \<open>\<open>filepath.Clean\<close> is idempotent.\<close>

lemma Clean_idem [simp]: "Clean (Clean p) = Clean p"
proof (cases "p = []")
  case True
  moreover have "Clean (Clean []) = Clean []" by code_simp
  ultimately show ?thesis by simp
next
  case False
  let ?r = "IsAbs p" and ?es = "clean_elems (IsAbs p) (Split slash p)"
  have stack: "clean_stack ?r (rev ?es)" by (rule clean_elems_stack)
  have "Clean p = render_path ?r ?es" using False by (simp add: Clean_def)
  then show ?thesis
    using render_path_elems [OF stack] render_path_nonempty [OF stack] by (simp add: Clean_def)
qed

text \<open>The elements of a clean absolute path other than the root.\<close>

definition abs_elems :: "string \<Rightarrow> string list" where
  "abs_elems p = Split slash (TrimPrefix p ''/'')"

lemma abs_elems_proper:
  assumes "IsAbs p" and "Clean p = p" and "p \<noteq> ''/''"
  shows "list_all proper_elem (abs_elems p)"
proof -
  let ?es = "clean_elems True (Split slash p)"
  have p: "p = slash # Join ''/'' ?es"
    using assms by (cases p) (auto simp: Clean_def render_path_def)
  have stack: "clean_stack True (rev ?es)"
    using clean_elems_stack [of p] assms(1) by simp
  then have proper: "list_all proper_elem ?es"
    by (auto simp: clean_stack_def)
  have "?es \<noteq> []" using p assms(3) by auto
  then have "Split slash (Join ''/'' ?es) = ?es"
    using clean_stack_elem_ok [OF stack] by (intro Split_Join) auto
  moreover have "TrimPrefix p ''/'' = Join ''/'' ?es"
    by (subst p) (simp add: TrimPrefix_def HasPrefix_def)
  ultimately show ?thesis
    using proper by (simp add: abs_elems_def)
qed

end
