(* ===== verification/Service_Config.thy ===== *)
theory Service_Config
  imports Go_Filepath
begin

text \<open>
  The configuration of the privileged service, \<open>vpncore/config.go\<close>: the five paths of a service,
  the default and the legacy service, and the paths derived from the helper directory.
\<close>

record ServiceConfig =
  Label :: string
  PlistPath :: string
  SocketPath :: string
  HelperDir :: string
  RuntimeDir :: string

record compatibilityConfig =
  cc_config :: ServiceConfig
  cc_Compatibility :: string

definition defaultServiceRuntimeDir :: string where
  "defaultServiceRuntimeDir = ''/private/var/run/works.relux.vpn-core''"

definition DefaultServiceConfig :: ServiceConfig where
  "DefaultServiceConfig =
    \<lparr>Label = ''works.relux.vpn-core'',
     PlistPath = ''/Library/LaunchDaemons/works.relux.vpn-core.plist'',
     SocketPath = ''/private/var/run/works.relux.vpn-core.sock'',
     HelperDir = ''/Library/PrivilegedHelperTools/works.relux.vpn-core'',
     RuntimeDir = defaultServiceRuntimeDir\<rparr>"

definition LegacyOpenConnectHelperConfig :: ServiceConfig where
  "LegacyOpenConnectHelperConfig =
    \<lparr>Label = ''works.relux.openconnect-tun-helper'',
     PlistPath = ''/Library/LaunchDaemons/works.relux.openconnect-tun-helper.plist'',
     SocketPath = ''/var/run/works.relux.openconnect-tun-helper.sock'',
     HelperDir = [], RuntimeDir = []\<rparr>"

definition sameServiceConfig :: "ServiceConfig \<Rightarrow> ServiceConfig \<Rightarrow> bool" where
  "sameServiceConfig l r =
    (Label l = Label r \<and> PlistPath l = PlistPath r \<and> SocketPath l = SocketPath r \<and>
     HelperDir l = HelperDir r \<and> RuntimeDir l = RuntimeDir r)"

definition compatibilityServiceConfigs :: "ServiceConfig \<Rightarrow> compatibilityConfig list" where
  "compatibilityServiceConfigs cfg =
    (if \<not> sameServiceConfig cfg DefaultServiceConfig then []
     else [\<lparr>cc_config = LegacyOpenConnectHelperConfig,
            cc_Compatibility = ''legacy-openconnect-helper''\<rparr>])"

definition BinaryPath :: "ServiceConfig \<Rightarrow> string" where
  "BinaryPath c = filepath_Join [HelperDir c, ''vpn-core'']"

definition ManifestPath :: "ServiceConfig \<Rightarrow> string" where
  "ManifestPath c = filepath_Join [HelperDir c, ''manifest.json'']"

definition ToolPath :: "ServiceConfig \<Rightarrow> string \<Rightarrow> string" where
  "ToolPath c name = filepath_Join [HelperDir c, ''bin'', name]"

lemma sameServiceConfig_eq: "sameServiceConfig l r \<longleftrightarrow> l = r"
  by (cases l; cases r) (simp add: sameServiceConfig_def)

end
