(* ===== verification/Path_Verify.thy ===== *)
theory Path_Verify
  imports Service_Config
begin

unbundle bit_operations_syntax

text \<open>
  The trusted-path checks of the privileged daemon, \<open>verify.go\<close> and the ACL scan of
  \<open>acl_darwin_cgo.go\<close>: a path is opened one element at a time without following symbolic links,
  and every node on the way must be a root-owned directory that nobody else can write.
  The file system is a finite map from element lists to nodes; failing system calls are given by
  functions of the path. A descriptor is the path it was opened from together with its node: the
  walk reads a file system that does not change while it runs.
\<close>

section \<open>Nodes\<close>

datatype acl_tag = ACL_EXTENDED_ALLOW | ACL_EXTENDED_DENY

datatype acl_perm =
    ACL_READ_DATA | ACL_EXECUTE | ACL_READ_ATTRIBUTES | ACL_READ_EXTATTRIBUTES | ACL_READ_SECURITY
  | ACL_WRITE_DATA | ACL_APPEND_DATA | ACL_DELETE | ACL_DELETE_CHILD | ACL_WRITE_ATTRIBUTES
  | ACL_WRITE_EXTATTRIBUTES | ACL_WRITE_SECURITY | ACL_CHANGE_OWNER

type_synonym acl_entry = "acl_tag \<times> acl_perm list"

record inode =
  st_mode :: "16 word"
  st_uid :: "32 word"
  st_gid :: "32 word"
  st_dev :: "64 word"
  st_ino :: "64 word"
  acl :: "acl_entry list option"
  content :: string

definition S_IFMT :: "16 word" where "S_IFMT = 0xF000"
definition S_IFDIR :: "16 word" where "S_IFDIR = 0x4000"
definition S_IFREG :: "16 word" where "S_IFREG = 0x8000"
definition S_IFLNK :: "16 word" where "S_IFLNK = 0xA000"

definition file_type :: "inode \<Rightarrow> 16 word" where
  "file_type n = st_mode n AND S_IFMT"

record os_view =
  nodes :: "(string list, inode) gomap"
  open_err :: "string list \<Rightarrow> string option"
  fstat_err :: "string list \<Rightarrow> string option"

section \<open>Errors and dependencies\<close>

datatype verify_error =
    NotAbsolute string
  | OpenFailed string string
  | StatFailed string string
  | NotDirectory string
  | LookupOwner string string
  | NotRootOwned string "32 word"
  | GroupWorldWritable string
  | WorldWritable string
  | LookupGroup string string
  | UserWritableByGid string "32 word"
  | UnsafeACL string string
  | NotRegular string
  | HelperDirRequired

record verificationDependencies =
  dep_owner :: "string \<Rightarrow> inode \<Rightarrow> string + 32 word"
  dep_group :: "string \<Rightarrow> inode \<Rightarrow> string + 32 word"
  dep_checkACL :: "string \<Rightarrow> inode \<Rightarrow> string option"

text \<open>The permissions that let an allow entry change the node or what it contains.\<close>

definition write_perms :: "acl_perm list" where
  "write_perms = [ACL_WRITE_DATA, ACL_APPEND_DATA, ACL_DELETE, ACL_DELETE_CHILD, ACL_WRITE_ATTRIBUTES,
     ACL_WRITE_EXTATTRIBUTES, ACL_WRITE_SECURITY, ACL_CHANGE_OWNER]"

fun acl_has_write :: "acl_entry list \<Rightarrow> bool" where
  "acl_has_write [] = False"
| "acl_has_write ((tag, perms) # rest) =
    (if tag \<noteq> ACL_EXTENDED_ALLOW then acl_has_write rest
     else if list_ex (\<lambda>p. p \<in> set perms) write_perms then True
     else acl_has_write rest)"

definition checkWriteACL :: "string \<Rightarrow> inode \<Rightarrow> string option" where
  "checkWriteACL p n =
    (case acl n of None \<Rightarrow> None
     | Some es \<Rightarrow> if acl_has_write es then Some ''write-capable ACL entry'' else None)"

definition productionVerificationDependencies :: verificationDependencies where
  "productionVerificationDependencies =
    \<lparr>dep_owner = (\<lambda>_ n. Inr (st_uid n)), dep_group = (\<lambda>_ n. Inr (st_gid n)),
     dep_checkACL = checkWriteACL\<rparr>"

section \<open>Checks on one opened node\<close>

definition fstat :: "os_view \<Rightarrow> string list \<Rightarrow> string option" where
  "fstat v es = fstat_err v es"

definition verifyOpenedNode ::
    "verificationDependencies \<Rightarrow> os_view \<Rightarrow> string \<Rightarrow> string list \<Rightarrow> inode \<Rightarrow> bool \<Rightarrow> verify_error + unit" where
  "verifyOpenedNode deps v path es n directory =
    (case fstat v es of
       Some e \<Rightarrow> Inl (StatFailed path e)
     | None \<Rightarrow>
        if directory \<and> file_type n \<noteq> S_IFDIR then Inl (NotDirectory path)
        else case dep_owner deps path n of
          Inl e \<Rightarrow> Inl (LookupOwner path e)
        | Inr uid \<Rightarrow>
            if uid \<noteq> 0 then Inl (NotRootOwned path uid)
            else if st_mode n AND 0x12 \<noteq> 0 then Inl (GroupWorldWritable path)
            else case dep_checkACL deps path n of
              Some e \<Rightarrow> Inl (UnsafeACL path e)
            | None \<Rightarrow> Inr ())"

definition verifyOpenedSocketDirectory ::
    "verificationDependencies \<Rightarrow> os_view \<Rightarrow> string \<Rightarrow> string list \<Rightarrow> inode \<Rightarrow> verify_error + unit" where
  "verifyOpenedSocketDirectory deps v path es n =
    (case fstat v es of
       Some e \<Rightarrow> Inl (StatFailed path e)
     | None \<Rightarrow>
        if file_type n \<noteq> S_IFDIR then Inl (NotDirectory path)
        else case dep_owner deps path n of
          Inl e \<Rightarrow> Inl (LookupOwner path e)
        | Inr uid \<Rightarrow>
            if uid \<noteq> 0 then Inl (NotRootOwned path uid)
            else if st_mode n AND 0x02 \<noteq> 0 then Inl (WorldWritable path)
            else result_bind
              (if st_mode n AND 0x10 \<noteq> 0 then
                 (case dep_group deps path n of
                    Inl e \<Rightarrow> Inl (LookupGroup path e)
                  | Inr gid \<Rightarrow> if gid \<noteq> 0 \<and> gid \<noteq> 1 then Inl (UserWritableByGid path gid) else Inr ())
               else Inr ())
              (\<lambda>_. case dep_checkACL deps path n of
                     Some e \<Rightarrow> Inl (UnsafeACL path e)
                   | None \<Rightarrow> Inr ()))"

section \<open>The walk\<close>

text \<open>\<open>openat\<close> with \<open>O_NOFOLLOW\<close>, and \<open>O_DIRECTORY\<close> when \<open>dirflag\<close> is set.\<close>

definition openat :: "os_view \<Rightarrow> string list \<Rightarrow> string \<Rightarrow> bool \<Rightarrow> string + inode" where
  "openat v parent name dirflag =
    (let es = parent @ [name] in
     case open_err v es of
       Some e \<Rightarrow> Inl e
     | None \<Rightarrow>
        case map_of (nodes v) es of
          None \<Rightarrow> Inl ''no such file or directory''
        | Some n \<Rightarrow>
            if file_type n = S_IFLNK then Inl ''too many levels of symbolic links''
            else if dirflag \<and> file_type n \<noteq> S_IFDIR then Inl ''not a directory''
            else Inr n)"

fun walk_elems ::
    "verificationDependencies \<Rightarrow> os_view \<Rightarrow> bool \<Rightarrow> bool \<Rightarrow> string \<Rightarrow> string list \<Rightarrow> inode \<Rightarrow> string list \<Rightarrow>
     verify_error + string list \<times> inode" where
  "walk_elems deps v wantDirectory socketFinal currentPath es n [] =
    (case fstat v es of Some e \<Rightarrow> Inl (StatFailed currentPath e) | None \<Rightarrow> Inr (es, n))"
| "walk_elems deps v wantDirectory socketFinal currentPath es n (part # rest) =
    (let final = (rest = []); isDirectory = (\<not> final \<or> wantDirectory);
         nextPath = filepath_Join [currentPath, part] in
     case openat v es part isDirectory of
       Inl e \<Rightarrow> Inl (OpenFailed nextPath e)
     | Inr n' \<Rightarrow>
        result_bind
          (if final \<and> wantDirectory \<and> socketFinal
           then verifyOpenedSocketDirectory deps v nextPath (es @ [part]) n'
           else verifyOpenedNode deps v nextPath (es @ [part]) n' isDirectory)
          (\<lambda>_. walk_elems deps v wantDirectory socketFinal nextPath (es @ [part]) n' rest))"

definition openSecurePath ::
    "verificationDependencies \<Rightarrow> os_view \<Rightarrow> string \<Rightarrow> bool \<Rightarrow> bool \<Rightarrow> verify_error + string list \<times> inode" where
  "openSecurePath deps v path wantDirectory socketFinal =
    (let clean = Clean path in
     if \<not> IsAbs clean then Inl (NotAbsolute path)
     else case (open_err v [], map_of (nodes v) []) of
       (Some e, _) \<Rightarrow> Inl (OpenFailed ''/'' e)
     | (None, None) \<Rightarrow> Inl (OpenFailed ''/'' ''no such file or directory'')
     | (None, Some root) \<Rightarrow>
        if file_type root \<noteq> S_IFDIR then Inl (OpenFailed ''/'' ''not a directory'')
        else result_bind (verifyOpenedNode deps v ''/'' [] root True)
          (\<lambda>_. if clean = ''/'' then
                 (case fstat v [] of Some e \<Rightarrow> Inl (StatFailed ''/'' e) | None \<Rightarrow> Inr ([], root))
               else walk_elems deps v wantDirectory socketFinal ''/'' [] root (abs_elems clean)))"

definition readVerifiedRegularFile ::
    "verificationDependencies \<Rightarrow> os_view \<Rightarrow> string \<Rightarrow> verify_error + string" where
  "readVerifiedRegularFile deps v path =
    result_bind (openSecurePath deps v path False False)
      (\<lambda>(es, n). if file_type n \<noteq> S_IFREG then Inl (NotRegular path)
                 else if st_mode n AND 0x12 \<noteq> 0 then Inl (GroupWorldWritable path)
                 else Inr (content n))"

definition verifySecureDirectory :: "verificationDependencies \<Rightarrow> os_view \<Rightarrow> string \<Rightarrow> verify_error + unit" where
  "verifySecureDirectory deps v path =
    result_bind (openSecurePath deps v path True False) (\<lambda>_. Inr ())"

definition verifySocketDirectory :: "verificationDependencies \<Rightarrow> os_view \<Rightarrow> string \<Rightarrow> verify_error + unit" where
  "verifySocketDirectory deps v path =
    result_bind (openSecurePath deps v path True True) (\<lambda>_. Inr ())"

definition verifyHelperRemovalParent :: "verificationDependencies \<Rightarrow> os_view \<Rightarrow> string \<Rightarrow> verify_error + unit" where
  "verifyHelperRemovalParent deps v helperDir =
    (if helperDir = [] then Inl HelperDirRequired
     else verifySecureDirectory deps v (Dir (Clean helperDir)))"


section \<open>The installed helper\<close>

record ManifestFile =
  mf_Path :: string
  mf_SHA256 :: string

record Manifest =
  m_Version :: int
  m_Files :: "ManifestFile list"

datatype install_error =
    BadSHA256 string
  | HelperDirectoryRequired
  | ResolveExecutable string
  | ExecutableMismatch string string
  | VerifyFile string verify_error
  | DigestMismatch string string string
  | DecodeManifest string
  | UnsupportedVersion int
  | NoFiles
  | EntryPath string
  | DuplicateEntry string
  | BinaryDigestMismatch
  | NoBinaryEntry
  | VerifySocketDir verify_error

text \<open>The pattern \<^verbatim>\<open>^[0-9a-f]{64}$\<close>.\<close>

definition lowercaseSHA256 :: "string \<Rightarrow> bool" where
  "lowercaseSHA256 s = (length s = 64 \<and> list_all (\<lambda>c. is_digit c \<or> c \<in> set ''abcdef'') s)"

definition validateSHA256 :: "string \<Rightarrow> string \<Rightarrow> install_error + unit" where
  "validateSHA256 name v = check (lowercaseSHA256 v) (BadSHA256 name)"

text \<open>
  The parameters stand for the operating system and for libraries: the daemon's own executable,
  \<open>filepath.EvalSymlinks\<close>, SHA-256 and the JSON decoder (with the end-of-input check).
\<close>

record install_env =
  env_executable :: "string + string"
  env_EvalSymlinks :: "string \<Rightarrow> string + string"
  env_sha256Hex :: "string \<Rightarrow> string"
  env_decode :: "string \<Rightarrow> string + Manifest"

definition decodeManifest :: "install_env \<Rightarrow> string \<Rightarrow> install_error + Manifest" where
  "decodeManifest env data =
    (case env_decode env data of
       Inl e \<Rightarrow> Inl (DecodeManifest e)
     | Inr manifest \<Rightarrow>
        if m_Version manifest \<noteq> 1 then Inl (UnsupportedVersion (m_Version manifest))
        else if m_Files manifest = [] then Inl NoFiles
        else Inr manifest)"

definition entry_path_ok :: "string \<Rightarrow> bool" where
  "entry_path_ok p =
    (\<not> (p = [] \<or> IsAbs p \<or> Clean p \<noteq> p \<or> p = ''.'' \<or> HasPrefix p ''../''))"

definition read_file :: "verificationDependencies \<Rightarrow> os_view \<Rightarrow> string \<Rightarrow> string \<Rightarrow> install_error + string" where
  "read_file deps v what path =
    (case readVerifiedRegularFile deps v path of Inl e \<Rightarrow> Inl (VerifyFile what e) | Inr d \<Rightarrow> Inr d)"

text \<open>The loop over the manifest; the result says whether the binary's entry was found.\<close>

fun verify_entries ::
    "verificationDependencies \<Rightarrow> os_view \<Rightarrow> install_env \<Rightarrow> ServiceConfig \<Rightarrow> string \<Rightarrow> string list \<Rightarrow> bool \<Rightarrow>
     ManifestFile list \<Rightarrow> install_error + bool" where
  "verify_entries deps v env cfg binarySHA256 seen found [] = Inr found"
| "verify_entries deps v env cfg binarySHA256 seen found (entry # rest) =
    result_bind (validateSHA256 (mf_Path entry) (mf_SHA256 entry)) (\<lambda>_.
    result_bind (check (entry_path_ok (mf_Path entry)) (EntryPath (mf_Path entry))) (\<lambda>_.
    result_bind (check (mf_Path entry \<notin> set seen) (DuplicateEntry (mf_Path entry))) (\<lambda>_.
    result_bind (check (mf_Path entry = ''vpn-core'' \<longrightarrow> mf_SHA256 entry = binarySHA256) BinaryDigestMismatch) (\<lambda>_.
    result_bind (read_file deps v (mf_Path entry) (filepath_Join [HelperDir cfg, mf_Path entry])) (\<lambda>data.
    result_bind (check (env_sha256Hex env data = mf_SHA256 entry)
      (DigestMismatch (mf_Path entry) (env_sha256Hex env data) (mf_SHA256 entry))) (\<lambda>_.
    verify_entries deps v env cfg binarySHA256 (mf_Path entry # seen)
      (found \<or> mf_Path entry = ''vpn-core'') rest))))))"

definition resolve :: "(string \<Rightarrow> string + string) \<Rightarrow> string \<Rightarrow> install_error + string" where
  "resolve f p = (case f p of Inl e \<Rightarrow> Inl (ResolveExecutable e) | Inr q \<Rightarrow> Inr q)"

definition verifyDaemonInstallation ::
    "verificationDependencies \<Rightarrow> os_view \<Rightarrow> install_env \<Rightarrow> ServiceConfig \<Rightarrow> string \<Rightarrow> string \<Rightarrow> install_error + unit" where
  "verifyDaemonInstallation deps v env cfg binarySHA256 manifestSHA256 =
    result_bind (validateSHA256 ''binary sha256'' binarySHA256) (\<lambda>_.
    result_bind (validateSHA256 ''manifest sha256'' manifestSHA256) (\<lambda>_.
    result_bind (check (HelperDir cfg \<noteq> []) HelperDirectoryRequired) (\<lambda>_.
    result_bind (resolve (\<lambda>_. env_executable env) []) (\<lambda>executable.
    result_bind (resolve (env_EvalSymlinks env) executable) (\<lambda>resolvedExecutable.
    result_bind (resolve (env_EvalSymlinks env) (BinaryPath cfg)) (\<lambda>resolvedInstalled.
    result_bind (check (resolvedExecutable = resolvedInstalled)
      (ExecutableMismatch resolvedExecutable resolvedInstalled)) (\<lambda>_.
    result_bind (read_file deps v ''vpn core binary'' (BinaryPath cfg)) (\<lambda>binaryData.
    result_bind (check (env_sha256Hex env binaryData = binarySHA256)
      (DigestMismatch ''binary'' (env_sha256Hex env binaryData) binarySHA256)) (\<lambda>_.
    result_bind (read_file deps v ''vpn core manifest'' (ManifestPath cfg)) (\<lambda>manifestData.
    result_bind (check (env_sha256Hex env manifestData = manifestSHA256)
      (DigestMismatch ''manifest'' (env_sha256Hex env manifestData) manifestSHA256)) (\<lambda>_.
    result_bind (decodeManifest env manifestData) (\<lambda>manifest.
    result_bind (verify_entries deps v env cfg binarySHA256 [] False (m_Files manifest)) (\<lambda>foundBinary.
    result_bind (check foundBinary NoBinaryEntry) (\<lambda>_.
    case verifySocketDirectory deps v (Dir (SocketPath cfg)) of
      Inl e \<Rightarrow> Inl (VerifySocketDir e)
    | Inr _ \<Rightarrow> Inr ()))))))))))))))"

section \<open>Lemmas\<close>

text \<open>A node that only root controls: what the production checks accept.\<close>

definition root_controlled :: "inode \<Rightarrow> bool" where
  "root_controlled n =
    (st_uid n = 0 \<and> st_mode n AND 0x12 = 0 \<and>
     (case acl n of None \<Rightarrow> True | Some es \<Rightarrow> \<not> acl_has_write es))"

definition socket_dir_ok :: "inode \<Rightarrow> bool" where
  "socket_dir_ok n =
    (file_type n = S_IFDIR \<and> st_uid n = 0 \<and> st_mode n AND 0x02 = 0 \<and>
     (st_mode n AND 0x10 \<noteq> 0 \<longrightarrow> st_gid n \<in> {0, 1}) \<and>
     (case acl n of None \<Rightarrow> True | Some es \<Rightarrow> \<not> acl_has_write es))"

lemma acl_has_write_iff:
  "acl_has_write es \<longleftrightarrow>
    (\<exists>(tag, perms) \<in> set es. tag = ACL_EXTENDED_ALLOW \<and> set perms \<inter> set write_perms \<noteq> {})"
  by (induction es rule: acl_has_write.induct) (auto simp: list_ex_iff)

lemma verifyOpenedNode_production:
  "verifyOpenedNode productionVerificationDependencies v path es n d = Inr u \<longleftrightarrow>
    fstat_err v es = None \<and> (d \<longrightarrow> file_type n = S_IFDIR) \<and> root_controlled n"
  by (auto simp: verifyOpenedNode_def productionVerificationDependencies_def root_controlled_def
      fstat_def checkWriteACL_def split: option.splits)

lemma verifyOpenedSocketDirectory_production:
  "verifyOpenedSocketDirectory productionVerificationDependencies v path es n = Inr u \<longleftrightarrow>
    fstat_err v es = None \<and> socket_dir_ok n"
  by (auto simp: verifyOpenedSocketDirectory_def productionVerificationDependencies_def
      socket_dir_ok_def fstat_def checkWriteACL_def split: option.splits)

lemma openat_ok:
  "openat v es part d = Inr n \<longleftrightarrow>
    open_err v (es @ [part]) = None \<and> map_of (nodes v) (es @ [part]) = Some n \<and>
    file_type n \<noteq> S_IFLNK \<and> (d \<longrightarrow> file_type n = S_IFDIR)"
  by (auto simp: openat_def Let_def split: option.splits)

text \<open>The nodes strictly below \<open>es\<close> on the way to \<open>es @ parts\<close> that the walk must accept.\<close>

definition passable :: "os_view \<Rightarrow> string list \<Rightarrow> bool" where
  "passable v es = (open_err v es = None \<and> fstat_err v es = None)"

definition trusted_dir :: "os_view \<Rightarrow> string list \<Rightarrow> bool" where
  "trusted_dir v es =
    (passable v es \<and>
     (case map_of (nodes v) es of None \<Rightarrow> False | Some n \<Rightarrow> file_type n = S_IFDIR \<and> root_controlled n))"

definition trusted_target :: "os_view \<Rightarrow> bool \<Rightarrow> bool \<Rightarrow> string list \<Rightarrow> inode \<Rightarrow> bool" where
  "trusted_target v wantDirectory socketFinal es n =
    (passable v es \<and> map_of (nodes v) es = Some n \<and> file_type n \<noteq> S_IFLNK \<and>
     (if wantDirectory \<and> socketFinal then socket_dir_ok n
      else root_controlled n \<and> (wantDirectory \<longrightarrow> file_type n = S_IFDIR)))"

lemma S_IF_distinct [simp]: "S_IFDIR \<noteq> S_IFLNK" "S_IFREG \<noteq> S_IFLNK" "S_IFREG \<noteq> S_IFDIR"
  by (simp_all add: S_IFDIR_def S_IFLNK_def S_IFREG_def)

lemma socket_dir_ok_dir: "socket_dir_ok n \<Longrightarrow> file_type n = S_IFDIR"
  by (simp add: socket_dir_ok_def)

lemma trusted_dir_node: "trusted_dir v es \<Longrightarrow> \<exists>n. map_of (nodes v) es = Some n"
  by (auto simp: trusted_dir_def split: option.splits)

lemma walk_elems_Cons_ok:
  "walk_elems deps v wd sf path es n (part # rest) = Inr r \<longleftrightarrow>
    (\<exists>n'. openat v es part (rest \<noteq> [] \<or> wd) = Inr n' \<and>
      (if rest = [] \<and> wd \<and> sf
       then verifyOpenedSocketDirectory deps v (filepath_Join [path, part]) (es @ [part]) n'
       else verifyOpenedNode deps v (filepath_Join [path, part]) (es @ [part]) n' (rest \<noteq> [] \<or> wd)) = Inr () \<and>
      walk_elems deps v wd sf (filepath_Join [path, part]) (es @ [part]) n' rest = Inr r)"
  by (auto simp: Let_def split: sum.splits)

lemma walk_elems_Nil_ok:
  "walk_elems deps v wd sf path es n [] = Inr r \<longleftrightarrow> fstat_err v es = None \<and> r = (es, n)"
  by (auto simp: fstat_def split: option.splits)

declare walk_elems.simps [simp del]

lemma walk_elems_production:
  "parts \<noteq> [] \<Longrightarrow>
    walk_elems productionVerificationDependencies v wd sf path es n parts = Inr (es', n') \<longleftrightarrow>
      es' = es @ parts \<and> trusted_target v wd sf es' n' \<and>
      (\<forall>i \<in> {1..<length parts}. trusted_dir v (es @ take i parts))"
proof (induction parts arbitrary: path es n)
  case (Cons part rest)
  show ?case
  proof (cases "rest = []")
    case True
    show ?thesis
      unfolding True walk_elems_Cons_ok walk_elems_Nil_ok
      by (cases "wd \<and> sf")
        (auto simp: openat_ok verifyOpenedNode_production verifyOpenedSocketDirectory_production
          trusted_target_def passable_def dest: socket_dir_ok_dir)
  next
    case False
    have range: "{1..<length (part # rest)} = insert 1 (Suc ` {1..<length rest})"
      using False by (auto simp: image_Suc_atLeastLessThan Suc_le_eq)
    have "(\<forall>i \<in> {1..<length (part # rest)}. trusted_dir v (es @ take i (part # rest))) \<longleftrightarrow>
        trusted_dir v (es @ [part]) \<and>
        (\<forall>i \<in> {1..<length rest}. trusted_dir v ((es @ [part]) @ take i rest))"
      unfolding range by (simp del: image_Suc_atLeastLessThan)
    then show ?thesis
      unfolding walk_elems_Cons_ok Cons.IH [OF False]
      using False
      by (auto simp: openat_ok verifyOpenedNode_production trusted_dir_def passable_def
          S_IF_distinct [symmetric] split: option.splits)
  qed
qed simp

text \<open>Every directory from the root to the parent of the target.\<close>

definition path_elems :: "string \<Rightarrow> string list" where
  "path_elems path = (if Clean path = ''/'' then [] else abs_elems (Clean path))"

lemma abs_elems_nonempty [simp]: "abs_elems p \<noteq> []"
  by (simp add: abs_elems_def)

lemma openSecurePath_ok:
  "openSecurePath productionVerificationDependencies v path wd sf = Inr r \<longleftrightarrow>
    IsAbs (Clean path) \<and> trusted_dir v [] \<and>
    (if Clean path = ''/'' then \<exists>root. map_of (nodes v) [] = Some root \<and> r = ([], root)
     else \<exists>root. walk_elems productionVerificationDependencies v wd sf ''/'' [] root
            (abs_elems (Clean path)) = Inr r \<and> map_of (nodes v) [] = Some root)"
  unfolding openSecurePath_def Let_def
  by (cases "open_err v []"; cases "map_of (nodes v) []"; cases "Clean path = ''/''"; simp)
    (auto simp: verifyOpenedNode_production trusted_dir_def passable_def fstat_def)

section \<open>Properties\<close>



text \<open>A small file system: the helper directory with its binary, all owned by root.\<close>

definition root_dir :: inode where
  "root_dir = \<lparr>st_mode = 0x41ED, st_uid = 0, st_gid = 0, st_dev = 1, st_ino = 2, acl = None, content = []\<rparr>"

definition root_file :: "string \<Rightarrow> inode" where
  "root_file c = \<lparr>st_mode = 0x81ED, st_uid = 0, st_gid = 0, st_dev = 1, st_ino = 3,
     acl = Some [(ACL_EXTENDED_DENY, [ACL_DELETE]), (ACL_EXTENDED_ALLOW, [ACL_READ_DATA])], content = c\<rparr>"

definition sample_view :: os_view where
  "sample_view =
    \<lparr>nodes = [([], root_dir), ([''opt''], root_dir), ([''opt'', ''vpn-core''], root_file ''binary''),
              ([''opt'', ''manifest.json''], root_file ''manifest''), ([''run''], root_dir)],
     open_err = (\<lambda>_. None), fstat_err = (\<lambda>_. None)\<rparr>"

lemma sample_open:
  "openSecurePath productionVerificationDependencies sample_view ''/opt/./vpn-core'' False False =
    Inr ([''opt'', ''vpn-core''], root_file ''binary'')"
  by code_simp


lemma verify_entries_ok:
  "verify_entries deps v env cfg b seen found fs = Inr r \<Longrightarrow>
    (r = (found \<or> (\<exists>e \<in> set fs. mf_Path e = ''vpn-core'' \<and> mf_SHA256 e = b))) \<and>
    distinct (map mf_Path fs) \<and> set (map mf_Path fs) \<inter> set seen = {} \<and>
    (\<forall>e \<in> set fs. entry_path_ok (mf_Path e) \<and> (\<exists>data.
      readVerifiedRegularFile deps v (filepath_Join [HelperDir cfg, mf_Path e]) = Inr data \<and>
      env_sha256Hex env data = mf_SHA256 e))"
  by (induction deps v env cfg b seen found fs rule: verify_entries.induct)
    (auto simp: read_file_def split: sum.splits)

text \<open>
  (C34) A daemon that passes its self-verification runs the pinned helper: its executable is the
  installed binary, the binary and the manifest have the digests fixed in the launch arguments, and
  every file the manifest lists is listed once, under a clean relative path, was read through the
  trusted-path walk and has the listed digest, the binary among them.
\<close>

theorem verifyDaemonInstallation_pins:
  assumes "verifyDaemonInstallation deps v env cfg binarySHA256 manifestSHA256 = Inr ()"
  shows "\<exists>binary manifestData manifest exe inst.
    env_executable env = Inr exe \<and> env_EvalSymlinks env exe = Inr inst \<and>
    env_EvalSymlinks env (BinaryPath cfg) = Inr inst \<and>
    readVerifiedRegularFile deps v (BinaryPath cfg) = Inr binary \<and> env_sha256Hex env binary = binarySHA256 \<and>
    readVerifiedRegularFile deps v (ManifestPath cfg) = Inr manifestData \<and>
    env_sha256Hex env manifestData = manifestSHA256 \<and> env_decode env manifestData = Inr manifest \<and>
    distinct (map mf_Path (m_Files manifest)) \<and>
    (\<exists>e \<in> set (m_Files manifest). mf_Path e = ''vpn-core'' \<and> mf_SHA256 e = binarySHA256) \<and>
    (\<forall>e \<in> set (m_Files manifest). entry_path_ok (mf_Path e) \<and> (\<exists>data.
      readVerifiedRegularFile deps v (filepath_Join [HelperDir cfg, mf_Path e]) = Inr data \<and>
      env_sha256Hex env data = mf_SHA256 e))"
  using assms unfolding verifyDaemonInstallation_def
  by (auto simp: resolve_def read_file_def decodeManifest_def dest!: verify_entries_ok
      split: sum.splits if_splits)


definition sample_env :: install_env where
  "sample_env =
    \<lparr>env_executable = Inr ''/opt/vpn-core'', env_EvalSymlinks = Inr,
     env_sha256Hex = (\<lambda>d. replicate 64 (if d = ''binary'' then CHR ''a'' else CHR ''b'')),
     env_decode = (\<lambda>_. Inr \<lparr>m_Version = 1,
       m_Files = [\<lparr>mf_Path = ''vpn-core'', mf_SHA256 = replicate 64 (CHR ''a'')\<rparr>]\<rparr>)\<rparr>"

definition sample_cfg :: ServiceConfig where
  "sample_cfg = \<lparr>Label = ''vpn'', PlistPath = ''/opt/p.plist'', SocketPath = ''/run/vpn.sock'',
     HelperDir = ''/opt'', RuntimeDir = ''/run/vpn''\<rparr>"

theorem verifyDaemonInstallation_pins_witness:
  "\<exists>data. readVerifiedRegularFile productionVerificationDependencies sample_view
       (BinaryPath sample_cfg) = Inr data \<and> env_sha256Hex sample_env data = replicate 64 (CHR ''a'')"
proof -
  have "verifyDaemonInstallation productionVerificationDependencies sample_view sample_env sample_cfg
      (replicate 64 (CHR ''a'')) (replicate 64 (CHR ''b'')) = Inr ()"
    by code_simp
  from verifyDaemonInstallation_pins [OF this] show ?thesis by blast
qed

end
