(* ===== verification/Maintenance_Lease.thy ===== *)
theory Maintenance_Lease
  imports Path_Verify
begin

unbundle bit_operations_syntax

text \<open>
  The persisted maintenance lease, \<open>maintenance_lease.go\<close>: a root-only file in the runtime directory
  that carries the drain token and its expiry across a restart of the daemon. All file operations
  work on the node map of an \<open>os_view\<close>; the outcome of every fallible system call is a field of
  an environment record (\<open>None\<close> is success), so each early return of the code is a branch.
  The JSON codec of the lease is a parameter.
\<close>

section \<open>Data\<close>

definition ENOENT :: string where
  "ENOENT = ''no such file or directory''"

datatype lease_error =
    RuntimeDirNotAbsolute
  | LeaseVerify verify_error
  | LeaseOpen string
  | RuntimeDirMode
  | LeaseGroup string
  | LeaseFileUnsafe
  | LeaseStep string string

record persistedMaintenanceLease =
  pl_Token :: string
  pl_ExpiresAt :: go_time

definition validMaintenanceToken :: "string \<Rightarrow> bool" where
  "validMaintenanceToken token = (length token = 64 \<and> ToLower token = token \<and> hex_decodable token)"

text \<open>
  The codec stands for \<open>encoding/json\<close>: \<open>decode\<close> yields the one lease in the data, with the zone
  offset of its expiry, and fails on unknown fields and on trailing data. A lease is encodable when
  its token is well formed and its expiry a time of the 64-bit clock; what the code relies on is that
  such a lease, written with a final newline, is read back unchanged, in UTC and from less than 4 KiB.
\<close>

record lease_codec =
  encode :: "persistedMaintenanceLease \<Rightarrow> string"
  decode :: "string \<Rightarrow> (persistedMaintenanceLease \<times> int) option"

definition encodable :: "persistedMaintenanceLease \<Rightarrow> bool" where
  "encodable l = (validMaintenanceToken (pl_Token l) \<and> 0 \<le> pl_ExpiresAt l \<and> pl_ExpiresAt l < 2 ^ 63)"

definition codec_ok :: "lease_codec \<Rightarrow> bool" where
  "codec_ok c =
    (\<forall>l. encodable l \<longrightarrow> decode c (encode c l @ [newline]) = Some (l, 0) \<and> length (encode c l) < 4096)"

text \<open>Outcomes of the system calls of one attempt, in the order the code makes them.\<close>

record lease_io =
  io_mkdir :: "string option"
  io_new_dir :: inode
  io_random :: "string + int list"
  io_create :: "string option"
  io_new_file :: inode
  io_fchmod :: "string option"
  io_chown :: "string option"
  io_clear_acl :: "string option"
  io_write :: "string option"
  io_written :: nat
  io_sync :: "string option"
  io_close :: "string option"
  io_rename :: "string option"
  io_unlink :: "string option"
  io_read :: "string option"

definition set_node :: "string list \<Rightarrow> inode \<Rightarrow> os_view \<Rightarrow> os_view" where
  "set_node es n v = v\<lparr>nodes := map_set es n (nodes v)\<rparr>"

definition del_node :: "string list \<Rightarrow> os_view \<Rightarrow> os_view" where
  "del_node es v = v\<lparr>nodes := map_del es (nodes v)\<rparr>"

definition maintenanceLeaseFilename :: string where
  "maintenanceLeaseFilename = ''maintenance.lease''"

definition is_not_exist :: "lease_error \<Rightarrow> bool" where
  "is_not_exist e =
    (case e of LeaseOpen m \<Rightarrow> m = ENOENT
     | LeaseVerify (OpenFailed p m) \<Rightarrow> m = ENOENT
     | _ \<Rightarrow> False)"

section \<open>Opening the runtime directory\<close>

definition lift_verify :: "verify_error + 'a \<Rightarrow> lease_error + 'a" where
  "lift_verify r = (case r of Inl e \<Rightarrow> Inl (LeaseVerify e) | Inr x \<Rightarrow> Inr x)"

definition make_dir :: "lease_io \<Rightarrow> string list \<Rightarrow> os_view \<Rightarrow> (lease_error + unit) \<times> os_view" where
  "make_dir io es v =
    (if map_of (nodes v) es \<noteq> None then (Inr (), v)
     else case io_mkdir io of
       Some e \<Rightarrow> (Inl (LeaseOpen e), v)
     | None \<Rightarrow> (Inr (), set_node es (io_new_dir io) v))"

definition open_dir_checked ::
    "verificationDependencies \<Rightarrow> string \<Rightarrow> string list \<Rightarrow> os_view \<Rightarrow> lease_error + string list" where
  "open_dir_checked deps path parent v =
    (case openat v parent (Base path) True of
       Inl e \<Rightarrow> Inl (LeaseOpen e)
     | Inr n \<Rightarrow>
        let es = parent @ [Base path] in
        result_bind (lift_verify (verifyOpenedNode deps v path es n True)) (\<lambda>_.
        case fstat v es of
          Some e \<Rightarrow> Inl (LeaseOpen e)
        | None \<Rightarrow> if st_mode n AND 0xFFF \<noteq> 0x1C9 then Inl RuntimeDirMode else Inr es))"

definition openMaintenanceDirectory ::
    "verificationDependencies \<Rightarrow> lease_io \<Rightarrow> ServiceConfig \<Rightarrow> bool \<Rightarrow> os_view \<Rightarrow>
     (lease_error + string list) \<times> os_view" where
  "openMaintenanceDirectory deps io cfg create v =
    (let path = RuntimeDir cfg in
     if path = [] \<or> \<not> IsAbs path \<or> Clean path \<noteq> path \<or> path = ''/'' then (Inl RuntimeDirNotAbsolute, v)
     else case openSecurePath deps v (Dir path) True True of
       Inl e \<Rightarrow> (Inl (LeaseVerify e), v)
     | Inr (parent, _) \<Rightarrow>
        if create then
          (case make_dir io (parent @ [Base path]) v of
             (Inl e, v1) \<Rightarrow> (Inl e, v1)
           | (Inr _, v1) \<Rightarrow> (open_dir_checked deps path parent v1, v1))
        else (open_dir_checked deps path parent v, v))"

definition verifyMaintenanceFile ::
    "verificationDependencies \<Rightarrow> ServiceConfig \<Rightarrow> os_view \<Rightarrow> string list \<Rightarrow> inode \<Rightarrow> lease_error + unit" where
  "verifyMaintenanceFile deps cfg v es n =
    (let path = filepath_Join [RuntimeDir cfg, maintenanceLeaseFilename] in
     result_bind (lift_verify (verifyOpenedNode deps v path es n False)) (\<lambda>_.
     case fstat v es of
       Some e \<Rightarrow> Inl (LeaseOpen e)
     | None \<Rightarrow>
        case dep_group deps path n of
          Inl e \<Rightarrow> Inl (LeaseGroup e)
        | Inr gid \<Rightarrow>
            if file_type n \<noteq> S_IFREG \<or> st_mode n AND 0xFFF \<noteq> 0x180 \<or> gid \<noteq> 0
            then Inl LeaseFileUnsafe else Inr ()))"

section \<open>Writing, removing and restoring the lease\<close>

text \<open>
  The steps on the exclusively created temporary file: mode, owner, ACL, verification, content,
  sync and close. Each step has its outcome and the inode a failure there leaves behind.
\<close>

fun first_failure :: "('e option \<times> 's) list \<Rightarrow> 's \<Rightarrow> 'e option \<times> 's" where
  "first_failure [] final = (None, final)"
| "first_failure ((Some e, s) # _) final = (Some e, s)"
| "first_failure ((None, s) # steps) final = first_failure steps final"

definition error_of :: "'e + 'a \<Rightarrow> 'e option" where
  "error_of r = (case r of Inl e \<Rightarrow> Some e | Inr _ \<Rightarrow> None)"

definition prepare_temp ::
    "verificationDependencies \<Rightarrow> lease_codec \<Rightarrow> lease_io \<Rightarrow> ServiceConfig \<Rightarrow> persistedMaintenanceLease \<Rightarrow>
     string list \<Rightarrow> os_view \<Rightarrow> lease_error option \<times> inode" where
  "prepare_temp deps codec io cfg lease es v =
    (let n0 = (io_new_file io)\<lparr>content := []\<rparr>;
         n1 = n0\<lparr>st_mode := (st_mode n0 AND NOT 0xFFF) OR 0x180\<rparr>;
         n2 = n1\<lparr>st_uid := 0, st_gid := 0\<rparr>;
         n3 = n2\<lparr>acl := None\<rparr>;
         data = encode codec lease @ [newline];
         n4 = n3\<lparr>content := data\<rparr> in
     first_failure
       [(map_option (LeaseStep ''fchmod'') (io_fchmod io), n0),
        (map_option (LeaseStep ''chown'') (io_chown io), n1),
        (map_option (LeaseStep ''acl'') (io_clear_acl io), n2),
        (error_of (verifyMaintenanceFile deps cfg v es n3), n3),
        (map_option (LeaseStep ''write'') (io_write io), n3\<lparr>content := take (io_written io) data\<rparr>),
        (map_option (LeaseStep ''sync'') (io_sync io), n4),
        (map_option (LeaseStep ''close'') (io_close io), n4)] n4)"

text \<open>The deferred \<open>unlinkat\<close> of the temporary name, whose own failure is ignored.\<close>

definition unlink_temp :: "lease_io \<Rightarrow> string list \<Rightarrow> os_view \<Rightarrow> os_view" where
  "unlink_temp io temp v = (case io_unlink io of Some _ \<Rightarrow> v | None \<Rightarrow> del_node temp v)"

definition persistMaintenanceLease ::
    "verificationDependencies \<Rightarrow> lease_codec \<Rightarrow> lease_io \<Rightarrow> ServiceConfig \<Rightarrow> string \<Rightarrow> go_time \<Rightarrow> os_view \<Rightarrow>
     (lease_error + unit) \<times> os_view" where
  "persistMaintenanceLease deps codec io cfg token until v =
    (case openMaintenanceDirectory deps io cfg True v of
       (Inl e, v1) \<Rightarrow> (Inl e, v1)
     | (Inr dir, v1) \<Rightarrow>
        (case io_random io of
           Inl e \<Rightarrow> (Inl (LeaseStep ''random'' e), v1)
         | Inr random \<Rightarrow>
            let name = ''.maintenance-'' @ hex_encode random; temp = dir @ [name] in
            if map_of (nodes v1) temp \<noteq> None then (Inl (LeaseStep ''create'' ''file exists''), v1)
            else (case io_create io of
              Some e \<Rightarrow> (Inl (LeaseStep ''create'' e), v1)
            | None \<Rightarrow>
               (case prepare_temp deps codec io cfg \<lparr>pl_Token = token, pl_ExpiresAt = until\<rparr> temp v1 of
                  (Some e, n) \<Rightarrow> (Inl e, unlink_temp io temp (set_node temp n v1))
                | (None, n) \<Rightarrow>
                   (case io_rename io of
                      Some e \<Rightarrow> (Inl (LeaseStep ''rename'' e), unlink_temp io temp (set_node temp n v1))
                    | None \<Rightarrow> (Inr (), set_node (dir @ [maintenanceLeaseFilename]) n
                                        (del_node temp (set_node temp n v1))))))))"

definition removeMaintenanceLease ::
    "verificationDependencies \<Rightarrow> lease_io \<Rightarrow> ServiceConfig \<Rightarrow> os_view \<Rightarrow> (lease_error + unit) \<times> os_view" where
  "removeMaintenanceLease deps io cfg v =
    (case openMaintenanceDirectory deps io cfg False v of
       (Inl e, v1) \<Rightarrow> if is_not_exist e then (Inr (), v1) else (Inl e, v1)
     | (Inr dir, v1) \<Rightarrow>
        let es = dir @ [maintenanceLeaseFilename] in
        if map_of (nodes v1) es = None then (Inr (), v1)
        else case io_unlink io of
          Some e \<Rightarrow> (Inl (LeaseStep ''unlink'' e), v1)
        | None \<Rightarrow> (Inr (), del_node es v1))"

text \<open>
  The lease in the data read, when it is one: the expiry is re-anchored to the clock reading \<open>now\<close>.
\<close>

definition acceptable_lease :: "lease_codec \<Rightarrow> go_time \<Rightarrow> string \<Rightarrow> (string \<times> go_time) option" where
  "acceptable_lease codec now data =
    (case decode codec data of
       None \<Rightarrow> None
     | Some (lease, offset) \<Rightarrow>
        if length data > 4096 \<or> \<not> validMaintenanceToken (pl_Token lease) \<or> offset \<noteq> 0 \<or>
           \<not> pl_ExpiresAt lease > now
        then None
        else Some (pl_Token lease, now + time_Sub (pl_ExpiresAt lease) now))"

text \<open>
  \<open>restoreMaintenanceLease\<close>: the lease to adopt, if any, and the view after an expired or malformed
  file has been removed (a failure of that removal is only logged).
\<close>

definition restoreMaintenanceLease ::
    "verificationDependencies \<Rightarrow> lease_codec \<Rightarrow> lease_io \<Rightarrow> ServiceConfig \<Rightarrow> go_time \<Rightarrow> os_view \<Rightarrow>
     (string \<times> go_time) option \<times> os_view" where
  "restoreMaintenanceLease deps codec io cfg now v =
    (case openMaintenanceDirectory deps io cfg False v of
       (Inl e, v1) \<Rightarrow> (None, v1)
     | (Inr dir, v1) \<Rightarrow>
        let es = dir @ [maintenanceLeaseFilename] in
        (case openat v1 dir maintenanceLeaseFilename False of
           Inl e \<Rightarrow> (None, v1)
         | Inr n \<Rightarrow>
            (case verifyMaintenanceFile deps cfg v1 es n of
               Inl e \<Rightarrow> (None, v1)
             | Inr _ \<Rightarrow>
                if io_read io \<noteq> None then (None, v1)
                else (case acceptable_lease codec now (take 4097 (content n)) of
                   None \<Rightarrow> (None, case io_unlink io of Some e \<Rightarrow> v1 | None \<Rightarrow> del_node es v1)
                 | Some lease \<Rightarrow> (Some lease, v1)))))"

section \<open>Lemmas\<close>

text \<open>Two views that agree on every path of at most \<open>k\<close> elements: a walk that short cannot tell them apart.\<close>

definition agree_upto :: "nat \<Rightarrow> os_view \<Rightarrow> os_view \<Rightarrow> bool" where
  "agree_upto k v w =
    (open_err v = open_err w \<and> fstat_err v = fstat_err w \<and>
     (\<forall>es. length es \<le> k \<longrightarrow> map_of (nodes v) es = map_of (nodes w) es))"

lemma agree_refl [simp]: "agree_upto k v v"
  by (simp add: agree_upto_def)

lemma agree_mono: "agree_upto k v w \<Longrightarrow> j \<le> k \<Longrightarrow> agree_upto j v w"
  by (auto simp: agree_upto_def)

lemma agree_set [simp]: "k < length es \<Longrightarrow> agree_upto k v (set_node es n w) = agree_upto k v w"
  by (auto simp: agree_upto_def set_node_def) (metis linorder_not_le)

lemma agree_del [simp]: "k < length es \<Longrightarrow> agree_upto k v (del_node es w) = agree_upto k v w"
  by (auto simp: agree_upto_def del_node_def) (metis linorder_not_le)

lemma openat_agree: "agree_upto (Suc (length es)) v w \<Longrightarrow> openat v es name d = openat w es name d"
proof -
  assume "agree_upto (Suc (length es)) v w"
  then have "open_err v = open_err w" "map_of (nodes v) (es @ [name]) = map_of (nodes w) (es @ [name])"
    by (simp_all add: agree_upto_def)
  then show ?thesis
    by (simp add: openat_def Let_def cong: option.case_cong)
qed

lemma fstat_agree: "agree_upto k v w \<Longrightarrow> fstat v = fstat w"
  by (simp add: agree_upto_def fstat_def fun_eq_iff)

lemma verifyOpenedNode_agree:
  "agree_upto k v w \<Longrightarrow> verifyOpenedNode deps v path es n d = verifyOpenedNode deps w path es n d"
  by (simp add: verifyOpenedNode_def fstat_agree)

lemma verifyOpenedSocketDirectory_agree:
  "agree_upto k v w \<Longrightarrow>
    verifyOpenedSocketDirectory deps v path es n = verifyOpenedSocketDirectory deps w path es n"
  by (simp add: verifyOpenedSocketDirectory_def fstat_agree)

lemma walk_elems_agree:
  "agree_upto (length es + length parts) v w \<Longrightarrow>
    walk_elems deps v wd sf path es n parts = walk_elems deps w wd sf path es n parts"
proof (induction parts arbitrary: path es n)
  case Nil
  then show ?case by (simp add: walk_elems.simps fstat_agree)
next
  case (Cons part rest)
  have "agree_upto (length (es @ [part]) + length rest) v w"
    using Cons.prems by simp
  note IH = Cons.IH [OF this]
  have "agree_upto (Suc (length es)) v w"
    by (rule agree_mono [OF Cons.prems]) simp
  then show ?case
    by (simp add: walk_elems.simps Let_def IH openat_agree [of es v w] verifyOpenedNode_agree [OF Cons.prems]
        verifyOpenedSocketDirectory_agree [OF Cons.prems] cong: sum.case_cong if_cong)
qed

lemma openSecurePath_agree:
  assumes "agree_upto (length (path_elems path)) v w"
  shows "openSecurePath deps v path wd sf = openSecurePath deps w path wd sf"
proof -
  have zero: "open_err v = open_err w" "map_of (nodes v) [] = map_of (nodes w) []"
    using assms by (simp_all add: agree_upto_def)
  show ?thesis
  proof (cases "Clean path = ''/''")
    case True
    then show ?thesis
      unfolding openSecurePath_def Let_def zero
      by (simp add: verifyOpenedNode_agree [OF assms] fstat_agree [OF assms] cong: option.case_cong if_cong)
  next
    case False
    then have "agree_upto (length [] + length (abs_elems (Clean path))) v w"
      using assms by (simp add: path_elems_def)
    from walk_elems_agree [OF this] show ?thesis
      unfolding openSecurePath_def Let_def zero
      by (simp add: verifyOpenedNode_agree [OF assms] fstat_agree [OF assms] cong: option.case_cong if_cong)
  qed
qed

lemma walk_elems_target:
  "walk_elems deps v wd sf path es n parts = Inr (es', n') \<Longrightarrow> es' = es @ parts"
proof (induction parts arbitrary: path es n)
  case Nil
  then show ?case by (simp add: walk_elems_Nil_ok)
next
  case (Cons part rest)
  from Cons.prems obtain m
    where "walk_elems deps v wd sf (filepath_Join [path, part]) (es @ [part]) m rest = Inr (es', n')"
    by (auto simp: walk_elems_Cons_ok)
  from Cons.IH [OF this] show ?case by simp
qed

lemma openSecurePath_target:
  "openSecurePath deps v path wd sf = Inr (es, n) \<Longrightarrow> es = path_elems path"
  by (auto simp: openSecurePath_def path_elems_def Let_def
      split: if_splits option.splits dest: walk_elems_target)

text \<open>The directory the lease lives in, and the lease itself.\<close>

definition runtime_elems :: "ServiceConfig \<Rightarrow> string list" where
  "runtime_elems cfg = path_elems (Dir (RuntimeDir cfg)) @ [Base (RuntimeDir cfg)]"

definition lease_elems :: "ServiceConfig \<Rightarrow> string list" where
  "lease_elems cfg = runtime_elems cfg @ [maintenanceLeaseFilename]"

definition temp_elems :: "ServiceConfig \<Rightarrow> int list \<Rightarrow> string list" where
  "temp_elems cfg random = runtime_elems cfg @ [''.maintenance-'' @ hex_encode random]"

lemma path_lengths [simp]:
  "length (runtime_elems cfg) = Suc (length (path_elems (Dir (RuntimeDir cfg))))"
  "length (lease_elems cfg) = Suc (length (runtime_elems cfg))"
  "length (temp_elems cfg random) = Suc (length (runtime_elems cfg))"
  by (simp_all add: runtime_elems_def lease_elems_def temp_elems_def)

lemma path_distinct [simp]:
  "lease_elems cfg \<noteq> runtime_elems cfg" "temp_elems cfg random \<noteq> runtime_elems cfg"
  "temp_elems cfg random \<noteq> lease_elems cfg" "lease_elems cfg \<noteq> temp_elems cfg random"
  by (simp_all add: lease_elems_def temp_elems_def maintenanceLeaseFilename_def)

lemma map_of_set_node [simp]: "map_of (nodes (set_node es n v)) fs = (if fs = es then Some n else map_of (nodes v) fs)"
  by (simp add: set_node_def)

lemma map_of_del_node [simp]: "map_of (nodes (del_node es v)) fs = (if fs = es then None else map_of (nodes v) fs)"
  by (simp add: del_node_def)

lemma map_of_unlink_temp: "fs \<noteq> es \<Longrightarrow> map_of (nodes (unlink_temp io es v)) fs = map_of (nodes v) fs"
  by (simp add: unlink_temp_def split: option.split)

lemma open_dir_checked_dir: "open_dir_checked deps path parent v = Inr dir \<Longrightarrow> dir = parent @ [Base path]"
  by (auto simp: open_dir_checked_def Let_def split: sum.splits option.splits if_splits)

lemma open_dir_checked_agree:
  assumes "agree_upto (Suc (length parent)) v w"
  shows "open_dir_checked deps path parent v = open_dir_checked deps path parent w"
  using openat_agree [OF assms] fstat_agree [OF assms] verifyOpenedNode_agree [OF assms]
  by (simp add: open_dir_checked_def Let_def cong: sum.case_cong option.case_cong)

lemma make_dir_view:
  "make_dir io es v = (r, v1) \<Longrightarrow> v1 = v \<or> v1 = set_node es (io_new_dir io) v"
  by (auto simp: make_dir_def split: if_splits option.splits)

text \<open>Opening the runtime directory creates at most that directory.\<close>

lemma openMaintenanceDirectory_view:
  assumes "openMaintenanceDirectory deps io cfg create v = (r, v1)"
  shows "v1 = v \<or> create \<and> v1 = set_node (runtime_elems cfg) (io_new_dir io) v"
proof -
  show ?thesis
    using assms make_dir_view
    by (fastforce simp: openMaintenanceDirectory_def Let_def runtime_elems_def
        split: if_splits sum.splits prod.splits dest!: openSecurePath_target)
qed

lemma openMaintenanceDirectory_ok:
  "openMaintenanceDirectory deps io cfg create v = (Inr dir, v1) \<longleftrightarrow>
    (let path = RuntimeDir cfg; parent = path_elems (Dir path) in
     path \<noteq> [] \<and> IsAbs path \<and> Clean path = path \<and> path \<noteq> ''/'' \<and>
     (\<exists>n. openSecurePath deps v (Dir path) True True = Inr (parent, n)) \<and>
     (if create then make_dir io (parent @ [Base path]) v = (Inr (), v1) else v1 = v) \<and>
     open_dir_checked deps path parent v1 = Inr dir \<and> dir = runtime_elems cfg)"
  unfolding openMaintenanceDirectory_def Let_def runtime_elems_def
  by (auto split: if_splits sum.splits prod.splits dest: openSecurePath_target open_dir_checked_dir)

lemma openMaintenanceDirectory_again:
  assumes "openMaintenanceDirectory deps io cfg create v = (Inr dir, v1)"
    and agree: "agree_upto (length (runtime_elems cfg)) v1 w"
  shows "openMaintenanceDirectory deps io' cfg False w = (Inr dir, w)"
proof -
  let ?parent = "path_elems (Dir (RuntimeDir cfg))"
  have "v1 = v \<or> v1 = set_node (runtime_elems cfg) (io_new_dir io) v"
    using openMaintenanceDirectory_view [OF assms(1)] by blast
  then have "agree_upto (length ?parent) v v1"
    by auto
  moreover have "agree_upto (length ?parent) v1 w"
    by (rule agree_mono [OF agree]) simp
  ultimately have "openSecurePath deps v (Dir (RuntimeDir cfg)) True True =
      openSecurePath deps w (Dir (RuntimeDir cfg)) True True"
    by (metis openSecurePath_agree)
  moreover have "open_dir_checked deps (RuntimeDir cfg) ?parent v1 =
      open_dir_checked deps (RuntimeDir cfg) ?parent w"
    by (rule open_dir_checked_agree) (use agree in simp)
  ultimately show ?thesis
    using assms(1) by (simp add: openMaintenanceDirectory_ok Let_def)
qed

lemma lift_verify_Inr [simp]: "lift_verify r = Inr x \<longleftrightarrow> r = Inr x"
  by (cases r) (simp_all add: lift_verify_def)

lemma production_group [simp]: "dep_group productionVerificationDependencies path n = Inr (st_gid n)"
  by (simp add: productionVerificationDependencies_def)

lemma verifyMaintenanceFile_production:
  "verifyMaintenanceFile productionVerificationDependencies cfg v es n = Inr u \<longleftrightarrow>
    fstat_err v es = None \<and> root_controlled n \<and> file_type n = S_IFREG \<and> st_mode n AND 0xFFF = 0x180 \<and> st_gid n = 0"
  by (auto simp: verifyMaintenanceFile_def Let_def verifyOpenedNode_production fstat_def
      split: option.splits if_splits)

lemma first_failure_None:
  "first_failure steps final = (None, s) \<longleftrightarrow> (\<forall>(e, _) \<in> set steps. e = None) \<and> s = final"
  by (induction steps final rule: first_failure.induct) auto

lemma prepare_temp_ok:
  assumes "prepare_temp deps codec io cfg lease es v = (None, n)"
  shows "content n = encode codec lease @ [newline]" "st_uid n = 0" "st_gid n = 0" "acl n = None"
    and "\<exists>m. verifyMaintenanceFile deps cfg v es m = Inr () \<and> n = m\<lparr>content := encode codec lease @ [newline]\<rparr>"
proof -
  let ?n0 = "(io_new_file io)\<lparr>content := []\<rparr>"
  let ?n3 = "?n0\<lparr>st_mode := (st_mode ?n0 AND NOT 0xFFF) OR 0x180, st_uid := 0, st_gid := 0, acl := None\<rparr>"
  have n: "n = ?n3\<lparr>content := encode codec lease @ [newline]\<rparr>"
    and ok: "error_of (verifyMaintenanceFile deps cfg v es ?n3) = None"
    using assms by (simp_all add: prepare_temp_def Let_def first_failure_None)
  from n show "content n = encode codec lease @ [newline]" "st_uid n = 0" "st_gid n = 0" "acl n = None"
    by simp_all
  have "verifyMaintenanceFile deps cfg v es ?n3 = Inr ()"
    using ok by (cases "verifyMaintenanceFile deps cfg v es ?n3") (simp_all add: error_of_def)
  with n show "\<exists>m. verifyMaintenanceFile deps cfg v es m = Inr () \<and> n = m\<lparr>content := encode codec lease @ [newline]\<rparr>"
    by blast
qed

text \<open>What a successful write has done, step by step.\<close>

lemma persist_ok:
  "persistMaintenanceLease deps codec io cfg token until v = (Inr (), v') \<longleftrightarrow>
    (\<exists>v1 random n. openMaintenanceDirectory deps io cfg True v = (Inr (runtime_elems cfg), v1) \<and>
      io_random io = Inr random \<and>
      (let temp = temp_elems cfg random in
       map_of (nodes v1) temp = None \<and> io_create io = None \<and>
       prepare_temp deps codec io cfg \<lparr>pl_Token = token, pl_ExpiresAt = until\<rparr> temp v1 = (None, n) \<and>
       io_rename io = None \<and>
       v' = set_node (lease_elems cfg) n (del_node temp (set_node temp n v1))))"
proof -
  have dir: "openMaintenanceDirectory deps io cfg True v = (Inr d, v1) \<Longrightarrow> d = runtime_elems cfg" for d v1
    by (simp add: openMaintenanceDirectory_ok Let_def)
  show ?thesis
    unfolding persistMaintenanceLease_def Let_def lease_elems_def temp_elems_def
    by (auto split: prod.splits sum.splits option.splits if_splits dest: dir)
qed

lemma persist_failed:
  assumes "persistMaintenanceLease deps codec io cfg token until v = (Inl e, v')"
  obtains (dir) "snd (openMaintenanceDirectory deps io cfg True v) = v'"
  | (temp) v1 random n where "snd (openMaintenanceDirectory deps io cfg True v) = v1" "io_random io = Inr random"
      "v' = unlink_temp io (temp_elems cfg random)
              (set_node (temp_elems cfg random) n v1)"
proof -
  have dir': "openMaintenanceDirectory deps io cfg True v = (Inr d, v1) \<Longrightarrow> d = runtime_elems cfg" for d v1
    by (simp add: openMaintenanceDirectory_ok Let_def)
  obtain r v1 where o: "openMaintenanceDirectory deps io cfg True v = (r, v1)"
    by fastforce
  have "v' = v1 \<or> (\<exists>random n. io_random io = Inr random \<and>
      v' = unlink_temp io (temp_elems cfg random)
              (set_node (temp_elems cfg random) n v1))"
  proof (cases r)
    case (Inr d)
    with assms o dir' [of d v1] show ?thesis
      unfolding persistMaintenanceLease_def Let_def temp_elems_def
      by (auto split: prod.splits sum.splits option.splits if_splits)
  qed (use assms o in \<open>auto simp: persistMaintenanceLease_def\<close>)
  with o that show thesis by auto
qed

lemma persist_failed_view:
  assumes "persistMaintenanceLease deps codec io cfg token until v = (Inl e, v')"
    and "es \<noteq> runtime_elems cfg" "\<forall>random. io_random io = Inr random \<longrightarrow> es \<noteq> temp_elems cfg random"
  shows "map_of (nodes v') es = map_of (nodes v) es"
proof -
  have view: "v1 = v \<or> v1 = set_node (runtime_elems cfg) (io_new_dir io) v"
    if "snd (openMaintenanceDirectory deps io cfg True v) = v1" for v1
    using that openMaintenanceDirectory_view [of deps io cfg True v "fst (openMaintenanceDirectory deps io cfg True v)" v1]
    by (cases "openMaintenanceDirectory deps io cfg True v") auto
  from assms(1) show ?thesis
  proof (cases rule: persist_failed)
    case dir
    then show ?thesis using assms(2) view [OF dir] by auto
  next
    case (temp v1 random n)
    then show ?thesis using assms(2,3) view [OF temp(1)] by (auto simp: map_of_unlink_temp)
  qed
qed

lemma persist_failed_lease:
  "persistMaintenanceLease deps codec io cfg token until v = (Inl e, v') \<Longrightarrow>
    map_of (nodes v') (lease_elems cfg) = map_of (nodes v) (lease_elems cfg)"
  by (erule persist_failed_view) simp_all

lemma persist_installs:
  assumes "persistMaintenanceLease deps codec io cfg token until v = (Inr (), v')"
  shows "\<exists>n. map_of (nodes v') (lease_elems cfg) = Some n \<and>
      content n = encode codec \<lparr>pl_Token = token, pl_ExpiresAt = until\<rparr> @ [newline] \<and>
      st_uid n = 0 \<and> st_gid n = 0 \<and> acl n = None"
    and "es \<noteq> runtime_elems cfg \<Longrightarrow> es \<noteq> lease_elems cfg \<Longrightarrow> map_of (nodes v') es = map_of (nodes v) es"
proof -
  from assms obtain v1 random n where
    o: "openMaintenanceDirectory deps io cfg True v = (Inr (runtime_elems cfg), v1)" and
    fresh: "map_of (nodes v1) (temp_elems cfg random) = None" and
    prep: "prepare_temp deps codec io cfg \<lparr>pl_Token = token, pl_ExpiresAt = until\<rparr> (temp_elems cfg random) v1 = (None, n)" and
    v': "v' = set_node (lease_elems cfg) n (del_node (temp_elems cfg random) (set_node (temp_elems cfg random) n v1))"
    unfolding persist_ok Let_def by blast
  show "\<exists>n. map_of (nodes v') (lease_elems cfg) = Some n \<and>
      content n = encode codec \<lparr>pl_Token = token, pl_ExpiresAt = until\<rparr> @ [newline] \<and>
      st_uid n = 0 \<and> st_gid n = 0 \<and> acl n = None"
    using prepare_temp_ok [OF prep] v' by auto
  show "map_of (nodes v') es = map_of (nodes v) es" if "es \<noteq> runtime_elems cfg" "es \<noteq> lease_elems cfg"
    using that openMaintenanceDirectory_view [OF o] v' fresh by auto
qed

section \<open>Properties\<close>

text \<open>
  Writing the maintenance lease is all or nothing. A failed write leaves the previous lease, and
  every other file but a runtime directory it may have created and its own temporary name, exactly
  as it was; a successful one replaces the lease by a root-owned file without ACL that holds the new
  token and expiry, removes the temporary name and touches nothing else.
\<close>

theorem persist_all_or_nothing:
  assumes "persistMaintenanceLease deps codec io cfg token until v = (r, v')"
  shows "case r of
    Inl e \<Rightarrow> map_of (nodes v') (lease_elems cfg) = map_of (nodes v) (lease_elems cfg) \<and>
      (\<forall>es. es \<noteq> runtime_elems cfg \<and>
        (\<forall>random. io_random io = Inr random \<longrightarrow> es \<noteq> temp_elems cfg random) \<longrightarrow>
        map_of (nodes v') es = map_of (nodes v) es)
  | Inr _ \<Rightarrow> (\<exists>n. map_of (nodes v') (lease_elems cfg) = Some n \<and>
        content n = encode codec \<lparr>pl_Token = token, pl_ExpiresAt = until\<rparr> @ [newline] \<and>
        st_uid n = 0 \<and> st_gid n = 0 \<and> acl n = None) \<and>
      (\<forall>es. es \<noteq> runtime_elems cfg \<and> es \<noteq> lease_elems cfg \<longrightarrow> map_of (nodes v') es = map_of (nodes v) es)"
proof (cases r)
  case (Inl e)
  with assms show ?thesis
    by (auto dest: persist_failed_lease persist_failed_view)
next
  case (Inr u)
  with assms have "persistMaintenanceLease deps codec io cfg token until v = (Inr (), v')" by simp
  from persist_installs [OF this] Inr show ?thesis by simp
qed

text \<open>
  (C21) A drained daemon stays drained across a restart: once the lease is written, the replacement that
  reads it back before it has expired adopts the same token with the same expiry and leaves the file
  in place.
\<close>

theorem restore_after_persist:
  assumes persist: "persistMaintenanceLease productionVerificationDependencies codec io cfg token until v = (Inr (), v')"
    and codec: "codec_ok codec" and lease: "encodable \<lparr>pl_Token = token, pl_ExpiresAt = until\<rparr>"
    and time: "0 \<le> now" "now < until"
    and os: "passable v (lease_elems cfg)" "io_read io' = None"
  shows "restoreMaintenanceLease productionVerificationDependencies codec io' cfg now v' = (Some (token, until), v')"
proof -
  let ?lease = "\<lparr>pl_Token = token, pl_ExpiresAt = until\<rparr>"
  obtain v1 random n where
    o: "openMaintenanceDirectory productionVerificationDependencies io cfg True v = (Inr (runtime_elems cfg), v1)" and
    prep: "prepare_temp productionVerificationDependencies codec io cfg ?lease (temp_elems cfg random) v1 = (None, n)" and
    v': "v' = set_node (lease_elems cfg) n (del_node (temp_elems cfg random) (set_node (temp_elems cfg random) n v1))"
    using persist unfolding persist_ok Let_def by blast
  have v1: "open_err v1 = open_err v" "fstat_err v1 = fstat_err v"
    using openMaintenanceDirectory_view [OF o] by (auto simp: set_node_def)
  then have same: "open_err v' = open_err v" "fstat_err v' = fstat_err v"
    by (simp_all add: v' set_node_def del_node_def)
  have dir: "openMaintenanceDirectory productionVerificationDependencies io' cfg False v' = (Inr (runtime_elems cfg), v')"
    by (rule openMaintenanceDirectory_again [OF o]) (simp add: v')
  from prepare_temp_ok(5) [OF prep] obtain m
    where "verifyMaintenanceFile productionVerificationDependencies cfg v1 (temp_elems cfg random) m = Inr ()"
      and n: "n = m\<lparr>content := encode codec ?lease @ [newline]\<rparr>" by blast
  then have ok: "verifyMaintenanceFile productionVerificationDependencies cfg v' (lease_elems cfg) n = Inr ()"
    and reg: "file_type n = S_IFREG"
    using os(1) by (auto simp: verifyMaintenanceFile_production same passable_def root_controlled_def file_type_def)
  have node: "map_of (nodes v') (lease_elems cfg) = Some n"
    by (simp add: v')
  have opened: "openat v' (runtime_elems cfg) maintenanceLeaseFilename False = Inr n"
    using os(1) reg node by (simp add: openat_ok same passable_def flip: lease_elems_def)
  have decoded: "decode codec (content n) = Some (?lease, 0)" and len: "length (content n) \<le> 4096"
    using codec lease by (auto simp: codec_ok_def n)
  have sub: "now + time_Sub until now = until"
    using time lease by (simp add: time_Sub_def encodable_def)
  show ?thesis
    unfolding restoreMaintenanceLease_def Let_def dir
    using ok opened decoded len lease time os(2) sub
    by (simp add: encodable_def acceptable_lease_def flip: lease_elems_def)
qed

lemma acceptable_lease_ok:
  "acceptable_lease codec now data = Some (token, until) \<Longrightarrow> validMaintenanceToken token \<and> now < until"
  by (simp add: acceptable_lease_def time_Sub_def split: option.splits prod.splits if_splits) auto

text \<open>
  (C31) A lease cannot be forged: what a starting daemon adopts comes from a regular file of mode 0600
  that belongs to \<open>root:wheel\<close> and no ACL makes writable, in a runtime directory that only root can
  change, and it carries a well-formed token that has not expired. Adopting it changes no file.
\<close>

theorem restore_trusted:
  assumes "restoreMaintenanceLease productionVerificationDependencies codec io cfg now v = (Some (token, until), v')"
  shows "\<exists>n dir. map_of (nodes v) (lease_elems cfg) = Some n \<and> file_type n = S_IFREG \<and> root_controlled n \<and>
      st_mode n AND 0xFFF = 0x180 \<and> st_gid n = 0 \<and>
      map_of (nodes v) (runtime_elems cfg) = Some dir \<and> file_type dir = S_IFDIR \<and> root_controlled dir \<and>
      st_mode dir AND 0xFFF = 0x1C9 \<and> validMaintenanceToken token \<and> now < until \<and> v' = v"
proof -
  from assms obtain d v1 where o: "openMaintenanceDirectory productionVerificationDependencies io cfg False v = (Inr d, v1)"
    unfolding restoreMaintenanceLease_def by (auto split: prod.splits sum.splits)
  then have d: "d = runtime_elems cfg" "v1 = v" and
    checked: "open_dir_checked productionVerificationDependencies (RuntimeDir cfg) (path_elems (Dir (RuntimeDir cfg))) v = Inr d"
    by (auto simp: openMaintenanceDirectory_ok Let_def)
  from checked obtain dir where "map_of (nodes v) (runtime_elems cfg) = Some dir" "file_type dir = S_IFDIR"
      "root_controlled dir" "st_mode dir AND 0xFFF = 0x1C9"
    by (auto simp: open_dir_checked_def Let_def openat_ok verifyOpenedNode_production runtime_elems_def
        split: sum.splits option.splits if_splits)
  moreover from assms obtain n where opened: "openat v (runtime_elems cfg) maintenanceLeaseFilename False = Inr n"
      "verifyMaintenanceFile productionVerificationDependencies cfg v (lease_elems cfg) n = Inr ()"
    and lease: "acceptable_lease codec now (take 4097 (content n)) = Some (token, until)" and "v' = v"
    unfolding restoreMaintenanceLease_def Let_def o d prod.case sum.case lease_elems_def
    by (cases "openat v (runtime_elems cfg) maintenanceLeaseFilename False")
      (simp_all split: sum.splits if_splits option.splits)
  moreover have "validMaintenanceToken token \<and> now < until"
    by (rule acceptable_lease_ok [OF lease])
  ultimately show ?thesis
    by (simp add: openat_ok verifyMaintenanceFile_production flip: lease_elems_def)
qed

section \<open>Witnesses\<close>

text \<open>A codec that meets its contract: the token, then the expiry as 63 binary digits.\<close>

definition bit_chars :: "int \<Rightarrow> string" where
  "bit_chars t = map (\<lambda>i. if bit t i then CHR ''1'' else CHR ''0'') [0..<63]"

definition sample_codec :: lease_codec where
  "sample_codec =
    \<lparr>encode = (\<lambda>l. pl_Token l @ bit_chars (pl_ExpiresAt l)),
     decode = (\<lambda>d. if length d \<noteq> 128 then None
       else Some (\<lparr>pl_Token = take 64 d,
                   pl_ExpiresAt = horner_sum of_bool 2 (map (\<lambda>c. c = CHR ''1'') (take 63 (drop 64 d)))\<rparr>, 0))\<rparr>"

lemma bit_chars_value:
  "0 \<le> t \<Longrightarrow> t < 2 ^ 63 \<Longrightarrow> horner_sum of_bool 2 (map (\<lambda>c. c = CHR ''1'') (bit_chars t)) = t"
proof -
  assume t: "0 \<le> t" "t < 2 ^ 63"
  have "map (\<lambda>c. c = CHR ''1'') (bit_chars t) = map (bit t) [0..<63]"
    by (simp add: bit_chars_def del: upt_conv_Cons upt_rec_numeral)
  then have "horner_sum of_bool 2 (map (\<lambda>c. c = CHR ''1'') (bit_chars t)) = take_bit 63 t"
    by (simp add: horner_sum_bit_eq_take_bit del: upt_conv_Cons upt_rec_numeral)
  then show ?thesis
    using t by (simp add: take_bit_int_eq_self)
qed

lemma sample_codec_ok: "codec_ok sample_codec"
proof -
  have len: "length (bit_chars t) = 63" for t
    by (simp add: bit_chars_def del: upt_conv_Cons upt_rec_numeral)
  show ?thesis
    unfolding codec_ok_def sample_codec_def encodable_def validMaintenanceToken_def
    by (auto simp: len bit_chars_value)
qed

definition sample_token :: string where
  "sample_token = replicate 64 (CHR ''a'')"

definition sample_io :: lease_io where
  "sample_io =
    \<lparr>io_mkdir = None,
     io_new_dir = \<lparr>st_mode = 0x41C9, st_uid = 0, st_gid = 0, st_dev = 1, st_ino = 9, acl = None, content = []\<rparr>,
     io_random = Inr (replicate 16 255), io_create = None,
     io_new_file = \<lparr>st_mode = 0x81A4, st_uid = 501, st_gid = 20, st_dev = 1, st_ino = 10,
       acl = Some [(ACL_EXTENDED_ALLOW, [ACL_WRITE_DATA])], content = []\<rparr>,
     io_fchmod = None, io_chown = None, io_clear_acl = None, io_write = None, io_written = 0, io_sync = None,
     io_close = None, io_rename = None, io_unlink = None, io_read = None\<rparr>"

lemma sample_persist:
  "fst (persistMaintenanceLease productionVerificationDependencies sample_codec sample_io sample_cfg
     sample_token 5000 sample_view) = Inr ()"
  by code_simp

theorem persist_all_or_nothing_witness:
  "\<exists>n. map_of (nodes (snd (persistMaintenanceLease productionVerificationDependencies sample_codec sample_io
       sample_cfg sample_token 5000 sample_view))) [''run'', ''vpn'', ''maintenance.lease''] = Some n \<and> st_uid n = 0"
proof -
  have "lease_elems sample_cfg = [''run'', ''vpn'', ''maintenance.lease'']" by code_simp
  moreover obtain v' where "persistMaintenanceLease productionVerificationDependencies sample_codec sample_io sample_cfg
     sample_token 5000 sample_view = (Inr (), v')"
    using sample_persist by (metis prod.collapse)
  ultimately show ?thesis
    using persist_all_or_nothing [of productionVerificationDependencies sample_codec sample_io sample_cfg
        sample_token 5000 sample_view "Inr ()" v'] by auto
qed

theorem restore_after_persist_witness:
  "\<exists>v'. restoreMaintenanceLease productionVerificationDependencies sample_codec sample_io sample_cfg 4000 v' =
     (Some (sample_token, 5000), v')"
proof -
  obtain v' where "persistMaintenanceLease productionVerificationDependencies sample_codec sample_io sample_cfg
     sample_token 5000 sample_view = (Inr (), v')"
    using sample_persist by (metis prod.collapse)
  moreover have "encodable \<lparr>pl_Token = sample_token, pl_ExpiresAt = 5000\<rparr>"
    "passable sample_view (lease_elems sample_cfg)" "io_read sample_io = None"
    by code_simp+
  ultimately have "restoreMaintenanceLease productionVerificationDependencies sample_codec sample_io sample_cfg 4000 v' =
     (Some (sample_token, 5000), v')"
    by (intro restore_after_persist sample_codec_ok) simp_all
  then show ?thesis ..
qed

definition sample_drained_view :: os_view where
  "sample_drained_view = set_node [''run'', ''vpn''] (io_new_dir sample_io)
     (set_node [''run'', ''vpn'', ''maintenance.lease'']
       \<lparr>st_mode = 0x8180, st_uid = 0, st_gid = 0, st_dev = 1, st_ino = 10, acl = None,
        content = sample_token @ bit_chars 5000 @ [newline]\<rparr> sample_view)"

theorem restore_trusted_witness:
  "restoreMaintenanceLease productionVerificationDependencies sample_codec sample_io sample_cfg 4000
     sample_drained_view = (Some (sample_token, 5000), sample_drained_view)"
proof -
  let ?r = "restoreMaintenanceLease productionVerificationDependencies sample_codec sample_io sample_cfg 4000
     sample_drained_view"
  have "fst ?r = Some (sample_token, 5000)" by code_simp
  then have r: "?r = (Some (sample_token, 5000), snd ?r)" by (metis prod.collapse)
  from restore_trusted [OF this] have "snd ?r = sample_drained_view" by blast
  then show ?thesis using r by simp
qed

end
