(* ===== verification/Request_Tracker.thy ===== *)
theory Request_Tracker
  imports Go_Prelude
begin

text \<open>
  The request tracker of the privileged daemon, \<open>desktop/internal/core/vpncore/diagnostics.go\<close>:
  which requests are queued and active, the last completed one, and the redacted snapshot that
  \<open>ping\<close> returns. Each operation runs under the tracker's mutex and is one function on the record;
  the clock reading of the operation is its argument \<open>now\<close>. Maps are association lists, so ranging
  over them follows the list; the snapshot sorts, so its result does not depend on that order.
\<close>

section \<open>Data\<close>

type_synonym request_id = "64 word"

record trackedRequest =
  tr_id :: request_id
  tr_action :: string
  tr_started :: go_time

record completedTrackedRequest =
  ct_action :: string
  ct_outcome :: string
  ct_duration :: duration
  ct_completed :: go_time

record requestTracker =
  nextID :: request_id
  queued :: "(request_id, trackedRequest) gomap"
  active :: "(request_id, trackedRequest) gomap"
  lastCompleted :: "completedTrackedRequest option"

record RequestSnapshot =
  rs_action :: string
  rs_age_ms :: int

record CompletedRequestSnapshot =
  cs_action :: string
  cs_outcome :: string
  cs_duration_ms :: int
  cs_age_ms :: int

record HelperSnapshot =
  ActiveRequests :: "RequestSnapshot list"
  QueuedRequests :: "RequestSnapshot list"
  LastCompletedRequest :: "CompletedRequestSnapshot option"

section \<open>Operations\<close>

definition requestOutcomeOK :: string where
  "requestOutcomeOK = ''ok''"

definition requestOutcomeError :: string where
  "requestOutcomeError = ''error''"

definition known_actions :: "string list" where
  "known_actions = [''ping'', ''maintenance.drain'', ''maintenance.undrain'', ''maintenance.renew'',
     ''singbox.start'', ''dns.scutil'', ''dns.networksetup'', ''resolver.cleanup'',
     ''tcpdump.start'', ''signal'']"

definition safeRequestAction :: "string \<Rightarrow> string" where
  "safeRequestAction action =
    (if TrimSpace action \<in> set (known_actions @ [''pending'', ''other''])
     then TrimSpace action else ''other'')"

definition safeRequestOutcome :: "string \<Rightarrow> string" where
  "safeRequestOutcome outcome =
    (if TrimSpace outcome = requestOutcomeOK \<or> TrimSpace outcome = requestOutcomeError
     then TrimSpace outcome else ''unknown'')"

definition durationMillis :: "duration \<Rightarrow> int" where
  "durationMillis v = (if v \<le> 0 then 0 else v div 1000000)"

definition newRequestTracker :: requestTracker where
  "newRequestTracker = \<lparr>nextID = 0, queued = [], active = [], lastCompleted = None\<rparr>"

definition enqueue :: "go_time \<Rightarrow> requestTracker \<Rightarrow> request_id \<times> requestTracker" where
  "enqueue now t =
    (let rid = nextID t + 1 in
     (rid, t\<lparr>nextID := rid,
            queued := map_set rid \<lparr>tr_id = rid, tr_action = ''pending'', tr_started = now\<rparr> (queued t)\<rparr>))"

definition begin_request :: "go_time \<Rightarrow> request_id \<Rightarrow> string \<Rightarrow> requestTracker \<Rightarrow> requestTracker" where
  "begin_request now rid action t =
    t\<lparr>queued := map_del rid (queued t),
      active := map_set rid \<lparr>tr_id = rid, tr_action = safeRequestAction action, tr_started = now\<rparr> (active t)\<rparr>"

definition abandon :: "request_id \<Rightarrow> requestTracker \<Rightarrow> requestTracker" where
  "abandon rid t = t\<lparr>queued := map_del rid (queued t)\<rparr>"

definition complete :: "go_time \<Rightarrow> request_id \<Rightarrow> bool \<Rightarrow> requestTracker \<Rightarrow> requestTracker" where
  "complete now rid ok t =
    (case map_of (active t) rid of
       None \<Rightarrow> t
     | Some request \<Rightarrow>
         (let t1 = t\<lparr>active := map_del rid (active t)\<rparr> in
          if tr_action request = ''ping'' then t1
          else t1\<lparr>lastCompleted := Some
                 \<lparr>ct_action = tr_action request,
                  ct_outcome = (if ok then requestOutcomeOK else requestOutcomeError),
                  ct_duration = time_Sub now (tr_started request),
                  ct_completed = now\<rparr>\<rparr>))"

definition requestSnapshots :: "(request_id, trackedRequest) gomap \<Rightarrow> go_time \<Rightarrow> RequestSnapshot list" where
  "requestSnapshots requests now =
    map (\<lambda>r. \<lparr>rs_action = safeRequestAction (tr_action r),
              rs_age_ms = durationMillis (time_Sub now (tr_started r))\<rparr>)
      (sort_key tr_id (filter (\<lambda>r. tr_action r \<noteq> ''ping'') (map snd requests)))"

definition snapshot :: "go_time \<Rightarrow> requestTracker \<Rightarrow> HelperSnapshot" where
  "snapshot now t =
    \<lparr>ActiveRequests = requestSnapshots (active t) now,
     QueuedRequests = requestSnapshots (queued t) now,
     LastCompletedRequest = map_option
       (\<lambda>c. \<lparr>cs_action = safeRequestAction (ct_action c),
             cs_outcome = safeRequestOutcome (ct_outcome c),
             cs_duration_ms = durationMillis (ct_duration c),
             cs_age_ms = durationMillis (time_Sub now (ct_completed c))\<rparr>) (lastCompleted t)\<rparr>"

section \<open>Rendering of snapshots\<close>

definition maxInt64 :: "int \<Rightarrow> int \<Rightarrow> int" where
  "maxInt64 left right = (if left > right then left else right)"

definition FormatRequestSnapshots :: "RequestSnapshot list \<Rightarrow> string" where
  "FormatRequestSnapshots requests =
    (if requests = [] then ''none''
     else Join '','' (map (\<lambda>r. safeRequestAction (rs_action r) @ ''(age='' @
            itoa (maxInt64 (rs_age_ms r) 0) @ ''ms)'') requests))"

definition FormatCompletedRequestSnapshot :: "CompletedRequestSnapshot option \<Rightarrow> string" where
  "FormatCompletedRequestSnapshot request =
    (case request of None \<Rightarrow> ''none''
     | Some r \<Rightarrow> safeRequestAction (cs_action r) @ ''(outcome='' @ safeRequestOutcome (cs_outcome r) @
         '',duration='' @ itoa (maxInt64 (cs_duration_ms r) 0) @ ''ms,age='' @
         itoa (maxInt64 (cs_age_ms r) 0) @ ''ms)'')"

definition FormatHelperSnapshot :: "HelperSnapshot option \<Rightarrow> string" where
  "FormatHelperSnapshot snap =
    (case snap of None \<Rightarrow> ''unavailable''
     | Some s \<Rightarrow> ''active_requests='' @ FormatRequestSnapshots (ActiveRequests s) @
         '' queued_requests='' @ FormatRequestSnapshots (QueuedRequests s) @
         '' last_completed_request='' @ FormatCompletedRequestSnapshot (LastCompletedRequest s))"

section \<open>Invariant\<close>

text \<open>
  Every entry is stored under its own identifier, queued and active requests are disjoint, no
  identifier exceeds the counter, and the stored actions come from the closed vocabulary.
\<close>

definition safe_actions :: "string list" where
  "safe_actions = known_actions @ [''pending'', ''other'']"

definition entry_ok :: "request_id \<Rightarrow> request_id \<times> trackedRequest \<Rightarrow> bool" where
  "entry_ok n e = (tr_id (snd e) = fst e \<and> fst e \<le> n \<and> tr_action (snd e) \<in> set safe_actions)"

definition entries_ok :: "request_id \<Rightarrow> (request_id, trackedRequest) gomap \<Rightarrow> bool" where
  "entries_ok n m = (wf_map m \<and> (\<forall>e \<in> set m. entry_ok n e))"

definition completed_ok :: "completedTrackedRequest option \<Rightarrow> bool" where
  "completed_ok c =
    (case c of None \<Rightarrow> True
     | Some r \<Rightarrow> ct_action r \<in> set safe_actions \<and> ct_action r \<noteq> ''ping'' \<and>
                 ct_outcome r \<in> {requestOutcomeOK, requestOutcomeError})"

definition tracker_inv :: "requestTracker \<Rightarrow> bool" where
  "tracker_inv t =
    (entries_ok (nextID t) (queued t) \<and> entries_ok (nextID t) (active t) \<and>
     fst ` set (queued t) \<inter> fst ` set (active t) = {} \<and> completed_ok (lastCompleted t))"

text \<open>The operations the daemon performs on the tracker, for one accepted request each.\<close>

inductive tracker_step :: "requestTracker \<Rightarrow> requestTracker \<Rightarrow> bool" where
  step_enqueue: "nextID t \<noteq> - 1 \<Longrightarrow> tracker_step t (snd (enqueue now t))"
| step_begin: "rid \<in> fst ` set (queued t) \<Longrightarrow> tracker_step t (begin_request now rid action t)"
| step_abandon: "tracker_step t (abandon rid t)"
| step_complete: "tracker_step t (complete now rid ok t)"

inductive_cases tracker_stepE: "tracker_step t u"

section \<open>Lemmas\<close>

lemma safeRequestAction_safe: "safeRequestAction a \<in> set safe_actions"
  by (auto simp: safeRequestAction_def safe_actions_def)

lemma safeRequestAction_id: "a \<in> set safe_actions \<Longrightarrow> TrimSpace a = a \<Longrightarrow> safeRequestAction a = a"
  by (simp add: safeRequestAction_def safe_actions_def)

lemma safe_actions_trimmed: "list_all (\<lambda>a. TrimSpace a = a) safe_actions"
  by code_simp

lemma safeRequestAction_idem [simp]: "safeRequestAction (safeRequestAction a) = safeRequestAction a"
  using safe_actions_trimmed safeRequestAction_safe safeRequestAction_id
  by (simp add: list_all_iff)

lemma pending_safe [simp]: "''pending'' \<in> set safe_actions"
  by (simp add: safe_actions_def)

lemma entries_ok_Nil [simp]: "entries_ok n []"
  by (simp add: entries_ok_def)

lemma entries_ok_set [simp]: "entries_ok n m \<Longrightarrow> entry_ok n (k, r) \<Longrightarrow> entries_ok n (map_set k r m)"
  by (auto simp: entries_ok_def set_set)

lemma entries_ok_del [simp]: "entries_ok n m \<Longrightarrow> entries_ok n (map_del k m)"
  by (auto simp: entries_ok_def)

lemma entries_ok_mono: "entries_ok n m \<Longrightarrow> n \<le> n' \<Longrightarrow> entries_ok n' m"
  by (force simp: entries_ok_def entry_ok_def)

lemma entries_ok_lookup: "entries_ok n m \<Longrightarrow> map_of m k = Some r \<Longrightarrow> entry_ok n (k, r)"
  by (auto simp: entries_ok_def dest: map_of_SomeD)

lemma next_id_above: "(n :: request_id) \<noteq> - 1 \<Longrightarrow> n < n + 1"
  by (metis inc_less_eq_triv_imp linorder_less_linear word_le_less_eq)

lemma tracker_inv_new: "tracker_inv newRequestTracker"
  by (simp add: tracker_inv_def newRequestTracker_def completed_ok_def)

lemma tracker_inv_enqueue:
  assumes inv: "tracker_inv t" and "nextID t \<noteq> - 1"
  shows "tracker_inv (snd (enqueue now t))"
proof -
  have above: "nextID t < nextID t + 1"
    using assms(2) by (rule next_id_above)
  have "nextID t + 1 \<notin> fst ` set (active t)"
    using inv above by (force simp: tracker_inv_def entries_ok_def entry_ok_def)
  moreover have "entries_ok (nextID t + 1) (queued t)" "entries_ok (nextID t + 1) (active t)"
    using inv above by (auto simp: tracker_inv_def intro: entries_ok_mono)
  ultimately show ?thesis
    using inv by (simp add: tracker_inv_def enqueue_def Let_def entry_ok_def)
qed

lemma tracker_inv_begin:
  assumes "tracker_inv t" and "rid \<in> fst ` set (queued t)"
  shows "tracker_inv (begin_request now rid action t)"
proof -
  have "rid \<le> nextID t"
    using assms by (auto simp: tracker_inv_def entries_ok_def entry_ok_def)
  then show ?thesis
    using assms by (auto simp: tracker_inv_def begin_request_def entry_ok_def safeRequestAction_safe)
qed

lemma tracker_inv_abandon: "tracker_inv t \<Longrightarrow> tracker_inv (abandon rid t)"
  by (auto simp: tracker_inv_def abandon_def)

lemma tracker_inv_complete: "tracker_inv t \<Longrightarrow> tracker_inv (complete now rid ok t)"
  by (auto simp: tracker_inv_def complete_def Let_def completed_ok_def
      dest: entries_ok_lookup [unfolded entry_ok_def] split: option.splits)


interpretation tracker: invariant_system "\<lambda>t. t = newRequestTracker" tracker_step tracker_inv
  by unfold_locales
    (simp add: tracker_inv_new,
     blast elim: tracker_stepE intro: tracker_inv_enqueue tracker_inv_begin tracker_inv_abandon
       tracker_inv_complete)

lemma durationMillis_nonneg [simp]: "0 \<le> durationMillis v"
  by (simp add: durationMillis_def pos_imp_zdiv_nonneg_iff)

lemma requestSnapshots_mset:
  "mset (requestSnapshots m now) =
    image_mset (\<lambda>r. \<lparr>rs_action = safeRequestAction (tr_action r),
                      rs_age_ms = durationMillis (time_Sub now (tr_started r))\<rparr>)
      (filter_mset (\<lambda>r. tr_action r \<noteq> ''ping'') (image_mset snd (mset m)))"
  by (simp add: requestSnapshots_def mset_filter)

lemma entries_ok_inj: "entries_ok n m \<Longrightarrow> inj_on tr_id (snd ` set m)"
  unfolding entries_ok_def entry_ok_def wf_map_def
  by (rule inj_onI) (metis (no_types, lifting) eq_key_imp_eq_value imageE prod.collapse)

lemma entries_safe_not_ping:
  assumes "entries_ok n m" and "r \<in> set (requestSnapshots m now)"
  shows "rs_action r \<in> set safe_actions - {''ping''}"
proof -
  from assms(2) obtain k q where q: "(k, q) \<in> set m" "tr_action q \<noteq> ''ping''"
    "rs_action r = safeRequestAction (tr_action q)"
    by (auto simp: requestSnapshots_def)
  from assms(1) q(1) have "tr_action q \<in> set safe_actions"
    by (auto simp: entries_ok_def entry_ok_def)
  then have "safeRequestAction (tr_action q) = tr_action q"
    using safe_actions_trimmed by (auto simp: list_all_iff intro: safeRequestAction_id)
  with q \<open>tr_action q \<in> set safe_actions\<close> show ?thesis by simp
qed

section \<open>Properties\<close>

text \<open>
  Whatever sequence of enqueue, begin, abandon and complete calls the daemon makes, every
  request is filed under its own identifier, never both queued and active, and every stored action
  is one of the closed vocabulary, so no request data can reach the tracker's state.
\<close>

theorem tracker_reachable_inv:
  "reaches (\<lambda>t. t = newRequestTracker) tracker_step t \<Longrightarrow> tracker_inv t"
  by (rule tracker.inv_reaches)

theorem tracker_reachable_inv_witness:
  "tracker_inv (begin_request 5 1 ''singbox.start'' (snd (enqueue 3 newRequestTracker)))"
proof (rule tracker_reachable_inv)
  let ?q = "snd (enqueue 3 newRequestTracker)"
  have "reaches (\<lambda>t. t = newRequestTracker) tracker_step newRequestTracker"
    by (rule reaches.reaches_init) simp
  moreover have "tracker_step newRequestTracker ?q"
    by (rule tracker_step.step_enqueue) (simp add: newRequestTracker_def)
  moreover have "tracker_step ?q (begin_request 5 1 ''singbox.start'' ?q)"
    by (rule tracker_step.step_begin) (simp add: newRequestTracker_def enqueue_def)
  ultimately show "reaches (\<lambda>t. t = newRequestTracker) tracker_step
      (begin_request 5 1 ''singbox.start'' ?q)"
    by (blast intro: reaches.reaches_step)
qed

text \<open>
  The snapshot does not depend on the order in which Go ranges over the request map: two maps
  with the same entries in any order render the same list, sorted by identifier.
\<close>

theorem requestSnapshots_order_independent:
  assumes "entries_ok n m" and "mset m' = mset m"
  shows "requestSnapshots m' now = requestSnapshots m now"
proof -
  let ?f = "\<lambda>m. filter (\<lambda>r. tr_action r \<noteq> ''ping'') (map snd m)"
  have "mset (?f m') = mset (sort_key tr_id (?f m))"
    using assms(2) by (simp add: mset_filter)
  moreover have "inj_on tr_id (set (?f m'))"
  proof (rule inj_on_subset [OF entries_ok_inj [OF assms(1)]])
    show "set (?f m') \<subseteq> snd ` set m"
      using mset_eq_setD [OF assms(2)] by auto
  qed
  ultimately have "sort_key tr_id (?f m') = sort_key tr_id (?f m)"
    by (intro sort_key_inj_key_eq) simp_all
  then show ?thesis by (simp add: requestSnapshots_def)
qed

theorem requestSnapshots_order_independent_witness:
  "requestSnapshots
     [(2, \<lparr>tr_id = 2, tr_action = ''signal'', tr_started = 0\<rparr>),
      (1, \<lparr>tr_id = 1, tr_action = ''dns.scutil'', tr_started = 0\<rparr>)] 9 =
   requestSnapshots
     [(1, \<lparr>tr_id = 1, tr_action = ''dns.scutil'', tr_started = 0\<rparr>),
      (2, \<lparr>tr_id = 2, tr_action = ''signal'', tr_started = 0\<rparr>)] 9"
  by (rule requestSnapshots_order_independent [of 7])
    (simp_all add: entries_ok_def entry_ok_def wf_map_def safe_actions_def known_actions_def)

text \<open>
  The snapshot is redacted: every action it shows is one of the closed vocabulary, pings are
  never shown, ages are never negative, and the numbers of active and queued entries are the
  numbers of requests that are not pings.
\<close>

theorem snapshot_redacted:
  assumes "tracker_inv t"
  shows "(\<forall>r \<in> set (ActiveRequests (snapshot now t)) \<union> set (QueuedRequests (snapshot now t)).
            rs_action r \<in> set safe_actions - {''ping''} \<and> 0 \<le> rs_age_ms r) \<and>
         length (ActiveRequests (snapshot now t)) =
           length (filter (\<lambda>e. tr_action (snd e) \<noteq> ''ping'') (active t)) \<and>
         length (QueuedRequests (snapshot now t)) = length (queued t) -
           length (filter (\<lambda>e. tr_action (snd e) = ''ping'') (queued t))"
proof -
  have len: "length (requestSnapshots m now) =
      length (filter (\<lambda>e. tr_action (snd e) \<noteq> ''ping'') m)" for m
    by (simp add: requestSnapshots_def filter_map comp_def)
  moreover have "length m - length (filter (\<lambda>e. tr_action (snd e) = ''ping'') m) =
      length (filter (\<lambda>e. tr_action (snd e) \<noteq> ''ping'') m)" for m :: "(request_id, trackedRequest) gomap"
    using sum_length_filter_compl [of "\<lambda>e. tr_action (snd e) = ''ping''" m] by simp
  moreover have "0 \<le> rs_age_ms r" if "r \<in> set (requestSnapshots m now)" for r m
    using that by (auto simp: requestSnapshots_def)
  ultimately show ?thesis
    using assms by (auto simp: snapshot_def tracker_inv_def dest: entries_safe_not_ping)
qed

theorem snapshot_redacted_witness:
  "list_all (\<lambda>r. rs_action r \<in> set safe_actions - {''ping''} \<and> 0 \<le> rs_age_ms r)
     (QueuedRequests (snapshot 9 (snd (enqueue 3 newRequestTracker))))"
proof -
  have "tracker_inv (snd (enqueue 3 newRequestTracker))"
    by (rule tracker_inv_enqueue [OF tracker_inv_new]) (simp add: newRequestTracker_def)
  from snapshot_redacted [OF this, of 9] show ?thesis
    unfolding list_all_iff by blast
qed

end
