(* ===== verification/Vpn_Request.thy ===== *)
theory Vpn_Request
  imports Maintenance_Lease Request_Tracker
begin

text \<open>
  How the daemon reads one request, \<open>service.go\<close> and \<open>rpc.go\<close>: the request and response types, the
  descriptors found in received control messages, the read loop with its limits, and the check that
  a request carries only the fields of its action. Every descriptor the kernel installed in the
  process is accounted for: \<open>readRequest\<close> also returns the ones it received and the ones it closed.
\<close>

section \<open>Requests\<close>

record Request =
  rq_Token :: string
  rq_Action :: string
  rq_ConfigJSON :: string
  rq_Stdin :: string
  rq_LogMaxLines :: int
  rq_Handle :: string
  rq_Signal :: string
  rq_SetPGID :: bool
  rq_Service :: string
  rq_Servers :: "string list"
  rq_Interface :: string
  rq_Filter :: "string list"
  rq_ApplePCAPNG :: bool
  rq_RunAsUser :: bool

definition emptyRequest :: Request where
  "emptyRequest =
    \<lparr>rq_Token = [], rq_Action = [], rq_ConfigJSON = [], rq_Stdin = [], rq_LogMaxLines = 0, rq_Handle = [],
     rq_Signal = [], rq_SetPGID = False, rq_Service = [], rq_Servers = [], rq_Interface = [], rq_Filter = [],
     rq_ApplePCAPNG = False, rq_RunAsUser = False\<rparr>"

datatype request_error =
    ReadTimeout
  | RecvFailed string
  | RecvEOF
  | ParseControl
  | TooManyDescriptors
  | TruncatedRequest
  | RequestTooLarge
  | TrailingData
  | DecodeRequest string
  | UnsupportedAction string
  | TokenShape
  | LogLinesRange
  | NetworkSetupSize
  | FieldsOutsideSchema string
  | LogDescriptorRequired
  | DescriptorNotAccepted
  | StatLog string
  | LogNotRegular
  | WrapLog

definition knownAction :: "string \<Rightarrow> bool" where
  "knownAction action = (action \<in> set known_actions)"

text \<open>
  \<open>validateRequestShape\<close>: the switch of the code, with the fields each case names in its \<open>unexpected\<close>.
\<close>

definition validateRequestShape :: "Request \<Rightarrow> request_error + unit" where
  "validateRequestShape r =
    (let action = rq_Action r;
         finish = (\<lambda>unexpected token. if unexpected \<or> token \<noteq> [] then Inl (FieldsOutsideSchema action) else Inr ());
         bare = (rq_ConfigJSON r \<noteq> [] \<or> rq_Stdin r \<noteq> [] \<or> rq_LogMaxLines r \<noteq> 0 \<or> rq_Handle r \<noteq> [] \<or> rq_Signal r \<noteq> [] \<or>
           rq_SetPGID r \<or> rq_Service r \<noteq> [] \<or> rq_Servers r \<noteq> [] \<or> rq_Interface r \<noteq> [] \<or> rq_Filter r \<noteq> [] \<or>
           rq_ApplePCAPNG r \<or> rq_RunAsUser r) in
     if action = ''maintenance.undrain'' \<or> action = ''maintenance.renew'' then
       (if \<not> validMaintenanceToken (rq_Token r) then Inl TokenShape else finish bare [])
     else if action = ''ping'' \<or> action = ''maintenance.drain'' then finish bare (rq_Token r)
     else if action = ''singbox.start'' then
       (if rq_LogMaxLines r < 0 \<or> rq_LogMaxLines r > 1000000 then Inl LogLinesRange
        else finish (rq_Stdin r \<noteq> [] \<or> rq_Handle r \<noteq> [] \<or> rq_Signal r \<noteq> [] \<or> rq_Service r \<noteq> [] \<or> rq_Servers r \<noteq> [] \<or>
          rq_Interface r \<noteq> [] \<or> rq_Filter r \<noteq> [] \<or> rq_ApplePCAPNG r \<or> rq_RunAsUser r) (rq_Token r))
     else if action = ''dns.scutil'' then
       finish (rq_ConfigJSON r \<noteq> [] \<or> rq_LogMaxLines r \<noteq> 0 \<or> rq_Handle r \<noteq> [] \<or> rq_Signal r \<noteq> [] \<or> rq_SetPGID r \<or>
         rq_Service r \<noteq> [] \<or> rq_Servers r \<noteq> [] \<or> rq_Interface r \<noteq> [] \<or> rq_Filter r \<noteq> [] \<or> rq_ApplePCAPNG r \<or>
         rq_RunAsUser r) (rq_Token r)
     else if action = ''dns.networksetup'' then
       (if int (length (rq_Service r)) > 256 \<or> int (length (rq_Servers r)) > 64 then Inl NetworkSetupSize
        else finish (rq_ConfigJSON r \<noteq> [] \<or> rq_Stdin r \<noteq> [] \<or> rq_LogMaxLines r \<noteq> 0 \<or> rq_Handle r \<noteq> [] \<or>
          rq_Signal r \<noteq> [] \<or> rq_SetPGID r \<or> rq_Interface r \<noteq> [] \<or> rq_Filter r \<noteq> [] \<or> rq_ApplePCAPNG r \<or>
          rq_RunAsUser r) (rq_Token r))
     else if action = ''resolver.cleanup'' then finish bare (rq_Token r)
     else if action = ''tcpdump.start'' then
       finish (rq_ConfigJSON r \<noteq> [] \<or> rq_Stdin r \<noteq> [] \<or> rq_LogMaxLines r \<noteq> 0 \<or> rq_Handle r \<noteq> [] \<or> rq_Signal r \<noteq> [] \<or>
         rq_SetPGID r \<or> rq_Service r \<noteq> [] \<or> rq_Servers r \<noteq> []) (rq_Token r)
     else if action = ''signal'' then
       finish (rq_ConfigJSON r \<noteq> [] \<or> rq_Stdin r \<noteq> [] \<or> rq_LogMaxLines r \<noteq> 0 \<or> rq_SetPGID r \<or> rq_Service r \<noteq> [] \<or>
         rq_Servers r \<noteq> [] \<or> rq_Interface r \<noteq> [] \<or> rq_Filter r \<noteq> [] \<or> rq_ApplePCAPNG r \<or> rq_RunAsUser r) (rq_Token r)
     else finish False (rq_Token r))"

section \<open>Control messages\<close>

text \<open>
  The layout of a control message belongs to the platform: the size of its header, the length the
  header gives, whether it carries descriptors, and the space a payload takes.
\<close>

record cmsg_abi =
  abi_SizeofCmsghdr :: nat
  abi_CmsgLen0 :: nat
  abi_len :: "int list \<Rightarrow> int"
  abi_is_rights :: "int list \<Rightarrow> bool"
  abi_CmsgSpace :: "int \<Rightarrow> int"

text \<open>\<open>int32\<close> of a native-endian (little-endian) word.\<close>

definition int32_of :: "int list \<Rightarrow> int" where
  "int32_of bs =
    (let u = (bs ! 0 + 256 * bs ! 1 + 65536 * bs ! 2 + 16777216 * bs ! 3) mod 2 ^ 32
     in if u < 2 ^ 31 then u else u - 2 ^ 32)"

function slots :: "nat \<Rightarrow> nat \<Rightarrow> int list \<Rightarrow> int list" where
  "slots offset end' oob =
    (if offset + 4 \<le> end'
     then (let fd = int32_of (take 4 (drop offset oob)) in (if fd \<ge> 0 then [fd] else [])) @ slots (offset + 4) end' oob
     else [])"
  by pat_completeness auto
termination
  by (relation "measure (\<lambda>(offset, end', _). end' - offset)") auto

declare slots.simps [simp del]

function rightsFromControl :: "cmsg_abi \<Rightarrow> int list \<Rightarrow> int list" where
  "rightsFromControl abi oob =
    (if length oob < abi_SizeofCmsghdr abi \<or> abi_len abi oob < int (abi_CmsgLen0 abi) then []
     else
       (let messageLen = abi_len abi oob; end' = min (nat messageLen) (length oob);
            next' = abi_CmsgSpace abi (messageLen - int (abi_CmsgLen0 abi));
            fds = (if abi_is_rights abi oob then slots (abi_CmsgLen0 abi) end' oob else []) in
        if next' \<le> 0 \<or> next' > int (length oob) then fds
        else fds @ rightsFromControl abi (drop (nat next') oob)))"
  by pat_completeness auto
termination
  by (relation "measure (\<lambda>(_, oob). length oob)") auto

declare rightsFromControl.simps [simp del]

section \<open>Reading\<close>

record received =
  rv_error :: "string option"
  rv_data :: string
  rv_oob :: "int list"
  rv_parse_ok :: bool
  rv_truncated :: bool

definition max_request_bytes :: int where
  "max_request_bytes = 1048576"

text \<open>
  The receive loop: payload and descriptors so far; the end of the list of messages is a read that
  waits until the deadline.
\<close>

fun read_loop :: "cmsg_abi \<Rightarrow> received list \<Rightarrow> string \<Rightarrow> int list \<Rightarrow> (request_error + string) \<times> int list" where
  "read_loop abi [] payload fds =
    (if newline \<in> set payload then (Inr payload, fds) else (Inl ReadTimeout, fds))"
| "read_loop abi (m # ms) payload fds =
    (if newline \<in> set payload then (Inr payload, fds)
     else case rv_error m of
       Some e \<Rightarrow> (Inl (RecvFailed e), fds)
     | None \<Rightarrow>
        if rv_data m = [] \<and> rv_oob m = [] then (Inl RecvEOF, fds)
        else let fds' = fds @ rightsFromControl abi (rv_oob m) in
          if rv_oob m \<noteq> [] \<and> \<not> rv_parse_ok m then (Inl ParseControl, fds')
          else if length fds' > 1 then (Inl TooManyDescriptors, fds')
          else if rv_truncated m then (Inl TruncatedRequest, fds')
          else let payload' = payload @ rv_data m in
            if int (length payload') > max_request_bytes then (Inl RequestTooLarge, fds')
            else read_loop abi ms payload' fds')"

text \<open>\<open>decode\<close> is the JSON decoder without unknown fields and with nothing after the value.\<close>

record read_env =
  re_abi :: cmsg_abi
  re_decode :: "string \<Rightarrow> string + Request"
  re_fstat :: "int \<Rightarrow> string + bool"
  re_newFile :: "int \<Rightarrow> bool"

definition check_payload :: "read_env \<Rightarrow> string \<Rightarrow> request_error + Request" where
  "check_payload env payload =
    (let line = takeWhile (\<lambda>c. c \<noteq> newline) payload in
     if TrimSpace (drop (length line + 1) payload) \<noteq> [] then Inl TrailingData
     else case re_decode env line of
       Inl e \<Rightarrow> Inl (DecodeRequest e)
     | Inr request \<Rightarrow>
        if \<not> knownAction (rq_Action request) then Inl (UnsupportedAction (rq_Action request))
        else result_bind (validateRequestShape request) (\<lambda>_. Inr request))"

definition check_log :: "read_env \<Rightarrow> Request \<Rightarrow> int list \<Rightarrow> request_error + int option" where
  "check_log env request fds =
    (let wantsLog = (rq_Action request = ''singbox.start'') in
     if wantsLog \<and> length fds \<noteq> 1 then Inl LogDescriptorRequired
     else if \<not> wantsLog \<and> fds \<noteq> [] then Inl DescriptorNotAccepted
     else if \<not> wantsLog then Inr None
     else case re_fstat env (hd fds) of
       Inl e \<Rightarrow> Inl (StatLog e)
     | Inr regular \<Rightarrow>
        if \<not> regular then Inl LogNotRegular
        else if \<not> re_newFile env (hd fds) then Inl WrapLog
        else Inr (Some (hd fds)))"

text \<open>The request with its log descriptor or an error, the descriptors received, and those closed again.\<close>

definition readRequest ::
    "read_env \<Rightarrow> received list \<Rightarrow> (request_error + Request \<times> int option) \<times> int list \<times> int list" where
  "readRequest env ms =
    (case read_loop (re_abi env) ms [] [] of
       (Inl e, fds) \<Rightarrow> (Inl e, fds, fds)
     | (Inr payload, fds) \<Rightarrow>
        (case result_bind (check_payload env payload) (\<lambda>request.
                result_bind (check_log env request fds) (\<lambda>log. Inr (request, log))) of
           Inl e \<Rightarrow> (Inl e, fds, fds)
         | Inr (request, log) \<Rightarrow> (Inr (request, log), fds, [])))"

section \<open>Lemmas\<close>

lemma read_loop_ok:
  "read_loop abi ms payload fds = (Inr p, fds') \<Longrightarrow> newline \<in> set p \<and> (length fds \<le> 1 \<longrightarrow> length fds' \<le> 1) \<and>
    (int (length payload) \<le> max_request_bytes \<longrightarrow> int (length p) \<le> max_request_bytes)"
  by (induction abi ms payload fds rule: read_loop.induct)
    (auto simp: Let_def split: if_splits option.splits)

lemma check_log_ok:
  "check_log env request fds = Inr log \<Longrightarrow>
    (if rq_Action request = ''singbox.start'' then \<exists>fd. fds = [fd] \<and> log = Some fd \<and> re_fstat env fd = Inr True
     else fds = [] \<and> log = None)"
  by (cases fds) (auto simp: check_log_def Let_def split: if_splits sum.splits)

section \<open>Properties\<close>


text \<open>
  An accepted request is one of the ten known actions and carries no field outside the schema of
  its action: only \<open>maintenance.undrain\<close> and \<open>maintenance.renew\<close>
  have a token, and it is well formed; only \<open>singbox.start\<close> has a configuration, only \<open>dns.scutil\<close> an
  input, only \<open>signal\<close> a handle, only \<open>dns.networksetup\<close> a service, only \<open>tcpdump.start\<close> a filter.
\<close>

theorem readRequest_shape:
  assumes "readRequest env ms = (Inr (request, log), received, closed)"
  shows "rq_Action request \<in> set known_actions \<and>
    (rq_Token request \<noteq> [] \<longrightarrow> rq_Action request \<in> {''maintenance.undrain'', ''maintenance.renew''} \<and>
       validMaintenanceToken (rq_Token request)) \<and>
    (rq_ConfigJSON request \<noteq> [] \<longrightarrow> rq_Action request = ''singbox.start'') \<and>
    (rq_Stdin request \<noteq> [] \<longrightarrow> rq_Action request = ''dns.scutil'') \<and>
    (rq_Handle request \<noteq> [] \<longrightarrow> rq_Action request = ''signal'') \<and>
    (rq_Service request \<noteq> [] \<longrightarrow> rq_Action request = ''dns.networksetup'') \<and>
    (rq_Filter request \<noteq> [] \<longrightarrow> rq_Action request = ''tcpdump.start'') \<and>
    0 \<le> rq_LogMaxLines request \<and> rq_LogMaxLines request \<le> 1000000"
proof -
  from assms have known: "rq_Action request \<in> set known_actions"
    and shape: "validateRequestShape request = Inr ()"
    unfolding readRequest_def check_payload_def knownAction_def Let_def
    by (auto split: prod.splits sum.splits if_splits)
  show ?thesis
    using known shape
    by (auto simp: validateRequestShape_def Let_def known_actions_def split: if_splits)
qed

section \<open>Witnesses\<close>

definition sample_abi :: cmsg_abi where
  "sample_abi =
    \<lparr>abi_SizeofCmsghdr = 12, abi_CmsgLen0 = 12, abi_len = (\<lambda>b. int32_of (take 4 b)),
     abi_is_rights = (\<lambda>b. int32_of (take 4 (drop 4 b)) = 65535 \<and> int32_of (take 4 (drop 8 b)) = 1),
     abi_CmsgSpace = (\<lambda>n. 12 + (n + 3) div 4 * 4)\<rparr>"

definition sample_read_env :: read_env where
  "sample_read_env =
    \<lparr>re_abi = sample_abi, re_decode = (\<lambda>l. if l = ''{}'' then Inr (emptyRequest\<lparr>rq_Action := ''singbox.start'',
       rq_ConfigJSON := ''{}'', rq_LogMaxLines := 10\<rparr>) else Inl ''invalid''),
     re_fstat = (\<lambda>_. Inr True), re_newFile = (\<lambda>_. True)\<rparr>"

definition sample_message :: received where
  "sample_message =
    \<lparr>rv_error = None, rv_data = ''{}'' @ [newline],
     rv_oob = [16, 0, 0, 0, 255, 255, 0, 0, 1, 0, 0, 0, 7, 0, 0, 0], rv_parse_ok = True, rv_truncated = False\<rparr>"

lemma sample_read:
  "readRequest sample_read_env [sample_message] =
    (Inr (emptyRequest\<lparr>rq_Action := ''singbox.start'', rq_ConfigJSON := ''{}'', rq_LogMaxLines := 10\<rparr>, Some 7), [7], [])"
  by code_simp


theorem readRequest_shape_witness:
  "rq_Action (fst (emptyRequest\<lparr>rq_Action := ''singbox.start'', rq_ConfigJSON := ''{}'', rq_LogMaxLines := 10\<rparr>, Some 7))
     \<in> set known_actions"
  using readRequest_shape [OF sample_read] by simp

end
