(* ===== verification/Go_Json.thy ===== *)
theory Go_Json
  imports Go_Prelude
begin

text \<open>
  JSON trees as \<open>encoding/json\<close> builds them from a decoder with \<open>UseNumber\<close>, and as the program builds
  them from \<open>map[string]any\<close> literals. An object is a Go map: an association list whose order is the
  order of one iteration. A number is its text.
\<close>

datatype json =
    JNull
  | JBool bool
  | JNumber string
  | JString string
  | JArray "json list"
  | JObject "(string \<times> json) list"

text \<open>A Go slice of strings: a nil slice is encoded as \<open>null\<close>.\<close>

definition jstrings :: "string slice \<Rightarrow> json" where
  "jstrings s = (case s of None \<Rightarrow> JNull | Some xs \<Rightarrow> JArray (map JString xs))"

definition jint :: "int \<Rightarrow> json" where
  "jint i = JNumber (itoa i)"

lemma json_elem_size: "x \<in> set xs \<Longrightarrow> size x < size (JArray xs)"
  by (simp add: size_list_estimation' less_Suc_eq_le)

lemma json_field_size: "map_of fs k = Some x \<Longrightarrow> size x < size (JObject fs)"
proof -
  assume "map_of fs k = Some x"
  then have "(k, x) \<in> set fs" by (rule map_of_SomeD)
  then have "size x < size_list (size_prod (\<lambda>_. 0) size) fs"
    by (induction fs) auto
  then show ?thesis by simp
qed

end
