(* ===== verification/Go_Netip.thy ===== *)
theory Go_Netip
  imports Go_Prelude
begin

text \<open>
  Package \<open>net/netip\<close> as far as the program uses it: \<open>ParseAddr\<close>, the predicates on addresses, and the
  text of an address and of a single-host prefix. An address is a list of bytes; an IPv6 address has
  a zone. \<open>None\<close> is a parse error (the program never looks at its text).
\<close>

section \<open>Addresses\<close>

datatype netip_addr = IPv4 "int list" | IPv6 "int list" string

fun Is4 :: "netip_addr \<Rightarrow> bool" where
  "Is4 (IPv4 _) = True"
| "Is4 (IPv6 _ _) = False"

fun Is4In6 :: "netip_addr \<Rightarrow> bool" where
  "Is4In6 (IPv4 _) = False"
| "Is4In6 (IPv6 bs _) = (take 12 bs = replicate 10 0 @ [255, 255])"

fun Unmap :: "netip_addr \<Rightarrow> netip_addr" where
  "Unmap (IPv4 bs) = IPv4 bs"
| "Unmap (IPv6 bs zone) = (if Is4In6 (IPv6 bs zone) then IPv4 (drop 12 bs) else IPv6 bs zone)"

definition IsLoopback :: "netip_addr \<Rightarrow> bool" where
  "IsLoopback a =
    (case Unmap a of
       IPv4 bs \<Rightarrow> hd bs = 127
     | IPv6 bs _ \<Rightarrow> bs = replicate 15 0 @ [1])"

section \<open>Parsing\<close>

text \<open>
  \<open>parseIPv4Fields\<close>: the value and the number of digits of the current field, the fields so far in
  reverse, and whether the previous character ended a field.
\<close>

fun ipv4_loop :: "int \<Rightarrow> int \<Rightarrow> int list \<Rightarrow> bool \<Rightarrow> string \<Rightarrow> int list option" where
  "ipv4_loop val digLen fields afterDot [] =
    (if length fields < 3 then None else Some (rev (val # fields)))"
| "ipv4_loop val digLen fields afterDot (c # s) =
    (if is_digit c then
       (if digLen = 1 \<and> val = 0 then None
        else let val' = val * 10 + (byte_of c - 48) in
          if val' > 255 then None else ipv4_loop val' (digLen + 1) fields False s)
     else if c = CHR ''.'' then
       (if afterDot \<or> s = [] then None
        else if length fields = 3 then None
        else ipv4_loop 0 0 (val # fields) True s)
     else None)"

definition parseIPv4Fields :: "string \<Rightarrow> int list option" where
  "parseIPv4Fields s = ipv4_loop 0 0 [] True s"

text \<open>The hexadecimal digits in front of \<open>s\<close>: more than four are an error.\<close>

fun hex_group :: "int \<Rightarrow> int \<Rightarrow> string \<Rightarrow> (int \<times> int \<times> string) option" where
  "hex_group off acc [] = Some (off, acc, [])"
| "hex_group off acc (c # s) =
    (case hex_digit c of
       None \<Rightarrow> Some (off, acc, c # s)
     | Some d \<Rightarrow> if off > 3 then None else hex_group (off + 1) (acc * 16 + d) s)"

text \<open>
  The loop of \<open>parseIPv6\<close>: \<open>ip\<close> holds the bytes written so far, \<open>ellipsis\<close> the position of \<open>::\<close>. The
  result is the bytes, the ellipsis and what is left of the string.
\<close>

function ipv6_loop :: "int list \<Rightarrow> nat option \<Rightarrow> string \<Rightarrow> (int list \<times> nat option \<times> string) option" where
  "ipv6_loop ip ellipsis s =
    (if 16 \<le> length ip then Some (ip, ellipsis, s)
     else case hex_group 0 0 s of
       None \<Rightarrow> None
     | Some (off, acc, rest) \<Rightarrow>
        if off = 0 then None
        else if rest \<noteq> [] \<and> hd rest = CHR ''.'' then
          (if ellipsis = None \<and> length ip \<noteq> 12 then None
           else if length ip + 4 > 16 then None
           else case parseIPv4Fields s of
             None \<Rightarrow> None
           | Some v4 \<Rightarrow> Some (ip @ v4, ellipsis, []))
        else let ip' = ip @ [acc div 256, acc mod 256] in
          (case rest of
             [] \<Rightarrow> Some (ip', ellipsis, [])
           | c # more \<Rightarrow>
              if c \<noteq> CHR '':'' then None
              else if more = [] then None
              else if hd more = CHR '':'' then
                (if ellipsis \<noteq> None then None
                 else if tl more = [] then Some (ip', Some (length ip'), [])
                 else ipv6_loop ip' (Some (length ip')) (tl more))
              else ipv6_loop ip' ellipsis more))"
  by pat_completeness auto
termination
  by (relation "measure (\<lambda>(ip, _, _). 16 - length ip)") auto

declare ipv6_loop.simps [simp del]

definition ipv6_finish :: "int list \<times> nat option \<times> string \<Rightarrow> int list option" where
  "ipv6_finish r =
    (case r of (ip, ellipsis, s) \<Rightarrow>
       if s \<noteq> [] then None
       else (case ellipsis of
         None \<Rightarrow> if length ip < 16 then None else Some ip
       | Some e \<Rightarrow>
           if length ip < 16 then Some (take e ip @ replicate (16 - length ip) 0 @ drop e ip) else None))"

definition parseIPv6 :: "string \<Rightarrow> netip_addr option" where
  "parseIPv6 text =
    (let s = takeWhile (\<lambda>c. c \<noteq> CHR ''%'') text; zone = drop (length s + 1) text in
     if length s < length text \<and> zone = [] then None
     else if take 2 s = ''::'' then
       (if length s = 2 then Some (IPv6 (replicate 16 0) zone)
        else map_option (\<lambda>ip. IPv6 ip zone)
          (Option.bind (ipv6_loop [] (Some 0) (drop 2 s)) ipv6_finish))
     else map_option (\<lambda>ip. IPv6 ip zone) (Option.bind (ipv6_loop [] None s) ipv6_finish))"

fun parse_kind :: "string \<Rightarrow> char option" where
  "parse_kind [] = None"
| "parse_kind (c # s) = (if c = CHR ''.'' \<or> c = CHR '':'' \<or> c = CHR ''%'' then Some c else parse_kind s)"

definition ParseAddr :: "string \<Rightarrow> netip_addr option" where
  "ParseAddr s =
    (case parse_kind s of
       None \<Rightarrow> None
     | Some c \<Rightarrow>
        if c = CHR ''.'' then map_option IPv4 (parseIPv4Fields s)
        else if c = CHR '':'' then parseIPv6 s
        else None)"

section \<open>Text\<close>

fun hex_digits :: "int \<Rightarrow> string" where
  "hex_digits v =
    (if v < 16 then [hex_char v]
     else if v < 256 then [hex_char (v div 16), hex_char (v mod 16)]
     else if v < 4096 then [hex_char (v div 256), hex_char (v div 16 mod 16), hex_char (v mod 16)]
     else [hex_char (v div 4096), hex_char (v div 256 mod 16), hex_char (v div 16 mod 16), hex_char (v mod 16)])"

fun groups_of :: "int list \<Rightarrow> int list" where
  "groups_of (a # b # bs) = (a * 256 + b) # groups_of bs"
| "groups_of _ = []"

definition zero_run :: "int list \<Rightarrow> nat" where
  "zero_run gs = length (takeWhile (\<lambda>g. g = 0) gs)"

text \<open>
  The longest run of at least two zero groups, the first of that length: its start and length
  (a start past the end when there is none).
\<close>

fun longest_zeros :: "nat \<Rightarrow> int list \<Rightarrow> nat \<times> nat \<Rightarrow> nat \<times> nat" where
  "longest_zeros i [] best = best"
| "longest_zeros i (g # gs) best =
    longest_zeros (i + 1) gs
      (let l = zero_run (g # gs) in if 2 \<le> l \<and> snd best < l then (i, l) else best)"

definition string6 :: "int list \<Rightarrow> string" where
  "string6 bs =
    (let gs = groups_of bs; (start, l) = longest_zeros 0 gs (length gs, 0) in
     if l = 0 then Join '':'' (map hex_digits gs)
     else Join '':'' (map hex_digits (take start gs)) @ ''::'' @ Join '':'' (map hex_digits (drop (start + l) gs)))"

definition string4 :: "int list \<Rightarrow> string" where
  "string4 bs = Join ''.'' (map itoa bs)"

text \<open>\<open>PrefixFrom(addr, bits).String()\<close> of a whole address: the zone is dropped.\<close>

definition host_prefix :: "netip_addr \<Rightarrow> string" where
  "host_prefix a =
    (case a of
       IPv4 bs \<Rightarrow> string4 bs @ ''/32''
     | IPv6 bs _ \<Rightarrow> (if Is4In6 a then ''::ffff:'' @ string4 (drop 12 bs) else string6 bs) @ ''/128'')"

section \<open>Bounds\<close>

text \<open>An address has four or sixteen bytes.\<close>

definition is_byte :: "int \<Rightarrow> bool" where
  "is_byte b \<longleftrightarrow> 0 \<le> b \<and> b < 256"

fun wf_addr :: "netip_addr \<Rightarrow> bool" where
  "wf_addr (IPv4 bs) = (length bs = 4 \<and> list_all is_byte bs)"
| "wf_addr (IPv6 bs zone) = (length bs = 16 \<and> list_all is_byte bs)"

lemma bytes_parts [simp]:
  "is_byte 0" "list_all is_byte (replicate n 0)" "list_all is_byte bs \<Longrightarrow> list_all is_byte (take n bs)"
  "list_all is_byte bs \<Longrightarrow> list_all is_byte (drop n bs)"
  by (auto simp: is_byte_def list_all_iff dest: in_set_takeD in_set_dropD)

lemma ipv4_loop_wf:
  "ipv4_loop val n fs dot s = Some bs \<Longrightarrow> is_byte val \<Longrightarrow> list_all is_byte fs \<Longrightarrow> length fs \<le> 3 \<Longrightarrow>
    length bs = 4 \<and> list_all is_byte bs"
proof (induction val n fs dot s rule: ipv4_loop.induct)
  case (2 val digLen fs dot c s)
  then show ?case
    by (auto simp: Let_def is_byte_def is_digit_def split: if_splits)
qed (auto simp: is_byte_def list_all_iff split: if_splits)

lemma hex_group_bound:
  "hex_group off acc s = Some (off', acc', rest) \<Longrightarrow> 0 \<le> acc \<Longrightarrow> acc < 16 ^ nat off \<Longrightarrow> 0 \<le> off \<Longrightarrow> off \<le> 4 \<Longrightarrow>
    0 \<le> acc' \<and> acc' < 65536"
proof (induction off acc s rule: hex_group.induct)
  case (1 off acc)
  have "(16::int) ^ nat off \<le> 16 ^ 4" using 1 by (intro power_increasing) auto
  then show ?case using 1 by simp
next
  case (2 off acc c s)
  show ?case
  proof (cases "hex_digit c")
    case None
    have "(16::int) ^ nat off \<le> 16 ^ 4" using 2 by (intro power_increasing) auto
    then show ?thesis using 2 None by simp
  next
    case (Some d)
    have d: "0 \<le> d" "d < 16"
      using Some by (auto simp: hex_digit_def Let_def split: if_splits)
    have step: "acc * 16 + d < 16 ^ nat (off + 1)"
      using 2 d by (simp add: nat_add_distrib)
    show ?thesis
      using 2 Some d step by (auto split: if_splits)
  qed
qed

lemma ipv6_loop_wf:
  "ipv6_loop ip e s = Some (bs, e', rest) \<Longrightarrow> list_all is_byte ip \<Longrightarrow> even (length ip) \<Longrightarrow> length ip \<le> 16 \<Longrightarrow>
    (\<forall>k. e = Some k \<longrightarrow> k \<le> length ip) \<Longrightarrow>
    list_all is_byte bs \<and> length bs \<le> 16 \<and> (\<forall>k. e' = Some k \<longrightarrow> k \<le> length bs)"
proof (induction "16 - length ip" arbitrary: ip e s bs e' rest rule: less_induct)
  case less
  note IH = less(1) and prems = less(2-)
  show ?case
  proof (cases "16 \<le> length ip")
    case True
    then show ?thesis
      using prems by (simp add: ipv6_loop.simps [of ip e s])
  next
    case False
    have room: "length ip + 2 \<le> 16"
      using False prems(3) by presburger
    obtain off acc r where g: "hex_group 0 0 s = Some (off, acc, r)"
      using prems(1) False by (cases "hex_group 0 0 s") (auto simp: ipv6_loop.simps [of ip e s])
    then have acc: "0 \<le> acc" "acc < 65536"
      using hex_group_bound by fastforce+
    let ?ip = "ip @ [acc div 256, acc mod 256]"
    have ip: "list_all is_byte ?ip" "even (length ?ip)" "length ?ip \<le> 16"
      using prems(2,3) acc room by (auto simp: is_byte_def [of "acc div 256"] is_byte_def [of "acc mod 256"])
    have off: "off \<noteq> 0"
      using prems(1) False g by (auto simp: ipv6_loop.simps [of ip e s])
    show ?thesis
    proof (cases "r \<noteq> [] \<and> hd r = CHR ''.''")
      case True
      then show ?thesis
        using prems False g off ipv4_loop_wf [of 0 0 "[]" True s]
        by (auto simp: ipv6_loop.simps [of ip e s] parseIPv4Fields_def is_byte_def split: option.splits if_splits)
    next
      case dot: False
      show ?thesis
      proof (cases r)
        case Nil
        then show ?thesis
          using prems False g off ip by (auto simp: ipv6_loop.simps [of ip e s] Let_def)
      next
        case (Cons c more)
        have rec: "(ipv6_loop ?ip (Some (length ?ip)) (tl more) = Some (bs, e', rest) \<and> e = None) \<or>
            ipv6_loop ?ip e more = Some (bs, e', rest) \<or> (bs = ?ip \<and> e' = Some (length ?ip))"
          using prems(1) False g off dot Cons by (auto simp: ipv6_loop.simps [of ip e s] Let_def split: if_splits)
        show ?thesis
          using rec
        proof (elim disjE conjE)
          assume "ipv6_loop ?ip (Some (length ?ip)) (tl more) = Some (bs, e', rest)"
          from IH [OF _ this ip] show ?thesis using False by simp
        next
          assume more: "ipv6_loop ?ip e more = Some (bs, e', rest)"
          have "16 - length ?ip < 16 - length ip" "\<forall>k. e = Some k \<longrightarrow> k \<le> length ?ip"
            using prems(5) False by auto
          from IH [OF this(1) more ip this(2)] show ?thesis .
        next
          assume "bs = ?ip" "e' = Some (length ?ip)"
          then show ?thesis using ip by simp
        qed
      qed
    qed
  qed
qed


lemma ipv6_finish_wf:
  "ipv6_finish (bs, e, s) = Some ip \<Longrightarrow> list_all is_byte bs \<Longrightarrow> length bs \<le> 16 \<Longrightarrow> (\<forall>k. e = Some k \<longrightarrow> k \<le> length bs) \<Longrightarrow>
    length ip = 16 \<and> list_all is_byte ip"
  by (auto simp: ipv6_finish_def split: if_splits option.splits)

lemma ParseAddr_wf: "ParseAddr s = Some a \<Longrightarrow> wf_addr a"
proof -
  have six: "wf_addr a" if "map_option (\<lambda>ip. IPv6 ip zone) (Option.bind (ipv6_loop [] e t) ipv6_finish) = Some a"
      "e \<in> {None, Some 0}" for e t a zone
  proof -
    from that(1) obtain bs e' rest ip where l: "ipv6_loop [] e t = Some (bs, e', rest)" "ipv6_finish (bs, e', rest) = Some ip"
      "a = IPv6 ip zone" by (auto simp: bind_eq_Some_conv)
    have "list_all is_byte bs \<and> length bs \<le> 16 \<and> (\<forall>k. e' = Some k \<longrightarrow> k \<le> length bs)"
      by (rule ipv6_loop_wf [OF l(1)]) (use that(2) in auto)
    with ipv6_finish_wf [OF l(2)] l(3) show ?thesis by simp
  qed
  assume "ParseAddr s = Some a"
  then consider bs where "parseIPv4Fields s = Some bs" "a = IPv4 bs" | "parseIPv6 s = Some a"
    by (auto simp: ParseAddr_def split: option.splits if_splits)
  then show ?thesis
  proof cases
    case 1
    then show ?thesis
      using ipv4_loop_wf [of 0 0 "[]" True s bs] by (simp add: parseIPv4Fields_def is_byte_def)
  next
    case 2
    then show ?thesis
      unfolding parseIPv6_def Let_def by (auto intro: six split: if_splits)
  qed
qed

lemma Unmap_wf: "wf_addr a \<Longrightarrow> wf_addr (Unmap a)"
  by (cases a) (auto simp: list_all_iff dest: in_set_dropD)

section \<open>The text of a prefix\<close>

lemma groups_bound: "list_all is_byte bs \<Longrightarrow> list_all (\<lambda>g. 0 \<le> g \<and> g < 65536) (groups_of bs)"
  by (induction bs rule: groups_of.induct) (auto simp: is_byte_def)

lemma hex_digits_visible: "0 \<le> g \<Longrightarrow> g < 65536 \<Longrightarrow> list_all visible (hex_digits g)"
  by (auto simp: hex_char_visible intro!: hex_char_visible)

lemma host_prefix_visible:
  assumes "wf_addr a"
  shows "list_all visible (host_prefix a)"
proof -
  have punct: "list_all visible ''.''" "list_all visible '':''" "list_all visible ''::''" "list_all visible ''/32''"
    "list_all visible ''/128''" "list_all visible ''::ffff:''"
    by code_simp+
  have four: "list_all visible (string4 bs)" for bs
    unfolding string4_def using punct(1) by (intro Join_visible) (simp_all add: list_all_iff itoa_visible [unfolded list_all_iff])
  have six: "list_all visible (string6 bs)" if "list_all is_byte bs" for bs
  proof -
    have "list_all (list_all visible) (map hex_digits gs)" if "set gs \<subseteq> set (groups_of bs)" for gs
      using groups_bound [OF \<open>list_all is_byte bs\<close>] hex_digits_visible that by (fastforce simp: list_all_iff simp del: hex_digits.simps)
    then show ?thesis
      using punct by (auto simp: string6_def Let_def intro!: Join_visible dest: in_set_takeD in_set_dropD simp del: hex_digits.simps split: prod.split)
  qed
  show ?thesis
    using assms punct four six by (cases a) (auto simp: host_prefix_def)
qed

lemma host_prefix_trim: "ParseAddr s = Some a \<Longrightarrow> TrimSpace (host_prefix (Unmap a)) = host_prefix (Unmap a)"
  by (intro TrimSpace_visible host_prefix_visible Unmap_wf ParseAddr_wf)

end
