(* ===== verification/Sing_Box_Schema.thy ===== *)
theory Sing_Box_Schema
  imports Go_Json Go_Netip
begin

text \<open>
  The privileged sing-box input language, \<open>typed_actions.go\<close>: the schema table, the walk that checks a
  decoded configuration against it, and \<open>validateSingBoxConfig\<close>, which hands root the re-encoded tree.
  Go ranges over a map in an unspecified order; the walk takes the order of the object's list, and
  the acceptance theorem shows that the order decides at most which error is reported.
\<close>

section \<open>The schema table\<close>

datatype singBoxSchemaKind = singBoxObject | singBoxArray | singBoxString | singBoxBool | singBoxNumber

record singBoxSchemaNode =
  sk_kind :: singBoxSchemaKind
  sk_fields :: "(string \<times> string) list"
  sk_required :: "string list"
  sk_element :: string
  sk_discriminator :: string
  sk_variants :: "(string \<times> string) list"
  sk_validate :: "(json \<Rightarrow> string option) option"

definition schema_node :: "singBoxSchemaKind \<Rightarrow> singBoxSchemaNode" where
  "schema_node k = \<lparr>sk_kind = k, sk_fields = [], sk_required = [], sk_element = [],
     sk_discriminator = [], sk_variants = [], sk_validate = None\<rparr>"

definition object_of :: "(string \<times> string) list \<Rightarrow> singBoxSchemaNode" where
  "object_of fs = (schema_node singBoxObject)\<lparr>sk_fields := fs\<rparr>"

definition variants_of :: "string \<Rightarrow> (string \<times> string) list \<Rightarrow> singBoxSchemaNode" where
  "variants_of discriminator variants =
    (schema_node singBoxObject)\<lparr>sk_discriminator := discriminator, sk_variants := variants\<rparr>"

definition array_of :: "string \<Rightarrow> singBoxSchemaNode" where
  "array_of element = (schema_node singBoxArray)\<lparr>sk_element := element\<rparr>"

definition validate_loopback :: "json \<Rightarrow> string option" where
  "validate_loopback v =
    (case v of
       JString s \<Rightarrow>
         (case ParseAddr s of
            None \<Rightarrow> Some ''must be a loopback IP address''
          | Some a \<Rightarrow> if IsLoopback a then None else Some ''must be a loopback IP address'')
     | _ \<Rightarrow> Some ''must be a loopback IP address'')"

definition singBoxSchemas :: "(string \<times> singBoxSchemaNode) list" where
  "singBoxSchemas =
   [(''root'', object_of [(''log'', ''log''), (''dns'', ''dns''), (''inbounds'', ''inbounds''),
       (''outbounds'', ''outbounds''), (''route'', ''route'')]),
    (''log'', object_of [(''level'', ''string'')]),
    (''dns'', object_of [(''servers'', ''dns_servers''), (''rules'', ''dns_rules''), (''final'', ''string''),
       (''strategy'', ''string''), (''reverse_mapping'', ''bool'')]),
    (''dns_servers'', array_of ''dns_server''),
    (''dns_server'', variants_of ''type'' [(''local'', ''dns_server_local''), (''tls'', ''dns_server_tls''),
       (''udp'', ''dns_server_udp'')]),
    (''dns_server_local'', object_of [(''type'', ''string''), (''tag'', ''string''), (''detour'', ''string'')]),
    (''dns_server_tls'', object_of [(''type'', ''string''), (''tag'', ''string''), (''server'', ''string''),
       (''server_port'', ''number''), (''detour'', ''string''), (''tls'', ''dns_tls'')]),
    (''dns_server_udp'', object_of [(''type'', ''string''), (''tag'', ''string''), (''server'', ''string''),
       (''server_port'', ''number''), (''detour'', ''string'')]),
    (''dns_tls'', object_of [(''enabled'', ''bool''), (''server_name'', ''string'')]),
    (''dns_rules'', array_of ''dns_rule''),
    (''dns_rule'', object_of [(''domain_suffix'', ''strings''), (''rule_set'', ''strings''),
       (''action'', ''string''), (''server'', ''string'')]),
    (''inbounds'', array_of ''inbound''),
    (''inbound'', variants_of ''type'' [(''tun'', ''inbound_tun'')]),
    (''inbound_tun'', object_of [(''type'', ''string''), (''tag'', ''string''), (''interface_name'', ''string''),
       (''address'', ''strings''), (''auto_route'', ''bool''), (''strict_route'', ''bool''), (''mtu'', ''number''),
       (''route_exclude_address'', ''strings'')]),
    (''outbounds'', array_of ''outbound''),
    (''outbound'', variants_of ''type'' [(''vless'', ''outbound_vless''), (''direct'', ''outbound_direct''),
       (''block'', ''outbound_block''), (''socks'', ''outbound_socks'')]),
    (''outbound_vless'', object_of [(''type'', ''string''), (''tag'', ''string''), (''server'', ''string''),
       (''server_port'', ''number''), (''uuid'', ''string''), (''flow'', ''string''), (''tls'', ''outbound_tls''),
       (''transport'', ''transport''), (''domain_resolver'', ''string'')]),
    (''outbound_direct'', object_of [(''type'', ''string''), (''tag'', ''string''), (''domain_resolver'', ''string'')]),
    (''outbound_block'', object_of [(''type'', ''string''), (''tag'', ''string'')]),
    (''outbound_socks'', (object_of [(''type'', ''string''), (''tag'', ''string''), (''server'', ''loopback_string''),
       (''server_port'', ''number''), (''version'', ''string'')])\<lparr>sk_required := [''server'']\<rparr>),
    (''outbound_tls'', object_of [(''enabled'', ''bool''), (''server_name'', ''string''), (''utls'', ''utls''),
       (''reality'', ''reality''), (''fragment'', ''bool''), (''fragment_fallback_delay'', ''string''),
       (''record_fragment'', ''bool''), (''curve_preferences'', ''strings'')]),
    (''utls'', object_of [(''enabled'', ''bool''), (''fingerprint'', ''string'')]),
    (''reality'', object_of [(''enabled'', ''bool''), (''public_key'', ''string''), (''short_id'', ''string'')]),
    (''transport'', variants_of ''type'' [(''grpc'', ''transport_grpc'')]),
    (''transport_grpc'', object_of [(''type'', ''string''), (''service_name'', ''string'')]),
    (''route'', object_of [(''auto_detect_interface'', ''bool''),
       (''default_domain_resolver'', ''default_domain_resolver''), (''rule_set'', ''rule_sets''),
       (''rules'', ''route_rules''), (''final'', ''string'')]),
    (''default_domain_resolver'', object_of [(''server'', ''string''), (''strategy'', ''string'')]),
    (''rule_sets'', array_of ''rule_set''),
    (''rule_set'', variants_of ''type'' [(''inline'', ''rule_set_inline'')]),
    (''rule_set_inline'', object_of [(''type'', ''string''), (''tag'', ''string''), (''rules'', ''inline_rules'')]),
    (''inline_rules'', array_of ''inline_rule''),
    (''inline_rule'', object_of [(''domain_suffix'', ''strings''), (''ip_cidr'', ''strings'')]),
    (''route_rules'', array_of ''route_rule''),
    (''route_rule'', object_of [(''process_name'', ''strings''), (''protocol'', ''string''), (''ip_is_private'', ''bool''),
       (''rule_set'', ''strings''), (''sniffer'', ''strings''), (''timeout'', ''string''), (''action'', ''string''),
       (''outbound'', ''string'')]),
    (''strings'', array_of ''string''),
    (''string'', schema_node singBoxString),
    (''bool'', schema_node singBoxBool),
    (''number'', schema_node singBoxNumber),
    (''loopback_string'', (schema_node singBoxString)\<lparr>sk_validate := Some validate_loopback\<rparr>)]"

section \<open>The walk\<close>

datatype schema_error =
    SchemaMissing string
  | MustBe string string
  | KeysCollide string string string
  | Required string string
  | MustBeString string string
  | ValueNotAllowed string string string
  | KeyNotAllowed string string
  | NotValid string string

text \<open>\<open>folded\<close>: the keys of an object by their lower-case form, or the first collision.\<close>

fun fold_keys :: "string \<Rightarrow> (string \<times> string) list \<Rightarrow> string list \<Rightarrow> schema_error + (string \<times> string) list" where
  "fold_keys location folded [] = Inr folded"
| "fold_keys location folded (key # keys) =
    (case map_of folded (ToLower key) of
       Some previous \<Rightarrow> Inl (KeysCollide location previous key)
     | None \<Rightarrow> fold_keys location (folded @ [(ToLower key, key)]) keys)"

fun find_required :: "string \<Rightarrow> (string \<times> string) list \<Rightarrow> string list \<Rightarrow> schema_error + unit" where
  "find_required location folded [] = Inr ()"
| "find_required location folded (r # rs) =
    (if map_of folded r = None then Inl (Required location r) else find_required location folded rs)"

fun first_error :: "('a \<Rightarrow> 'e + unit) \<Rightarrow> 'a list \<Rightarrow> 'e + unit" where
  "first_error f [] = Inr ()"
| "first_error f (x # xs) = result_bind (f x) (\<lambda>_. first_error f xs)"

lemma first_error_cong [fundef_cong]:
  "xs = ys \<Longrightarrow> (\<And>x. x \<in> set ys \<Longrightarrow> f x = g x) \<Longrightarrow> first_error f xs = first_error g ys"
  by (induction ys arbitrary: xs) (auto intro!: arg_cong2 [of _ _ _ _ result_bind])

definition run_validate :: "singBoxSchemaNode \<Rightarrow> string \<Rightarrow> json \<Rightarrow> schema_error + unit" where
  "run_validate schema location value =
    (case sk_validate schema of
       None \<Rightarrow> Inr ()
     | Some f \<Rightarrow> (case f value of None \<Rightarrow> Inr () | Some e \<Rightarrow> Inl (NotValid location e)))"

text \<open>No variant of the table is itself told apart by a discriminator, so the walk ends.\<close>

definition plain_variants :: bool where
  "plain_variants =
    list_all (\<lambda>(_, s). list_all (\<lambda>(_, v). case map_of singBoxSchemas v of
       None \<Rightarrow> True | Some s' \<Rightarrow> sk_discriminator s' = []) (sk_variants s)) singBoxSchemas"

lemma plain_variants: plain_variants
  by code_simp

definition is_choice :: "string \<Rightarrow> nat" where
  "is_choice name =
    (case map_of singBoxSchemas name of None \<Rightarrow> 0 | Some s \<Rightarrow> if sk_discriminator s \<noteq> [] then 1 else 0)"

lemma variant_not_choice:
  "map_of singBoxSchemas name = Some s \<Longrightarrow> map_of (sk_variants s) v = Some variant \<Longrightarrow> is_choice variant = 0"
  using plain_variants unfolding plain_variants_def list_all_iff is_choice_def
  by (fastforce dest!: map_of_SomeD split: option.splits)

function walkSingBoxSchema :: "json \<Rightarrow> string \<Rightarrow> string \<Rightarrow> schema_error + unit" where
  "walkSingBoxSchema value schemaName location =
    (case map_of singBoxSchemas schemaName of
       None \<Rightarrow> Inl (SchemaMissing schemaName)
     | Some schema \<Rightarrow>
       (case sk_kind schema of
          singBoxObject \<Rightarrow>
            (case value of
               JObject fs \<Rightarrow>
                 (case fold_keys location [] (map fst fs) of
                    Inl e \<Rightarrow> Inl e
                  | Inr folded \<Rightarrow>
                     if sk_discriminator schema \<noteq> [] then
                       (case map_of folded (sk_discriminator schema) of
                          None \<Rightarrow> Inl (Required location (sk_discriminator schema))
                        | Some actualKey \<Rightarrow>
                           (case map_of fs actualKey of
                              Some (JString variantName) \<Rightarrow>
                                (case map_of (sk_variants schema) variantName of
                                   None \<Rightarrow> Inl (ValueNotAllowed location actualKey variantName)
                                 | Some variant \<Rightarrow> walkSingBoxSchema value variant location)
                            | _ \<Rightarrow> Inl (MustBeString location actualKey)))
                     else
                       result_bind (find_required location folded (sk_required schema)) (\<lambda>_.
                       result_bind (first_error (\<lambda>(canonical, actual).
                           case map_of (sk_fields schema) canonical of
                             None \<Rightarrow> Inl (KeyNotAllowed location actual)
                           | Some childSchema \<Rightarrow>
                              (case map_of fs actual of
                                 None \<Rightarrow> Inr ()
                               | Some child \<Rightarrow> walkSingBoxSchema child childSchema (location @ ''.'' @ actual))) folded)
                         (\<lambda>_. run_validate schema location value)))
             | _ \<Rightarrow> Inl (MustBe location ''an object''))
        | singBoxArray \<Rightarrow>
            (case value of
               JArray xs \<Rightarrow>
                 result_bind (first_error (\<lambda>(i, child).
                     walkSingBoxSchema child (sk_element schema) (location @ ''['' @ itoa (int i) @ '']''))
                   (enumerate 0 xs))
                 (\<lambda>_. run_validate schema location value)
             | _ \<Rightarrow> Inl (MustBe location ''an array''))
        | singBoxString \<Rightarrow>
            (case value of JString _ \<Rightarrow> run_validate schema location value | _ \<Rightarrow> Inl (MustBe location ''a string''))
        | singBoxBool \<Rightarrow>
            (case value of JBool _ \<Rightarrow> run_validate schema location value | _ \<Rightarrow> Inl (MustBe location ''a boolean''))
        | singBoxNumber \<Rightarrow>
            (case value of JNumber _ \<Rightarrow> run_validate schema location value | _ \<Rightarrow> Inl (MustBe location ''a number''))))"
  by pat_completeness auto
termination
proof (relation "inv_image (less_than <*lex*> less_than) (\<lambda>(value, name, _). (size value, is_choice name))", goal_cases)
  case 1
  show ?case by (intro wf_inv_image wf_lex_prod wf_less_than)
next
  case (2 v schemaName location schema fs folded actualKey variantVal variantName variant)
  then show ?case
    using variant_not_choice by (auto simp: is_choice_def)
next
  case (3 v schemaName location schema fs)
  then show ?case by (auto dest: json_field_size)
next
  case (4 v schemaName location schema xs)
  then show ?case by (auto simp: in_set_enumerate_eq intro!: json_elem_size [simplified])
qed

declare walkSingBoxSchema.simps [simp del]

text \<open>
  \<open>validateSingBoxConfig\<close>. \<open>json_decode\<close> stands for the decoder and the check that nothing follows the
  value (\<open>Inr None\<close> is the JSON value \<open>null\<close>), \<open>json_encode\<close> for \<open>json.Marshal\<close>.
\<close>

datatype config_error =
    ConfigRequired
  | ConfigDecode string
  | ConfigNotObject
  | ConfigSchema schema_error
  | ConfigEncode string

definition validateSingBoxConfig ::
    "(string \<Rightarrow> string + (string \<times> json) list option) \<Rightarrow> (json \<Rightarrow> string + string) \<Rightarrow> string \<Rightarrow>
     config_error + string" where
  "validateSingBoxConfig json_decode json_encode data =
    (if data = [] then Inl ConfigRequired
     else case json_decode data of
       Inl e \<Rightarrow> Inl (ConfigDecode e)
     | Inr None \<Rightarrow> Inl ConfigNotObject
     | Inr (Some root) \<Rightarrow>
        (case walkSingBoxSchema (JObject root) ''root'' ''$'' of
           Inl e \<Rightarrow> Inl (ConfigSchema e)
         | Inr _ \<Rightarrow>
            (case json_encode (JObject root) of
               Inl e \<Rightarrow> Inl (ConfigEncode e)
             | Inr canonical \<Rightarrow> Inr canonical)))"

section \<open>The language\<close>

text \<open>
  The trees the table describes, without an order of keys: an object has no two keys that differ only
  in case, an object with a discriminator conforms to the variant its discriminator names, and in any
  other object every key is, in lower case, a field of the schema and every required field is there.
\<close>

definition valid_leaf :: "singBoxSchemaNode \<Rightarrow> json \<Rightarrow> bool" where
  "valid_leaf s v = (case sk_validate s of None \<Rightarrow> True | Some f \<Rightarrow> f v = None)"

definition lower_keys :: "(string \<times> json) list \<Rightarrow> string list" where
  "lower_keys fs = map (ToLower \<circ> fst) fs"

inductive conforms :: "json \<Rightarrow> string \<Rightarrow> bool" where
  conforms_string: "map_of singBoxSchemas n = Some s \<Longrightarrow> sk_kind s = singBoxString \<Longrightarrow> valid_leaf s (JString x) \<Longrightarrow>
    conforms (JString x) n"
| conforms_bool: "map_of singBoxSchemas n = Some s \<Longrightarrow> sk_kind s = singBoxBool \<Longrightarrow> valid_leaf s (JBool b) \<Longrightarrow>
    conforms (JBool b) n"
| conforms_number: "map_of singBoxSchemas n = Some s \<Longrightarrow> sk_kind s = singBoxNumber \<Longrightarrow> valid_leaf s (JNumber x) \<Longrightarrow>
    conforms (JNumber x) n"
| conforms_array: "map_of singBoxSchemas n = Some s \<Longrightarrow> sk_kind s = singBoxArray \<Longrightarrow> valid_leaf s (JArray xs) \<Longrightarrow>
    (\<And>x. x \<in> set xs \<Longrightarrow> conforms x (sk_element s)) \<Longrightarrow> conforms (JArray xs) n"
| conforms_variant: "map_of singBoxSchemas n = Some s \<Longrightarrow> sk_kind s = singBoxObject \<Longrightarrow> sk_discriminator s \<noteq> [] \<Longrightarrow>
    distinct (lower_keys fs) \<Longrightarrow> (key, JString name) \<in> set fs \<Longrightarrow> ToLower key = sk_discriminator s \<Longrightarrow>
    map_of (sk_variants s) name = Some variant \<Longrightarrow> conforms (JObject fs) variant \<Longrightarrow> conforms (JObject fs) n"
| conforms_object: "map_of singBoxSchemas n = Some s \<Longrightarrow> sk_kind s = singBoxObject \<Longrightarrow> sk_discriminator s = [] \<Longrightarrow>
    distinct (lower_keys fs) \<Longrightarrow> set (sk_required s) \<subseteq> set (lower_keys fs) \<Longrightarrow> valid_leaf s (JObject fs) \<Longrightarrow>
    (\<And>k x. (k, x) \<in> set fs \<Longrightarrow> \<exists>child. map_of (sk_fields s) (ToLower k) = Some child \<and> conforms x child) \<Longrightarrow>
    conforms (JObject fs) n"

section \<open>Lemmas\<close>

definition folding :: "string list \<Rightarrow> (string \<times> string) list" where
  "folding ks = map (\<lambda>k. (ToLower k, k)) ks"

lemma fold_keys_ok:
  "fold_keys location folded ks = Inr r \<longleftrightarrow>
    distinct (map ToLower ks) \<and> set (map ToLower ks) \<inter> set (map fst folded) = {} \<and> r = folded @ folding ks"
proof (induction ks arbitrary: folded)
  case (Cons k ks)
  show ?case
  proof (cases "map_of folded (ToLower k)")
    case None
    then have "ToLower k \<notin> fst ` set folded" by (simp add: map_of_eq_None_iff)
    then show ?thesis
      using None by (auto simp: Cons folding_def)
  next
    case (Some p)
    then have "ToLower k \<in> fst ` set folded" by (metis map_of_eq_None_iff option.distinct(1))
    then show ?thesis
      using Some by auto
  qed
qed (auto simp: folding_def)

lemma find_required_ok:
  "find_required location folded rs = Inr () \<longleftrightarrow> set rs \<subseteq> set (map fst folded)"
  by (induction rs) (auto simp: map_of_eq_None_iff)

lemma first_error_ok: "first_error f xs = Inr () \<longleftrightarrow> (\<forall>x \<in> set xs. f x = Inr ())"
  by (induction xs) auto

lemma run_validate_ok: "run_validate s location v = Inr () \<longleftrightarrow> valid_leaf s v"
  by (auto simp: run_validate_def valid_leaf_def split: option.splits)

lemma folding_fst: "map fst (folding (map fst fs)) = lower_keys fs"
  by (simp add: folding_def lower_keys_def comp_def)

lemma lower_distinct_keys: "distinct (lower_keys fs) \<Longrightarrow> distinct (map fst fs)"
  unfolding lower_keys_def by (metis distinct_map list.map_comp)

lemma folding_lookup:
  assumes "distinct (lower_keys fs)"
  shows "map_of (folding (map fst fs)) c = Some k \<longleftrightarrow> k \<in> fst ` set fs \<and> ToLower k = c"
proof -
  have "distinct (map fst (folding (map fst fs)))"
    using assms by (simp only: folding_fst)
  then show ?thesis
    by (auto simp: folding_def map_of_eq_Some_iff image_iff)
qed

lemma object_keys: "ToLower ` (fst ` set fs) = set (lower_keys fs)"
  by (auto simp: lower_keys_def)

text \<open>One step of the walk, for each kind of schema.\<close>

lemma walk_leaf:
  assumes "map_of singBoxSchemas n = Some s"
  shows "sk_kind s = singBoxString \<Longrightarrow>
      walkSingBoxSchema v n location = Inr () \<longleftrightarrow> (\<exists>x. v = JString x) \<and> valid_leaf s v"
    and "sk_kind s = singBoxBool \<Longrightarrow>
      walkSingBoxSchema v n location = Inr () \<longleftrightarrow> (\<exists>b. v = JBool b) \<and> valid_leaf s v"
    and "sk_kind s = singBoxNumber \<Longrightarrow>
      walkSingBoxSchema v n location = Inr () \<longleftrightarrow> (\<exists>x. v = JNumber x) \<and> valid_leaf s v"
  using assms by (auto simp: walkSingBoxSchema.simps [of v n] run_validate_ok split: json.splits)

lemma enumerate_all: "(\<forall>x \<in> set (enumerate 0 xs). P x) \<longleftrightarrow> (\<forall>i < length xs. P (i, xs ! i))"
  by (auto simp: in_set_enumerate_eq)

lemma walk_array:
  assumes "map_of singBoxSchemas n = Some s" "sk_kind s = singBoxArray"
  shows "walkSingBoxSchema v n location = Inr () \<longleftrightarrow>
    (\<exists>xs. v = JArray xs \<and> valid_leaf s v \<and> (\<forall>i < length xs.
      walkSingBoxSchema (xs ! i) (sk_element s) (location @ ''['' @ itoa (int i) @ '']'') = Inr ()))"
  using assms
  by (auto simp: walkSingBoxSchema.simps [of v n] run_validate_ok first_error_ok enumerate_all
      split: json.splits)

lemma walk_variant:
  assumes "map_of singBoxSchemas n = Some s" "sk_kind s = singBoxObject" "sk_discriminator s \<noteq> []"
  shows "walkSingBoxSchema v n location = Inr () \<longleftrightarrow>
    (\<exists>fs key name variant. v = JObject fs \<and> distinct (lower_keys fs) \<and> (key, JString name) \<in> set fs \<and>
      ToLower key = sk_discriminator s \<and> map_of (sk_variants s) name = Some variant \<and>
      walkSingBoxSchema v variant location = Inr ())"
proof (cases v)
  case (JObject fs)
  show ?thesis
  proof (cases "distinct (lower_keys fs)")
    case True
    then have keys: "distinct (map fst fs)" by (rule lower_distinct_keys)
    have "fold_keys location [] (map fst fs) = Inr (folding (map fst fs))"
      using True by (simp add: fold_keys_ok lower_keys_def)
    then have step: "walkSingBoxSchema (JObject fs) n location =
       (case map_of (folding (map fst fs)) (sk_discriminator s) of
          None \<Rightarrow> Inl (Required location (sk_discriminator s))
        | Some actualKey \<Rightarrow>
           (case map_of fs actualKey of
              Some (JString variantName) \<Rightarrow>
                (case map_of (sk_variants s) variantName of
                   None \<Rightarrow> Inl (ValueNotAllowed location actualKey variantName)
                 | Some variant \<Rightarrow> walkSingBoxSchema (JObject fs) variant location)
            | _ \<Rightarrow> Inl (MustBeString location actualKey)))"
      using assms by (simp add: walkSingBoxSchema.simps [of "JObject fs" n])
    show ?thesis
    proof (cases "map_of (folding (map fst fs)) (sk_discriminator s)")
      case None
      then have "\<forall>k \<in> fst ` set fs. ToLower k \<noteq> sk_discriminator s"
        using folding_lookup [OF True, of "sk_discriminator s"] by (metis option.distinct(1))
      then show ?thesis
        using None JObject step by force
    next
      case (Some k)
      then have k: "k \<in> fst ` set fs" "ToLower k = sk_discriminator s"
        by (simp_all add: folding_lookup [OF True])
      then obtain x where x: "(k, x) \<in> set fs" "map_of fs k = Some x"
        using keys by (metis imageE map_of_eq_Some_iff prod.collapse)
      have unique: "key = k" if "(key, y) \<in> set fs" "ToLower key = sk_discriminator s" for key y
        using folding_lookup [OF True, of "sk_discriminator s" key] that Some by force
      have same: "y = x" if "(k, y) \<in> set fs" for y
        using keys that x by (metis map_of_eq_Some_iff option.inject)
      have "(\<exists>fs' key name variant. JObject fs = JObject fs' \<and> distinct (lower_keys fs') \<and> (key, JString name) \<in> set fs' \<and>
          ToLower key = sk_discriminator s \<and> map_of (sk_variants s) name = Some variant \<and>
          walkSingBoxSchema (JObject fs) variant location = Inr ()) \<longleftrightarrow>
        (\<exists>name variant. x = JString name \<and> map_of (sk_variants s) name = Some variant \<and>
          walkSingBoxSchema (JObject fs) variant location = Inr ())" (is "?L \<longleftrightarrow> ?R")
      proof
        assume ?L
        then show ?R using unique same by blast
      next
        assume ?R
        then show ?L using x(1) k(2) True by blast
      qed
      then show ?thesis
        unfolding JObject step Some option.case x(2) by (cases x) (simp_all split: option.split)
    qed
  next
    case False
    then obtain e where "fold_keys location [] (map fst fs) = Inl e"
      by (cases "fold_keys location [] (map fst fs)") (auto simp: fold_keys_ok lower_keys_def)
    then show ?thesis
      using assms False JObject by (auto simp: walkSingBoxSchema.simps [of "JObject fs" n])
  qed
qed (use assms in \<open>auto simp: walkSingBoxSchema.simps [of _ n]\<close>)

lemma walk_object:
  assumes "map_of singBoxSchemas n = Some s" "sk_kind s = singBoxObject" "sk_discriminator s = []"
  shows "walkSingBoxSchema v n location = Inr () \<longleftrightarrow>
    (\<exists>fs. v = JObject fs \<and> distinct (lower_keys fs) \<and> set (sk_required s) \<subseteq> set (lower_keys fs) \<and> valid_leaf s v \<and>
      (\<forall>(k, x) \<in> set fs. \<exists>child. map_of (sk_fields s) (ToLower k) = Some child \<and>
         walkSingBoxSchema x child (location @ ''.'' @ k) = Inr ()))"
proof (cases v)
  case (JObject fs)
  show ?thesis
  proof (cases "distinct (lower_keys fs)")
    case True
    then have keys: "distinct (map fst fs)" by (rule lower_distinct_keys)
    have fold: "fold_keys location [] (map fst fs) = Inr (folding (map fst fs))"
      using True by (simp add: fold_keys_ok lower_keys_def)
    have lookup: "\<And>k x. (k, x) \<in> set fs \<Longrightarrow> map_of fs k = Some x"
      using keys by simp
    have children: "(\<forall>p \<in> set (folding (map fst fs)). (case p of (canonical, actual) \<Rightarrow>
        case map_of (sk_fields s) canonical of
          None \<Rightarrow> Inl (KeyNotAllowed location actual)
        | Some childSchema \<Rightarrow>
           (case map_of fs actual of
              None \<Rightarrow> Inr ()
            | Some child \<Rightarrow> walkSingBoxSchema child childSchema (location @ ''.'' @ actual))) = Inr ()) \<longleftrightarrow>
        (\<forall>(k, x) \<in> set fs. \<exists>child. map_of (sk_fields s) (ToLower k) = Some child \<and>
           walkSingBoxSchema x child (location @ ''.'' @ k) = Inr ())"
      by (auto simp: folding_def lookup split: option.splits)
    show ?thesis
      using assms True JObject
      by (simp add: walkSingBoxSchema.simps [of "JObject fs" n] fold find_required_ok first_error_ok
          run_validate_ok folding_fst [unfolded set_map [symmetric]] children [simplified]) blast
  next
    case False
    then obtain e where "fold_keys location [] (map fst fs) = Inl e"
      by (cases "fold_keys location [] (map fst fs)") (auto simp: fold_keys_ok lower_keys_def)
    then show ?thesis
      using assms False JObject by (auto simp: walkSingBoxSchema.simps [of "JObject fs" n])
  qed
qed (use assms in \<open>auto simp: walkSingBoxSchema.simps [of _ n]\<close>)

lemma conforms_walk: "conforms v n \<Longrightarrow> walkSingBoxSchema v n location = Inr ()"
proof (induction v n arbitrary: location rule: conforms.induct)
  case (conforms_variant n s fs key name variant)
  then show ?case by (auto simp: walk_variant)
next
  case (conforms_object n s fs)
  then show ?case by (fastforce simp: walk_object)
qed (auto simp: walk_leaf walk_array)

lemma walk_conforms: "walkSingBoxSchema v n location = Inr () \<Longrightarrow> conforms v n"
proof (induction "(size v, is_choice n)" arbitrary: v n location
    rule: wf_induct_rule [OF wf_lex_prod [OF wf_less_than wf_less_than]])
  case 1
  note IH = 1(1) and walk = 1(2)
  from walk obtain s where s: "map_of singBoxSchemas n = Some s"
    by (cases "map_of singBoxSchemas n") (simp_all add: walkSingBoxSchema.simps [of v n])
  show ?case
  proof (cases "sk_kind s")
    case singBoxObject
    show ?thesis
    proof (cases "sk_discriminator s = []")
      case True
      from walk [unfolded walk_object [OF s singBoxObject True]] obtain fs where
        fs: "v = JObject fs" "distinct (lower_keys fs)" "set (sk_required s) \<subseteq> set (lower_keys fs)" "valid_leaf s v"
        and children: "\<forall>(k, x) \<in> set fs. \<exists>child. map_of (sk_fields s) (ToLower k) = Some child \<and>
          walkSingBoxSchema x child (location @ ''.'' @ k) = Inr ()"
        by blast
      have "\<exists>child. map_of (sk_fields s) (ToLower k) = Some child \<and> conforms x child" if kx: "(k, x) \<in> set fs" for k x
      proof -
        from children kx obtain child where child: "map_of (sk_fields s) (ToLower k) = Some child"
          "walkSingBoxSchema x child (location @ ''.'' @ k) = Inr ()" by blast
        have "map_of fs k = Some x"
          using kx lower_distinct_keys [OF fs(2)] by simp
        then have "size x < size v"
          using json_field_size fs(1) by blast
        then show ?thesis
          using IH [OF _ child(2)] child(1) by auto
      qed
      then show ?thesis
        using conforms_object [OF s singBoxObject True fs(2,3)] fs by blast
    next
      case False
      from walk [unfolded walk_variant [OF s singBoxObject False]] obtain fs key name variant where
        fs: "v = JObject fs" "distinct (lower_keys fs)" "(key, JString name) \<in> set fs" "ToLower key = sk_discriminator s"
          "map_of (sk_variants s) name = Some variant" "walkSingBoxSchema v variant location = Inr ()" by blast
      have "is_choice variant < is_choice n"
        using variant_not_choice [OF s fs(5)] s False by (simp add: is_choice_def)
      then have "conforms v variant"
        using IH [OF _ fs(6)] by simp
      then show ?thesis
        using conforms_variant [OF s singBoxObject False fs(2-5)] fs(1) by blast
    qed
  next
    case singBoxArray
    from walk [unfolded walk_array [OF s singBoxArray]] obtain xs where
      xs: "v = JArray xs" "valid_leaf s v"
      and elems: "\<forall>i < length xs. walkSingBoxSchema (xs ! i) (sk_element s) (location @ ''['' @ itoa (int i) @ '']'') = Inr ()"
      by blast
    have "conforms x (sk_element s)" if "x \<in> set xs" for x
    proof -
      from that obtain i where i: "i < length xs" "x = xs ! i" by (metis in_set_conv_nth)
      have "size x < size v"
        using json_elem_size that xs(1) by blast
      then show ?thesis
        using IH [OF _ elems [rule_format, OF i(1)]] i(2) by simp
    qed
    then show ?thesis
      using conforms_array [OF s singBoxArray] xs by blast
  qed (use walk s in \<open>auto simp: walk_leaf intro: conforms.intros\<close>)
qed

lemma conforms_iff: "walkSingBoxSchema v n location = Inr () \<longleftrightarrow> conforms v n"
  using conforms_walk walk_conforms by blast

lemma schema_lookup:
  "map_of singBoxSchemas ''root'' = Some (object_of [(''log'', ''log''), (''dns'', ''dns''), (''inbounds'', ''inbounds''),
       (''outbounds'', ''outbounds''), (''route'', ''route'')])"
  "map_of singBoxSchemas ''outbounds'' = Some (array_of ''outbound'')"
  "map_of singBoxSchemas ''outbound'' = Some (variants_of ''type'' [(''vless'', ''outbound_vless''),
       (''direct'', ''outbound_direct''), (''block'', ''outbound_block''), (''socks'', ''outbound_socks'')])"
  "map_of singBoxSchemas ''outbound_socks'' = Some ((object_of [(''type'', ''string''), (''tag'', ''string''),
       (''server'', ''loopback_string''), (''server_port'', ''number''), (''version'', ''string'')])\<lparr>sk_required := [''server'']\<rparr>)"
  "map_of singBoxSchemas ''loopback_string'' = Some ((schema_node singBoxString)\<lparr>sk_validate := Some validate_loopback\<rparr>)"
  unfolding singBoxSchemas_def by (simp_all only: literal_lookup)

lemma schema_parts [simp]:
  "sk_kind (object_of fs) = singBoxObject" "sk_discriminator (object_of fs) = []" "sk_fields (object_of fs) = fs"
  "sk_required (object_of fs) = []" "sk_kind (array_of e) = singBoxArray" "sk_element (array_of e) = e"
  "sk_kind (variants_of d vs) = singBoxObject" "sk_discriminator (variants_of d vs) = d" "sk_variants (variants_of d vs) = vs"
  "sk_kind (schema_node k) = k" "sk_validate (schema_node k) = None" "sk_validate (object_of fs) = None"
  "sk_validate (array_of e) = None" "sk_validate (variants_of d vs) = None"
  by (simp_all add: object_of_def array_of_def variants_of_def schema_node_def)

lemma loopback_field:
  assumes "conforms v ''loopback_string''"
  shows "\<exists>text a. v = JString text \<and> ParseAddr text = Some a \<and> IsLoopback a"
  using assms [folded conforms_iff [where location = "[]"]]
  by (auto simp: walk_leaf(1) [OF schema_lookup(5)] valid_leaf_def validate_loopback_def split: option.splits if_splits)

lemma socks_server:
  assumes "conforms (JObject fs) ''outbound_socks''"
  shows "\<exists>server text a. (server, JString text) \<in> set fs \<and> ToLower server = ''server'' \<and>
    ParseAddr text = Some a \<and> IsLoopback a"
proof -
  have walk: "walkSingBoxSchema (JObject fs) ''outbound_socks'' [] = Inr ()"
    using assms by (simp add: conforms_iff)
  let ?s = "(object_of [(''type'', ''string''), (''tag'', ''string''), (''server'', ''loopback_string''),
    (''server_port'', ''number''), (''version'', ''string'')])\<lparr>sk_required := [''server'']\<rparr>"
  have s: "sk_kind ?s = singBoxObject" "sk_discriminator ?s = []"
    by (simp_all add: object_of_def schema_node_def)
  have fields: "sk_fields ?s = [(''type'', ''string''), (''tag'', ''string''), (''server'', ''loopback_string''),
    (''server_port'', ''number''), (''version'', ''string'')]" "sk_required ?s = [''server'']"
    by (simp_all add: object_of_def)
  from walk [unfolded walk_object [OF schema_lookup(4) s]]
  have "''server'' \<in> set (lower_keys fs)"
    and each: "\<forall>(k, x) \<in> set fs. \<exists>child. map_of (sk_fields ?s) (ToLower k) = Some child \<and> conforms x child"
    by (auto simp: fields conforms_iff)
  then obtain server x where x: "(server, x) \<in> set fs" "ToLower server = ''server''"
    by (auto simp: lower_keys_def)
  then have "conforms x ''loopback_string''"
    using each by (auto simp: fields)
  with loopback_field x show ?thesis by blast
qed

text \<open>No object schema of the table has a check of its own.\<close>

definition objects_not_validated :: bool where
  "objects_not_validated = list_all (\<lambda>(_, s). sk_kind s = singBoxObject \<longrightarrow> sk_validate s = None) singBoxSchemas"

lemma object_not_validated:
  "map_of singBoxSchemas n = Some s \<Longrightarrow> sk_kind s = singBoxObject \<Longrightarrow> valid_leaf s v"
proof -
  have "objects_not_validated"
    by (simp add: objects_not_validated_def singBoxSchemas_def)
  then show "map_of singBoxSchemas n = Some s \<Longrightarrow> sk_kind s = singBoxObject \<Longrightarrow> valid_leaf s v"
    by (auto simp: objects_not_validated_def list_all_iff valid_leaf_def dest!: map_of_SomeD)
qed

section \<open>Properties\<close>

text \<open>
  (C18) \<open>validateSingBoxConfig\<close> accepts exactly the language of the table, and what it returns is the
  encoding of the tree it checked, never the client's bytes: root and the check see the same values.
\<close>

theorem validateSingBoxConfig_iff:
  "validateSingBoxConfig json_decode json_encode data = Inr canonical \<longleftrightarrow>
    data \<noteq> [] \<and> (\<exists>root. json_decode data = Inr (Some root) \<and> conforms (JObject root) ''root'' \<and>
      json_encode (JObject root) = Inr canonical)"
  by (auto simp: validateSingBoxConfig_def conforms_iff [symmetric, where location = "''$''"]
      split: sum.splits option.splits)

text \<open>
  Whether an object is accepted does not depend on the order in which Go ranges over its keys.
\<close>

theorem walk_order_independent:
  assumes "mset fs = mset fs'"
  shows "walkSingBoxSchema (JObject fs) n location = Inr () \<longleftrightarrow> walkSingBoxSchema (JObject fs') n location' = Inr ()"
proof -
  have one: "conforms (JObject fs') n'" if "conforms (JObject fs) n'" "mset fs = mset fs'" for fs fs' n'
    using that(1)
  proof (induction "JObject fs" n')
    case (conforms_variant n s key name variant)
    have "distinct (lower_keys fs')"
      using conforms_variant(4) that(2) unfolding lower_keys_def by (metis mset_map mset_eq_imp_distinct_iff)
    then show ?case
      using conforms_variant that(2) by (metis conforms.conforms_variant set_mset_mset)
  next
    case (conforms_object n s)
    have "distinct (lower_keys fs')" "set (lower_keys fs') = set (lower_keys fs)" "set fs' = set fs"
      using conforms_object(4) that(2) unfolding lower_keys_def
      by (metis mset_map mset_eq_imp_distinct_iff, metis mset_map mset_eq_setD, metis mset_eq_setD)
    moreover have "valid_leaf s (JObject fs')"
      using conforms_object(1,2,6) object_not_validated by blast
    moreover have "\<exists>child. map_of (sk_fields s) (ToLower k) = Some child \<and> conforms x child" if "(k, x) \<in> set fs" for k x
      using conforms_object(7) [OF that] by blast
    ultimately show ?case
      using conforms_object(1-3,5) by (intro conforms.conforms_object) auto
  qed
  show ?thesis
    unfolding conforms_iff using one [OF _ assms] one [OF _ assms [symmetric]] by blast
qed

text \<open>
  What root hands to sing-box can only dial through known outbounds: in an accepted configuration
  every outbound is a VLESS, direct, block or SOCKS outbound, however its keys are written, and a SOCKS
  outbound names a loopback address as its server.
\<close>

theorem accepted_outbounds:
  assumes "walkSingBoxSchema (JObject root) ''root'' location = Inr ()"
    and "(k, v) \<in> set root" "ToLower k = ''outbounds''"
  shows "\<exists>outs. v = JArray outs \<and> (\<forall>out \<in> set outs. \<exists>fs key t. out = JObject fs \<and> (key, JString t) \<in> set fs \<and>
    ToLower key = ''type'' \<and> t \<in> {''vless'', ''direct'', ''block'', ''socks''} \<and>
    (t = ''socks'' \<longrightarrow> (\<exists>server text a. (server, JString text) \<in> set fs \<and> ToLower server = ''server'' \<and>
       ParseAddr text = Some a \<and> IsLoopback a)))"
proof -
  have "walkSingBoxSchema v ''outbounds'' (location @ ''.'' @ k) = Inr ()"
    using assms walk_object [OF schema_lookup(1)] by fastforce
  then obtain outs where outs: "v = JArray outs" and each: "\<forall>out \<in> set outs. conforms out ''outbound''"
    unfolding walk_array [OF schema_lookup(2) schema_parts(5)]
    by (auto simp: all_set_conv_all_nth conforms_iff)
  have "\<exists>fs key t. out = JObject fs \<and> (key, JString t) \<in> set fs \<and>
    ToLower key = ''type'' \<and> t \<in> {''vless'', ''direct'', ''block'', ''socks''} \<and>
    (t = ''socks'' \<longrightarrow> (\<exists>server text a. (server, JString text) \<in> set fs \<and> ToLower server = ''server'' \<and>
       ParseAddr text = Some a \<and> IsLoopback a))" if "out \<in> set outs" for out
  proof -
    have "walkSingBoxSchema out ''outbound'' [] = Inr ()"
      using each that by (simp add: conforms_iff)
    then obtain fs key t variant where out: "out = JObject fs" "(key, JString t) \<in> set fs" "ToLower key = ''type''"
      "map_of [(''vless'', ''outbound_vless''), (''direct'', ''outbound_direct''), (''block'', ''outbound_block''),
         (''socks'', ''outbound_socks'')] t = Some variant"
      "walkSingBoxSchema out variant [] = Inr ()"
      unfolding walk_variant [OF schema_lookup(3) schema_parts(7), simplified] by auto
    moreover have "\<exists>server text a. (server, JString text) \<in> set fs \<and> ToLower server = ''server'' \<and>
       ParseAddr text = Some a \<and> IsLoopback a" if "variant = ''outbound_socks''"
      using socks_server [of fs] out that by (simp add: conforms_iff)
    ultimately show ?thesis
      by (auto split: if_splits)
  qed
  with outs show ?thesis by blast
qed

section \<open>Witnesses\<close>

theorem walk_order_independent_witness:
  "walkSingBoxSchema (JObject [(''tag'', JString ''block''), (''TYPE'', JString ''block'')]) ''outbound'' ''$'' = Inr ()"
proof -
  have "walkSingBoxSchema (JObject [(''TYPE'', JString ''block''), (''tag'', JString ''block'')]) ''outbound'' ''$'' = Inr ()"
    by code_simp
  then show ?thesis
    using walk_order_independent [of "[(''TYPE'', JString ''block''), (''tag'', JString ''block'')]"
        "[(''tag'', JString ''block''), (''TYPE'', JString ''block'')]" "''outbound''" "''$''" "''$''"] by simp
qed

definition sample_socks :: "(string \<times> json) list" where
  "sample_socks = [(''type'', JString ''socks''), (''server'', JString ''127.0.0.1''), (''server_port'', JNumber ''1080'')]"

theorem accepted_outbounds_witness:
  "\<exists>server text a. (server, JString text) \<in> set sample_socks \<and> ToLower server = ''server'' \<and>
     ParseAddr text = Some a \<and> IsLoopback a"
proof -
  have "walkSingBoxSchema (JObject [(''Outbounds'', JArray [JObject sample_socks])]) ''root'' ''$'' = Inr ()"
    "ToLower ''Outbounds'' = ''outbounds''"
    by code_simp+
  from accepted_outbounds [OF this(1) _ this(2), of "JArray [JObject sample_socks]"] show ?thesis
    by (auto simp: sample_socks_def)
qed

end
