(* ===== verification/Child_Registry.thy ===== *)
theory Child_Registry
  imports Go_Prelude
begin

text \<open>
  The child processes of the privileged daemon: the registry of opaque handles
  (\<open>childRegistry\<close> in \<open>service.go\<close>), signal delivery (\<open>handleSignal\<close>, \<open>parseSignal\<close>) and the
  life cycle of a managed child (\<open>startManagedChild\<close> in \<open>typed_actions.go\<close>). The operating system
  is the list of process identifiers that the daemon started and has not waited for; the results of
  system calls are arguments. Every operation returns the process effects it performs, in order.
\<close>

section \<open>Data\<close>

datatype signal_t = SIGINT | SIGTERM | SIGKILL

datatype child_error =
    GenerateHandle string
  | HandleNotReturned
  | KillFailed string
  | HandleLength
  | HandleNotLowerHex
  | MissingSignal
  | UnsupportedSignal string
  | StartFailed string
  | WatchFailed int string

datatype proc_effect = Started int | Kill int signal_t | Wait int | Cleanup

record childRecord =
  ch_kind :: string
  ch_pid :: int
  ch_setPGID :: bool
  ch_resultPath :: string

type_synonym childRegistry = "(string, childRecord) gomap"

section \<open>Registry operations\<close>

definition newChildRegistry :: childRegistry where
  "newChildRegistry = []"

text \<open>\<open>rnd\<close> is the result of \<open>rand.Read\<close> on 24 bytes.\<close>

definition children_add ::
    "string + int list \<Rightarrow> int \<Rightarrow> bool \<Rightarrow> string \<Rightarrow> string list \<Rightarrow> childRegistry \<Rightarrow>
     (child_error + string) \<times> childRegistry" where
  "children_add rnd pid setPGID resultPath kind m =
    (case rnd of
       Inl e \<Rightarrow> (Inl (GenerateHandle e), m)
     | Inr raw \<Rightarrow>
         (let handle = hex_encode raw;
              childKind = (case kind of [] \<Rightarrow> ''unknown'' | k # _ \<Rightarrow> k)
          in (Inr handle,
              map_set handle \<lparr>ch_kind = childKind, ch_pid = pid, ch_setPGID = setPGID,
                ch_resultPath = resultPath\<rparr> m)))"

definition children_remove :: "string \<Rightarrow> childRegistry \<Rightarrow> childRegistry" where
  "children_remove handle m = map_del handle m"

definition children_get :: "string \<Rightarrow> childRegistry \<Rightarrow> childRecord option" where
  "children_get handle m = map_of m handle"

text \<open>\<open>kill\<close> is the outcome of the system call: \<open>None\<close> for success.\<close>

definition children_signal ::
    "(int \<Rightarrow> signal_t \<Rightarrow> string option) \<Rightarrow> string \<Rightarrow> signal_t \<Rightarrow> childRegistry \<Rightarrow>
     (child_error + string) \<times> proc_effect list" where
  "children_signal kill handle sig m =
    (case map_of m handle of
       None \<Rightarrow> (Inl HandleNotReturned, [])
     | Some child \<Rightarrow>
         (let target = (if ch_setPGID child then - ch_pid child else ch_pid child) in
          case kill target sig of
            Some e \<Rightarrow> (Inl (KillFailed e), [Kill target sig])
          | None \<Rightarrow> (Inr (ch_resultPath child), [Kill target sig])))"

definition parseSignal :: "string \<Rightarrow> child_error + signal_t" where
  "parseSignal value =
    (let v = TrimSpace value in
     if v \<in> {''INT'', ''-INT'', ''SIGINT'', ''-SIGINT''} then Inr SIGINT
     else if v \<in> {''TERM'', ''-TERM'', ''SIGTERM'', ''-SIGTERM''} then Inr SIGTERM
     else if v \<in> {''KILL'', ''-KILL'', ''SIGKILL'', ''-SIGKILL''} then Inr SIGKILL
     else Inl (UnsupportedSignal value))"

definition handleSignal ::
    "(int \<Rightarrow> signal_t \<Rightarrow> string option) \<Rightarrow> string \<Rightarrow> string \<Rightarrow> childRegistry \<Rightarrow>
     (child_error + string) \<times> proc_effect list" where
  "handleSignal kill handle signal m =
    (if length handle \<noteq> 48 then (Inl HandleLength, [])
     else if \<not> hex_decodable handle \<or> handle \<noteq> ToLower handle then (Inl HandleNotLowerHex, [])
     else if signal = [] then (Inl MissingSignal, [])
     else case parseSignal signal of
            Inl e \<Rightarrow> (Inl e, [])
          | Inr sig \<Rightarrow> children_signal kill handle sig m)"

text \<open>
  \<open>startManagedChild\<close>: \<open>started\<close> is the result of \<open>cmd.Start\<close> (the process identifier), \<open>rnd\<close> of
  \<open>rand.Read\<close>, \<open>watched\<close> of \<open>watchProcessExitVPNCore\<close>. The exit callback is \<open>child_exited\<close> below.
\<close>

definition startManagedChild ::
    "string + int \<Rightarrow> string + int list \<Rightarrow> string option \<Rightarrow> bool \<Rightarrow> string \<Rightarrow> string list \<Rightarrow>
     childRegistry \<Rightarrow> (child_error + int \<times> string) \<times> childRegistry \<times> proc_effect list" where
  "startManagedChild started rnd watched setPGID resultPath kind m =
    (case started of
       Inl e \<Rightarrow> (Inl (StartFailed e), m, [Cleanup])
     | Inr pid \<Rightarrow>
        (case children_add rnd pid setPGID resultPath kind m of
           (Inl e, m1) \<Rightarrow> (Inl e, m1, [Started pid, Kill pid SIGKILL, Wait pid, Cleanup])
         | (Inr handle, m1) \<Rightarrow>
            (case watched of
               Some e \<Rightarrow> (Inl (WatchFailed pid e), children_remove handle m1,
                          [Started pid, Kill pid SIGKILL, Wait pid, Cleanup])
             | None \<Rightarrow> (Inr (pid, handle), m1, [Started pid]))))"

section \<open>Processes\<close>

text \<open>
  The daemon's view of its processes: the registry, the identifiers it started and has not waited
  for, and the exit callbacks that have removed their handle and have yet to call \<open>cmd.Wait\<close>
  (\<open>removeBeforeReap\<close> releases the registry's lock before it reaps).
\<close>

record procs =
  registry :: childRegistry
  unreaped :: "int list"
  reaping :: "int list"

fun apply_effect :: "proc_effect \<Rightarrow> int list \<Rightarrow> int list" where
  "apply_effect (Started pid) live = pid # live"
| "apply_effect (Wait pid) live = removeAll pid live"
| "apply_effect (Kill target sig) live = live"
| "apply_effect Cleanup live = live"

definition apply_effects :: "proc_effect list \<Rightarrow> int list \<Rightarrow> int list" where
  "apply_effects es live = fold apply_effect es live"

definition exit_remove :: "string \<Rightarrow> int \<Rightarrow> procs \<Rightarrow> procs" where
  "exit_remove handle pid s =
    s\<lparr>registry := children_remove handle (registry s), reaping := pid # reaping s\<rparr>"

definition exit_reap :: "int \<Rightarrow> procs \<Rightarrow> procs" where
  "exit_reap pid s =
    s\<lparr>unreaped := apply_effects [Wait pid, Cleanup] (unreaped s), reaping := removeAll pid (reaping s)\<rparr>"

definition procs_init :: procs where
  "procs_init = \<lparr>registry = newChildRegistry, unreaped = [], reaping = []\<rparr>"

text \<open>
  The kernel hands out positive identifiers and never one that still belongs to a process nobody
  has waited for. A callback runs for a child that is registered under its handle.
\<close>

definition fresh_pid :: "string + int \<Rightarrow> procs \<Rightarrow> bool" where
  "fresh_pid started s = (case started of Inl _ \<Rightarrow> True | Inr pid \<Rightarrow> 0 < pid \<and> pid \<notin> set (unreaped s))"

definition start_step ::
    "string + int \<Rightarrow> string + int list \<Rightarrow> string option \<Rightarrow> bool \<Rightarrow> string \<Rightarrow> string list \<Rightarrow> procs \<Rightarrow> procs" where
  "start_step started rnd watched setPGID resultPath kind s =
    (case startManagedChild started rnd watched setPGID resultPath kind (registry s) of
       (_, m, es) \<Rightarrow> s\<lparr>registry := m, unreaped := apply_effects es (unreaped s)\<rparr>)"

text \<open>
  A handle is drawn at random from 24 bytes; a draw that names a live child again would orphan that
  child's entry, which the registry does not check. \<open>unused_handle\<close> is that assumption on the draw.
\<close>

definition unused_handle :: "string + int list \<Rightarrow> childRegistry \<Rightarrow> bool" where
  "unused_handle rnd m = (case rnd of Inl _ \<Rightarrow> True | Inr raw \<Rightarrow> map_of m (hex_encode raw) = None)"

inductive procs_step :: "procs \<Rightarrow> procs \<Rightarrow> bool" where
  start: "fresh_pid started s \<Longrightarrow> unused_handle rnd (registry s) \<Longrightarrow>
    procs_step s (start_step started rnd watched setPGID resultPath kind s)"
| exited: "map_of (registry s) handle = Some child \<Longrightarrow>
    procs_step s (exit_remove handle (ch_pid child) s)"
| reaped: "pid \<in> set (reaping s) \<Longrightarrow> procs_step s (exit_reap pid s)"

inductive_cases procs_stepE: "procs_step s t"

text \<open>
  Every registered child is a process the daemon started and has not waited for, no two handles
  share a process, and no process being reaped is still registered.
\<close>

definition procs_inv :: "procs \<Rightarrow> bool" where
  "procs_inv s =
    (wf_map (registry s) \<and>
     (\<forall>c \<in> snd ` set (registry s). 0 < ch_pid c \<and> ch_pid c \<in> set (unreaped s) \<and> ch_pid c \<notin> set (reaping s)) \<and>
     distinct (map (ch_pid \<circ> snd) (registry s)) \<and>
     set (reaping s) \<subseteq> set (unreaped s))"


section \<open>Lemmas\<close>

lemma procs_inv_init: "procs_inv procs_init"
  by (simp add: procs_inv_def procs_init_def newChildRegistry_def)

lemma startManagedChild_cases:
  obtains (failed) e es where
      "startManagedChild started rnd watched setPGID resultPath kind m = (Inl e, m, es)"
      "apply_effects es live = live \<or> (\<exists>pid. started = Inr pid \<and> apply_effects es live = removeAll pid live)"
    | (ok) pid raw where
      "started = Inr pid" "rnd = Inr raw"
      "startManagedChild started rnd watched setPGID resultPath kind m =
         (Inr (pid, hex_encode raw), snd (children_add rnd pid setPGID resultPath kind m), [Started pid])"
    | (unwatched) pid raw e where
      "started = Inr pid" "rnd = Inr raw"
      "startManagedChild started rnd watched setPGID resultPath kind m =
         (Inl (WatchFailed pid e),
          children_remove (hex_encode raw) (snd (children_add rnd pid setPGID resultPath kind m)),
          [Started pid, Kill pid SIGKILL, Wait pid, Cleanup])"
  by (cases started; cases rnd; cases watched)
    (auto simp: startManagedChild_def children_add_def Let_def apply_effects_def)

lemma map_del_set_fresh: "map_of m k = None \<Longrightarrow> map_del k (map_set k v m) = m"
  by (auto simp: map_set_fresh map_del_filter filter_id_conv map_of_eq_None_iff)

lemma procs_inv_start:
  assumes inv: "procs_inv s" and pid: "fresh_pid started s" and rnd: "unused_handle rnd (registry s)"
  shows "procs_inv (start_step started rnd watched setPGID resultPath kind s)"
proof (cases rule: startManagedChild_cases [of started rnd watched setPGID resultPath kind "registry s" "unreaped s"])
  case (failed e es)
  then show ?thesis
    using inv pid by (auto simp: start_step_def procs_inv_def fresh_pid_def)
next
  case (ok p raw)
  then have "map_of (registry s) (hex_encode raw) = None" "p \<notin> set (unreaped s)" "0 < p"
    using pid rnd by (auto simp: fresh_pid_def unused_handle_def)
  then show ?thesis
    using inv ok
    by (auto simp: start_step_def procs_inv_def children_add_def Let_def map_set_fresh
        apply_effects_def wf_map_def map_of_eq_None_iff)
next
  case (unwatched p raw e)
  then have "map_of (registry s) (hex_encode raw) = None" "p \<notin> set (unreaped s)"
    using pid rnd by (auto simp: fresh_pid_def unused_handle_def)
  then show ?thesis
    using inv unwatched
    by (auto simp: start_step_def procs_inv_def children_add_def children_remove_def Let_def
        map_del_set_fresh apply_effects_def)
qed

lemma distinct_pids_del:
  assumes "wf_map m" and "distinct (map (ch_pid \<circ> snd) m)" and "map_of m h = Some c"
    and "c' \<in> snd ` set (map_del h m)"
  shows "ch_pid c' \<noteq> ch_pid c"
proof -
  from assms(4) obtain h' where h': "(h', c') \<in> set m" "h' \<noteq> h" by auto
  have h: "(h, c) \<in> set m" using assms(3) by (rule map_of_SomeD)
  have "inj_on (ch_pid \<circ> snd) (set m)" using assms(2) by (simp add: distinct_map)
  from inj_onD [OF this, of "(h', c')" "(h, c)"] h h' show ?thesis by auto
qed

lemma procs_inv_exited:
  assumes inv: "procs_inv s" and child: "map_of (registry s) handle = Some child"
  shows "procs_inv (exit_remove handle (ch_pid child) s)"
proof -
  have "(handle, child) \<in> set (registry s)" using child by (rule map_of_SomeD)
  moreover have "distinct (map (ch_pid \<circ> snd) (map_del handle (registry s)))"
    using inv by (simp add: procs_inv_def map_del_filter distinct_map_filter)
  ultimately show ?thesis
    using inv distinct_pids_del [OF _ _ child]
    by (force simp: exit_remove_def procs_inv_def children_remove_def)
qed

lemma procs_inv_reaped: "procs_inv s \<Longrightarrow> pid \<in> set (reaping s) \<Longrightarrow> procs_inv (exit_reap pid s)"
  by (auto simp: exit_reap_def procs_inv_def apply_effects_def)

interpretation procs: invariant_system "\<lambda>s. s = procs_init" procs_step procs_inv
  by unfold_locales
    (simp add: procs_inv_init,
     blast elim: procs_stepE intro: procs_inv_start procs_inv_exited procs_inv_reaped)

lemma handleSignal_kill:
  assumes "Kill target sig \<in> set (snd (handleSignal kill handle signal m))"
  shows "\<exists>child. map_of m handle = Some child \<and>
    target = (if ch_setPGID child then - ch_pid child else ch_pid child) \<and> parseSignal signal = Inr sig"
  using assms
  by (auto simp: handleSignal_def children_signal_def Let_def split: if_splits sum.splits option.splits)

section \<open>Properties\<close>

text \<open>
  (C4) A signal never reaches a recycled process identifier: in every reachable state of the
  registry, whatever handle and signal a client sends, every process or process group that
  \<open>handleSignal\<close> kills was started by the daemon and has not been waited for, even while exit
  callbacks are running.
\<close>

theorem signal_hits_own_unreaped_child:
  assumes "reaches (\<lambda>s. s = procs_init) procs_step s"
    and "Kill target sig \<in> set (snd (handleSignal kill handle signal (registry s)))"
  shows "\<bar>target\<bar> \<in> set (unreaped s) \<and> \<bar>target\<bar> \<notin> set (reaping s)"
proof -
  from assms(1) have "procs_inv s" by (rule procs.inv_reaches)
  moreover from handleSignal_kill [OF assms(2)] obtain c where
    "map_of (registry s) handle = Some c" "target = (if ch_setPGID c then - ch_pid c else ch_pid c)"
    by blast
  ultimately show ?thesis
    by (force simp: procs_inv_def dest: map_of_SomeD)
qed

definition sample_handle_bytes :: "int list" where
  "sample_handle_bytes = replicate 24 171"

lemma sample_handle: "length sample_handle_bytes = 24"
  by (simp add: sample_handle_bytes_def)

lemma parseSignal_TERM: "parseSignal ''TERM'' = Inr SIGTERM"
  by code_simp

theorem signal_hits_own_unreaped_child_witness:
  "\<bar>- 77\<bar> \<in> set (unreaped (start_step (Inr 77) (Inr sample_handle_bytes) None True [] [''sing-box''] procs_init))"
proof -
  let ?s = "start_step (Inr 77) (Inr sample_handle_bytes) None True [] [''sing-box''] procs_init"
  have "reaches (\<lambda>s. s = procs_init) procs_step procs_init"
    by (rule reaches.reaches_init) simp
  moreover have "procs_step procs_init ?s"
    by (rule procs_step.start)
      (simp_all add: fresh_pid_def unused_handle_def procs_init_def newChildRegistry_def)
  ultimately have reach: "reaches (\<lambda>s. s = procs_init) procs_step ?s"
    by (rule reaches.reaches_step)
  have "Kill (- 77) SIGTERM \<in> set (snd (handleSignal (\<lambda>_ _. None)
      (hex_encode sample_handle_bytes) ''TERM'' (registry ?s)))"
    by (simp add: start_step_def startManagedChild_def procs_init_def newChildRegistry_def
        children_add_def sample_handle apply_effects_def handleSignal_def children_signal_def
        parseSignal_TERM Let_def)
  from signal_hits_own_unreaped_child [OF reach this] show ?thesis by blast
qed



end
