(* ===== verification/Maintenance.thy ===== *)
theory Maintenance
  imports Maintenance_Lease Child_Registry Request_Tracker "HOL-Library.Char_ord" "HOL-Library.List_Lexorder"
begin

text \<open>
  The maintenance drain of the daemon, the first half of \<open>maintenance.go\<close> and \<open>drainActive\<close> of
  \<open>maintenance_lease.go\<close>: an installer asks an idle daemon to stop accepting work, owns that state by
  a random token, and renews or releases it. \<open>serviceDaemon\<close> is the daemon's state. Every reading
  of the clock and of the random source is an argument, in the order the code makes them.
\<close>

section \<open>State\<close>

record serviceDaemon =
  d_cfg :: ServiceConfig
  d_clientUID :: int
  d_clientGID :: int
  d_requests :: requestTracker
  d_procs :: procs
  d_drainToken :: string
  d_drainUntil :: go_time
  d_view :: os_view

abbreviation d_children :: "serviceDaemon \<Rightarrow> childRegistry" where
  "d_children d \<equiv> registry (d_procs d)"

datatype maintenance_error =
    Busy string
  | TokenRandom string
  | PersistDrain lease_error
  | PersistRenewal lease_error
  | RemoveDrain lease_error
  | DrainExpired
  | TokenMismatch

record MaintenanceDrainState =
  md_Active :: bool
  md_ExpiresAt :: "go_time option"

text \<open>The lease files of the daemon: its checks, the codec and the outcomes of the system calls.\<close>

record lease_files =
  lf_deps :: verificationDependencies
  lf_codec :: lease_codec
  lf_io :: lease_io

definition maintenanceDrainTTL :: duration where
  "maintenanceDrainTTL = 60 * second"

section \<open>Operations\<close>

definition setMaintenanceState :: "string \<Rightarrow> go_time \<Rightarrow> serviceDaemon \<Rightarrow> serviceDaemon" where
  "setMaintenanceState token until d = d\<lparr>d_drainToken := token, d_drainUntil := until\<rparr>"

definition maintenanceDrainState :: "go_time \<Rightarrow> serviceDaemon \<Rightarrow> MaintenanceDrainState" where
  "maintenanceDrainState now d =
    (let active = (now < d_drainUntil d) in
     \<lparr>md_Active = active, md_ExpiresAt = (if active then Some (d_drainUntil d) else None)\<rparr>)"

definition count_kind :: "childRegistry \<Rightarrow> string \<Rightarrow> int" where
  "count_kind m kind = int (length (filter (\<lambda>p. ch_kind (snd p) = kind) m))"

text \<open>The reasons the daemon gives for being busy: its children by kind, then the other requests.\<close>

definition busy_children :: "childRegistry \<Rightarrow> string list" where
  "busy_children m =
    (let kinds = sort (remdups (map (ch_kind \<circ> snd) m));
         busy = map (\<lambda>kind. itoa (count_kind m kind) @ '' '' @ kind) kinds in
     if busy \<noteq> [] then [Join '', '' busy @ '' child active''] else [])"

definition other_requests :: "request_id \<Rightarrow> requestTracker \<Rightarrow> int" where
  "other_requests rid t =
    int (length (queued t) + length (active t)) - (if map_of (active t) rid \<noteq> None then 1 else 0)"

definition busy_reasons :: "request_id \<Rightarrow> serviceDaemon \<Rightarrow> string list" where
  "busy_reasons rid d =
    busy_children (d_children d) @
    (if other_requests rid (d_requests d) \<noteq> 0
     then [itoa (other_requests rid (d_requests d)) @ '' other request(s) in flight''] else [])"

definition withIdle ::
    "request_id \<Rightarrow> (serviceDaemon \<Rightarrow> (maintenance_error + 'a) \<times> serviceDaemon) \<Rightarrow>
     serviceDaemon \<Rightarrow> (maintenance_error + 'a) \<times> serviceDaemon" where
  "withIdle rid transition d =
    (if busy_reasons rid d \<noteq> []
     then (Inl (Busy (''vpn core is busy: '' @ Join ''; '' (busy_reasons rid d))), d)
     else transition d)"

definition persist_state ::
    "lease_files \<Rightarrow> (lease_error \<Rightarrow> maintenance_error) \<Rightarrow> string \<Rightarrow> go_time \<Rightarrow> serviceDaemon \<Rightarrow>
     (maintenance_error + string) \<times> serviceDaemon" where
  "persist_state lf wrap token until d =
    (case persistMaintenanceLease (lf_deps lf) (lf_codec lf) (lf_io lf) (d_cfg d) token until (d_view d) of
       (Inl e, v) \<Rightarrow> (Inl (wrap e), d\<lparr>d_view := v\<rparr>)
     | (Inr _, v) \<Rightarrow> (Inr token, setMaintenanceState token until (d\<lparr>d_view := v\<rparr>)))"

definition drain ::
    "lease_files \<Rightarrow> string + int list \<Rightarrow> go_time \<Rightarrow> request_id \<Rightarrow> serviceDaemon \<Rightarrow>
     (maintenance_error + string) \<times> serviceDaemon" where
  "drain lf rnd now rid d =
    withIdle rid (\<lambda>d. case rnd of
        Inl e \<Rightarrow> (Inl (TokenRandom e), d)
      | Inr raw \<Rightarrow> persist_state lf PersistDrain (hex_encode raw) (now + maintenanceDrainTTL) d) d"

text \<open>
  \<open>drainActive\<close> clears an expired lease, in memory even when the file cannot be removed.
\<close>

definition drainActive :: "lease_files \<Rightarrow> go_time \<Rightarrow> serviceDaemon \<Rightarrow> bool \<times> serviceDaemon" where
  "drainActive lf now d =
    (if d_drainToken d = [] then (False, d)
     else if now < d_drainUntil d then (True, d)
     else (False, setMaintenanceState [] zero_time
        (d\<lparr>d_view := snd (removeMaintenanceLease (lf_deps lf) (lf_io lf) (d_cfg d) (d_view d))\<rparr>)))"

definition requireDrainToken ::
    "lease_files \<Rightarrow> go_time \<Rightarrow> string \<Rightarrow> serviceDaemon \<Rightarrow> (maintenance_error + unit) \<times> serviceDaemon" where
  "requireDrainToken lf now token d =
    (case drainActive lf now d of
       (False, d1) \<Rightarrow> (Inl DrainExpired, d1)
     | (True, d1) \<Rightarrow>
        if token = [] \<or> token \<noteq> d_drainToken d1 then (Inl TokenMismatch, d1) else (Inr (), d1))"

definition undrain ::
    "lease_files \<Rightarrow> go_time \<Rightarrow> string \<Rightarrow> serviceDaemon \<Rightarrow> (maintenance_error + unit) \<times> serviceDaemon" where
  "undrain lf now token d =
    (case requireDrainToken lf now token d of
       (Inl e, d1) \<Rightarrow> (Inl e, d1)
     | (Inr _, d1) \<Rightarrow>
        (case removeMaintenanceLease (lf_deps lf) (lf_io lf) (d_cfg d1) (d_view d1) of
           (Inl e, v) \<Rightarrow> (Inl (RemoveDrain e), d1\<lparr>d_view := v\<rparr>)
         | (Inr _, v) \<Rightarrow> (Inr (), setMaintenanceState [] zero_time (d1\<lparr>d_view := v\<rparr>))))"

text \<open>\<open>renew\<close> reads the clock three times: before and after it waits for the idle check, and for the expiry.\<close>

definition renew ::
    "lease_files \<Rightarrow> go_time \<Rightarrow> go_time \<Rightarrow> go_time \<Rightarrow> string \<Rightarrow> request_id \<Rightarrow> serviceDaemon \<Rightarrow>
     (maintenance_error + unit) \<times> serviceDaemon" where
  "renew lf now1 now2 now3 token rid d =
    (case requireDrainToken lf now1 token d of
       (Inl e, d1) \<Rightarrow> (Inl e, d1)
     | (Inr _, d1) \<Rightarrow>
        withIdle rid (\<lambda>d2. case requireDrainToken lf now2 token d2 of
            (Inl e, d3) \<Rightarrow> (Inl e, d3)
          | (Inr _, d3) \<Rightarrow>
             (case persist_state lf PersistRenewal token (now3 + maintenanceDrainTTL) d3 of
                (Inl e, d4) \<Rightarrow> (Inl e, d4)
              | (Inr _, d4) \<Rightarrow> (Inr (), d4))) d1)"

section \<open>Lemmas\<close>

text \<open>Nothing but the request itself is known to the daemon.\<close>

definition idle :: "request_id \<Rightarrow> serviceDaemon \<Rightarrow> bool" where
  "idle rid d = (d_children d = [] \<and> queued (d_requests d) = [] \<and> set (map fst (active (d_requests d))) \<subseteq> {rid})"

definition live_drain :: "go_time \<Rightarrow> serviceDaemon \<Rightarrow> bool" where
  "live_drain now d = (d_drainToken d \<noteq> [] \<and> now < d_drainUntil d)"

text \<open>The part of the state no maintenance operation touches.\<close>

definition frame :: "serviceDaemon \<Rightarrow> ServiceConfig \<times> requestTracker \<times> procs" where
  "frame d = (d_cfg d, d_requests d, d_procs d)"

definition lease_file :: "serviceDaemon \<Rightarrow> inode option" where
  "lease_file d = map_of (nodes (d_view d)) (lease_elems (d_cfg d))"

lemma busy_children_Nil [simp]: "busy_children m = [] \<longleftrightarrow> m = []"
  by (auto simp: busy_children_def Let_def) (metis list.set_intros(1) set_empty remdups_eq_nil_iff set_sort list.map_disc_iff)

lemma other_requests_zero:
  assumes "wf_map (active t)"
  shows "other_requests rid t = 0 \<longleftrightarrow> queued t = [] \<and> set (map fst (active t)) \<subseteq> {rid}"
proof -
  have d: "distinct (map fst (active t))"
    using assms by (simp add: wf_map_def)
  show ?thesis
  proof (cases "map_of (active t) rid = None")
    case True
    then have "rid \<notin> fst ` set (active t)" by (simp add: map_of_eq_None_iff)
    then show ?thesis
      using True by (cases "active t") (auto simp: other_requests_def)
  next
    case False
    then have mem: "rid \<in> set (map fst (active t))" by (auto simp: map_of_eq_None_iff)
    have "length (active t) = card (set (map fst (active t)))"
      using distinct_card [OF d] by simp
    moreover have "card A = 1 \<longleftrightarrow> A \<subseteq> {rid}" if "rid \<in> A" for A
    proof
      assume "card A = 1"
      then obtain x where "A = {x}" by (rule card_1_singletonE)
      with that show "A \<subseteq> {rid}" by simp
    next
      assume "A \<subseteq> {rid}"
      with that have "A = {rid}" by blast
      then show "card A = 1" by simp
    qed
    ultimately have "length (active t) = 1 \<longleftrightarrow> set (map fst (active t)) \<subseteq> {rid}"
      using mem by metis
    moreover have "0 < length (active t)"
      using mem by auto
    moreover have "other_requests rid t = 0 \<longleftrightarrow> length (queued t) + length (active t) = 1"
      using False by (auto simp: other_requests_def)
    moreover have "a + b = 1 \<longleftrightarrow> a = 0 \<and> b = 1" if "0 < b" for a b :: nat
      using that by auto
    ultimately show ?thesis
      by (simp only: length_0_conv)
  qed
qed

lemma busy_reasons_idle:
  "tracker_inv (d_requests d) \<Longrightarrow> busy_reasons rid d = [] \<longleftrightarrow> idle rid d"
  by (auto simp: busy_reasons_def idle_def other_requests_zero tracker_inv_def entries_ok_def)

lemma withIdle_ok:
  "withIdle rid f d = (Inr x, d') \<longleftrightarrow> busy_reasons rid d = [] \<and> f d = (Inr x, d')"
  by (simp add: withIdle_def)

lemma withIdle_err:
  "withIdle rid f d = (Inl e, d') \<Longrightarrow> d' = d \<or> busy_reasons rid d = [] \<and> f d = (Inl e, d')"
  by (auto simp: withIdle_def split: if_splits)

lemma hex_token_valid: "length raw = 32 \<Longrightarrow> validMaintenanceToken (hex_encode raw)"
  by (simp add: validMaintenanceToken_def)

lemma removeMaintenanceLease_view:
  "removeMaintenanceLease deps io cfg v = (r, v') \<Longrightarrow>
    (es \<noteq> lease_elems cfg \<longrightarrow> map_of (nodes v') es = map_of (nodes v) es) \<and>
    (case r of
       Inl _ \<Rightarrow> v' = v
     | Inr _ \<Rightarrow> v' = v \<or> map_of (nodes v') (lease_elems cfg) = None)"
  by (auto simp: removeMaintenanceLease_def lease_elems_def Let_def openMaintenanceDirectory_ok
      split: prod.splits sum.splits if_splits option.splits dest!: openMaintenanceDirectory_view)

lemma drainActive_cases:
  "drainActive lf now d = (b, d') \<Longrightarrow> b = live_drain now d \<and> frame d' = frame d \<and>
    (if b \<or> d_drainToken d = [] then d' = d else d_drainToken d' = [] \<and> d_drainUntil d' = zero_time)"
  by (auto simp: drainActive_def live_drain_def frame_def setMaintenanceState_def split: if_splits)

lemma requireDrainToken_ok:
  "requireDrainToken lf now token d = (Inr (), d') \<longleftrightarrow>
    live_drain now d \<and> token = d_drainToken d \<and> d' = d"
  by (auto simp: requireDrainToken_def live_drain_def drainActive_def split: prod.splits)

lemma requireDrainToken_err:
  "requireDrainToken lf now token d = (Inl e, d') \<Longrightarrow>
    \<not> (live_drain now d \<and> token = d_drainToken d) \<and> frame d' = frame d \<and> (live_drain now d \<longrightarrow> d' = d)"
  by (auto simp: requireDrainToken_def split: prod.splits bool.splits if_splits
      dest!: drainActive_cases simp: live_drain_def)

lemma persist_state_ok:
  assumes "persist_state lf wrap token until d = (Inr x, d')"
  shows "x = token" "frame d' = frame d" "d_drainToken d' = token" "d_drainUntil d' = until"
    "\<exists>n. lease_file d' = Some n \<and> content n = encode (lf_codec lf) \<lparr>pl_Token = token, pl_ExpiresAt = until\<rparr> @ [newline]"
  using assms by (auto simp: persist_state_def frame_def lease_file_def setMaintenanceState_def
      split: prod.splits sum.splits dest!: persist_installs(1))

lemma persist_state_err:
  assumes "persist_state lf wrap token until d = (Inl e, d')"
  shows "frame d' = frame d" "d_drainToken d' = d_drainToken d" "d_drainUntil d' = d_drainUntil d"
    "lease_file d' = lease_file d"
  using assms by (auto simp: persist_state_def frame_def lease_file_def
      split: prod.splits sum.splits dest: persist_failed_lease)

lemma drain_ok:
  "drain lf rnd now rid d = (Inr token, d') \<longleftrightarrow> busy_reasons rid d = [] \<and>
    (\<exists>raw. rnd = Inr raw \<and>
      persist_state lf PersistDrain (hex_encode raw) (now + maintenanceDrainTTL) d = (Inr token, d'))"
  by (cases rnd) (simp_all add: drain_def withIdle_ok)

lemma drain_err:
  "drain lf rnd now rid d = (Inl e, d') \<Longrightarrow> d' = d \<or>
    (\<exists>raw e'. rnd = Inr raw \<and>
      persist_state lf PersistDrain (hex_encode raw) (now + maintenanceDrainTTL) d = (Inl e', d'))"
  by (cases rnd) (auto simp: drain_def dest!: withIdle_err)

lemma renew_ok:
  "renew lf now1 now2 now3 token rid d = (Inr (), d') \<Longrightarrow>
    live_drain now1 d \<and> live_drain now2 d \<and> token = d_drainToken d \<and> busy_reasons rid d = [] \<and>
    (\<exists>x. persist_state lf PersistRenewal token (now3 + maintenanceDrainTTL) d = (Inr x, d'))"
  by (auto simp: renew_def withIdle_ok requireDrainToken_ok split: prod.splits sum.splits)

lemma renew_err:
  assumes "renew lf now1 now2 now3 token rid d = (Inl e, d')" "live_drain now1 d" "live_drain now2 d"
  shows "d' = d \<or> (\<exists>e. persist_state lf PersistRenewal token (now3 + maintenanceDrainTTL) d = (Inl e, d'))"
proof (cases "token = d_drainToken d")
  case True
  then have "requireDrainToken lf t token d = (Inr (), d)" if "live_drain t d" for t
    using that by (simp add: requireDrainToken_ok)
  note [simp] = this [OF assms(2)] this [OF assms(3)]
  show ?thesis
    using assms(1) by (auto simp: renew_def dest!: withIdle_err split: prod.splits sum.splits)
next
  case False
  then obtain e1 d1 where req: "requireDrainToken lf now1 token d = (Inl e1, d1)"
    using requireDrainToken_ok [of lf now1 token d]
    by (cases "requireDrainToken lf now1 token d"; cases "fst (requireDrainToken lf now1 token d)") auto
  then show ?thesis
    using assms(1,2) requireDrainToken_err [OF req] by (simp add: renew_def)
qed

section \<open>Properties\<close>

text \<open>
  (C20) \<open>maintenance.drain\<close> succeeds only on an idle daemon: no child is registered and no other
  request is queued or active. It then holds a new lease for one TTL, in memory and in the file.
  When it fails, for whatever reason, the lease in memory and the lease file are the ones before.
\<close>

theorem drain_outcome:
  assumes "drain lf rnd now rid d = (r, d')" and "tracker_inv (d_requests d)"
  shows "frame d' = frame d \<and>
    (case r of
       Inl e \<Rightarrow> d_drainToken d' = d_drainToken d \<and> d_drainUntil d' = d_drainUntil d \<and> lease_file d' = lease_file d
     | Inr token \<Rightarrow> idle rid d \<and> (\<exists>raw. rnd = Inr raw \<and> token = hex_encode raw) \<and>
         d_drainToken d' = token \<and> d_drainUntil d' = now + maintenanceDrainTTL \<and>
         (\<exists>n. lease_file d' = Some n \<and> content n = encode (lf_codec lf)
            \<lparr>pl_Token = token, pl_ExpiresAt = now + maintenanceDrainTTL\<rparr> @ [newline]))"
proof (cases r)
  case (Inl e)
  with assms(1) show ?thesis
    by (auto dest!: drain_err dest: persist_state_err)
next
  case (Inr token)
  with assms show ?thesis
    by (auto simp: drain_ok busy_reasons_idle dest: persist_state_ok)
qed

text \<open>
  Only the owner of a live drain can release it: \<open>maintenance.undrain\<close> succeeds exactly for the
  current token before its expiry and then clears the lease. A refused or failed release never
  changes a live lease, in memory or on disk.
\<close>

theorem undrain_outcome:
  assumes "undrain lf now token d = (r, d')"
  shows "frame d' = frame d \<and>
    (case r of
       Inl e \<Rightarrow> live_drain now d \<longrightarrow>
         d_drainToken d' = d_drainToken d \<and> d_drainUntil d' = d_drainUntil d \<and> lease_file d' = lease_file d
     | Inr _ \<Rightarrow> live_drain now d \<and> token = d_drainToken d \<and> d_drainToken d' = [] \<and>
         (\<forall>t. \<not> live_drain t d') \<and> (lease_file d' = None \<or> d_view d' = d_view d))"
proof (cases "requireDrainToken lf now token d")
  case (Pair q d1)
  show ?thesis
  proof (cases q)
    case (Inl e)
    then show ?thesis
      using assms Pair requireDrainToken_err [of lf now token d e d1] by (auto simp: undrain_def)
  next
    case (Inr u)
    then have owner: "live_drain now d" "token = d_drainToken d" "d1 = d"
      using Pair requireDrainToken_ok [of lf now token d d1] by auto
    show ?thesis
      using assms Pair Inr owner
      by (auto simp: undrain_def frame_def lease_file_def setMaintenanceState_def live_drain_def
          split: prod.splits sum.splits dest!: removeMaintenanceLease_view)
  qed
qed

text \<open>
  A renewal never revives an expired lease and never interrupts work: it succeeds only for the
  current token, live at both checks, on a daemon that is idle, and extends the lease by one TTL; a
  refused or failed renewal of a live lease leaves it as it was.
\<close>

theorem renew_outcome:
  assumes "renew lf now1 now2 now3 token rid d = (r, d')" and "tracker_inv (d_requests d)"
  shows "case r of
       Inl e \<Rightarrow> live_drain now1 d \<and> live_drain now2 d \<longrightarrow> frame d' = frame d \<and>
         d_drainToken d' = d_drainToken d \<and> d_drainUntil d' = d_drainUntil d \<and> lease_file d' = lease_file d
     | Inr _ \<Rightarrow> frame d' = frame d \<and> live_drain now1 d \<and> live_drain now2 d \<and> token = d_drainToken d \<and> idle rid d \<and>
         d_drainToken d' = token \<and> d_drainUntil d' = now3 + maintenanceDrainTTL \<and>
         (\<exists>n. lease_file d' = Some n \<and> content n = encode (lf_codec lf)
            \<lparr>pl_Token = token, pl_ExpiresAt = now3 + maintenanceDrainTTL\<rparr> @ [newline])"
proof (cases r)
  case (Inl e)
  with assms(1) show ?thesis
    by (auto dest!: renew_err dest: persist_state_err)
next
  case (Inr u)
  with assms have "renew lf now1 now2 now3 token rid d = (Inr (), d')" by simp
  from renew_ok [OF this] show ?thesis
    using assms(2) Inr by (auto simp: busy_reasons_idle dest: persist_state_ok)
qed

section \<open>Witnesses\<close>

definition sample_daemon :: serviceDaemon where
  "sample_daemon =
    \<lparr>d_cfg = sample_cfg, d_clientUID = 501, d_clientGID = 20, d_requests = newRequestTracker, d_procs = procs_init,
     d_drainToken = [], d_drainUntil = zero_time, d_view = sample_view\<rparr>"

definition sample_files :: lease_files where
  "sample_files = \<lparr>lf_deps = productionVerificationDependencies, lf_codec = sample_codec, lf_io = sample_io\<rparr>"

abbreviation sample_drained :: serviceDaemon where
  "sample_drained \<equiv> snd (drain sample_files (Inr (replicate 32 170)) 1000 1 sample_daemon)"

lemma sample_tracker: "tracker_inv (d_requests sample_daemon)"
  by (simp add: sample_daemon_def tracker_inv_new)

lemma sample_drain: "drain sample_files (Inr (replicate 32 170)) 1000 1 sample_daemon = (Inr sample_token, sample_drained)"
proof -
  have "fst (drain sample_files (Inr (replicate 32 170)) 1000 1 sample_daemon) = Inr sample_token" by code_simp
  then show ?thesis by (metis prod.collapse)
qed

theorem drain_outcome_witness:
  "d_drainToken sample_drained = sample_token \<and> d_drainUntil sample_drained = 60000001000"
  using drain_outcome [OF sample_drain sample_tracker] by (simp add: maintenanceDrainTTL_def second_def)

theorem undrain_outcome_witness:
  "d_drainToken (snd (undrain sample_files 2000 sample_token sample_drained)) = []"
proof -
  have "fst (undrain sample_files 2000 sample_token sample_drained) = Inr ()" by code_simp
  then have "undrain sample_files 2000 sample_token sample_drained =
      (Inr (), snd (undrain sample_files 2000 sample_token sample_drained))" by (metis prod.collapse)
  from undrain_outcome [OF this] show ?thesis by simp
qed

theorem renew_outcome_witness:
  "d_drainUntil (snd (renew sample_files 2000 2001 2002 sample_token 1 sample_drained)) = 60000002002"
proof -
  let ?r = "renew sample_files 2000 2001 2002 sample_token 1 sample_drained"
  have "fst ?r = Inr ()" by code_simp
  then have r: "?r = (Inr (), snd ?r)" by (metis prod.collapse)
  have "d_requests sample_drained = newRequestTracker" by code_simp
  then have "tracker_inv (d_requests sample_drained)" by (simp add: tracker_inv_new)
  from renew_outcome [OF r this] show ?thesis by (simp add: maintenanceDrainTTL_def second_def)
qed

end
