(* ===== verification/Typed_Actions.thy ===== *)
theory Typed_Actions
  imports Sing_Box_Schema Maintenance
begin

unbundle bit_operations_syntax

text \<open>
  The typed actions of the daemon, \<open>typed_actions.go\<close>: the grammar checks on what a client may ask
  root to run, and the handlers. A handler returns its result, the daemon after it and the list of
  what it did as root. Outcomes of system calls are fields of \<open>action_io\<close>.
\<close>

section \<open>Data\<close>

datatype root_effect =
    ExecChild string "string list"
  | RunCommand string "string list" string
  | WroteFile string string
  | RemovedTree string
  | RemovedFile string
  | ProcEffect proc_effect

datatype action_error =
    LogFileRequired
  | BadConfig config_error
  | RuntimeDirRequired
  | RuntimeCreate string
  | RuntimeNotDirectory string
  | RuntimeMode string
  | RuntimeNotRootOwned string
  | SystemCall string string
  | ChildError child_error
  | ScutilSize
  | ScutilLineEmpty int
  | ScutilGrammar int
  | ScannerTooLong
  | CommandFailed string string
  | ServiceNameInvalid
  | ServiceNotPresent string
  | ServersRequired
  | ServersInvalid
  | TcpdumpInterface
  | TcpdumpFilterCount
  | TcpdumpFilterWord string
  | RunAsUserRequired
  | ResolveUser string

record action_io =
  ai_euid :: int
  ai_mkdir :: "string list \<Rightarrow> string option"
  ai_new_dir :: "string list \<Rightarrow> inode"
  ai_mkdirTemp :: "string + string"
  ai_session_dir :: inode
  ai_chmod :: "string option"
  ai_writeFile :: "string option"
  ai_start :: "string \<Rightarrow> string list \<Rightarrow> string + int"
  ai_random :: "string + int list"
  ai_watch :: "string option"
  ai_command :: "string \<Rightarrow> string list \<Rightarrow> string \<Rightarrow> string \<times> string option"
  ai_lookupUser :: "int \<Rightarrow> string + string"
  ai_decode :: "string \<Rightarrow> string + (string \<times> json) list option"
  ai_encode :: "json \<Rightarrow> string + string"

section \<open>Lines and patterns\<close>

text \<open>
  \<open>bufio.Scanner\<close> over lines: a final line break ends the last line, a carriage return before it is
  dropped, and a line that does not fit the 64 KiB buffer ends the scan with an error (\<open>None\<close>).
\<close>

definition dropCR :: "string \<Rightarrow> string" where
  "dropCR l = (if l \<noteq> [] \<and> last l = CHR 0x0D then butlast l else l)"

definition scan_lines :: "string \<Rightarrow> string option list" where
  "scan_lines s =
    (let parts = Split newline s; ls = (if last parts = [] then butlast parts else parts)
     in map (\<lambda>l. if int (length l) \<ge> 65536 then None else Some (dropCR l)) ls)"

definition token_char :: "char \<Rightarrow> bool" where
  "token_char c = (is_upper c \<or> is_lower c \<or> is_digit c \<or> c = CHR ''.'' \<or> c = CHR ''_'' \<or> c = CHR ''-'')"

definition tokenPatternVPNCore :: "string \<Rightarrow> bool" where
  "tokenPatternVPNCore s = (1 \<le> int (length s) \<and> int (length s) \<le> 64 \<and> list_all token_char s)"

definition uuidPatternVPNCore :: "string \<Rightarrow> bool" where
  "uuidPatternVPNCore s =
    (let parts = Split (CHR ''-'') s in
     map (\<lambda>p. int (length p)) parts = [8, 4, 4, 4, 12] \<and> list_all (list_all (\<lambda>c. hex_digit c \<noteq> None)) parts)"

definition interfacePatternVPNCore :: "string \<Rightarrow> bool" where
  "interfacePatternVPNCore s =
    (1 \<le> int (length s) \<and> int (length s) \<le> 15 \<and> list_all (\<lambda>c. is_lower c \<or> is_digit c) s)"

definition filter_char :: "char \<Rightarrow> bool" where
  "filter_char c = (is_upper c \<or> is_lower c \<or> is_digit c \<or> c = CHR ''.'' \<or> c = CHR '':'' \<or> c = CHR ''/'')"

definition filterWordPatternVPNCore :: "string \<Rightarrow> bool" where
  "filterWordPatternVPNCore s = (s \<noteq> [] \<and> list_all filter_char s)"

section \<open>The runtime directory of a session\<close>

definition ensureRuntimeDirectory ::
    "action_io \<Rightarrow> string \<Rightarrow> 16 word \<Rightarrow> os_view \<Rightarrow> (action_error + unit) \<times> os_view" where
  "ensureRuntimeDirectory io path mode v =
    (let es = path_elems path in
     case (if map_of (nodes v) es \<noteq> None then Inr v
           else case ai_mkdir io es of Some e \<Rightarrow> Inl e | None \<Rightarrow> Inr (set_node es (ai_new_dir io es) v)) of
       Inl e \<Rightarrow> (Inl (RuntimeCreate e), v)
     | Inr v1 \<Rightarrow>
        (case (fstat_err v1 es, map_of (nodes v1) es) of
           (Some e, _) \<Rightarrow> (Inl (SystemCall ''lstat'' e), v1)
         | (None, None) \<Rightarrow> (Inl (SystemCall ''lstat'' ENOENT), v1)
         | (None, Some n) \<Rightarrow>
            if file_type n \<noteq> S_IFDIR then (Inl (RuntimeNotDirectory path), v1)
            else if st_mode n AND 0x1FF \<noteq> mode then (Inl (RuntimeMode path), v1)
            else if ai_euid io = 0 \<and> st_uid n \<noteq> 0 then (Inl (RuntimeNotRootOwned path), v1)
            else (Inr (), v1)))"

definition del_tree :: "string list \<Rightarrow> os_view \<Rightarrow> os_view" where
  "del_tree es v = v\<lparr>nodes := filter (\<lambda>p. \<not> prefix es (fst p)) (nodes v)\<rparr>"

definition newRuntimeDir :: "action_io \<Rightarrow> ServiceConfig \<Rightarrow> os_view \<Rightarrow> (action_error + string) \<times> os_view" where
  "newRuntimeDir io cfg v =
    (if RuntimeDir cfg = [] then (Inl RuntimeDirRequired, v)
     else case ensureRuntimeDirectory io (RuntimeDir cfg) 0x1C9 v of
       (Inl e, v1) \<Rightarrow> (Inl e, v1)
     | (Inr _, v1) \<Rightarrow>
        let base = filepath_Join [RuntimeDir cfg, ''s''] in
        (case ensureRuntimeDirectory io base 0x1C9 v1 of
           (Inl e, v2) \<Rightarrow> (Inl e, v2)
         | (Inr _, v2) \<Rightarrow>
            (case ai_mkdirTemp io of
               Inl e \<Rightarrow> (Inl (SystemCall ''mkdirtemp'' e), v2)
             | Inr random \<Rightarrow>
                let dir = base @ ''/session-'' @ random; es = path_elems dir;
                    n = ai_session_dir io; v3 = set_node es n v2 in
                (case ai_chmod io of
                   Some e \<Rightarrow> (Inl (SystemCall ''chmod'' e), del_tree es v3)
                 | None \<Rightarrow> (Inr dir, set_node es (n\<lparr>st_mode := (st_mode n AND NOT 0x1FF) OR 0x1C0\<rparr>) v3)))))"

section \<open>Children\<close>

text \<open>
  \<open>startManagedChild\<close> on the daemon: the processes after it, and what it did. A start that fails runs
  the cleanup, here \<open>on_cleanup\<close>.
\<close>

definition start_child ::
    "action_io \<Rightarrow> string \<Rightarrow> string list \<Rightarrow> bool \<Rightarrow> string \<Rightarrow> (os_view \<Rightarrow> os_view) \<Rightarrow> root_effect list \<Rightarrow>
     string \<Rightarrow> serviceDaemon \<Rightarrow> (action_error + int \<times> string) \<times> serviceDaemon \<times> root_effect list" where
  "start_child io name args setPGID resultPath on_cleanup cleanup kind d =
    (let started = ai_start io name args in
     case startManagedChild started (ai_random io) (ai_watch io) setPGID resultPath [kind] (d_children d) of
       (r, m, es) \<Rightarrow>
         let d1 = d\<lparr>d_procs := start_step started (ai_random io) (ai_watch io) setPGID resultPath [kind] (d_procs d)\<rparr>;
             exec = (case started of Inl _ \<Rightarrow> [] | Inr _ \<Rightarrow> [ExecChild name args]) in
         (case r of
            Inl e \<Rightarrow> (Inl (ChildError e), d1\<lparr>d_view := on_cleanup (d_view d1)\<rparr>, exec @ map ProcEffect es @ cleanup)
          | Inr ok \<Rightarrow> (Inr ok, d1, exec @ map ProcEffect es)))"

definition handleSingBoxStart ::
    "action_io \<Rightarrow> string \<Rightarrow> bool \<Rightarrow> bool \<Rightarrow> serviceDaemon \<Rightarrow>
     (action_error + int \<times> string) \<times> serviceDaemon \<times> root_effect list" where
  "handleSingBoxStart io configJSON setPGID hasLog d =
    (if \<not> hasLog then (Inl LogFileRequired, d, [])
     else case validateSingBoxConfig (ai_decode io) (ai_encode io) configJSON of
       Inl e \<Rightarrow> (Inl (BadConfig e), d, [])
     | Inr canonical \<Rightarrow>
        (case newRuntimeDir io (d_cfg d) (d_view d) of
           (Inl e, v) \<Rightarrow> (Inl e, d\<lparr>d_view := v\<rparr>, [])
         | (Inr dir, v) \<Rightarrow>
            let configPath = filepath_Join [dir, ''config.json''] in
            (case ai_writeFile io of
               Some e \<Rightarrow> (Inl (SystemCall ''write'' e), d\<lparr>d_view := del_tree (path_elems dir) v\<rparr>, [RemovedTree dir])
             | None \<Rightarrow>
                (case start_child io (ToolPath (d_cfg d) ''sing-box'') [''run'', ''-c'', configPath] setPGID []
                        (del_tree (path_elems dir)) [RemovedTree dir] ''sing-box'' (d\<lparr>d_view := v\<rparr>) of
                   (r, d1, es) \<Rightarrow> (r, d1, WroteFile configPath canonical # es)))))"

section \<open>DNS settings\<close>

definition allIPs :: "string list \<Rightarrow> bool \<Rightarrow> bool" where
  "allIPs values ipv4Only =
    (values \<noteq> [] \<and>
     list_all (\<lambda>value. case ParseAddr value of None \<Rightarrow> False | Some a \<Rightarrow> \<not> (ipv4Only \<and> \<not> Is4 a)) values)"

definition validSCUtilStateKey :: "string \<Rightarrow> bool" where
  "validSCUtilStateKey value =
    (let p = ''State:/Network/Service/'' in
     if \<not> HasPrefix value p then False
     else case Split (CHR ''/'') (TrimPrefix value p) of
       [uuid, leaf] \<Rightarrow> uuidPatternVPNCore uuid \<and> (leaf = ''DNS'' \<or> leaf = ''IPv4'')
     | _ \<Rightarrow> False)"

definition scutil_line :: "string list \<Rightarrow> bool" where
  "scutil_line fs =
    (let n = length fs in
     if n = 1 \<and> (fs ! 0 = ''d.init'' \<or> fs ! 0 = ''quit'') then True
     else if n = 3 \<and> fs ! 0 = ''d.add'' \<and> (fs ! 1 = ''ConfirmedServiceID'' \<or> fs ! 1 = ''InterfaceName'')
       then tokenPatternVPNCore (fs ! 2)
     else if n \<ge> 4 \<and> fs ! 0 = ''d.add'' \<and> fs ! 1 = ''ServerAddresses'' \<and> fs ! 2 = ''*'' then allIPs (drop 3 fs) False
     else if n = 4 \<and> fs ! 0 = ''d.add'' \<and> fs ! 1 = ''Addresses'' \<and> fs ! 2 = ''*'' then allIPs (drop 3 fs) True
     else if n = 3 \<and> fs ! 0 = ''d.add'' \<and> fs ! 1 = ''Router'' then allIPs (drop 2 fs) True
     else if n = 2 \<and> (fs ! 0 = ''set'' \<or> fs ! 0 = ''remove'') then validSCUtilStateKey (fs ! 1)
     else False)"

fun scutil_lines :: "int \<Rightarrow> string option list \<Rightarrow> action_error + unit" where
  "scutil_lines lineCount [] = Inr ()"
| "scutil_lines lineCount (None # ls) = Inl ScannerTooLong"
| "scutil_lines lineCount (Some l # ls) =
    (let fs = Fields l in
     if fs = [] then Inl (ScutilLineEmpty lineCount)
     else if \<not> scutil_line fs then Inl (ScutilGrammar lineCount)
     else scutil_lines (lineCount + 1) ls)"

definition maxRequestBytesVPNCore :: int where
  "maxRequestBytesVPNCore = 1048576"

definition validateSCUtilInput :: "string \<Rightarrow> action_error + unit" where
  "validateSCUtilInput stdin =
    (if stdin = [] \<or> int (length stdin) > maxRequestBytesVPNCore div 2 then Inl ScutilSize
     else scutil_lines 1 (scan_lines stdin))"

text \<open>\<open>runTypedCommand\<close>: output and error; the 20-second limit is one of the errors.\<close>

definition runTypedCommand ::
    "action_io \<Rightarrow> string \<Rightarrow> string list \<Rightarrow> string \<Rightarrow> (string \<times> string option) \<times> root_effect list" where
  "runTypedCommand io name args stdin = (ai_command io name args stdin, [RunCommand name args stdin])"

definition handleSCUtil :: "action_io \<Rightarrow> string \<Rightarrow> (action_error + unit) \<times> root_effect list" where
  "handleSCUtil io stdin =
    (case validateSCUtilInput stdin of
       Inl e \<Rightarrow> (Inl e, [])
     | Inr _ \<Rightarrow>
        (case runTypedCommand io ''/usr/sbin/scutil'' [] stdin of
           ((output, None), es) \<Rightarrow> (Inr (), es)
         | ((output, Some e), es) \<Rightarrow> (Inl (CommandFailed ''scutil'' (e @ '' ('' @ TrimSpace output @ '')'')), es)))"

fun service_in_order :: "string \<Rightarrow> string option list \<Rightarrow> bool" where
  "service_in_order service [] = False"
| "service_in_order service (None # ls) = False"
| "service_in_order service (Some raw # ls) =
    (let line = TrimSpace raw in
     (case Index line '') '' of
        None \<Rightarrow> False
      | Some i \<Rightarrow> TrimSpace (drop (i + 2) line) = service) \<or> service_in_order service ls)"

definition validateNetworkSetup :: "string \<Rightarrow> string list \<Rightarrow> string \<Rightarrow> action_error + unit" where
  "validateNetworkSetup service servers serviceOrder =
    (if service = [] \<or> list_ex (\<lambda>r. r < 32 \<or> r = 127) (runes service) then Inl ServiceNameInvalid
     else if \<not> service_in_order service (scan_lines serviceOrder) then Inl (ServiceNotPresent service)
     else if servers = [] then Inl ServersRequired
     else if servers = [''Empty''] then Inr ()
     else if \<not> allIPs servers False then Inl ServersInvalid
     else Inr ())"

definition handleNetworkSetup ::
    "action_io \<Rightarrow> string \<Rightarrow> string list \<Rightarrow> (action_error + unit) \<times> root_effect list" where
  "handleNetworkSetup io service servers =
    (case runTypedCommand io ''/usr/sbin/networksetup'' [''-listnetworkserviceorder''] [] of
       ((order, Some e), es) \<Rightarrow> (Inl (CommandFailed ''list network services'' e), es)
     | ((order, None), es) \<Rightarrow>
        (case validateNetworkSetup service servers order of
           Inl e \<Rightarrow> (Inl e, es)
         | Inr _ \<Rightarrow>
            (case runTypedCommand io ''/usr/sbin/networksetup'' (''-setdnsservers'' # service # servers) [] of
               ((output, None), es') \<Rightarrow> (Inr (), es @ es')
             | ((output, Some e), es') \<Rightarrow>
                (Inl (CommandFailed ''networksetup'' (e @ '' ('' @ TrimSpace output @ '')'')), es @ es'))))"

section \<open>Resolver files\<close>

text \<open>One directory entry of \<open>/etc/resolver\<close>: what the system calls on it return.\<close>

record resolver_entry =
  re_name :: string
  re_regular :: bool
  re_content :: string
  re_open :: "string option"
  re_read :: "string option"
  re_close :: "string option"
  re_remove :: "string option"

definition IsOpenConnectResolverMarker :: "string \<Rightarrow> bool" where
  "IsOpenConnectResolverMarker firstLine =
    (HasPrefix firstLine ''# Added by openconnect-tun DNS shim'' \<or>
     HasPrefix firstLine ''# Added by openconnect-tun public bypass'')"

text \<open>\<open>ReadString('\n')\<close> on the first 4096 bytes: the line with its line break, or all there is.\<close>

definition first_line :: "string \<Rightarrow> string" where
  "first_line c =
    (let s = take 4096 c; l = takeWhile (\<lambda>x. x \<noteq> newline) s
     in if length l < length s then l @ [newline] else l)"

definition resolverDirVPNCore :: string where
  "resolverDirVPNCore = ''/etc/resolver''"

fun cleanup_entries :: "resolver_entry list \<Rightarrow> (action_error + unit) \<times> root_effect list" where
  "cleanup_entries [] = (Inr (), [])"
| "cleanup_entries (e # es) =
    (let path = filepath_Join [resolverDirVPNCore, re_name e] in
     if \<not> re_regular e then cleanup_entries es
     else case re_open e of
       Some m \<Rightarrow> (Inl (SystemCall ''open'' m), [])
     | None \<Rightarrow>
        (case re_read e of
           Some m \<Rightarrow> (Inl (SystemCall ''read'' m), [])
         | None \<Rightarrow>
            (case re_close e of
               Some m \<Rightarrow> (Inl (SystemCall ''close'' m), [])
             | None \<Rightarrow>
                if IsOpenConnectResolverMarker (first_line (re_content e)) then
                  (case re_remove e of
                     Some m \<Rightarrow> (Inl (SystemCall ''remove'' m), [])
                   | None \<Rightarrow> (case cleanup_entries es of (r, fx) \<Rightarrow> (r, RemovedFile path # fx)))
                else cleanup_entries es)))"

definition handleResolverCleanup ::
    "string + resolver_entry list \<Rightarrow> (action_error + unit) \<times> root_effect list" where
  "handleResolverCleanup dir =
    (case dir of
       Inl e \<Rightarrow> if e = ENOENT then (Inr (), []) else (Inl (SystemCall ''readdir'' e), [])
     | Inr entries \<Rightarrow> cleanup_entries entries)"

section \<open>Packet capture\<close>

definition buildTCPDumpCommand ::
    "string \<Rightarrow> string list \<Rightarrow> bool \<Rightarrow> string \<Rightarrow> string \<Rightarrow> action_error + string list" where
  "buildTCPDumpCommand interfaceName filter' applePCAPNG username outputPath =
    (if interfaceName \<noteq> ''pktap,all'' \<and> \<not> interfacePatternVPNCore interfaceName then Inl TcpdumpInterface
     else if filter' = [] \<or> int (length filter') > 128 then Inl TcpdumpFilterCount
     else case find (\<lambda>w. \<not> filterWordPatternVPNCore w) filter' of
       Some w \<Rightarrow> Inl (TcpdumpFilterWord w)
     | None \<Rightarrow>
        Inr ([''/usr/sbin/tcpdump'', ''-i'', interfaceName, ''-s'', ''0'', ''-U''] @
             (if applePCAPNG then [''--apple-pcapng''] else []) @
             (if username \<noteq> [] then [''-Z'', username] else []) @
             [''-w'', outputPath] @ filter'))"

definition handleTCPDumpStart ::
    "action_io \<Rightarrow> string \<Rightarrow> string list \<Rightarrow> bool \<Rightarrow> bool \<Rightarrow> serviceDaemon \<Rightarrow>
     (action_error + int \<times> string) \<times> serviceDaemon \<times> root_effect list" where
  "handleTCPDumpStart io interfaceName filter' applePCAPNG runAsUser d =
    (if \<not> runAsUser then (Inl RunAsUserRequired, d, [])
     else case ai_lookupUser io (d_clientUID d) of
       Inl e \<Rightarrow> (Inl (ResolveUser e), d, [])
     | Inr username \<Rightarrow>
        (case newRuntimeDir io (d_cfg d) (d_view d) of
           (Inl e, v) \<Rightarrow> (Inl e, d\<lparr>d_view := v\<rparr>, [])
         | (Inr dir, v) \<Rightarrow>
            let outputPath = filepath_Join [dir, ''capture.pcap''] in
            (case buildTCPDumpCommand interfaceName filter' applePCAPNG username outputPath of
               Inl e \<Rightarrow> (Inl e, d\<lparr>d_view := del_tree (path_elems dir) v\<rparr>, [RemovedTree dir])
             | Inr command \<Rightarrow>
                start_child io (hd command) (tl command) False outputPath (\<lambda>v. v) [] ''tcpdump'' (d\<lparr>d_view := v\<rparr>))))"

section \<open>Lemmas\<close>

lemma scutil_lines_ok:
  "scutil_lines i ls = Inr () \<longleftrightarrow> (\<forall>l \<in> set ls. \<exists>t. l = Some t \<and> Fields t \<noteq> [] \<and> scutil_line (Fields t))"
  by (induction i ls rule: scutil_lines.induct) (auto simp: Let_def)

lemma scutil_line_command:
  assumes "scutil_line fs"
  shows "fs \<noteq> [] \<and> hd fs \<in> {''d.init'', ''quit'', ''d.add'', ''set'', ''remove''} \<and>
    (hd fs \<in> {''set'', ''remove''} \<longrightarrow> (\<exists>key. fs = [hd fs, key] \<and> validSCUtilStateKey key))"
proof -
  have ne: "fs \<noteq> []" using assms by (cases fs) (auto simp: scutil_line_def)
  then have hd: "hd fs = fs ! 0" by (simp add: hd_conv_nth)
  have two: "\<exists>key. fs = [fs ! 0, key] \<and> key = fs ! 1" if "length fs = 2"
    using that by (cases fs; cases "tl fs") auto
  show ?thesis
    unfolding hd using assms ne two
    by (auto simp: scutil_line_def Let_def split: if_splits)
qed

lemma filter_char_no_dash: "filter_char c \<Longrightarrow> c \<noteq> CHR ''-''"
  by (auto simp: filter_char_def is_upper_def is_lower_def is_digit_def)

lemma interface_no_dash: "interfacePatternVPNCore s \<Longrightarrow> CHR ''-'' \<notin> set s"
  by (auto simp: interfacePatternVPNCore_def list_all_iff is_lower_def is_digit_def)

lemma find_None_all: "find P xs = None \<longleftrightarrow> (\<forall>x \<in> set xs. \<not> P x)"
  by (induction xs) auto

lemma tcpdump_ok:
  "buildTCPDumpCommand i f apple user out = Inr command \<Longrightarrow>
    (\<forall>w \<in> set f. filterWordPatternVPNCore w) \<and> f \<noteq> [] \<and> length f \<le> 128 \<and>
    (i = ''pktap,all'' \<or> interfacePatternVPNCore i) \<and> hd command = ''/usr/sbin/tcpdump''"
  by (auto simp: buildTCPDumpCommand_def find_None_all split: if_splits option.splits)

lemma cleanup_entries_removed:
  "RemovedFile path \<in> set (snd (cleanup_entries es)) \<Longrightarrow>
    \<exists>e \<in> set es. re_regular e \<and> IsOpenConnectResolverMarker (first_line (re_content e)) \<and>
      path = filepath_Join [resolverDirVPNCore, re_name e]"
  by (induction es) (auto simp: Let_def split: if_splits option.splits prod.splits)

lemma cleanup_entries_complete:
  "fst (cleanup_entries es) = Inr () \<Longrightarrow> e \<in> set es \<Longrightarrow> re_regular e \<Longrightarrow>
    IsOpenConnectResolverMarker (first_line (re_content e)) \<Longrightarrow>
    RemovedFile (filepath_Join [resolverDirVPNCore, re_name e]) \<in> set (snd (cleanup_entries es))"
  by (induction es) (auto simp: Let_def split: if_splits option.splits prod.splits)

lemma start_child_exec:
  "start_child io name args setPGID resultPath f cleanup kind d = (r, d', es) \<Longrightarrow> ExecChild n a \<in> set es \<Longrightarrow>
    n = name \<and> a = args \<or> ExecChild n a \<in> set cleanup"
  by (auto simp: start_child_def Let_def split: prod.splits sum.splits)

lemma start_child_command:
  "start_child io name args setPGID resultPath f cleanup kind d = (r, d', es) \<Longrightarrow> RunCommand n a i \<in> set es \<Longrightarrow>
    RunCommand n a i \<in> set cleanup"
  by (auto simp: start_child_def Let_def split: prod.splits sum.splits)

lemma start_child_frame:
  "start_child io name args setPGID resultPath f cleanup kind d = (r, d', es) \<Longrightarrow>
    d_clientUID d' = d_clientUID d \<and> d_requests d' = d_requests d \<and> d_drainToken d' = d_drainToken d \<and> d_drainUntil d' = d_drainUntil d \<and>
    d_procs d' = start_step (ai_start io name args) (ai_random io) (ai_watch io) setPGID resultPath [kind] (d_procs d)"
  by (auto simp: start_child_def Let_def split: prod.splits sum.splits)

lemma validated_root:
  "validateSingBoxConfig json_decode json_encode data = Inr canonical \<Longrightarrow>
    \<exists>root. json_decode data = Inr (Some root) \<and> conforms (JObject root) ''root'' \<and> json_encode (JObject root) = Inr canonical"
  by (auto simp: validateSingBoxConfig_def conforms_iff [symmetric, where location = "''$''"]
      split: sum.splits option.splits if_splits)

section \<open>Properties\<close>

text \<open>
  What scutil reads as root is confined: an accepted script has only the five known commands, and
  every \<open>set\<close> and \<open>remove\<close> in it addresses the DNS or IPv4 key of one network service, named by a UUID.
\<close>

theorem scutil_confined:
  assumes "RunCommand name args stdin \<in> set (snd (handleSCUtil io input))"
  shows "name = ''/usr/sbin/scutil'' \<and> args = [] \<and> stdin = input \<and> 2 * int (length stdin) \<le> maxRequestBytesVPNCore \<and>
    (\<forall>l \<in> set (scan_lines stdin). \<exists>t fs. l = Some t \<and> fs = Fields t \<and> fs \<noteq> [] \<and>
       hd fs \<in> {''d.init'', ''quit'', ''d.add'', ''set'', ''remove''} \<and>
       (hd fs \<in> {''set'', ''remove''} \<longrightarrow> (\<exists>key. fs = [hd fs, key] \<and> validSCUtilStateKey key)))"
proof -
  have valid: "validateSCUtilInput input = Inr ()" and cmd: "name = ''/usr/sbin/scutil''" "args = []" "stdin = input"
    using assms by (auto simp: handleSCUtil_def runTypedCommand_def split: sum.splits prod.splits option.splits)
  then have "scutil_lines 1 (scan_lines input) = Inr ()" "\<not> int (length input) > maxRequestBytesVPNCore div 2"
    by (auto simp: validateSCUtilInput_def split: if_splits)
  then show ?thesis
    using cmd scutil_line_command by (auto simp: scutil_lines_ok maxRequestBytesVPNCore_def)
qed

text \<open>
  A capture cannot smuggle options into tcpdump: the program is fixed, and neither the interface
  nor any word of the filter, the last arguments, contains a dash.
\<close>

theorem tcpdump_no_options:
  assumes "buildTCPDumpCommand interfaceName filter' apple user outputPath = Inr command"
  shows "\<exists>options. command = ''/usr/sbin/tcpdump'' # ''-i'' # interfaceName # options @ [''-w'', outputPath] @ filter' \<and>
    set options \<subseteq> {''-s'', ''0'', ''-U'', ''--apple-pcapng'', ''-Z'', user} \<and> CHR ''-'' \<notin> set interfaceName \<and>
    (\<forall>w \<in> set filter'. w \<noteq> [] \<and> CHR ''-'' \<notin> set w)"
proof -
  note ok = tcpdump_ok [OF assms]
  have "CHR ''-'' \<notin> set interfaceName"
    using ok interface_no_dash by auto
  moreover have "\<forall>w \<in> set filter'. w \<noteq> [] \<and> CHR ''-'' \<notin> set w"
    using ok filter_char_no_dash by (fastforce simp: filterWordPatternVPNCore_def list_all_iff)
  moreover have "\<exists>options. command = ''/usr/sbin/tcpdump'' # ''-i'' # interfaceName # options @ [''-w'', outputPath] @ filter' \<and>
    set options \<subseteq> {''-s'', ''0'', ''-U'', ''--apple-pcapng'', ''-Z'', user}"
    using assms
    by (intro exI [of _ "[''-s'', ''0'', ''-U''] @ (if apple then [''--apple-pcapng''] else []) @
          (if user \<noteq> [] then [''-Z'', user] else [])"])
      (auto simp: buildTCPDumpCommand_def split: if_splits option.splits)
  ultimately show ?thesis by blast
qed

text \<open>
  (C25) Root starts sing-box only on a checked configuration: whatever \<open>singbox.start\<close> executes is the
  packaged sing-box, on a file in the daemon's own session directory that it has just written with the
  encoding of a tree that conforms to the schema.
\<close>

theorem singbox_start_confined:
  assumes "handleSingBoxStart io configJSON setPGID hasLog d = (r, d', es)"
    and "ExecChild name args \<in> set es"
  shows "name = ToolPath (d_cfg d) ''sing-box'' \<and> hasLog \<and>
    (\<exists>dir v canonical root. newRuntimeDir io (d_cfg d) (d_view d) = (Inr dir, v) \<and>
      args = [''run'', ''-c'', filepath_Join [dir, ''config.json'']] \<and>
      WroteFile (filepath_Join [dir, ''config.json'']) canonical \<in> set es \<and>
      ai_decode io configJSON = Inr (Some root) \<and> conforms (JObject root) ''root'' \<and>
      ai_encode io (JObject root) = Inr canonical)"
proof -
  from assms obtain canonical dir v where valid: "validateSingBoxConfig (ai_decode io) (ai_encode io) configJSON = Inr canonical"
    and dir: "newRuntimeDir io (d_cfg d) (d_view d) = (Inr dir, v)" and log: "hasLog"
    by (auto simp: handleSingBoxStart_def split: if_splits sum.splits prod.splits)
  obtain r1 d1 es1 where start: "start_child io (ToolPath (d_cfg d) ''sing-box'')
      [''run'', ''-c'', filepath_Join [dir, ''config.json'']] setPGID [] (del_tree (path_elems dir)) [RemovedTree dir]
      ''sing-box'' (d\<lparr>d_view := v\<rparr>) = (r1, d1, es1)"
    by (metis prod.exhaust)
  have "es = WroteFile (filepath_Join [dir, ''config.json'']) canonical # es1"
    using assms valid dir log start
    by (auto simp: handleSingBoxStart_def Let_def split: option.splits)
  then show ?thesis
    using assms(2) start_child_exec [OF start, of name args] validated_root [OF valid] dir log by auto
qed

text \<open>
  Resolver cleanup removes the files the program owns and no other: a file it removes is a regular
  file of \<open>/etc/resolver\<close> whose first line carries the openconnect-tun marker, and when it reports
  success every such file has been removed.
\<close>

theorem resolver_cleanup_exact:
  "handleResolverCleanup (Inr entries) = (r, es) \<Longrightarrow>
    (\<forall>path. RemovedFile path \<in> set es \<longrightarrow> (\<exists>e \<in> set entries. re_regular e \<and>
       IsOpenConnectResolverMarker (first_line (re_content e)) \<and> path = filepath_Join [resolverDirVPNCore, re_name e])) \<and>
    (r = Inr () \<longrightarrow> (\<forall>e \<in> set entries. re_regular e \<and> IsOpenConnectResolverMarker (first_line (re_content e)) \<longrightarrow>
       RemovedFile (filepath_Join [resolverDirVPNCore, re_name e]) \<in> set es))"
  using cleanup_entries_removed [of _ entries] cleanup_entries_complete [of entries]
  by (auto simp: handleResolverCleanup_def)

section \<open>Witnesses\<close>

definition sample_script :: string where
  "sample_script = ''d.init'' @ [newline] @ ''d.add ServerAddresses * 10.0.0.1 fd00::1'' @ [newline] @
     ''set State:/Network/Service/01234567-89ab-cdef-0123-456789ABCDEF/DNS'' @ [newline] @ ''quit'' @ [newline]"

definition sample_action_io :: action_io where
  "sample_action_io =
    \<lparr>ai_euid = 0, ai_mkdir = (\<lambda>_. None),
     ai_new_dir = (\<lambda>_. \<lparr>st_mode = 0x41C9, st_uid = 0, st_gid = 0, st_dev = 1, st_ino = 9, acl = None, content = []\<rparr>),
     ai_mkdirTemp = Inr ''42'',
     ai_session_dir = \<lparr>st_mode = 0x41C0, st_uid = 0, st_gid = 0, st_dev = 1, st_ino = 11, acl = None, content = []\<rparr>,
     ai_chmod = None, ai_writeFile = None, ai_start = (\<lambda>_ _. Inr 4242), ai_random = Inr sample_handle_bytes,
     ai_watch = None, ai_command = (\<lambda>_ _ _. ([], None)), ai_lookupUser = (\<lambda>_. Inr ''user''),
     ai_decode = (\<lambda>_. Inr (Some [(''log'', JObject [(''level'', JString ''info'')])])), ai_encode = (\<lambda>_. Inr ''{}'')\<rparr>"

theorem scutil_confined_witness:
  "list_all (\<lambda>l. case l of None \<Rightarrow> False
     | Some t \<Rightarrow> hd (Fields t) \<in> {''d.init'', ''quit'', ''d.add'', ''set'', ''remove''}) (scan_lines sample_script)"
proof -
  have "snd (handleSCUtil sample_action_io sample_script) = [RunCommand ''/usr/sbin/scutil'' [] sample_script]"
    by code_simp
  then have "RunCommand ''/usr/sbin/scutil'' [] sample_script \<in> set (snd (handleSCUtil sample_action_io sample_script))"
    by simp
  from scutil_confined [OF this] show ?thesis
    by (fastforce simp: list_all_iff)
qed

theorem tcpdump_no_options_witness:
  "\<exists>options. [''/usr/sbin/tcpdump'', ''-i'', ''en0'', ''-s'', ''0'', ''-U'', ''-Z'', ''user'', ''-w'', ''/x'', ''tcp''] =
     ''/usr/sbin/tcpdump'' # ''-i'' # ''en0'' # options @ [''-w'', ''/x''] @ [''tcp''] \<and> CHR ''-'' \<notin> set ''en0''"
proof -
  have "buildTCPDumpCommand ''en0'' [''tcp''] False ''user'' ''/x'' =
      Inr [''/usr/sbin/tcpdump'', ''-i'', ''en0'', ''-s'', ''0'', ''-U'', ''-Z'', ''user'', ''-w'', ''/x'', ''tcp'']"
    by code_simp
  from tcpdump_no_options [OF this] show ?thesis by blast
qed

theorem singbox_start_confined_witness:
  "\<exists>root. ai_decode sample_action_io ''{}'' = Inr (Some root) \<and> conforms (JObject root) ''root''"
proof -
  let ?r = "handleSingBoxStart sample_action_io ''{}'' True True sample_daemon"
  have "list_ex (\<lambda>e. case e of ExecChild n a \<Rightarrow> True | _ \<Rightarrow> False) (snd (snd ?r))" by code_simp
  then obtain n a where "ExecChild n a \<in> set (snd (snd ?r))"
    unfolding list_ex_iff by (metis root_effect.exhaust root_effect.simps(38-42))
  from singbox_start_confined [OF _ this] show ?thesis by (metis prod.collapse)
qed

theorem resolver_cleanup_exact_witness:
  "RemovedFile ''/etc/resolver/corp'' \<in> set (snd (handleResolverCleanup (Inr
     [\<lparr>re_name = ''corp'', re_regular = True, re_content = ''# Added by openconnect-tun DNS shim'' @ [newline],
       re_open = None, re_read = None, re_close = None, re_remove = None\<rparr>])))"
proof -
  let ?e = "\<lparr>re_name = ''corp'', re_regular = True, re_content = ''# Added by openconnect-tun DNS shim'' @ [newline],
       re_open = None, re_read = None, re_close = None, re_remove = None\<rparr>"
  let ?r = "handleResolverCleanup (Inr [?e])"
  have r: "?r = (fst ?r, snd ?r)" and ok: "fst ?r = Inr ()"
    and marked: "IsOpenConnectResolverMarker (first_line (re_content ?e))"
    and path: "filepath_Join [resolverDirVPNCore, re_name ?e] = ''/etc/resolver/corp''"
    by simp code_simp+
  from conjunct2 [OF resolver_cleanup_exact [OF r], rule_format, OF ok, of ?e] marked path show ?thesis by simp
qed

end
