(* ===== verification/Vpn_Service.thy ===== *)
theory Vpn_Service
  imports Vpn_Request Typed_Actions
begin

text \<open>
  The daemon, \<open>service.go\<close>: \<open>acceptConnection\<close> and \<open>handleConn\<close>. \<open>dispatch\<close> is the body of
  \<open>handleConn\<close> between \<open>begin\<close> and \<open>complete\<close>. The machine below interleaves the connections the way
  the goroutines do: each connection reads its request, takes the mutation lock unless it is a ping,
  is dispatched and completes; exit callbacks of children run at any time; the clock moves on.
\<close>

section \<open>Dispatch\<close>

datatype service_error =
    Draining
  | MaintenanceError maintenance_error
  | ActionError action_error
  | SignalError child_error
  | BadRequest request_error
  | UnknownAction string

record Response =
  rp_Token :: string
  rp_OK :: bool
  rp_Error :: "service_error option"
  rp_DaemonPID :: int
  rp_PID :: int
  rp_Handle :: string
  rp_Path :: string
  rp_HelperSnapshot :: "HelperSnapshot option"
  rp_MaintenanceDrain :: "MaintenanceDrainState option"

definition newResponse :: "int \<Rightarrow> Response" where
  "newResponse pid = \<lparr>rp_Token = [], rp_OK = True, rp_Error = None, rp_DaemonPID = pid, rp_PID = 0, rp_Handle = [],
     rp_Path = [], rp_HelperSnapshot = None, rp_MaintenanceDrain = None\<rparr>"

definition responseError :: "service_error + 'a \<Rightarrow> Response \<Rightarrow> Response" where
  "responseError r response =
    (case r of Inl e \<Rightarrow> response\<lparr>rp_OK := False, rp_Error := Some e\<rparr> | Inr _ \<Rightarrow> response)"

definition map_error :: "('e \<Rightarrow> 'f) \<Rightarrow> 'e + 'a \<Rightarrow> 'f + 'a" where
  "map_error f r = (case r of Inl e \<Rightarrow> Inl (f e) | Inr x \<Rightarrow> Inr x)"

text \<open>What the outside world answers while one request is dispatched.\<close>

record dispatch_env =
  de_pid :: int
  de_files :: lease_files
  de_token_random :: "string + int list"
  de_io :: action_io
  de_kill :: "int \<Rightarrow> signal_t \<Rightarrow> string option"
  de_resolvers :: "string + resolver_entry list"

definition childResponse :: "action_error + int \<times> string \<Rightarrow> Response \<Rightarrow> Response" where
  "childResponse r response =
    (case r of
       Inl e \<Rightarrow> response\<lparr>rp_OK := False, rp_Error := Some (ActionError e)\<rparr>
     | Inr (pid, handle) \<Rightarrow> response\<lparr>rp_PID := pid, rp_Handle := handle\<rparr>)"

definition handle_action ::
    "dispatch_env \<Rightarrow> go_time \<Rightarrow> go_time \<Rightarrow> go_time \<Rightarrow> request_id \<Rightarrow> Request \<Rightarrow> int option \<Rightarrow> serviceDaemon \<Rightarrow>
     Response \<times> serviceDaemon \<times> root_effect list" where
  "handle_action env t1 t2 t3 rid request log d =
    (let response = newResponse (de_pid env); action = rq_Action request in
     if action = ''ping'' then
       (response\<lparr>rp_HelperSnapshot := Some (snapshot t1 (d_requests d)),
          rp_MaintenanceDrain := Some (maintenanceDrainState t2 d)\<rparr>, d, [])
     else if action = ''maintenance.drain'' then
       (case drain (de_files env) (de_token_random env) t1 rid d of
          (r, d1) \<Rightarrow> ((responseError (map_error MaintenanceError r) response)
             \<lparr>rp_Token := (case r of Inl _ \<Rightarrow> [] | Inr token \<Rightarrow> token)\<rparr>, d1, []))
     else if action = ''maintenance.undrain'' then
       (case undrain (de_files env) t1 (rq_Token request) d of
          (r, d1) \<Rightarrow> (responseError (map_error MaintenanceError r) response, d1, []))
     else if action = ''maintenance.renew'' then
       (case renew (de_files env) t1 t2 t3 (rq_Token request) rid d of
          (r, d1) \<Rightarrow>
            let response1 = responseError (map_error MaintenanceError r) response in
            (if rp_OK response1 then response1\<lparr>rp_Token := rq_Token request\<rparr> else response1, d1, []))
     else if action = ''singbox.start'' then
       (case handleSingBoxStart (de_io env) (rq_ConfigJSON request) (rq_SetPGID request) (log \<noteq> None) d of
          (r, d1, es) \<Rightarrow> (childResponse r response, d1, es))
     else if action = ''dns.scutil'' then
       (case handleSCUtil (de_io env) (rq_Stdin request) of
          (r, es) \<Rightarrow> (responseError (map_error ActionError r) response, d, es))
     else if action = ''dns.networksetup'' then
       (case handleNetworkSetup (de_io env) (rq_Service request) (rq_Servers request) of
          (r, es) \<Rightarrow> (responseError (map_error ActionError r) response, d, es))
     else if action = ''resolver.cleanup'' then
       (case handleResolverCleanup (de_resolvers env) of
          (r, es) \<Rightarrow> (responseError (map_error ActionError r) response, d, es))
     else if action = ''tcpdump.start'' then
       (case handleTCPDumpStart (de_io env) (rq_Interface request) (rq_Filter request) (rq_ApplePCAPNG request)
               (rq_RunAsUser request) d of
          (r, d1, es) \<Rightarrow> (childResponse r response, d1, es))
     else if action = ''signal'' then
       (case handleSignal (de_kill env) (rq_Handle request) (rq_Signal request) (d_children d) of
          (Inl e, es) \<Rightarrow> (response\<lparr>rp_OK := False, rp_Error := Some (SignalError e)\<rparr>, d, map ProcEffect es)
        | (Inr path, es) \<Rightarrow> (response\<lparr>rp_Path := path\<rparr>, d, map ProcEffect es))
     else (response\<lparr>rp_OK := False, rp_Error := Some (UnknownAction action)\<rparr>, d, []))"

definition mutating :: "Request \<Rightarrow> bool" where
  "mutating request = (rq_Action request \<noteq> ''ping'')"

text \<open>
  \<open>dispatch\<close>: the drain check, then the action. \<open>t0\<close> to \<open>t3\<close> are the clock readings in order.
\<close>

definition dispatch ::
    "dispatch_env \<Rightarrow> go_time \<Rightarrow> go_time \<Rightarrow> go_time \<Rightarrow> go_time \<Rightarrow> request_id \<Rightarrow> Request \<Rightarrow> int option \<Rightarrow> serviceDaemon \<Rightarrow>
     Response \<times> serviceDaemon \<times> root_effect list" where
  "dispatch env t0 t1 t2 t3 rid request log d =
    (if mutating request \<and> rq_Action request \<noteq> ''maintenance.undrain'' \<and> rq_Action request \<noteq> ''maintenance.renew'' then
       (case drainActive (de_files env) t0 d of
          (True, d1) \<Rightarrow>
            (responseError (Inl Draining :: service_error + unit) (newResponse (de_pid env)), d1, [])
        | (False, d1) \<Rightarrow> handle_action env t1 t2 t3 rid request log d1)
     else handle_action env t1 t2 t3 rid request log d)"

section \<open>Connections\<close>

definition maxConcurrentConnections :: nat where
  "maxConcurrentConnections = 16"

datatype phase = Reading | Ready Request "int option" | Running Request "int option" | Finished Request Response

record machine =
  mc_daemon :: serviceDaemon
  mc_conns :: "(request_id, phase) gomap"
  mc_holder :: "request_id option"
  mc_clock :: go_time

datatype accept_result = PeerUnknown string | PeerRefused int | LimitReached | Accepted request_id

definition acceptConnection :: "string + int \<Rightarrow> machine \<Rightarrow> accept_result \<times> machine" where
  "acceptConnection peer s =
    (case peer of
       Inl e \<Rightarrow> (PeerUnknown e, s)
     | Inr uid \<Rightarrow>
        if uid \<noteq> 0 \<and> uid \<noteq> d_clientUID (mc_daemon s) mod 2 ^ 32 then (PeerRefused uid, s)
        else if length (mc_conns s) < maxConcurrentConnections then
          (case enqueue (mc_clock s) (d_requests (mc_daemon s)) of
             (rid, t) \<Rightarrow> (Accepted rid, s\<lparr>mc_daemon := (mc_daemon s)\<lparr>d_requests := t\<rparr>,
                                          mc_conns := map_set rid Reading (mc_conns s)\<rparr>))
        else (LimitReached, s))"

definition set_requests :: "(requestTracker \<Rightarrow> requestTracker) \<Rightarrow> machine \<Rightarrow> machine" where
  "set_requests f s = s\<lparr>mc_daemon := (mc_daemon s)\<lparr>d_requests := f (d_requests (mc_daemon s))\<rparr>\<rparr>"

text \<open>The steps of \<open>handleConn\<close> for one connection.\<close>

definition conn_failed :: "request_id \<Rightarrow> machine \<Rightarrow> machine" where
  "conn_failed rid s = (set_requests (abandon rid) s)\<lparr>mc_conns := map_del rid (mc_conns s)\<rparr>"

definition conn_read :: "request_id \<Rightarrow> Request \<Rightarrow> int option \<Rightarrow> machine \<Rightarrow> machine" where
  "conn_read rid request log s = s\<lparr>mc_conns := map_set rid (Ready request log) (mc_conns s)\<rparr>"

definition conn_begin :: "request_id \<Rightarrow> Request \<Rightarrow> int option \<Rightarrow> machine \<Rightarrow> machine" where
  "conn_begin rid request log s =
    (set_requests (begin_request (mc_clock s) rid (rq_Action request)) s)
      \<lparr>mc_conns := map_set rid (Running request log) (mc_conns s),
       mc_holder := (if mutating request then Some rid else mc_holder s)\<rparr>"

definition conn_dispatch ::
    "dispatch_env \<Rightarrow> go_time \<Rightarrow> go_time \<Rightarrow> go_time \<Rightarrow> go_time \<Rightarrow> request_id \<Rightarrow> Request \<Rightarrow> int option \<Rightarrow> machine \<Rightarrow> machine" where
  "conn_dispatch env t0 t1 t2 t3 rid request log s =
    (case dispatch env t0 t1 t2 t3 rid request log (mc_daemon s) of
       (response, d, es) \<Rightarrow> s\<lparr>mc_daemon := d, mc_conns := map_set rid (Finished request response) (mc_conns s), mc_clock := t3\<rparr>)"

definition conn_finish :: "request_id \<Rightarrow> Request \<Rightarrow> Response \<Rightarrow> machine \<Rightarrow> machine" where
  "conn_finish rid request response s =
    (set_requests (complete (mc_clock s) rid (rp_OK response)) s)
      \<lparr>mc_conns := map_del rid (mc_conns s), mc_holder := (if mutating request then None else mc_holder s)\<rparr>"

definition set_procs :: "(procs \<Rightarrow> procs) \<Rightarrow> machine \<Rightarrow> machine" where
  "set_procs f s = s\<lparr>mc_daemon := (mc_daemon s)\<lparr>d_procs := f (d_procs (mc_daemon s))\<rparr>\<rparr>"

text \<open>
  The kernel hands out a fresh process identifier and the random source an unused handle; the request
  counter has not run through all its \<open>2 ^ 64\<close> values.
\<close>

definition env_ok :: "dispatch_env \<Rightarrow> serviceDaemon \<Rightarrow> bool" where
  "env_ok env d =
    ((\<forall>name args. fresh_pid (ai_start (de_io env) name args) (d_procs d)) \<and>
     unused_handle (ai_random (de_io env)) (d_children d))"

inductive service_step :: "machine \<Rightarrow> machine \<Rightarrow> bool" where
  accept: "nextID (d_requests (mc_daemon s)) \<noteq> - 1 \<Longrightarrow> service_step s (snd (acceptConnection peer s))"
| read_failed: "map_of (mc_conns s) rid = Some Reading \<Longrightarrow> service_step s (conn_failed rid s)"
| read_ok: "map_of (mc_conns s) rid = Some Reading \<Longrightarrow> readRequest renv ms = (Inr (request, log), received, closed) \<Longrightarrow>
    service_step s (conn_read rid request log s)"
| begin_conn: "map_of (mc_conns s) rid = Some (Ready request log) \<Longrightarrow> (mutating request \<longrightarrow> mc_holder s = None) \<Longrightarrow>
    service_step s (conn_begin rid request log s)"
| dispatch_conn: "map_of (mc_conns s) rid = Some (Running request log) \<Longrightarrow> env_ok env (mc_daemon s) \<Longrightarrow>
    mc_clock s \<le> t0 \<Longrightarrow> t0 \<le> t1 \<Longrightarrow> t1 \<le> t2 \<Longrightarrow> t2 \<le> t3 \<Longrightarrow>
    service_step s (conn_dispatch env t0 t1 t2 t3 rid request log s)"
| finish_conn: "map_of (mc_conns s) rid = Some (Finished request response) \<Longrightarrow>
    service_step s (conn_finish rid request response s)"
| child_exited: "map_of (d_children (mc_daemon s)) handle = Some child \<Longrightarrow>
    service_step s (set_procs (exit_remove handle (ch_pid child)) s)"
| child_reaped: "pid \<in> set (reaping (d_procs (mc_daemon s))) \<Longrightarrow> service_step s (set_procs (exit_reap pid) s)"
| clock: "mc_clock s \<le> t \<Longrightarrow> service_step s (s\<lparr>mc_clock := t\<rparr>)"

inductive_cases service_stepE: "service_step s t"

text \<open>A started daemon: it may have adopted a lease; it has no request, no child and no connection.\<close>

definition service_start :: "machine \<Rightarrow> bool" where
  "service_start s =
    (d_requests (mc_daemon s) = newRequestTracker \<and> d_procs (mc_daemon s) = procs_init \<and>
     mc_conns s = [] \<and> mc_holder s = None)"

section \<open>Lemmas\<close>

subsection \<open>What a dispatched action changes\<close>

definition started_by :: "action_io \<Rightarrow> procs \<Rightarrow> procs \<Rightarrow> bool" where
  "started_by io p p' = (\<exists>name args setPGID resultPath kind.
     p' = start_step (ai_start io name args) (ai_random io) (ai_watch io) setPGID resultPath kind p)"

text \<open>An action that may start a child: it keeps everything but the file view and the processes.\<close>

definition child_frame :: "action_io \<Rightarrow> serviceDaemon \<Rightarrow> serviceDaemon \<Rightarrow> bool" where
  "child_frame io d d' =
    (d_clientUID d' = d_clientUID d \<and> d_requests d' = d_requests d \<and> d_drainToken d' = d_drainToken d \<and> d_drainUntil d' = d_drainUntil d \<and>
     (d_procs d' = d_procs d \<or> started_by io (d_procs d) (d_procs d')))"

lemma start_child_child_frame:
  assumes "start_child io name args setPGID resultPath f cleanup kind (d\<lparr>d_view := v\<rparr>) = (r, d', es)"
  shows "child_frame io d d'"
  using start_child_frame [OF assms] unfolding child_frame_def started_by_def by (simp, blast)

lemma singbox_frame: "handleSingBoxStart io c g l d = (r, d', es) \<Longrightarrow> child_frame io d d'"
  by (auto simp: handleSingBoxStart_def Let_def child_frame_def
      dest!: start_child_child_frame [unfolded child_frame_def] split: if_splits sum.splits prod.splits option.splits)

lemma tcpdump_frame: "handleTCPDumpStart io i f a u d = (r, d', es) \<Longrightarrow> child_frame io d d'"
  by (auto simp: handleTCPDumpStart_def Let_def child_frame_def
      dest!: start_child_child_frame [unfolded child_frame_def] split: if_splits sum.splits prod.splits)

text \<open>
  An action that runs once the drain check has passed: it only starts children when no drain token
  is held, and only an idle daemon becomes drained.
\<close>

definition quiet :: "go_time \<Rightarrow> serviceDaemon \<Rightarrow> serviceDaemon \<Rightarrow> bool" where
  "quiet t d d' = (d_procs d' = d_procs d \<and> d_requests d' = d_requests d \<and> d_clientUID d' = d_clientUID d \<and>
    (live_drain t d' \<longrightarrow> live_drain t d \<or> d_children d = []))"

lemma quiet_refl [simp]: "quiet t d d"
  by (simp add: quiet_def)

lemma live_mono: "live_drain t d \<Longrightarrow> u \<le> t \<Longrightarrow> live_drain u d"
  by (auto simp: live_drain_def)

lemma persist_state_uid: "persist_state lf w token until d = (r, d') \<Longrightarrow> d_clientUID d' = d_clientUID d"
  by (auto simp: persist_state_def setMaintenanceState_def split: prod.splits sum.splits)

lemma drain_quiet:
  assumes "drain lf rnd t rid d = (r, d')" "tracker_inv (d_requests d)"
  shows "quiet u d d'"
proof (cases r)
  case (Inl e)
  then show ?thesis
    using assms by (auto simp: quiet_def live_drain_def frame_def dest!: drain_err
        dest: persist_state_err persist_state_uid)
next
  case (Inr token)
  with assms have "busy_reasons rid d = []" and p: "\<exists>raw. persist_state lf PersistDrain (hex_encode raw) (t + maintenanceDrainTTL) d = (Inr token, d')"
    by (auto simp: drain_ok)
  then have "d_children d = []"
    using assms(2) by (simp add: busy_reasons_idle idle_def)
  then show ?thesis
    using p by (auto simp: quiet_def frame_def dest: persist_state_ok(2) persist_state_uid)
qed

lemma requireDrainToken_quiet:
  "requireDrainToken lf t token d = (r, d') \<Longrightarrow> d_clientUID d' = d_clientUID d \<and> frame d' = frame d \<and>
    (d_drainToken d' = [] \<or> d' = d)"
  by (auto simp: requireDrainToken_def drainActive_def setMaintenanceState_def frame_def split: prod.splits if_splits)

lemma undrain_quiet:
  assumes "undrain lf t token d = (r, d')"
  shows "quiet u d d'"
  using assms requireDrainToken_quiet [of lf t token d]
  by (auto simp: undrain_def quiet_def live_drain_def frame_def setMaintenanceState_def
      split: prod.splits sum.splits)

lemma renew_quiet:
  assumes "renew lf t1 t2 t3 token rid d = (r, d')" "tracker_inv (d_requests d)"
  shows "quiet u d d'"
proof -
  obtain q1 d1 where req1: "requireDrainToken lf t1 token d = (q1, d1)" by fastforce
  note f1 = requireDrainToken_quiet [OF req1]
  obtain q2 d2 where req2: "requireDrainToken lf t2 token d1 = (q2, d2)" by fastforce
  note f2 = requireDrainToken_quiet [OF req2]
  obtain q3 d3 where per: "persist_state lf PersistRenewal token (t3 + maintenanceDrainTTL) d2 = (q3, d3)" by fastforce
  have f3: "d_clientUID d3 = d_clientUID d2" "frame d3 = frame d2"
    "q3 = Inl e \<Longrightarrow> d_drainToken d3 = d_drainToken d2 \<and> d_drainUntil d3 = d_drainUntil d2" for e
    using persist_state_uid [OF per] per by (cases q3; auto dest: persist_state_ok(2) persist_state_err)+
  have d': "d' = d1 \<or> busy_reasons rid d1 = [] \<and> (d' = d2 \<or> d' = d3)"
    using assms(1) req1 req2 per
    by (cases q1; cases q2; cases q3) (auto simp: renew_def withIdle_def split: if_splits)
  have idle: "d_children d = []" if "busy_reasons rid d1 = []"
    using that f1 assms(2) busy_reasons_idle [of d1 rid] by (auto simp: frame_def idle_def)
  show ?thesis
    using d' f1 f2 f3(1,2) idle by (auto simp: quiet_def frame_def live_drain_def)
qed

lemma handle_action_effect:
  assumes "handle_action env t1 t2 t3 rid request log d = (response, d', es)" and "tracker_inv (d_requests d)"
  shows "quiet t d d' \<or> child_frame (de_io env) d d' \<and> rq_Action request \<in> {''singbox.start'', ''tcpdump.start''}"
  using assms drain_quiet undrain_quiet renew_quiet singbox_frame tcpdump_frame
  unfolding handle_action_def Let_def
  by (auto split: if_splits prod.splits sum.splits)

lemma drainActive_uid: "drainActive lf t d = (b, d') \<Longrightarrow> d_clientUID d' = d_clientUID d"
  by (auto simp: drainActive_def setMaintenanceState_def split: if_splits)

definition starts :: "action_io \<Rightarrow> serviceDaemon \<Rightarrow> serviceDaemon \<Rightarrow> bool" where
  "starts io d d' =
    (d_requests d' = d_requests d \<and> d_clientUID d' = d_clientUID d \<and> d_drainToken d' = [] \<and>
     started_by io (d_procs d) (d_procs d'))"

lemma dispatch_effect:
  assumes "dispatch env t0 t1 t2 t3 rid request log d = (response, d', es)" and inv: "tracker_inv (d_requests d)"
  shows "quiet t d d' \<or> starts (de_io env) d d'"
proof (cases "mutating request \<and> rq_Action request \<noteq> ''maintenance.undrain'' \<and> rq_Action request \<noteq> ''maintenance.renew''")
  case True
  obtain b d1 where act: "drainActive (de_files env) t0 d = (b, d1)" by fastforce
  note a = drainActive_cases [OF act] drainActive_uid [OF act]
  show ?thesis
  proof (cases b)
    case True
    then show ?thesis
      using assms a act \<open>mutating request \<and> _\<close> by (auto simp: dispatch_def)
  next
    case False
    then have h: "handle_action env t1 t2 t3 rid request log d1 = (response, d', es)"
      using assms(1) act \<open>mutating request \<and> _\<close> by (simp add: dispatch_def)
    have token: "d_drainToken d1 = []"
      using a False by (auto split: if_splits)
    have same: "d_requests d1 = d_requests d" "d_procs d1 = d_procs d" "d_clientUID d1 = d_clientUID d"
      using a by (simp_all add: frame_def)
    from handle_action_effect [OF h, of t] inv same token show ?thesis
      by (auto simp: quiet_def starts_def child_frame_def live_drain_def)
  qed
next
  case False
  then have h: "handle_action env t1 t2 t3 rid request log d = (response, d', es)"
    using assms(1) by (auto simp: dispatch_def)
  have "rq_Action request \<notin> {''singbox.start'', ''tcpdump.start''}"
    using False by (auto simp: mutating_def)
  then show ?thesis
    using handle_action_effect [OF h inv, of t] by blast
qed

subsection \<open>The invariant\<close>

definition queued_phase :: "phase \<Rightarrow> bool" where
  "queued_phase p = (case p of Reading \<Rightarrow> True | Ready _ _ \<Rightarrow> True | _ \<Rightarrow> False)"

definition locked_phase :: "phase \<Rightarrow> bool" where
  "locked_phase p = (case p of Running r _ \<Rightarrow> mutating r | Finished r _ \<Rightarrow> mutating r | _ \<Rightarrow> False)"

definition ids_of :: "(phase \<Rightarrow> bool) \<Rightarrow> (request_id, phase) gomap \<Rightarrow> request_id set" where
  "ids_of P m = {rid. \<exists>p. map_of m rid = Some p \<and> P p}"

definition keys_of :: "('k \<times> 'v) list \<Rightarrow> 'k set" where
  "keys_of m = fst ` set m"

text \<open>
  The tracker shows exactly the open connections, queued until they begin and active until they
  finish; at most sixteen are open; the one connection past \<open>begin\<close> that is not a ping holds the
  mutation lock; and a daemon with a live drain has no child.
\<close>

definition service_inv :: "machine \<Rightarrow> bool" where
  "service_inv s =
    (tracker_inv (d_requests (mc_daemon s)) \<and> procs_inv (d_procs (mc_daemon s)) \<and> wf_map (mc_conns s) \<and>
     length (mc_conns s) \<le> maxConcurrentConnections \<and>
     keys_of (queued (d_requests (mc_daemon s))) = ids_of queued_phase (mc_conns s) \<and>
     keys_of (active (d_requests (mc_daemon s))) = ids_of (Not \<circ> queued_phase) (mc_conns s) \<and>
     ids_of locked_phase (mc_conns s) = set_option (mc_holder s) \<and>
     (live_drain (mc_clock s) (mc_daemon s) \<longrightarrow> d_children (mc_daemon s) = []))"

lemma length_map_set: "length (map_set k v m) = (if map_of m k = None then Suc (length m) else length m)"
  by (induction m) auto

lemma length_map_del: "length (map_del k m) \<le> length m"
  by (simp add: map_del_filter)

lemma ids_of_set [simp]: "ids_of P (map_set rid p m) = (if P p then insert rid (ids_of P m) else ids_of P m - {rid})"
  by (auto simp: ids_of_def)

lemma ids_of_del [simp]: "ids_of P (map_del rid m) = ids_of P m - {rid}"
  by (auto simp: ids_of_def)

lemma keys_of_simps [simp]:
  "keys_of [] = {}" "keys_of (map_set k v m) = insert k (keys_of m)" "keys_of (map_del k m) = keys_of m - {k}"
  unfolding keys_of_def by (simp, rule keys_set, rule keys_del)

lemma ids_of_Nil [simp]: "ids_of P [] = {}"
  by (simp add: ids_of_def)

lemma phase_simps [simp]:
  "queued_phase Reading" "queued_phase (Ready r l)" "\<not> queued_phase (Running r l)" "\<not> queued_phase (Finished r p)"
  "\<not> locked_phase Reading" "\<not> locked_phase (Ready r l)"
  "locked_phase (Running r l) = mutating r" "locked_phase (Finished r p) = mutating r"
  by (simp_all add: queued_phase_def locked_phase_def)

lemma id_phase: "map_of m rid = Some p \<Longrightarrow> rid \<in> ids_of P m \<longleftrightarrow> P p"
  by (auto simp: ids_of_def)

lemma id_known: "map_of m rid \<noteq> None \<longleftrightarrow> rid \<in> ids_of queued_phase m \<union> ids_of (Not \<circ> queued_phase) m"
  by (cases "map_of m rid") (auto simp: ids_of_def)

lemma inv_accept:
  assumes inv: "service_inv s" and "nextID (d_requests (mc_daemon s)) \<noteq> - 1"
  shows "service_inv (snd (acceptConnection peer s))"
proof -
  let ?t = "d_requests (mc_daemon s)" and ?rid = "nextID (d_requests (mc_daemon s)) + 1"
  have t: "tracker_inv ?t" using inv by (simp add: service_inv_def)
  have above: "nextID ?t < ?rid" using assms(2) by (rule next_id_above)
  have "?rid \<notin> keys_of (queued ?t)" "?rid \<notin> keys_of (active ?t)"
    using t above by (force simp: tracker_inv_def entries_ok_def entry_ok_def keys_of_def)+
  then have fresh: "map_of (mc_conns s) ?rid = None"
    using inv id_known [of "mc_conns s" ?rid] by (simp add: service_inv_def)
  then have new: "?rid \<notin> ids_of P (mc_conns s)" for P
    by (simp add: ids_of_def)
  have "service_inv (s\<lparr>mc_daemon := (mc_daemon s)\<lparr>d_requests := snd (enqueue (mc_clock s) ?t)\<rparr>,
      mc_conns := map_set ?rid Reading (mc_conns s)\<rparr>)" if "length (mc_conns s) < maxConcurrentConnections"
    using inv that fresh new [of locked_phase] new [of "Not \<circ> queued_phase"] tracker_inv_enqueue [OF t assms(2), of "mc_clock s"]
    by (simp add: service_inv_def length_map_set live_drain_def) (simp add: enqueue_def Let_def)
  moreover have "enqueue (mc_clock s) ?t = (?rid, snd (enqueue (mc_clock s) ?t))"
    by (simp add: enqueue_def Let_def)
  ultimately show ?thesis
    using inv by (auto simp: acceptConnection_def split: sum.split prod.split)
qed

lemma conns_del_length:
  "length (mc_conns s) \<le> maxConcurrentConnections \<Longrightarrow> length (map_del rid (mc_conns s)) \<le> maxConcurrentConnections"
  using length_map_del [of rid "mc_conns s"] by simp

lemma inv_failed:
  assumes "service_inv s" "map_of (mc_conns s) rid = Some Reading"
  shows "service_inv (conn_failed rid s)"
proof -
  have "rid \<notin> ids_of locked_phase (mc_conns s)" "rid \<notin> ids_of (Not \<circ> queued_phase) (mc_conns s)"
    using assms(2) by (simp_all add: id_phase)
  then show ?thesis
    using assms(1) unfolding service_inv_def conn_failed_def set_requests_def
    by (simp add: live_drain_def tracker_inv_abandon conns_del_length) (simp add: abandon_def)
qed

lemma inv_read:
  assumes "service_inv s" "map_of (mc_conns s) rid = Some Reading"
  shows "service_inv (conn_read rid request log s)"
proof -
  have "rid \<notin> ids_of locked_phase (mc_conns s)" "rid \<notin> ids_of (Not \<circ> queued_phase) (mc_conns s)"
    "rid \<in> ids_of queued_phase (mc_conns s)"
    using assms(2) by (simp_all add: id_phase)
  then show ?thesis
    using assms unfolding service_inv_def conn_read_def
    by (simp add: live_drain_def length_map_set insert_absorb)
qed

lemma inv_begin:
  assumes "service_inv s" "map_of (mc_conns s) rid = Some (Ready request log)" "mutating request \<longrightarrow> mc_holder s = None"
  shows "service_inv (conn_begin rid request log s)"
proof -
  have ids: "rid \<notin> ids_of locked_phase (mc_conns s)" "rid \<notin> ids_of (Not \<circ> queued_phase) (mc_conns s)"
    "rid \<in> ids_of queued_phase (mc_conns s)"
    using assms(2) by (simp_all add: id_phase)
  have t: "tracker_inv (d_requests (mc_daemon s))" "keys_of (queued (d_requests (mc_daemon s))) = ids_of queued_phase (mc_conns s)"
    using assms(1) by (simp_all add: service_inv_def)
  then have "rid \<in> fst ` set (queued (d_requests (mc_daemon s)))"
    using ids by (simp add: keys_of_def)
  from tracker_inv_begin [OF t(1) this] ids show ?thesis
    using assms unfolding service_inv_def conn_begin_def set_requests_def
    by (simp add: live_drain_def length_map_set) (simp add: begin_request_def)
qed

lemma complete_keys:
  "queued (complete now rid ok t) = queued t"
  "keys_of (active (complete now rid ok t)) = keys_of (active t) - {rid}"
proof -
  show "queued (complete now rid ok t) = queued t"
    by (auto simp: complete_def Let_def split: option.split)
  show "keys_of (active (complete now rid ok t)) = keys_of (active t) - {rid}"
  proof (cases "map_of (active t) rid")
    case None
    then have "rid \<notin> keys_of (active t)" by (simp add: keys_of_def map_of_eq_None_iff)
    then show ?thesis using None by (simp add: complete_def)
  qed (simp add: complete_def Let_def)
qed

lemma inv_finish:
  assumes inv: "service_inv s" and fin: "map_of (mc_conns s) rid = Some (Finished request response)"
  shows "service_inv (conn_finish rid request response s)"
proof -
  have ids: "rid \<in> ids_of locked_phase (mc_conns s) \<longleftrightarrow> mutating request" "rid \<notin> ids_of queued_phase (mc_conns s)"
    using fin by (simp_all add: id_phase)
  have holder: "mutating request \<Longrightarrow> mc_holder s = Some rid"
    using ids(1) inv by (auto simp: service_inv_def)
  show ?thesis
    using inv ids holder unfolding service_inv_def conn_finish_def set_requests_def
    by (cases "mutating request")
      (simp_all add: live_drain_def tracker_inv_complete conns_del_length complete_keys)
qed

lemma inv_dispatch:
  assumes inv: "service_inv s" and run: "map_of (mc_conns s) rid = Some (Running request log)"
    and env: "env_ok env (mc_daemon s)" and time: "mc_clock s \<le> t3"
  shows "service_inv (conn_dispatch env t0 t1 t2 t3 rid request log s)"
proof -
  obtain response d es where dis: "dispatch env t0 t1 t2 t3 rid request log (mc_daemon s) = (response, d, es)"
    by (metis prod_cases3)
  have t: "tracker_inv (d_requests (mc_daemon s))" and p: "procs_inv (d_procs (mc_daemon s))"
    using inv by (simp_all add: service_inv_def)
  have ids: "rid \<in> ids_of locked_phase (mc_conns s) \<longleftrightarrow> mutating request" "rid \<notin> ids_of queued_phase (mc_conns s)"
    "rid \<in> ids_of (Not \<circ> queued_phase) (mc_conns s)"
    using run by (simp_all add: id_phase)
  have eff: "quiet t3 (mc_daemon s) d \<or> starts (de_io env) (mc_daemon s) d"
    by (rule dispatch_effect [OF dis t])
  then have "d_requests d = d_requests (mc_daemon s)"
    by (auto simp: quiet_def starts_def)
  moreover have "procs_inv (d_procs d)"
    using eff p env procs_inv_start by (auto simp: quiet_def starts_def started_by_def env_ok_def)
  moreover have "live_drain t3 d \<longrightarrow> d_children d = []"
    using eff inv live_mono [OF _ time, of "mc_daemon s"]
    by (auto simp: quiet_def starts_def live_drain_def service_inv_def)
  ultimately show ?thesis
    using inv ids run
    by (cases "mutating request")
      (auto simp: service_inv_def conn_dispatch_def dis length_map_set insert_absorb)
qed

lemma inv_exited:
  assumes "service_inv s" "map_of (d_children (mc_daemon s)) handle = Some child"
  shows "service_inv (set_procs (exit_remove handle (ch_pid child)) s)"
proof -
  have "procs_inv (exit_remove handle (ch_pid child) (d_procs (mc_daemon s)))"
    using assms procs_inv_exited by (simp add: service_inv_def)
  then show ?thesis
    using assms by (simp add: service_inv_def set_procs_def live_drain_def)
      (auto simp: exit_remove_def children_remove_def)
qed

lemma inv_reaped:
  assumes "service_inv s" "pid \<in> set (reaping (d_procs (mc_daemon s)))"
  shows "service_inv (set_procs (exit_reap pid) s)"
proof -
  have "procs_inv (exit_reap pid (d_procs (mc_daemon s)))"
    using assms procs_inv_reaped by (simp add: service_inv_def)
  then show ?thesis
    using assms(1) by (simp add: service_inv_def set_procs_def live_drain_def) (simp add: exit_reap_def)
qed

lemma inv_clock: "service_inv s \<Longrightarrow> mc_clock s \<le> t \<Longrightarrow> service_inv (s\<lparr>mc_clock := t\<rparr>)"
  by (auto simp: service_inv_def live_drain_def)

lemma inv_start: "service_start s \<Longrightarrow> service_inv s"
  by (simp add: service_inv_def service_start_def tracker_inv_new procs_inv_init)
    (simp add: newRequestTracker_def procs_init_def newChildRegistry_def)

interpretation service: invariant_system service_start service_step service_inv
proof
  show "service_start s \<Longrightarrow> service_inv s" for s by (rule inv_start)
  show "service_inv t" if "service_inv s" "service_step s t" for s t
    using that(2,1)
  proof (cases rule: service_step.cases)
    case (dispatch_conn rid request log env t0 t1 t2 t3)
    then show ?thesis using inv_dispatch that(1) by auto
  qed (auto intro: inv_accept inv_failed inv_read inv_begin inv_finish inv_exited inv_reaped inv_clock simp: that(1))
qed

subsection \<open>What runs as root\<close>

lemma singbox_surface:
  assumes "handleSingBoxStart io c g l d = (r, d', es)"
  shows "ExecChild n a \<in> set es \<Longrightarrow> n = ToolPath (d_cfg d) ''sing-box''" and "RunCommand n a i \<notin> set es"
proof -
  have "(\<exists>dir name args f k v es1 r1 d1. start_child io (ToolPath (d_cfg d) ''sing-box'') args g [] f [RemovedTree dir] k
      (d\<lparr>d_view := v\<rparr>) = (r1, d1, es1) \<and> (\<exists>p c. es = WroteFile p c # es1)) \<or> es = [] \<or> (\<exists>dir. es = [RemovedTree dir])"
    using assms by (auto simp: handleSingBoxStart_def Let_def split: if_splits sum.splits prod.splits option.splits)
  then show "ExecChild n a \<in> set es \<Longrightarrow> n = ToolPath (d_cfg d) ''sing-box''" "RunCommand n a i \<notin> set es"
    by (auto dest: start_child_exec start_child_command)
qed

lemma tcpdump_surface:
  assumes "handleTCPDumpStart io i f ap u d = (r, d', es)"
  shows "ExecChild n a \<in> set es \<Longrightarrow> n = ''/usr/sbin/tcpdump''" and "RunCommand n a j \<notin> set es"
proof -
  have "(\<exists>cmd k v out r1 d1. start_child io ''/usr/sbin/tcpdump'' cmd False out k [] ''tcpdump'' (d\<lparr>d_view := v\<rparr>) = (r1, d1, es)) \<or>
      es = [] \<or> (\<exists>dir. es = [RemovedTree dir])"
    using assms by (auto simp: handleTCPDumpStart_def Let_def dest: tcpdump_ok split: if_splits sum.splits prod.splits)
  then show "ExecChild n a \<in> set es \<Longrightarrow> n = ''/usr/sbin/tcpdump''" "RunCommand n a j \<notin> set es"
    by (auto dest: start_child_exec start_child_command)
qed

lemma cleanup_entries_surface: "ExecChild n a \<notin> set (snd (cleanup_entries xs))" "RunCommand n a i \<notin> set (snd (cleanup_entries xs))"
  by (induction xs) (auto simp: Let_def split: prod.splits option.splits)

lemma resolver_surface:
  "handleResolverCleanup dir = (r, es) \<Longrightarrow> ExecChild n a \<notin> set es \<and> RunCommand n a i \<notin> set es"
  by (cases dir) (auto simp: handleResolverCleanup_def split: if_splits, (metis cleanup_entries_surface snd_conv)+)

lemma scutil_surface: "handleSCUtil io stdin = (r, es) \<Longrightarrow> es = [] \<or> es = [RunCommand ''/usr/sbin/scutil'' [] stdin]"
  by (auto simp: handleSCUtil_def runTypedCommand_def split: sum.splits prod.splits option.splits)

lemma networksetup_surface:
  "handleNetworkSetup io service servers = (r, es) \<Longrightarrow>
    es = [RunCommand ''/usr/sbin/networksetup'' [''-listnetworkserviceorder''] []] \<or>
    es = [RunCommand ''/usr/sbin/networksetup'' [''-listnetworkserviceorder''] [],
          RunCommand ''/usr/sbin/networksetup'' (''-setdnsservers'' # service # servers) []] \<and>
    (servers = [''Empty''] \<or> allIPs servers False)"
  by (auto simp: handleNetworkSetup_def runTypedCommand_def validateNetworkSetup_def
      split: sum.splits prod.splits option.splits if_splits)

text \<open>The programs root may run for a request, by action.\<close>

definition allowed_effect :: "ServiceConfig \<Rightarrow> Request \<Rightarrow> root_effect \<Rightarrow> bool" where
  "allowed_effect cfg request e =
    (case e of
       ExecChild n a \<Rightarrow> rq_Action request = ''singbox.start'' \<and> n = ToolPath cfg ''sing-box'' \<or>
         rq_Action request = ''tcpdump.start'' \<and> n = ''/usr/sbin/tcpdump''
     | RunCommand n a stdin \<Rightarrow>
         rq_Action request = ''dns.scutil'' \<and> n = ''/usr/sbin/scutil'' \<and> a = [] \<and> stdin = rq_Stdin request \<or>
         rq_Action request = ''dns.networksetup'' \<and> n = ''/usr/sbin/networksetup'' \<and> stdin = [] \<and>
           (a = [''-listnetworkserviceorder''] \<or>
            a = ''-setdnsservers'' # rq_Service request # rq_Servers request \<and>
            (rq_Servers request = [''Empty''] \<or> allIPs (rq_Servers request) False))
     | _ \<Rightarrow> True)"

lemma allowed_simps [simp]:
  "allowed_effect cfg request (ProcEffect x)" "allowed_effect cfg request (WroteFile p c)"
  "allowed_effect cfg request (RemovedTree p)" "allowed_effect cfg request (RemovedFile p)"
  by (simp_all add: allowed_effect_def)

lemma allowed_singbox:
  "handleSingBoxStart io c g l d = (r, d', es) \<Longrightarrow> e \<in> set es \<Longrightarrow> rq_Action request = ''singbox.start'' \<Longrightarrow>
    allowed_effect (d_cfg d) request e"
  by (cases e) (auto simp: allowed_effect_def dest: singbox_surface)

lemma allowed_tcpdump:
  "handleTCPDumpStart io i f ap u d = (r, d', es) \<Longrightarrow> e \<in> set es \<Longrightarrow> rq_Action request = ''tcpdump.start'' \<Longrightarrow>
    allowed_effect (d_cfg d) request e"
  by (cases e) (auto simp: allowed_effect_def dest: tcpdump_surface)

lemma allowed_resolver: "handleResolverCleanup dir = (r, es) \<Longrightarrow> e \<in> set es \<Longrightarrow> allowed_effect cfg request e"
  by (cases e) (auto dest: resolver_surface)

lemma allowed_scutil:
  "handleSCUtil io (rq_Stdin request) = (r, es) \<Longrightarrow> e \<in> set es \<Longrightarrow> rq_Action request = ''dns.scutil'' \<Longrightarrow>
    allowed_effect cfg request e"
  by (drule scutil_surface) (auto simp: allowed_effect_def)

lemma allowed_networksetup:
  "handleNetworkSetup io (rq_Service request) (rq_Servers request) = (r, es) \<Longrightarrow> e \<in> set es \<Longrightarrow>
    rq_Action request = ''dns.networksetup'' \<Longrightarrow> allowed_effect cfg request e"
  by (drule networksetup_surface) (auto simp: allowed_effect_def)

lemma handle_action_surface:
  "handle_action env t1 t2 t3 rid request log d = (response, d', es) \<Longrightarrow> e \<in> set es \<Longrightarrow> allowed_effect (d_cfg d) request e"
  unfolding handle_action_def Let_def
  by (auto split: if_splits prod.splits sum.splits
      intro: allowed_singbox allowed_tcpdump allowed_resolver allowed_scutil allowed_networksetup)

section \<open>Properties\<close>

text \<open>
  (C1) While the maintenance drain is live no tunnel runs and none can start: in every reachable state
  of the daemon, whatever its clients do concurrently, an unexpired drain token means that no child
  is registered.
\<close>

theorem drained_daemon_has_no_children:
  assumes "reaches service_start service_step s" and "live_drain (mc_clock s) (mc_daemon s)"
  shows "d_children (mc_daemon s) = []"
  using service.inv_reaches [OF assms(1)] assms(2) by (simp add: service_inv_def)


text \<open>
  (C27) A drained daemon refuses work without side effects: while the drain is live, every action but
  ping, undrain and renew is answered with the draining error, runs nothing as root and leaves the
  daemon unchanged.
\<close>

theorem drained_daemon_refuses:
  assumes "live_drain t0 d" and "rq_Action request \<notin> {''ping'', ''maintenance.undrain'', ''maintenance.renew''}"
  shows "\<exists>response. dispatch env t0 t1 t2 t3 rid request log d = (response, d, []) \<and>
    \<not> rp_OK response \<and> rp_Error response = Some Draining"
  using assms by (auto simp: dispatch_def mutating_def drainActive_def live_drain_def responseError_def)


section \<open>Witnesses\<close>

definition sample_machine :: machine where
  "sample_machine =
    \<lparr>mc_daemon = sample_daemon\<lparr>d_drainToken := sample_token, d_drainUntil := 5000\<rparr>,
     mc_conns = [], mc_holder = None, mc_clock = 1000\<rparr>"

lemma sample_reaches: "reaches service_start service_step sample_machine"
  by (rule reaches.reaches_init) (simp add: service_start_def sample_machine_def sample_daemon_def)

lemma sample_reaches_clock: "reaches service_start service_step (sample_machine\<lparr>mc_clock := 4000\<rparr>)"
  by (rule reaches.reaches_step [OF sample_reaches], rule service_step.clock) (simp add: sample_machine_def)

theorem drained_daemon_has_no_children_witness: "d_children (mc_daemon (sample_machine\<lparr>mc_clock := 4000\<rparr>)) = []"
  by (rule drained_daemon_has_no_children [OF sample_reaches_clock])
    (simp add: live_drain_def sample_machine_def sample_token_def)


definition sample_dispatch_env :: dispatch_env where
  "sample_dispatch_env =
    \<lparr>de_pid = 77, de_files = sample_files, de_token_random = Inr (replicate 32 170), de_io = sample_action_io,
     de_kill = (\<lambda>_ _. None), de_resolvers = Inr []\<rparr>"

theorem drained_daemon_refuses_witness:
  "\<exists>response. dispatch sample_dispatch_env 1000 1001 1002 1003 1 (emptyRequest\<lparr>rq_Action := ''resolver.cleanup''\<rparr>) None
     (mc_daemon sample_machine) = (response, mc_daemon sample_machine, []) \<and> rp_Error response = Some Draining"
proof -
  have "live_drain 1000 (mc_daemon sample_machine)"
    by (simp add: live_drain_def sample_machine_def sample_token_def)
  from drained_daemon_refuses [OF this, of "emptyRequest\<lparr>rq_Action := ''resolver.cleanup''\<rparr>"
      sample_dispatch_env 1001 1002 1003 1 None] show ?thesis
    by auto
qed


end
