(* ===== verification/Vless_Config.thy ===== *)
theory Vless_Config
  imports Go_Filepath
begin

text \<open>
  The configuration of the VLESS tunnel, \<open>vless/config/config.go\<close>: its types, the normalisation and
  cloning helpers, the layer-by-layer merge of a server's and a profile's settings over the top-level
  ones, and the accessors of a flat configuration. A Go slice is a \<open>slice\<close>: \<open>None\<close> is the nil slice,
  which the merges tell apart from an empty one. A pointer to a struct is an option.
\<close>

section \<open>Types\<close>

record CurrentConfig =
  cu_Server :: string
  cu_Profile :: string

record ProfileMatch =
  pm_Country :: string
  pm_NamePattern :: string
  pm_Exclude :: "string slice"
  pm_Transport :: string

record SourceConfig =
  so_Mode :: string
  so_URL :: string
  so_UserAgent :: string
  so_Headers :: "(string, string) gomap"

record DefaultConfig =
  df_ProfileSelector :: string
  df_Transport :: string

record TUNConfig =
  tn_InterfaceName :: string
  tn_Addresses :: "string slice"

record NetworkConfig =
  nw_Mode :: string
  nw_TUN :: TUNConfig

record RoutingConfig =
  ro_BypassSuffixes :: "string slice"
  ro_BypassExcludes :: "string slice"
  ro_Routes :: "string slice"
  ro_RouteDescriptions :: "(string, string) gomap option"

record XrayEngineConfig =
  xe_Executable :: string
  xe_SocksListen :: string
  xe_SocksPort :: int
  xe_ProcessNames :: "string slice"

record EngineConfig =
  en_Type :: string
  en_Xray :: "XrayEngineConfig option"

record SniffConfig =
  sn_Enabled :: "bool option"
  sn_Sniffers :: "string slice"
  sn_Timeout :: string

record TLSClientConfig =
  tl_Fragment :: "bool option"
  tl_FragmentFallbackDelay :: string
  tl_RecordFragment :: "bool option"
  tl_CurvePreferences :: "string slice"

record SingboxConfig =
  sb_Sniff :: "SniffConfig option"
  sb_TLS :: TLSClientConfig

record ProxyDNSConfig =
  px_Address :: string
  px_Port :: int
  px_TLSServerName :: string

record LoggingConfig =
  lg_Level :: string
  lg_MaxLines :: int

record ArtifactsConfig =
  ar_SingboxConfigPath :: string
  ar_XrayConfigPath :: string

record LaunchConfig =
  la_Mode :: string
  la_Label :: string
  la_PlistPath :: string

record RenderConfig =
  re_Mode :: string
  re_OutputPath :: string
  re_InterfaceName :: string
  re_TunAddresses :: "string slice"
  re_LogLevel :: string
  re_BypassSuffixes :: "string slice"
  re_BypassExcludes :: "string slice"
  re_ProxyDNS :: ProxyDNSConfig
  re_PrivilegedLaunch :: "LaunchConfig option"

record ProfileConfig =
  pf_Selector :: string
  pf_ProfileSelector :: string
  pf_Transport :: string
  pf_PreferredTransport :: string
  pf_Match :: "ProfileMatch option"
  pf_Pick :: string
  pf_Routing :: "RoutingConfig option"
  pf_Engine :: "EngineConfig option"
  pf_Singbox :: "SingboxConfig option"

record ServerConfig =
  sv_Source :: SourceConfig
  sv_CacheDir :: string
  sv_Artifacts :: "ArtifactsConfig option"
  sv_Routing :: "RoutingConfig option"
  sv_Engine :: "EngineConfig option"
  sv_Singbox :: "SingboxConfig option"
  sv_Profiles :: "(string, ProfileConfig) gomap"

record ProjectConfig =
  pc_Current :: "CurrentConfig option"
  pc_Servers :: "(string, ServerConfig) gomap"
  pc_CacheDir :: string
  pc_Source :: SourceConfig
  pc_Default :: "DefaultConfig option"
  pc_Network :: NetworkConfig
  pc_Launch :: "LaunchConfig option"
  pc_Routing :: RoutingConfig
  pc_Engine :: "EngineConfig option"
  pc_Singbox :: "SingboxConfig option"
  pc_DNS :: ProxyDNSConfig
  pc_Logging :: LoggingConfig
  pc_Artifacts :: ArtifactsConfig
  pc_SubscriptionURL :: string
  pc_SelectedProfile :: string
  pc_Render :: "RenderConfig option"

section \<open>Zero values\<close>

definition zeroSource :: SourceConfig where
  "zeroSource = \<lparr>so_Mode = [], so_URL = [], so_UserAgent = [], so_Headers = []\<rparr>"

definition zeroRouting :: RoutingConfig where
  "zeroRouting = \<lparr>ro_BypassSuffixes = None, ro_BypassExcludes = None, ro_Routes = None, ro_RouteDescriptions = None\<rparr>"

definition zeroArtifacts :: ArtifactsConfig where
  "zeroArtifacts = \<lparr>ar_SingboxConfigPath = [], ar_XrayConfigPath = []\<rparr>"

definition zeroEngine :: EngineConfig where
  "zeroEngine = \<lparr>en_Type = [], en_Xray = None\<rparr>"

definition zeroXray :: XrayEngineConfig where
  "zeroXray = \<lparr>xe_Executable = [], xe_SocksListen = [], xe_SocksPort = 0, xe_ProcessNames = None\<rparr>"

definition zeroSniff :: SniffConfig where
  "zeroSniff = \<lparr>sn_Enabled = None, sn_Sniffers = None, sn_Timeout = []\<rparr>"

definition zeroTLS :: TLSClientConfig where
  "zeroTLS = \<lparr>tl_Fragment = None, tl_FragmentFallbackDelay = [], tl_RecordFragment = None, tl_CurvePreferences = None\<rparr>"

definition zeroSingbox :: SingboxConfig where
  "zeroSingbox = \<lparr>sb_Sniff = None, sb_TLS = zeroTLS\<rparr>"

definition zeroProxyDNS :: ProxyDNSConfig where
  "zeroProxyDNS = \<lparr>px_Address = [], px_Port = 0, px_TLSServerName = []\<rparr>"

definition zeroDefault :: DefaultConfig where
  "zeroDefault = \<lparr>df_ProfileSelector = [], df_Transport = []\<rparr>"

section \<open>Normalisation\<close>

definition SourceModeProxy :: string where "SourceModeProxy = ''proxy''"
definition SourceModeDirect :: string where "SourceModeDirect = ''direct''"
definition RenderModeTun :: string where "RenderModeTun = ''tun''"
definition EngineSingbox :: string where "EngineSingbox = ''sing-box''"
definition EngineXray :: string where "EngineXray = ''xray''"
definition LaunchModeAuto :: string where "LaunchModeAuto = ''auto''"

definition defaultRenderMode :: string where
  "defaultRenderMode = RenderModeTun"

fun firstNonEmpty :: "string list \<Rightarrow> string" where
  "firstNonEmpty [] = []"
| "firstNonEmpty (value # values') = (if TrimSpace value \<noteq> [] then TrimSpace value else firstNonEmpty values')"

text \<open>The Cyrillic country suffix in UTF-8, with and without its dot.\<close>

definition cyrillic_rf :: string where
  "cyrillic_rf = [CHR 0xD1, CHR 0x80, CHR 0xD1, CHR 0x84]"

definition normalizeSuffix :: "string \<Rightarrow> string" where
  "normalizeSuffix value =
    (let v = TrimSpace (ToLower value) in
     if v = [] \<or> v = ''.'' then []
     else if v = ''.'' @ cyrillic_rf \<or> v = cyrillic_rf then ''.xn--p1ai''
     else v)"

definition normalizeSuffixes :: "string slice \<Rightarrow> string slice" where
  "normalizeSuffixes xs = Some (dedup_loop normalizeSuffix [] (elems xs))"

definition normalizeRoutes :: "string slice \<Rightarrow> string slice" where
  "normalizeRoutes xs = Some (dedup_loop TrimSpace [] (elems xs))"

definition normalizeStrings :: "string slice \<Rightarrow> string slice" where
  "normalizeStrings xs = Some (dedup_loop TrimSpace [] (elems xs))"

definition normalizeEngineType :: "string \<Rightarrow> string" where
  "normalizeEngineType value =
    (let v = TrimSpace (ToLower value) in if v = ''singbox'' then EngineSingbox else v)"

definition normalizeTransport :: "string \<Rightarrow> string" where
  "normalizeTransport value = ToLower (TrimSpace value)"

definition normalizeLogLevel :: "string \<Rightarrow> string" where
  "normalizeLogLevel value = ToLower (TrimSpace value)"

definition inferSourceMode :: "string \<Rightarrow> string" where
  "inferSourceMode sourceURL =
    (if HasPrefix (TrimSpace (ToLower sourceURL)) ''vless://'' then SourceModeDirect else SourceModeProxy)"

definition nonEmptyStrings :: "string slice \<Rightarrow> string list" where
  "nonEmptyStrings xs = filter (\<lambda>v. TrimSpace v \<noteq> []) (elems xs)"

section \<open>Clones\<close>

text \<open>\<open>append([]string(nil), values...)\<close> of an empty slice is the nil slice.\<close>

definition cloneStrings :: "string slice \<Rightarrow> string slice" where
  "cloneStrings xs = (case xs of None \<Rightarrow> None | Some ys \<Rightarrow> append_nil ys)"

definition cloneStringMap :: "(string, string) gomap option \<Rightarrow> (string, string) gomap option" where
  "cloneStringMap m = m"

definition cloneProfileMatch :: "ProfileMatch option \<Rightarrow> ProfileMatch option" where
  "cloneProfileMatch v = map_option (\<lambda>m. m\<lparr>pm_Exclude := append_nil (elems (pm_Exclude m))\<rparr>) v"

definition cloneXrayEngineConfig :: "XrayEngineConfig option \<Rightarrow> XrayEngineConfig option" where
  "cloneXrayEngineConfig v = map_option (\<lambda>x.
     \<lparr>xe_Executable = TrimSpace (xe_Executable x), xe_SocksListen = TrimSpace (xe_SocksListen x),
      xe_SocksPort = xe_SocksPort x, xe_ProcessNames = cloneStrings (xe_ProcessNames x)\<rparr>) v"

definition cloneEngineConfig :: "EngineConfig option \<Rightarrow> EngineConfig option" where
  "cloneEngineConfig v = map_option (\<lambda>e.
     \<lparr>en_Type = TrimSpace (en_Type e), en_Xray = cloneXrayEngineConfig (en_Xray e)\<rparr>) v"

definition cloneSniffConfig :: "SniffConfig option \<Rightarrow> SniffConfig option" where
  "cloneSniffConfig v = map_option (\<lambda>s.
     \<lparr>sn_Enabled = sn_Enabled s, sn_Sniffers = cloneStrings (sn_Sniffers s), sn_Timeout = TrimSpace (sn_Timeout s)\<rparr>) v"

definition cloneTLSClientConfig :: "TLSClientConfig \<Rightarrow> TLSClientConfig" where
  "cloneTLSClientConfig t =
     \<lparr>tl_Fragment = tl_Fragment t, tl_FragmentFallbackDelay = TrimSpace (tl_FragmentFallbackDelay t),
      tl_RecordFragment = tl_RecordFragment t, tl_CurvePreferences = cloneStrings (tl_CurvePreferences t)\<rparr>"

definition cloneSingboxConfig :: "SingboxConfig option \<Rightarrow> SingboxConfig option" where
  "cloneSingboxConfig v = map_option (\<lambda>s.
     \<lparr>sb_Sniff = cloneSniffConfig (sb_Sniff s), sb_TLS = cloneTLSClientConfig (sb_TLS s)\<rparr>) v"

section \<open>Merges\<close>

definition or_else :: "string \<Rightarrow> string \<Rightarrow> string" where
  "or_else override base = (if TrimSpace override \<noteq> [] then TrimSpace override else base)"

definition mergeSourceConfig :: "SourceConfig \<Rightarrow> SourceConfig \<Rightarrow> SourceConfig" where
  "mergeSourceConfig base override =
    base\<lparr>so_Mode := or_else (so_Mode override) (so_Mode base),
         so_URL := or_else (so_URL override) (so_URL base),
         so_UserAgent := or_else (so_UserAgent override) (so_UserAgent base),
         so_Headers := (if so_Headers override \<noteq> [] then AList.updates (map fst (so_Headers override))
            (map snd (so_Headers override)) (so_Headers base) else so_Headers base)\<rparr>"

definition mergeArtifactsConfig :: "ArtifactsConfig \<Rightarrow> ArtifactsConfig option \<Rightarrow> ArtifactsConfig" where
  "mergeArtifactsConfig base override =
    (case override of
       None \<Rightarrow> base
     | Some o' \<Rightarrow>
        base\<lparr>ar_SingboxConfigPath := or_else (ar_SingboxConfigPath o') (ar_SingboxConfigPath base),
             ar_XrayConfigPath := or_else (ar_XrayConfigPath o') (ar_XrayConfigPath base)\<rparr>)"

definition mergeBypassSuffixes :: "string slice \<Rightarrow> string slice \<Rightarrow> string slice" where
  "mergeBypassSuffixes base override =
    (case override of
       None \<Rightarrow> cloneStrings base
     | Some xs \<Rightarrow> if xs = [] then Some [] else normalizeSuffixes (Some (elems (cloneStrings base) @ xs)))"

definition mergeRoutingConfig :: "RoutingConfig \<Rightarrow> RoutingConfig option \<Rightarrow> RoutingConfig" where
  "mergeRoutingConfig base override =
    (case override of
       None \<Rightarrow> base
     | Some o' \<Rightarrow>
        base\<lparr>ro_BypassSuffixes := (if ro_BypassSuffixes o' \<noteq> None
               then mergeBypassSuffixes (ro_BypassSuffixes base) (ro_BypassSuffixes o') else ro_BypassSuffixes base),
             ro_BypassExcludes := (if ro_BypassExcludes o' \<noteq> None then cloneStrings (ro_BypassExcludes o') else ro_BypassExcludes base),
             ro_Routes := (if ro_Routes o' \<noteq> None then cloneStrings (ro_Routes o') else ro_Routes base),
             ro_RouteDescriptions := (if ro_RouteDescriptions o' \<noteq> None then cloneStringMap (ro_RouteDescriptions o')
               else ro_RouteDescriptions base)\<rparr>)"

definition mergeXrayEngineConfig :: "XrayEngineConfig option \<Rightarrow> XrayEngineConfig option \<Rightarrow> XrayEngineConfig option" where
  "mergeXrayEngineConfig base override =
    (if base = None \<and> override = None then None
     else let result = (case cloneXrayEngineConfig base of None \<Rightarrow> zeroXray | Some x \<Rightarrow> x) in
       case override of
         None \<Rightarrow> Some result
       | Some o' \<Rightarrow> Some (result
           \<lparr>xe_Executable := or_else (xe_Executable o') (xe_Executable result),
            xe_SocksListen := or_else (xe_SocksListen o') (xe_SocksListen result),
            xe_SocksPort := (if xe_SocksPort o' > 0 then xe_SocksPort o' else xe_SocksPort result),
            xe_ProcessNames := (if xe_ProcessNames o' \<noteq> None then cloneStrings (xe_ProcessNames o') else xe_ProcessNames result)\<rparr>))"

definition mergeEngineConfig :: "EngineConfig option \<Rightarrow> EngineConfig option \<Rightarrow> EngineConfig option" where
  "mergeEngineConfig base override =
    (if base = None \<and> override = None then None
     else let result = (case cloneEngineConfig base of None \<Rightarrow> zeroEngine | Some e \<Rightarrow> e) in
       case override of
         None \<Rightarrow> Some result
       | Some o' \<Rightarrow> Some (result
           \<lparr>en_Type := or_else (en_Type o') (en_Type result),
            en_Xray := mergeXrayEngineConfig (en_Xray result) (en_Xray o')\<rparr>))"

definition mergeSniffConfig :: "SniffConfig option \<Rightarrow> SniffConfig \<Rightarrow> SniffConfig" where
  "mergeSniffConfig base override =
    (let result = (case cloneSniffConfig base of None \<Rightarrow> zeroSniff | Some s \<Rightarrow> s) in
     result\<lparr>sn_Enabled := (if sn_Enabled override \<noteq> None then sn_Enabled override else sn_Enabled result),
            sn_Sniffers := (if sn_Sniffers override \<noteq> None then cloneStrings (sn_Sniffers override) else sn_Sniffers result),
            sn_Timeout := or_else (sn_Timeout override) (sn_Timeout result)\<rparr>)"

definition mergeTLSClientConfig :: "TLSClientConfig \<Rightarrow> TLSClientConfig \<Rightarrow> TLSClientConfig" where
  "mergeTLSClientConfig base override =
    (let result = cloneTLSClientConfig base in
     result\<lparr>tl_Fragment := (if tl_Fragment override \<noteq> None then tl_Fragment override else tl_Fragment result),
            tl_FragmentFallbackDelay := or_else (tl_FragmentFallbackDelay override) (tl_FragmentFallbackDelay result),
            tl_RecordFragment := (if tl_RecordFragment override \<noteq> None then tl_RecordFragment override else tl_RecordFragment result),
            tl_CurvePreferences := (if tl_CurvePreferences override \<noteq> None then cloneStrings (tl_CurvePreferences override)
              else tl_CurvePreferences result)\<rparr>)"

definition mergeSingboxConfig :: "SingboxConfig option \<Rightarrow> SingboxConfig option \<Rightarrow> SingboxConfig option" where
  "mergeSingboxConfig base override =
    (if base = None \<and> override = None then None
     else let result = (case cloneSingboxConfig base of None \<Rightarrow> zeroSingbox | Some s \<Rightarrow> s) in
       case override of
         None \<Rightarrow> Some result
       | Some o' \<Rightarrow> Some (result
           \<lparr>sb_Sniff := (case sb_Sniff o' of None \<Rightarrow> sb_Sniff result | Some s \<Rightarrow> Some (mergeSniffConfig (sb_Sniff result) s)),
            sb_TLS := mergeTLSClientConfig (sb_TLS result) (sb_TLS o')\<rparr>))"

end
