(* ===== verification/Vless_Selection.thy ===== *)
theory Vless_Selection
  imports Vless_Config
begin

text \<open>
  The accessors, the choice of server and profile, and the validation of a configuration,
  \<open>vless/config/config.go\<close>. \<open>Effective\<close> copies the configuration but not the struct behind its
  \<open>Default\<close> pointer, and writes the chosen selector and transport through that pointer: the model
  returns the caller's configuration after the call beside the result.
\<close>

section \<open>Accessors of a flat configuration\<close>

definition legacyDefaultProfileSelector :: "ProjectConfig \<Rightarrow> string" where
  "legacyDefaultProfileSelector c =
    (case pc_Default c of
       Some d \<Rightarrow> if TrimSpace (df_ProfileSelector d) \<noteq> [] then TrimSpace (df_ProfileSelector d)
                 else TrimSpace (pc_SelectedProfile c)
     | None \<Rightarrow> TrimSpace (pc_SelectedProfile c))"

definition legacyDefaultProfileTransport :: "ProjectConfig \<Rightarrow> string" where
  "legacyDefaultProfileTransport c =
    (case pc_Default c of Some d \<Rightarrow> normalizeTransport (df_Transport d) | None \<Rightarrow> [])"

definition setDefaultProfileSelector :: "string \<Rightarrow> ProjectConfig \<Rightarrow> ProjectConfig" where
  "setDefaultProfileSelector selector c =
    (let s = TrimSpace selector; c1 = c\<lparr>pc_SelectedProfile := []\<rparr> in
     case pc_Default c of
       None \<Rightarrow> if s = [] then c1 else c1\<lparr>pc_Default := Some (zeroDefault\<lparr>df_ProfileSelector := s\<rparr>)\<rparr>
     | Some d \<Rightarrow> c1\<lparr>pc_Default := Some (d\<lparr>df_ProfileSelector := s\<rparr>)\<rparr>)"

definition setDefaultProfileTransport :: "string \<Rightarrow> ProjectConfig \<Rightarrow> ProjectConfig" where
  "setDefaultProfileTransport transport c =
    (let t = normalizeTransport transport in
     case pc_Default c of
       None \<Rightarrow> if t = [] then c else c\<lparr>pc_Default := Some (zeroDefault\<lparr>df_Transport := t\<rparr>)\<rparr>
     | Some d \<Rightarrow> c\<lparr>pc_Default := Some (d\<lparr>df_Transport := t\<rparr>)\<rparr>)"

definition profileTransport :: "ProfileConfig \<Rightarrow> string" where
  "profileTransport p =
    firstNonEmpty [normalizeTransport (pf_Transport p), normalizeTransport (pf_PreferredTransport p)]"

definition currentServerName :: "CurrentConfig option \<Rightarrow> string" where
  "currentServerName cur = (case cur of None \<Rightarrow> [] | Some x \<Rightarrow> TrimSpace (cu_Server x))"

definition currentProfileName :: "CurrentConfig option \<Rightarrow> string" where
  "currentProfileName cur = (case cur of None \<Rightarrow> [] | Some x \<Rightarrow> TrimSpace (cu_Profile x))"

section \<open>The effective configuration\<close>

record SelectionOptions =
  op_Server :: string
  op_Profile :: string
  op_Selector :: string
  op_Transport :: string
  op_AllowMissingProfile :: bool

record EffectiveSelection =
  es_Server :: string
  es_Profile :: string
  es_Selector :: string
  es_Transport :: string
  es_Match :: "ProfileMatch option"
  es_Pick :: string
  es_UsesServerModel :: bool

datatype config_failure =
    ServerNotConfigured string
  | CurrentServerRequired
  | ProfileNotConfigured string
  | CurrentProfileRequired
  | SetCurrentNeedsServers
  | ServerRequired
  | ServerHasNoProfiles string
  | ProfileRequired
  | EngineTypeRequired string
  | EngineTypeInvalid string
  | TransportInvalid string
  | MatchAndSelector string
  | PickWithoutMatch string
  | MatchEmpty string
  | CountryFormat string
  | CountryUnassigned string
  | PatternInvalid string
  | PickInvalid string
  | FlatInvalid string

definition noOptions :: SelectionOptions where
  "noOptions = \<lparr>op_Server = [], op_Profile = [], op_Selector = [], op_Transport = [], op_AllowMissingProfile = False\<rparr>"

definition resolveServerConfig :: "ProjectConfig \<Rightarrow> string \<Rightarrow> config_failure + string \<times> ServerConfig" where
  "resolveServerConfig c override =
    (let name = firstNonEmpty [override, currentServerName (pc_Current c)] in
     if name \<noteq> [] then
       (case map_of (pc_Servers c) name of
          None \<Rightarrow> Inl (ServerNotConfigured name)
        | Some server \<Rightarrow> Inr (name, server))
     else (case pc_Servers c of
          [(onlyName, server)] \<Rightarrow> Inr (onlyName, server)
        | _ \<Rightarrow> Inl CurrentServerRequired))"

definition resolveProfileConfig ::
    "ProjectConfig \<Rightarrow> ServerConfig \<Rightarrow> string \<Rightarrow> bool \<Rightarrow> bool \<Rightarrow> config_failure + (string \<times> ProfileConfig) option" where
  "resolveProfileConfig c server override useCurrent allowMissing =
    (if sv_Profiles server = [] then Inr None
     else let name = (if TrimSpace override = [] \<and> useCurrent then currentProfileName (pc_Current c) else TrimSpace override) in
       if name \<noteq> [] then
         (case map_of (sv_Profiles server) name of
            None \<Rightarrow> Inl (ProfileNotConfigured name)
          | Some profile \<Rightarrow> Inr (Some (name, profile)))
       else (case sv_Profiles server of
            [(onlyName, profile)] \<Rightarrow> Inr (Some (onlyName, profile))
          | _ \<Rightarrow> if allowMissing then Inr None else Inl CurrentProfileRequired))"

text \<open>
  The struct behind \<open>Default\<close> is shared: what the effective configuration sees there after the two
  setters, the caller sees too.
\<close>

definition share_default :: "ProjectConfig \<Rightarrow> ProjectConfig \<Rightarrow> ProjectConfig" where
  "share_default c effective =
    (case pc_Default c of None \<Rightarrow> c | Some _ \<Rightarrow> c\<lparr>pc_Default := pc_Default effective\<rparr>)"

definition server_layer :: "ProjectConfig \<Rightarrow> ServerConfig \<Rightarrow> ProjectConfig" where
  "server_layer c s =
    c\<lparr>pc_Current := None, pc_Servers := [],
      pc_Source := mergeSourceConfig (pc_Source c) (sv_Source s),
      pc_CacheDir := firstNonEmpty [sv_CacheDir s, pc_CacheDir c],
      pc_Artifacts := mergeArtifactsConfig (pc_Artifacts c) (sv_Artifacts s),
      pc_Routing := mergeRoutingConfig (pc_Routing c) (sv_Routing s),
      pc_Engine := mergeEngineConfig (pc_Engine c) (sv_Engine s),
      pc_Singbox := mergeSingboxConfig (pc_Singbox c) (sv_Singbox s)\<rparr>"

definition profile_layer :: "ProjectConfig \<Rightarrow> ProfileConfig \<Rightarrow> ProjectConfig" where
  "profile_layer c p =
    c\<lparr>pc_Routing := mergeRoutingConfig (pc_Routing c) (pf_Routing p),
      pc_Engine := mergeEngineConfig (pc_Engine c) (pf_Engine p),
      pc_Singbox := mergeSingboxConfig (pc_Singbox c) (pf_Singbox p)\<rparr>"

definition choose_flat :: "SelectionOptions \<Rightarrow> ProjectConfig \<Rightarrow> EffectiveSelection" where
  "choose_flat opts c =
    \<lparr>es_Server = [], es_Profile = [],
     es_Selector = firstNonEmpty [op_Selector opts, op_Profile opts, legacyDefaultProfileSelector c],
     es_Transport = firstNonEmpty [op_Transport opts, legacyDefaultProfileTransport c],
     es_Match = None, es_Pick = [], es_UsesServerModel = False\<rparr>"

definition choose_profile ::
    "SelectionOptions \<Rightarrow> ProjectConfig \<Rightarrow> string \<Rightarrow> (string \<times> ProfileConfig) option \<Rightarrow> EffectiveSelection" where
  "choose_profile opts c serverName profile =
    (case profile of
       None \<Rightarrow>
         \<lparr>es_Server = serverName, es_Profile = [],
          es_Selector = firstNonEmpty [op_Selector opts, legacyDefaultProfileSelector c],
          es_Transport = firstNonEmpty [op_Transport opts, legacyDefaultProfileTransport c],
          es_Match = None, es_Pick = [], es_UsesServerModel = True\<rparr>
     | Some (profileName, p) \<Rightarrow>
         let selector = firstNonEmpty [op_Selector opts, pf_Selector p, pf_ProfileSelector p, legacyDefaultProfileSelector c];
             override = (TrimSpace (op_Selector opts) \<noteq> []);
             match = (if override then None else cloneProfileMatch (pf_Match p)) in
         \<lparr>es_Server = serverName, es_Profile = profileName,
          es_Selector = (if \<not> override \<and> match \<noteq> None then [] else selector),
          es_Transport = firstNonEmpty [op_Transport opts, profileTransport p, legacyDefaultProfileTransport c],
          es_Match = match, es_Pick = (if override then [] else ToLower (TrimSpace (pf_Pick p))),
          es_UsesServerModel = True\<rparr>)"

definition set_defaults :: "EffectiveSelection \<Rightarrow> ProjectConfig \<Rightarrow> ProjectConfig" where
  "set_defaults sel c = setDefaultProfileTransport (es_Transport sel) (setDefaultProfileSelector (es_Selector sel) c)"

definition Effective ::
    "SelectionOptions \<Rightarrow> ProjectConfig \<Rightarrow> (config_failure + ProjectConfig \<times> EffectiveSelection) \<times> ProjectConfig" where
  "Effective opts c =
    (if pc_Servers c = [] then
       (let sel = choose_flat opts c; effective = set_defaults sel c in (Inr (effective, sel), share_default c effective))
     else
       (let serverOverride = TrimSpace (op_Server opts) in
        case resolveServerConfig c serverOverride of
          Inl e \<Rightarrow> (Inl e, c)
        | Inr (serverName, serverCfg) \<Rightarrow>
           (let useCurrent = (serverOverride = [] \<or> serverOverride = currentServerName (pc_Current c)) in
            case resolveProfileConfig c serverCfg (op_Profile opts) useCurrent (op_AllowMissingProfile opts) of
              Inl e \<Rightarrow> (Inl e, c)
            | Inr profile \<Rightarrow>
               (let sel = choose_profile opts c serverName profile;
                    layered = (case profile of None \<Rightarrow> server_layer c serverCfg
                               | Some (_, p) \<Rightarrow> profile_layer (server_layer c serverCfg) p);
                    effective = set_defaults sel layered in
                (Inr (effective, sel), share_default c effective)))))"

definition effectiveFromServers :: "ProjectConfig \<Rightarrow> ProjectConfig option" where
  "effectiveFromServers c =
    (if pc_Servers c = [] then None
     else case fst (Effective noOptions c) of Inl _ \<Rightarrow> None | Inr (effective, _) \<Rightarrow> Some effective)"

section \<open>Accessors\<close>

text \<open>
  Most accessors first resolve the servers; the effective configuration has none, so the recursion of
  the code ends after one step. Each definition gives the value returned.
\<close>

definition flat :: "ProjectConfig \<Rightarrow> ProjectConfig" where
  "flat c = (case effectiveFromServers c of Some effective \<Rightarrow> effective | None \<Rightarrow> c)"

definition legacyRenderOutputPath :: "ProjectConfig \<Rightarrow> string" where
  "legacyRenderOutputPath c = (case pc_Render c of None \<Rightarrow> [] | Some r \<Rightarrow> TrimSpace (re_OutputPath r))"

definition legacyRenderInterfaceName :: "ProjectConfig \<Rightarrow> string" where
  "legacyRenderInterfaceName c = (case pc_Render c of None \<Rightarrow> [] | Some r \<Rightarrow> TrimSpace (re_InterfaceName r))"

definition legacyRenderLogLevel :: "ProjectConfig \<Rightarrow> string" where
  "legacyRenderLogLevel c = (case pc_Render c of None \<Rightarrow> [] | Some r \<Rightarrow> TrimSpace (re_LogLevel r))"

definition SourceURL :: "ProjectConfig \<Rightarrow> string" where
  "SourceURL c = (let f = flat c in firstNonEmpty [TrimSpace (so_URL (pc_Source f)), TrimSpace (pc_SubscriptionURL f)])"

definition SourceUserAgent :: "ProjectConfig \<Rightarrow> string" where
  "SourceUserAgent c = TrimSpace (so_UserAgent (pc_Source (flat c)))"

definition SourceHeaders :: "ProjectConfig \<Rightarrow> (string, string) gomap" where
  "SourceHeaders c = so_Headers (pc_Source (flat c))"

definition SourceMode :: "ProjectConfig \<Rightarrow> string" where
  "SourceMode c =
    (let f = flat c; mode = TrimSpace (ToLower (so_Mode (pc_Source f))) in
     if mode \<noteq> [] then mode else inferSourceMode (SourceURL f))"

definition DefaultProfileSelector :: "ProjectConfig \<Rightarrow> string" where
  "DefaultProfileSelector c = legacyDefaultProfileSelector (flat c)"

definition DefaultProfileTransport :: "ProjectConfig \<Rightarrow> string" where
  "DefaultProfileTransport c = legacyDefaultProfileTransport (flat c)"

definition ModeOrDefault :: "RenderConfig \<Rightarrow> string" where
  "ModeOrDefault r = (if TrimSpace (re_Mode r) = [] then defaultRenderMode else TrimSpace (re_Mode r))"

definition NetworkMode :: "ProjectConfig \<Rightarrow> string" where
  "NetworkMode c =
    (if TrimSpace (nw_Mode (pc_Network c)) \<noteq> [] then TrimSpace (nw_Mode (pc_Network c))
     else case pc_Render c of Some r \<Rightarrow> ModeOrDefault r | None \<Rightarrow> defaultRenderMode)"

definition SingboxConfigPath :: "ProjectConfig \<Rightarrow> string" where
  "SingboxConfigPath c =
    (let f = flat c in firstNonEmpty [TrimSpace (ar_SingboxConfigPath (pc_Artifacts f)), legacyRenderOutputPath f])"

definition deriveXrayConfigPath :: "string \<Rightarrow> string" where
  "deriveXrayConfigPath path =
    (let singboxPath = TrimSpace path in
     if singboxPath = [] then []
     else let dir = Dir singboxPath; base = Base singboxPath;
              base' = (if HasPrefix base ''sing-box'' then ''xray'' @ TrimPrefix base ''sing-box''
                       else if HasPrefix base ''singbox'' then ''xray'' @ TrimPrefix base ''singbox''
                       else TrimSuffix base (Ext base) @ ''-xray'' @ Ext base)
          in filepath_Join [dir, base'])"

definition XrayConfigPath :: "ProjectConfig \<Rightarrow> string" where
  "XrayConfigPath c =
    (let f = flat c; path = TrimSpace (ar_XrayConfigPath (pc_Artifacts f)) in
     if path \<noteq> [] then path else deriveXrayConfigPath (SingboxConfigPath f))"

definition TunInterfaceName :: "ProjectConfig \<Rightarrow> string" where
  "TunInterfaceName c =
    firstNonEmpty [TrimSpace (tn_InterfaceName (nw_TUN (pc_Network c))), legacyRenderInterfaceName c]"

definition TunAddresses :: "ProjectConfig \<Rightarrow> string slice" where
  "TunAddresses c =
    (if tn_Addresses (nw_TUN (pc_Network c)) \<noteq> None then cloneStrings (tn_Addresses (nw_TUN (pc_Network c)))
     else case pc_Render c of Some r \<Rightarrow> cloneStrings (re_TunAddresses r) | None \<Rightarrow> None)"

definition LogLevel :: "ProjectConfig \<Rightarrow> string" where
  "LogLevel c = normalizeLogLevel (firstNonEmpty [TrimSpace (lg_Level (pc_Logging c)), legacyRenderLogLevel c])"

definition LogMaxLines :: "ProjectConfig \<Rightarrow> int" where
  "LogMaxLines c = lg_MaxLines (pc_Logging c)"

definition BypassSuffixes :: "ProjectConfig \<Rightarrow> string slice" where
  "BypassSuffixes c =
    (let f = flat c in
     if ro_BypassSuffixes (pc_Routing f) \<noteq> None then cloneStrings (ro_BypassSuffixes (pc_Routing f))
     else case pc_Render f of Some r \<Rightarrow> cloneStrings (re_BypassSuffixes r) | None \<Rightarrow> None)"

definition BypassExcludes :: "ProjectConfig \<Rightarrow> string slice" where
  "BypassExcludes c =
    (let f = flat c in
     if ro_BypassExcludes (pc_Routing f) \<noteq> None then cloneStrings (ro_BypassExcludes (pc_Routing f))
     else case pc_Render f of Some r \<Rightarrow> cloneStrings (re_BypassExcludes r) | None \<Rightarrow> None)"

definition Routes :: "ProjectConfig \<Rightarrow> string slice" where
  "Routes c = (let f = flat c in if ro_Routes (pc_Routing f) \<noteq> None then cloneStrings (ro_Routes (pc_Routing f)) else None)"

definition Sniff :: "ProjectConfig \<Rightarrow> SniffConfig" where
  "Sniff c =
    (case pc_Singbox (flat c) of
       None \<Rightarrow> zeroSniff
     | Some s \<Rightarrow> (case cloneSniffConfig (sb_Sniff s) of None \<Rightarrow> zeroSniff | Some x \<Rightarrow> x))"

definition TLSOptions :: "ProjectConfig \<Rightarrow> TLSClientConfig" where
  "TLSOptions c = (case pc_Singbox (flat c) of None \<Rightarrow> zeroTLS | Some s \<Rightarrow> cloneTLSClientConfig (sb_TLS s))"

definition EngineConfigOf :: "ProjectConfig \<Rightarrow> EngineConfig" where
  "EngineConfigOf c = (case cloneEngineConfig (pc_Engine (flat c)) of None \<Rightarrow> zeroEngine | Some e \<Rightarrow> e)"

definition EngineType :: "ProjectConfig \<Rightarrow> string" where
  "EngineType c =
    (let engineType = normalizeEngineType (en_Type (EngineConfigOf c)) in
     if engineType = [] then EngineSingbox else engineType)"

definition XrayExecutable :: "ProjectConfig \<Rightarrow> string" where
  "XrayExecutable c =
    (case en_Xray (EngineConfigOf c) of None \<Rightarrow> ''xray'' | Some x \<Rightarrow> firstNonEmpty [xe_Executable x, ''xray''])"

definition XraySocksListen :: "ProjectConfig \<Rightarrow> string" where
  "XraySocksListen c =
    (case en_Xray (EngineConfigOf c) of None \<Rightarrow> ''127.0.0.1'' | Some x \<Rightarrow> firstNonEmpty [xe_SocksListen x, ''127.0.0.1''])"

definition XraySocksPort :: "ProjectConfig \<Rightarrow> int" where
  "XraySocksPort c =
    (case en_Xray (EngineConfigOf c) of
       None \<Rightarrow> 20808
     | Some x \<Rightarrow> if xe_SocksPort x > 0 then xe_SocksPort x else 20808)"

definition XrayProcessNames :: "ProjectConfig \<Rightarrow> string slice" where
  "XrayProcessNames c =
    (let executable = Base (XrayExecutable c);
         derived = (if executable = [] \<or> executable = ''.'' \<or> executable = ''/'' then Some [''xray''] else Some [executable]) in
     case en_Xray (EngineConfigOf c) of
       None \<Rightarrow> derived
     | Some x \<Rightarrow> if xe_ProcessNames x \<noteq> None then normalizeStrings (xe_ProcessNames x) else derived)"

definition NormalizedBypassSuffixes :: "ProjectConfig \<Rightarrow> string slice" where
  "NormalizedBypassSuffixes c = normalizeSuffixes (BypassSuffixes c)"

definition NormalizedBypassExcludes :: "ProjectConfig \<Rightarrow> string slice" where
  "NormalizedBypassExcludes c = normalizeSuffixes (BypassExcludes c)"

definition NormalizedRoutes :: "ProjectConfig \<Rightarrow> string slice" where
  "NormalizedRoutes c = normalizeRoutes (Routes c)"

definition NormalizedSniffers :: "ProjectConfig \<Rightarrow> string slice" where
  "NormalizedSniffers c = normalizeStrings (sn_Sniffers (Sniff c))"

definition NormalizedCurvePreferences :: "ProjectConfig \<Rightarrow> string slice" where
  "NormalizedCurvePreferences c = normalizeStrings (tl_CurvePreferences (TLSOptions c))"

definition SniffEnabled :: "ProjectConfig \<Rightarrow> bool" where
  "SniffEnabled c = (case sn_Enabled (Sniff c) of None \<Rightarrow> True | Some b \<Rightarrow> b)"

definition SniffTimeout :: "ProjectConfig \<Rightarrow> string" where
  "SniffTimeout c = TrimSpace (sn_Timeout (Sniff c))"

definition ProxyResolver :: "ProjectConfig \<Rightarrow> ProxyDNSConfig" where
  "ProxyResolver c =
    (if px_Address (pc_DNS c) \<noteq> [] \<or> px_Port (pc_DNS c) > 0 \<or> px_TLSServerName (pc_DNS c) \<noteq> [] then pc_DNS c
     else case pc_Render c of Some r \<Rightarrow> re_ProxyDNS r | None \<Rightarrow> zeroProxyDNS)"

definition defaultLaunch :: LaunchConfig where
  "defaultLaunch = \<lparr>la_Mode = LaunchModeAuto, la_Label = ''works.relux.vless-tun'',
     la_PlistPath = ''/Library/LaunchDaemons/works.relux.vless-tun.plist''\<rparr>"

definition launch_over :: "LaunchConfig \<Rightarrow> LaunchConfig" where
  "launch_over l = \<lparr>la_Mode = or_else (la_Mode l) (la_Mode defaultLaunch), la_Label = or_else (la_Label l) (la_Label defaultLaunch),
     la_PlistPath = or_else (la_PlistPath l) (la_PlistPath defaultLaunch)\<rparr>"

definition PrivilegedLaunchOrDefault :: "RenderConfig \<Rightarrow> LaunchConfig" where
  "PrivilegedLaunchOrDefault r = (case re_PrivilegedLaunch r of None \<Rightarrow> defaultLaunch | Some l \<Rightarrow> launch_over l)"

definition LaunchOrDefault :: "ProjectConfig \<Rightarrow> LaunchConfig" where
  "LaunchOrDefault c =
    (case pc_Launch c of
       Some l \<Rightarrow> launch_over l
     | None \<Rightarrow> (case pc_Render c of Some r \<Rightarrow> PrivilegedLaunchOrDefault r | None \<Rightarrow> defaultLaunch))"

end
