(* ===== verification/Vless_Validate.thy ===== *)
theory Vless_Validate
  imports Vless_Selection
begin

text \<open>
  Validation, defaults, loading and writing of the VLESS configuration, \<open>vless/config/config.go\<close>. The
  file system, the environment and the JSON codec are fields of \<open>config_env\<close>; \<open>regexp.Compile\<close> is known
  by whether it accepts a pattern. \<open>Validate\<close> and its callers return the configuration as it is after
  the call, since \<open>Effective\<close> writes through the shared \<open>Default\<close> pointer.
\<close>

section \<open>Validation\<close>

definition iso3166Alpha2 :: "string list" where
  "iso3166Alpha2 = Fields
    (''AD AE AF AG AI AL AM AO AQ AR AS AT AU AW AX AZ BA BB BD BE BF BG BH BI BJ BL BM BN BO BQ '' @
     ''BR BS BT BV BW BY BZ CA CC CD CF CG CH CI CK CL CM CN CO CR CU CV CW CX CY CZ DE DJ DK DM '' @
     ''DO DZ EC EE EG EH ER ES ET FI FJ FK FM FO FR GA GB GD GE GF GG GH GI GL GM GN GP GQ GR GS '' @
     ''GT GU GW GY HK HM HN HR HT HU ID IE IL IM IN IO IQ IR IS IT JE JM JO JP KE KG KH KI KM KN '' @
     ''KP KR KW KY KZ LA LB LC LI LK LR LS LT LU LV LY MA MC MD ME MF MG MH MK ML MM MN MO MP MQ '' @
     ''MR MS MT MU MV MW MX MY MZ NA NC NE NF NG NI NL NO NP NR NU NZ OM PA PE PF PG PH PK PL PM '' @
     ''PN PR PS PT PW PY QA RE RO RS RU RW SA SB SC SD SE SG SH SI SJ SK SL SM SN SO SR SS ST SV '' @
     ''SX SY SZ TC TD TF TG TH TJ TK TL TM TN TO TR TT TV TW TZ UA UG UM US UY UZ VA VC VE VG VI '' @
     ''VN VU WF WS YE YT ZA ZM ZW'')"

definition ascii_upper :: "char \<Rightarrow> char" where
  "ascii_upper c = (if is_lower c then char_of (byte_of c - 32) else c)"

definition validateTransportValue :: "string \<Rightarrow> string \<Rightarrow> config_failure + unit" where
  "validateTransportValue path value =
    check (normalizeTransport value \<in> {[], ''tcp'', ''grpc''}) (TransportInvalid path)"

fun check_all :: "('a \<Rightarrow> 'e + unit) \<Rightarrow> 'a list \<Rightarrow> 'e + unit" where
  "check_all f [] = Inr ()"
| "check_all f (x # xs) = result_bind (f x) (\<lambda>_. check_all f xs)"

definition validateExplicitServerEngines :: "ProjectConfig \<Rightarrow> config_failure + unit" where
  "validateExplicitServerEngines c =
    check_all (\<lambda>(name, server).
      case sv_Engine server of
        None \<Rightarrow> Inl (EngineTypeRequired name)
      | Some e \<Rightarrow>
         if TrimSpace (en_Type e) = [] then Inl (EngineTypeRequired name)
         else check (normalizeEngineType (en_Type e) \<in> {EngineSingbox, EngineXray}) (EngineTypeInvalid name))
      (pc_Servers c)"

definition profile_path :: "string \<Rightarrow> string \<Rightarrow> string" where
  "profile_path server profile = ''servers.'' @ server @ ''.profiles.'' @ profile"

definition validateConfiguredTransports :: "ProjectConfig \<Rightarrow> config_failure + unit" where
  "validateConfiguredTransports c =
    result_bind (validateTransportValue ''default.transport'' (legacyDefaultProfileTransport c)) (\<lambda>_.
    check_all (\<lambda>(serverName, server). check_all (\<lambda>(profileName, profile).
        validateTransportValue (profile_path serverName profileName @ ''.transport'') (profileTransport profile))
      (sv_Profiles server)) (pc_Servers c))"

definition validate_match :: "(string \<Rightarrow> bool) \<Rightarrow> string \<Rightarrow> ProfileConfig \<Rightarrow> ProfileMatch \<Rightarrow> config_failure + unit" where
  "validate_match compiles path profile m =
    (let country = TrimSpace (pm_Country m); pattern = TrimSpace (pm_NamePattern m) in
     result_bind (check (\<not> (country = [] \<and> pattern = [] \<and> nonEmptyStrings (pm_Exclude m) = [] \<and> TrimSpace (pm_Transport m) = []))
       (MatchEmpty path)) (\<lambda>_.
     result_bind (check (country = [] \<or> (length country = 2 \<and> list_all (\<lambda>ch. is_upper ch \<or> is_lower ch) country))
       (CountryFormat path)) (\<lambda>_.
     result_bind (check (country = [] \<or> map ascii_upper country \<in> set iso3166Alpha2) (CountryUnassigned path)) (\<lambda>_.
     result_bind (check (pattern = [] \<or> compiles pattern) (PatternInvalid path)) (\<lambda>_.
     result_bind (validateTransportValue (path @ ''.match.transport'') (pm_Transport m)) (\<lambda>_.
     check (ToLower (TrimSpace (pf_Pick profile)) \<in> {[], ''only'', ''first'', ''probe''}) (PickInvalid path)))))))"

definition validateProfileMatches :: "(string \<Rightarrow> bool) \<Rightarrow> ProjectConfig \<Rightarrow> config_failure + unit" where
  "validateProfileMatches compiles c =
    check_all (\<lambda>(serverName, server). check_all (\<lambda>(profileName, profile).
        let path = profile_path serverName profileName;
            selector = firstNonEmpty [pf_Selector profile, pf_ProfileSelector profile] in
        case pf_Match profile of
          Some m \<Rightarrow>
            if selector \<noteq> [] then Inl (MatchAndSelector path) else validate_match compiles path profile m
        | None \<Rightarrow> check (TrimSpace (pf_Pick profile) = []) (PickWithoutMatch path))
      (sv_Profiles server)) (pc_Servers c)"

definition allowedLogLevels :: "string list" where
  "allowedLogLevels = [''trace'', ''debug'', ''info'', ''warn'', ''error'', ''fatal'', ''panic'']"

definition validateLogLevel :: "string \<Rightarrow> config_failure + unit" where
  "validateLogLevel value =
    (let level = normalizeLogLevel value in
     check (level = [] \<or> level \<in> set allowedLogLevels) (FlatInvalid ''logging.level''))"

definition validateFlat :: "ProjectConfig \<Rightarrow> config_failure + unit" where
  "validateFlat c =
    result_bind (check (SourceURL c \<noteq> []) (FlatInvalid ''source.url'')) (\<lambda>_.
    result_bind (check (SourceMode c \<in> {SourceModeProxy, SourceModeDirect}) (FlatInvalid ''source.mode'')) (\<lambda>_.
    result_bind (check (pc_CacheDir c \<noteq> []) (FlatInvalid ''cache_dir'')) (\<lambda>_.
    result_bind (check (\<not> (SourceMode c = SourceModeDirect \<and> \<not> HasPrefix (ToLower (TrimSpace (SourceURL c))) ''vless://''))
      (FlatInvalid ''source.url direct'')) (\<lambda>_.
    result_bind (check (SingboxConfigPath c \<noteq> []) (FlatInvalid ''artifacts.singbox_config_path'')) (\<lambda>_.
    result_bind (check (EngineType c \<in> {EngineSingbox, EngineXray}) (FlatInvalid ''engine.type'')) (\<lambda>_.
    result_bind (check (\<not> (EngineType c = EngineXray \<and> XraySocksPort c \<le> 0)) (FlatInvalid ''engine.xray.socks_port'')) (\<lambda>_.
    result_bind (check (px_Address (ProxyResolver c) \<noteq> []) (FlatInvalid ''dns.proxy_resolver.address'')) (\<lambda>_.
    result_bind (check (px_Port (ProxyResolver c) > 0) (FlatInvalid ''dns.proxy_resolver.port'')) (\<lambda>_.
    result_bind (check (px_TLSServerName (ProxyResolver c) \<noteq> []) (FlatInvalid ''dns.proxy_resolver.tls_server_name'')) (\<lambda>_.
    result_bind (check (NetworkMode c = RenderModeTun) (FlatInvalid ''network.mode'')) (\<lambda>_.
    result_bind (check (TunInterfaceName c \<noteq> []) (FlatInvalid ''network.tun.interface_name'')) (\<lambda>_.
    result_bind (check (elems (TunAddresses c) \<noteq> []) (FlatInvalid ''network.tun.addresses'')) (\<lambda>_.
    result_bind (check (la_Mode (LaunchOrDefault c) \<in> {''auto'', ''sudo'', ''direct'', ''helper'', ''launchd''})
      (FlatInvalid ''launch.mode'')) (\<lambda>_.
    result_bind (validateLogLevel (LogLevel c)) (\<lambda>_.
    check (LogMaxLines c \<ge> 0) (FlatInvalid ''logging.max_lines''))))))))))))))))"

definition Validate :: "(string \<Rightarrow> bool) \<Rightarrow> ProjectConfig \<Rightarrow> (config_failure + unit) \<times> ProjectConfig" where
  "Validate compiles c =
    (case result_bind (validateExplicitServerEngines c) (\<lambda>_.
          result_bind (validateConfiguredTransports c) (\<lambda>_. validateProfileMatches compiles c)) of
       Inl e \<Rightarrow> (Inl e, c)
     | Inr _ \<Rightarrow>
        (case Effective (noOptions\<lparr>op_AllowMissingProfile := True\<rparr>) c of
           (Inl e, c1) \<Rightarrow> (Inl e, c1)
         | (Inr (effective, _), c1) \<Rightarrow> (validateFlat effective, c1)))"

section \<open>Paths\<close>

record config_env =
  ce_getwd :: "string + string"
  ce_getenv :: "string \<Rightarrow> string"
  ce_home :: "string + string"
  ce_stat :: "string \<Rightarrow> string option"
  ce_readFile :: "string \<Rightarrow> string + string"
  ce_unmarshal :: "string \<Rightarrow> ProjectConfig \<Rightarrow> string + ProjectConfig"
  ce_mkdirAll :: "string \<Rightarrow> string option"
  ce_writeFile :: "string \<Rightarrow> string option"
  ce_compiles :: "string \<Rightarrow> bool"

definition legacyRepoConfigPath :: string where
  "legacyRepoConfigPath = ''configs/local.json''"

definition filepath_Abs :: "config_env \<Rightarrow> string \<Rightarrow> string + string" where
  "filepath_Abs env path =
    (if IsAbs path then Inr (Clean path)
     else case ce_getwd env of Inl e \<Rightarrow> Inl e | Inr wd \<Rightarrow> Inr (filepath_Join [wd, path]))"

definition userConfigRoot :: "config_env \<Rightarrow> string" where
  "userConfigRoot env =
    (if ce_getenv env ''XDG_CONFIG_HOME'' \<noteq> [] then ce_getenv env ''XDG_CONFIG_HOME''
     else case ce_home env of Inl _ \<Rightarrow> [] | Inr home \<Rightarrow> filepath_Join [home, ''.config''])"

definition userCacheRoot :: "config_env \<Rightarrow> string" where
  "userCacheRoot env =
    (if ce_getenv env ''XDG_CACHE_HOME'' \<noteq> [] then ce_getenv env ''XDG_CACHE_HOME''
     else case ce_home env of Inl _ \<Rightarrow> [] | Inr home \<Rightarrow> filepath_Join [home, ''.cache''])"

definition DefaultPath :: "config_env \<Rightarrow> string" where
  "DefaultPath env =
    (if userConfigRoot env \<noteq> [] then filepath_Join [userConfigRoot env, ''vless-tun'', ''config.json'']
     else legacyRepoConfigPath)"

definition defaultPathAbs :: "config_env \<Rightarrow> string" where
  "defaultPathAbs env = (case filepath_Abs env (DefaultPath env) of Inl _ \<Rightarrow> DefaultPath env | Inr absp \<Rightarrow> absp)"

definition ResolveInitPath :: "config_env \<Rightarrow> string \<Rightarrow> string" where
  "ResolveInitPath env path =
    (if path \<noteq> [] then (case filepath_Abs env path of Inr absp \<Rightarrow> absp | Inl _ \<Rightarrow> path) else defaultPathAbs env)"

text \<open>\<open>findUpward\<close>: the directories from the working directory (an absolute path) up to the root.\<close>

definition upward_dirs :: "string \<Rightarrow> string list" where
  "upward_dirs wd =
    (let es = filter (\<lambda>e. e \<noteq> []) (Split slash (Clean wd)) in
     map (\<lambda>i. render_path True (take i es)) (rev [0..<Suc (length es)]))"

definition findUpward :: "config_env \<Rightarrow> string \<Rightarrow> string option" where
  "findUpward env relativePath =
    (case ce_getwd env of
       Inl _ \<Rightarrow> None
     | Inr wd \<Rightarrow>
        map_option (\<lambda>candidate. case filepath_Abs env candidate of Inr absp \<Rightarrow> absp | Inl _ \<Rightarrow> candidate)
          (find (\<lambda>candidate. ce_stat env candidate = None)
            (map (\<lambda>d. filepath_Join [d, relativePath]) (upward_dirs wd))))"

definition ResolveLoadPath :: "config_env \<Rightarrow> string \<Rightarrow> string + string" where
  "ResolveLoadPath env path =
    (if path \<noteq> [] then filepath_Abs env path
     else if ce_getenv env ''VLESS_TUN_CONFIG'' \<noteq> [] then filepath_Abs env (ce_getenv env ''VLESS_TUN_CONFIG'')
     else let globalPath = ResolveInitPath env [] in
       if ce_stat env globalPath = None then Inr globalPath
       else case findUpward env legacyRepoConfigPath of Some p \<Rightarrow> Inr p | None \<Rightarrow> Inr globalPath)"

definition rel_join :: "string \<Rightarrow> string \<Rightarrow> string" where
  "rel_join baseDir path =
    (if TrimSpace path \<noteq> [] \<and> \<not> IsAbs (TrimSpace path) then filepath_Join [baseDir, TrimSpace path] else path)"

definition resolve_artifacts :: "string \<Rightarrow> ArtifactsConfig \<Rightarrow> ArtifactsConfig" where
  "resolve_artifacts baseDir a =
    a\<lparr>ar_SingboxConfigPath := rel_join baseDir (ar_SingboxConfigPath a),
      ar_XrayConfigPath := rel_join baseDir (ar_XrayConfigPath a)\<rparr>"

definition resolveRelativePaths :: "string \<Rightarrow> ProjectConfig \<Rightarrow> ProjectConfig" where
  "resolveRelativePaths baseDir c =
    c\<lparr>pc_CacheDir := (if IsAbs (pc_CacheDir c) then pc_CacheDir c else filepath_Join [baseDir, pc_CacheDir c]),
      pc_Artifacts := resolve_artifacts baseDir (pc_Artifacts c),
      pc_Render := map_option (\<lambda>r. r\<lparr>re_OutputPath := rel_join baseDir (re_OutputPath r)\<rparr>) (pc_Render c),
      pc_Servers := map (\<lambda>(name, s). (name, s
        \<lparr>sv_CacheDir := (if sv_CacheDir s \<noteq> [] \<and> \<not> IsAbs (sv_CacheDir s) then filepath_Join [baseDir, sv_CacheDir s] else sv_CacheDir s),
         sv_Artifacts := map_option (resolve_artifacts baseDir) (sv_Artifacts s)\<rparr>)) (pc_Servers c)\<rparr>"

section \<open>Loading and writing\<close>

datatype load_error = LoadSystem string | LoadInvalid config_failure | ConfigExists

definition DefaultForPath :: "config_env \<Rightarrow> string \<Rightarrow> ProjectConfig" where
  "DefaultForPath env path =
    (let cfg =
      \<lparr>pc_Current = None, pc_Servers = [], pc_CacheDir = ''.cache/vpn-config'',
       pc_Source = zeroSource\<lparr>so_Mode := SourceModeProxy, so_URL := ''https://key.vpn.dance/connect?key=REPLACE_ME''\<rparr>,
       pc_Default = None,
       pc_Network = \<lparr>nw_Mode = defaultRenderMode,
         nw_TUN = \<lparr>tn_InterfaceName = ''utun233'', tn_Addresses = Some [''172.19.0.1/30'', ''fdfe:dcba:9876::1/126'']\<rparr>\<rparr>,
       pc_Launch = None,
       pc_Routing = zeroRouting\<lparr>ro_BypassSuffixes := Some [''.ru'', ''.'' @ cyrillic_rf],
         ro_BypassExcludes := Some [''.telegram.org'', ''t.me'', ''.telegram.me'', ''.telegra.ph'', ''.telesco.pe'']\<rparr>,
       pc_Engine = None, pc_Singbox = None,
       pc_DNS = \<lparr>px_Address = ''1.1.1.1'', px_Port = 853, px_TLSServerName = ''cloudflare-dns.com''\<rparr>,
       pc_Logging = \<lparr>lg_Level = ''warn'', lg_MaxLines = 1000\<rparr>,
       pc_Artifacts = zeroArtifacts\<lparr>ar_SingboxConfigPath := ''configs/generated/sing-box.json''\<rparr>,
       pc_SubscriptionURL = [], pc_SelectedProfile = [], pc_Render = None\<rparr> in
     case filepath_Abs env path of
       Inl _ \<Rightarrow> cfg
     | Inr absPath \<Rightarrow>
        if absPath = defaultPathAbs env then
          cfg\<lparr>pc_CacheDir := (if userCacheRoot env \<noteq> [] then filepath_Join [userCacheRoot env, ''vless-tun''] else pc_CacheDir cfg),
              pc_Artifacts := (pc_Artifacts cfg)\<lparr>ar_SingboxConfigPath := filepath_Join [Dir absPath, ''generated'', ''sing-box.json'']\<rparr>\<rparr>
        else cfg)"

definition Load :: "config_env \<Rightarrow> string \<Rightarrow> load_error + ProjectConfig" where
  "Load env path =
    (case ResolveLoadPath env path of
       Inl e \<Rightarrow> Inl (LoadSystem e)
     | Inr resolvedPath \<Rightarrow>
        (case ce_readFile env resolvedPath of
           Inl e \<Rightarrow> Inl (LoadSystem e)
         | Inr raw \<Rightarrow>
            (case ce_unmarshal env raw (DefaultForPath env resolvedPath) of
               Inl e \<Rightarrow> Inl (LoadSystem e)
             | Inr cfg \<Rightarrow>
                (case Validate (ce_compiles env) cfg of
                   (Inl e, _) \<Rightarrow> Inl (LoadInvalid e)
                 | (Inr _, cfg1) \<Rightarrow> Inr (resolveRelativePaths (Dir resolvedPath) cfg1)))))"

record SetupOptions =
  su_SourceURL :: string
  su_SourceMode :: string
  su_ProfileSelector :: string
  su_ServerName :: string
  su_ConfigProfile :: string

definition withDefaultServerProfile :: "SetupOptions \<Rightarrow> ProjectConfig \<Rightarrow> ProjectConfig" where
  "withDefaultServerProfile opts c =
    (let serverName = firstNonEmpty [su_ServerName opts, ''default''];
         profileName = firstNonEmpty [su_ConfigProfile opts, ''default''];
         engine = (case cloneEngineConfig (pc_Engine c) of
                     None \<Rightarrow> zeroEngine\<lparr>en_Type := EngineSingbox\<rparr>
                   | Some e \<Rightarrow> if TrimSpace (en_Type e) = [] then zeroEngine\<lparr>en_Type := EngineSingbox\<rparr> else e);
         profile = \<lparr>pf_Selector = legacyDefaultProfileSelector c, pf_ProfileSelector = [], pf_Transport = [], pf_PreferredTransport = [],
           pf_Match = None, pf_Pick = [], pf_Routing = None, pf_Engine = None, pf_Singbox = None\<rparr> in
     c\<lparr>pc_Current := Some \<lparr>cu_Server = serverName, cu_Profile = profileName\<rparr>,
       pc_Servers := [(serverName, \<lparr>sv_Source = pc_Source c, sv_CacheDir = pc_CacheDir c, sv_Artifacts = Some (pc_Artifacts c),
         sv_Routing = Some (pc_Routing c), sv_Engine = Some engine, sv_Singbox = cloneSingboxConfig (pc_Singbox c),
         sv_Profiles = [(profileName, profile)]\<rparr>)],
       pc_CacheDir := [], pc_Source := zeroSource, pc_Default := None, pc_Routing := zeroRouting, pc_Engine := None,
       pc_Singbox := None, pc_Artifacts := zeroArtifacts, pc_SubscriptionURL := [], pc_SelectedProfile := [], pc_Render := None\<rparr>)"

definition setup_config :: "config_env \<Rightarrow> string \<Rightarrow> SetupOptions \<Rightarrow> ProjectConfig" where
  "setup_config env path opts =
    (let cfg = DefaultForPath env path;
         mode = TrimSpace (su_SourceMode opts);
         cfg1 = (if su_SourceURL opts \<noteq> [] then
                   cfg\<lparr>pc_Source := (pc_Source cfg)\<lparr>so_URL := TrimSpace (su_SourceURL opts),
                     so_Mode := (if mode \<noteq> [] then mode else inferSourceMode (su_SourceURL opts))\<rparr>\<rparr>
                 else if mode \<noteq> [] then cfg\<lparr>pc_Source := (pc_Source cfg)\<lparr>so_Mode := mode\<rparr>\<rparr>
                 else cfg);
         selector = TrimSpace (su_ProfileSelector opts);
         cfg2 = (if selector \<noteq> [] then cfg1\<lparr>pc_Default := Some (zeroDefault\<lparr>df_ProfileSelector := selector\<rparr>)\<rparr> else cfg1) in
     withDefaultServerProfile opts cfg2)"

text \<open>\<open>Setup\<close>: the configuration and, when it got that far, the file it wrote.\<close>

definition Setup ::
    "config_env \<Rightarrow> string \<Rightarrow> SetupOptions \<Rightarrow> bool \<Rightarrow> (load_error + ProjectConfig) \<times> (string \<times> ProjectConfig) option" where
  "Setup env path0 opts force =
    (let path = ResolveInitPath env path0 in
     if \<not> force \<and> ce_stat env path = None then (Inl ConfigExists, None)
     else if \<not> force \<and> ce_stat env path \<noteq> Some ''no such file or directory''
       then (Inl (LoadSystem (case ce_stat env path of Some e \<Rightarrow> e | None \<Rightarrow> [])), None)
     else (case Validate (ce_compiles env) (setup_config env path opts) of
         (Inl e, _) \<Rightarrow> (Inl (LoadInvalid e), None)
       | (Inr _, cfg) \<Rightarrow>
          (case ce_mkdirAll env (Dir path) of
             Some e \<Rightarrow> (Inl (LoadSystem e), None)
           | None \<Rightarrow>
              (case ce_writeFile env path of
                 Some e \<Rightarrow> (Inl (LoadSystem e), None)
               | None \<Rightarrow> (Inr cfg, Some (path, cfg))))))"

definition resolveCurrentUpdate :: "ProjectConfig \<Rightarrow> SelectionOptions \<Rightarrow> config_failure + string \<times> string" where
  "resolveCurrentUpdate c opts =
    (if pc_Servers c = [] then Inl SetCurrentNeedsServers
     else let serverName = (if TrimSpace (op_Server opts) \<noteq> [] then TrimSpace (op_Server opts)
                            else if currentServerName (pc_Current c) \<noteq> [] then currentServerName (pc_Current c)
                            else case pc_Servers c of [(onlyName, _)] \<Rightarrow> onlyName | _ \<Rightarrow> []) in
       if serverName = [] then Inl ServerRequired
       else case map_of (pc_Servers c) serverName of
         None \<Rightarrow> Inl (ServerNotConfigured serverName)
       | Some server \<Rightarrow>
          if sv_Profiles server = [] then
            (if TrimSpace (op_Profile opts) \<noteq> [] then Inl (ServerHasNoProfiles serverName) else Inr (serverName, []))
          else let profileName = (if TrimSpace (op_Profile opts) \<noteq> [] then TrimSpace (op_Profile opts)
                                  else if map_of (sv_Profiles server) ''default'' \<noteq> None then ''default''
                                  else case sv_Profiles server of [(onlyName, _)] \<Rightarrow> onlyName | _ \<Rightarrow> []) in
            if profileName = [] then Inl ProfileRequired
            else if map_of (sv_Profiles server) profileName = None then Inl (ProfileNotConfigured profileName)
            else Inr (serverName, profileName))"

text \<open>\<open>SetCurrent\<close>: the effective configuration and selection, and the file written.\<close>

definition SetCurrent ::
    "config_env \<Rightarrow> string \<Rightarrow> SelectionOptions \<Rightarrow>
     (load_error + ProjectConfig \<times> EffectiveSelection \<times> string) \<times> (string \<times> ProjectConfig) option" where
  "SetCurrent env path opts =
    (case ResolveLoadPath env path of
       Inl e \<Rightarrow> (Inl (LoadSystem e), None)
     | Inr resolvedPath \<Rightarrow>
        (case Load env resolvedPath of
           Inl e \<Rightarrow> (Inl e, None)
         | Inr cfg \<Rightarrow>
            (case resolveCurrentUpdate cfg opts of
               Inl e \<Rightarrow> (Inl (LoadInvalid e), None)
             | Inr (serverName, profileName) \<Rightarrow>
                (case Effective noOptions (cfg\<lparr>pc_Current := Some \<lparr>cu_Server = serverName, cu_Profile = profileName\<rparr>\<rparr>) of
                   (Inl e, _) \<Rightarrow> (Inl (LoadInvalid e), None)
                 | (Inr (effective, selection), cfg1) \<Rightarrow>
                    (case ce_writeFile env resolvedPath of
                       Some e \<Rightarrow> (Inl (LoadSystem e), None)
                     | None \<Rightarrow> (Inr (effective, selection, resolvedPath), Some (resolvedPath, cfg1)))))))"

end
