(* ===== verification/Vless_Laws.thy ===== *)
theory Vless_Laws
  imports Vless_Validate
begin

text \<open>
  What the VLESS configuration promises: the merge of bypass suffixes as a set, the effective
  configuration as a flat one that is its own effective configuration, a change of the current
  selection as one that the written file keeps, and the two places where the code loses a setting.
\<close>

section \<open>Helpers\<close>

lemma firstNonEmpty_trim [simp]: "TrimSpace (firstNonEmpty xs) = firstNonEmpty xs"
  by (induction xs) auto

lemma firstNonEmpty_Nil_iff: "firstNonEmpty xs = [] \<longleftrightarrow> (\<forall>x \<in> set xs. TrimSpace x = [])"
  by (induction xs) auto

lemma firstNonEmpty_last:
  "firstNonEmpty (xs @ [y]) = (if firstNonEmpty xs = [] then TrimSpace y else firstNonEmpty xs)"
  by (induction xs) auto

lemma legacySelector_trim [simp]: "TrimSpace (legacyDefaultProfileSelector c) = legacyDefaultProfileSelector c"
  by (simp add: legacyDefaultProfileSelector_def split: option.split)

definition plain_transports :: "string list" where
  "plain_transports = [[], ''tcp'', ''grpc'']"

lemma plain_transport [simp]:
  "t \<in> set plain_transports \<Longrightarrow> normalizeTransport t = t"
  "t \<in> set plain_transports \<Longrightarrow> TrimSpace t = t"
proof -
  have "list_all (\<lambda>t. normalizeTransport t = t \<and> TrimSpace t = t) plain_transports"
    by code_simp
  then show "t \<in> set plain_transports \<Longrightarrow> normalizeTransport t = t"
    "t \<in> set plain_transports \<Longrightarrow> TrimSpace t = t"
    by (auto simp: list_all_iff)
qed

section \<open>Bypass suffixes\<close>

lemma normalizeSuffix_Nil: "normalizeSuffix [] = []"
  by (simp add: normalizeSuffix_def)

interpretation suffix: normalizer normalizeSuffix
  by unfold_locales (rule normalizeSuffix_Nil)

lemma elems_cloneStrings [simp]: "elems (cloneStrings xs) = elems xs"
  by (simp add: cloneStrings_def split: option.split)

section \<open>The effective configuration\<close>

lemma set_defaults_frame [simp]:
  "pc_Servers (set_defaults sel c) = pc_Servers c"
  "pc_Current (set_defaults sel c) = pc_Current c"
  "pc_Source (set_defaults sel c) = pc_Source c"
  "pc_CacheDir (set_defaults sel c) = pc_CacheDir c"
  "pc_Network (set_defaults sel c) = pc_Network c"
  "pc_Launch (set_defaults sel c) = pc_Launch c"
  "pc_Routing (set_defaults sel c) = pc_Routing c"
  "pc_Engine (set_defaults sel c) = pc_Engine c"
  "pc_Singbox (set_defaults sel c) = pc_Singbox c"
  "pc_DNS (set_defaults sel c) = pc_DNS c"
  "pc_Logging (set_defaults sel c) = pc_Logging c"
  "pc_Artifacts (set_defaults sel c) = pc_Artifacts c"
  "pc_SubscriptionURL (set_defaults sel c) = pc_SubscriptionURL c"
  "pc_SelectedProfile (set_defaults sel c) = []"
  "pc_Render (set_defaults sel c) = pc_Render c"
  by (simp_all add: set_defaults_def setDefaultProfileTransport_def setDefaultProfileSelector_def Let_def
      split: option.split)

lemma layer_frame [simp]:
  "pc_Servers (server_layer c s) = []" "pc_Servers (profile_layer c p) = pc_Servers c"
  "pc_Network (server_layer c s) = pc_Network c" "pc_Network (profile_layer c p) = pc_Network c"
  "pc_Launch (server_layer c s) = pc_Launch c" "pc_Launch (profile_layer c p) = pc_Launch c"
  "pc_DNS (server_layer c s) = pc_DNS c" "pc_DNS (profile_layer c p) = pc_DNS c"
  "pc_Logging (server_layer c s) = pc_Logging c" "pc_Logging (profile_layer c p) = pc_Logging c"
  "pc_Render (server_layer c s) = pc_Render c" "pc_Render (profile_layer c p) = pc_Render c"
  "pc_Default (server_layer c s) = pc_Default c" "pc_Default (profile_layer c p) = pc_Default c"
  by (simp_all add: server_layer_def profile_layer_def)

text \<open>The struct behind \<open>Default\<close> after the two setters.\<close>

lemma set_defaults_Default:
  "pc_Default (set_defaults sel c) =
    (if pc_Default c = None \<and> TrimSpace (es_Selector sel) = [] \<and> normalizeTransport (es_Transport sel) = [] then None
     else Some \<lparr>df_ProfileSelector = TrimSpace (es_Selector sel), df_Transport = normalizeTransport (es_Transport sel)\<rparr>)"
  by (auto simp: set_defaults_def setDefaultProfileTransport_def setDefaultProfileSelector_def Let_def zeroDefault_def
      split: option.split)

lemma set_defaults_again:
  assumes "TrimSpace (es_Selector sel) = TrimSpace (es_Selector sel')"
    and "normalizeTransport (es_Transport sel) = normalizeTransport (es_Transport sel')"
  shows "set_defaults sel' (set_defaults sel c) = set_defaults sel c"
proof (rule ProjectConfig.equality)
  show "pc_Default (set_defaults sel' (set_defaults sel c)) = pc_Default (set_defaults sel c)"
    using assms by (simp add: set_defaults_Default)
qed simp_all

text \<open>What a successful call did: the layers it merged and the selection it made.\<close>

definition layered :: "ProjectConfig \<Rightarrow> ServerConfig \<Rightarrow> (string \<times> ProfileConfig) option \<Rightarrow> ProjectConfig" where
  "layered c s profile =
    (case profile of None \<Rightarrow> server_layer c s | Some (_, p) \<Rightarrow> profile_layer (server_layer c s) p)"

lemma layered_frame [simp]:
  "pc_Servers (layered c s p) = []" "pc_Network (layered c s p) = pc_Network c"
  "pc_Launch (layered c s p) = pc_Launch c" "pc_DNS (layered c s p) = pc_DNS c"
  "pc_Logging (layered c s p) = pc_Logging c" "pc_Render (layered c s p) = pc_Render c"
  "pc_Default (layered c s p) = pc_Default c"
  by (auto simp: layered_def split: option.split)

definition uses_current :: "SelectionOptions \<Rightarrow> ProjectConfig \<Rightarrow> bool" where
  "uses_current opts c \<longleftrightarrow>
    TrimSpace (op_Server opts) = [] \<or> TrimSpace (op_Server opts) = currentServerName (pc_Current c)"

lemma Effective_ok:
  "Effective opts c = (Inr (e, sel), c') \<longleftrightarrow>
    c' = share_default c e \<and>
    (if pc_Servers c = [] then sel = choose_flat opts c \<and> e = set_defaults sel c
     else \<exists>name s profile. resolveServerConfig c (TrimSpace (op_Server opts)) = Inr (name, s) \<and>
       resolveProfileConfig c s (op_Profile opts) (uses_current opts c) (op_AllowMissingProfile opts) = Inr profile \<and>
       sel = choose_profile opts c name profile \<and> e = set_defaults sel (layered c s profile))"
  by (auto simp: Effective_def Let_def layered_def uses_current_def split: sum.splits)

lemma share_default_frame [simp]:
  "pc_Servers (share_default c e) = pc_Servers c" "pc_Current (share_default c e) = pc_Current c"
  "pc_SelectedProfile (share_default c e) = pc_SelectedProfile c"
  by (simp_all add: share_default_def split: option.split)

lemma Effective_flat: "Effective opts c = (Inr (e, sel), c') \<Longrightarrow> pc_Servers e = []"
  by (auto simp: Effective_ok split: if_splits)

lemma Effective_frame:
  assumes "Effective opts c = (Inr (e, sel), c')"
  shows "pc_Network e = pc_Network c" "pc_Launch e = pc_Launch c" "pc_DNS e = pc_DNS c"
    "pc_Logging e = pc_Logging c" "pc_Render e = pc_Render c"
  using assms by (auto simp: Effective_ok split: if_splits)

lemma flat_flat: "pc_Servers e = [] \<Longrightarrow> flat e = e"
  by (simp add: flat_def effectiveFromServers_def)

lemma flat_idem [simp]: "flat (flat c) = flat c"
proof (cases "effectiveFromServers c")
  case (Some e)
  then obtain sel c' where "Effective noOptions c = (Inr (e, sel), c')"
    by (cases "Effective noOptions c") (auto simp: effectiveFromServers_def split: if_splits sum.splits)
  then show ?thesis
    using Some Effective_flat by (simp add: flat_def [of c] flat_flat)
qed (simp add: flat_def)

text \<open>The selector of a successful call is the one its configuration carries as the default.\<close>

lemma choose_trim [simp]:
  "TrimSpace (es_Selector (choose_flat opts c)) = es_Selector (choose_flat opts c)"
  "TrimSpace (es_Selector (choose_profile opts c name profile)) = es_Selector (choose_profile opts c name profile)"
  by (simp_all add: choose_flat_def choose_profile_def Let_def del: firstNonEmpty.simps split: option.split prod.split)

lemma chosen_selector_trim: "Effective opts c = (Inr (e, sel), c') \<Longrightarrow> TrimSpace (es_Selector sel) = es_Selector sel"
  by (auto simp: Effective_ok split: if_splits)

lemma set_defaults_legacy:
  "legacyDefaultProfileSelector (set_defaults sel c) = TrimSpace (es_Selector sel)"
  "legacyDefaultProfileTransport (set_defaults sel c) = normalizeTransport (normalizeTransport (es_Transport sel))"
  by (auto simp: legacyDefaultProfileSelector_def legacyDefaultProfileTransport_def set_defaults_Default
      normalizeTransport_def split: option.split)

lemma Effective_legacy:
  assumes "Effective opts c = (Inr (e, sel), c')"
  shows "legacyDefaultProfileSelector e = es_Selector sel"
    "legacyDefaultProfileTransport e = normalizeTransport (normalizeTransport (es_Transport sel))"
  using assms chosen_selector_trim [OF assms]
  by (auto simp: Effective_ok set_defaults_legacy split: if_splits)

lemma noOptions_simps [simp]:
  "op_Server noOptions = []" "op_Profile noOptions = []" "op_Selector noOptions = []"
  "op_Transport noOptions = []" "op_AllowMissingProfile noOptions = False"
  by (simp_all add: noOptions_def)

text \<open>
  A second call on the caller's configuration, which now shares the written default, chooses the same.
\<close>

lemma share_legacy:
  assumes "pc_Default c = Some d" "e = set_defaults sel c1" "pc_Default c1 = pc_Default c"
  shows "legacyDefaultProfileSelector (share_default c e) =
      (if TrimSpace (es_Selector sel) \<noteq> [] then TrimSpace (es_Selector sel) else TrimSpace (pc_SelectedProfile c))"
    "legacyDefaultProfileTransport (share_default c e) = normalizeTransport (normalizeTransport (es_Transport sel))"
  using assms
  by (simp_all add: share_default_def legacyDefaultProfileSelector_def legacyDefaultProfileTransport_def set_defaults_Default)

lemma legacySelector_Nil: "legacyDefaultProfileSelector c = [] \<Longrightarrow> TrimSpace (pc_SelectedProfile c) = []"
  by (simp add: legacyDefaultProfileSelector_def split: option.splits if_splits)

lemma resolve_share [simp]:
  "resolveServerConfig (share_default c e) = resolveServerConfig c"
  "resolveProfileConfig (share_default c e) = resolveProfileConfig c"
  "uses_current opts (share_default c e) = uses_current opts c"
  by (intro ext, simp only: resolveServerConfig_def resolveProfileConfig_def share_default_frame)+
    (simp only: uses_current_def share_default_frame)

lemma layered_share:
  "set_defaults sel (layered (share_default c (set_defaults sel (layered c s p))) s p) = set_defaults sel (layered c s p)"
proof (rule ProjectConfig.equality)
  let ?e = "set_defaults sel (layered c s p)"
  show "pc_Default (set_defaults sel (layered (share_default c ?e) s p)) = pc_Default ?e"
    by (simp add: set_defaults_Default share_default_def split: option.split)
qed (simp_all add: layered_def server_layer_def profile_layer_def share_default_def split: option.split prod.split)

text \<open>A list of candidates whose last one, the default, is replaced by the winner has the same winner.\<close>

lemma firstNonEmpty_again:
  "TrimSpace y' = firstNonEmpty (xs @ [y]) \<Longrightarrow> firstNonEmpty (xs @ [y']) = firstNonEmpty (xs @ [y])"
  by (auto simp: firstNonEmpty_last)

lemma choose_profile_again:
  assumes "TrimSpace (legacyDefaultProfileSelector c') =
      (if es_Selector sel \<noteq> [] then es_Selector sel else TrimSpace (pc_SelectedProfile c))"
    and "TrimSpace (legacyDefaultProfileTransport c') = es_Transport sel"
    and sel: "sel = choose_profile opts c name p"
  shows "choose_profile opts c' name p = sel"
proof -
  have again: "firstNonEmpty (xs @ [legacyDefaultProfileSelector c']) = firstNonEmpty (xs @ [legacyDefaultProfileSelector c])"
    if "es_Selector sel = firstNonEmpty (xs @ [legacyDefaultProfileSelector c])" for xs
    using assms(1) that legacySelector_Nil [of c]
    by (intro firstNonEmpty_again) (auto simp: firstNonEmpty_last split: if_splits)
  have transport: "firstNonEmpty (xs @ [legacyDefaultProfileTransport c']) = firstNonEmpty (xs @ [legacyDefaultProfileTransport c])"
    if "es_Transport sel = firstNonEmpty (xs @ [legacyDefaultProfileTransport c])" for xs
    using assms(2) that by (intro firstNonEmpty_again) simp
  show ?thesis
  proof (cases p)
    case None
    then show ?thesis
      using again [of "[op_Selector opts]"] transport [of "[op_Transport opts]"] sel
      by (simp add: choose_profile_def del: firstNonEmpty.simps)
  next
    case (Some np)
    obtain n q where np: "np = (n, q)" by (cases np)
    show ?thesis
      using again [of "[op_Selector opts, pf_Selector q, pf_ProfileSelector q]"]
        transport [of "[op_Transport opts, profileTransport q]"] sel Some np
      by (auto simp: choose_profile_def Let_def simp del: firstNonEmpty.simps)
  qed
qed

lemma choose_flat_again:
  assumes "TrimSpace (legacyDefaultProfileSelector c') =
      (if es_Selector sel \<noteq> [] then es_Selector sel else TrimSpace (pc_SelectedProfile c))"
    and "TrimSpace (legacyDefaultProfileTransport c') = es_Transport sel"
    and sel: "sel = choose_flat opts c"
  shows "choose_flat opts c' = sel"
  using firstNonEmpty_again [of "legacyDefaultProfileSelector c'" "[op_Selector opts, op_Profile opts]" "legacyDefaultProfileSelector c"]
    firstNonEmpty_again [of "legacyDefaultProfileTransport c'" "[op_Transport opts]" "legacyDefaultProfileTransport c"]
    assms legacySelector_Nil [of c]
  by (auto simp: choose_flat_def firstNonEmpty_Nil_iff simp del: firstNonEmpty.simps)

lemma Effective_stable:
  assumes eff: "Effective opts c = (Inr (e, sel), c')" and plain: "es_Transport sel \<in> set plain_transports"
  shows "Effective opts c' = (Inr (e, sel), c')"
proof (cases "pc_Default c")
  case None
  then have "c' = c"
    using eff by (simp add: Effective_ok share_default_def)
  then show ?thesis using eff by simp
next
  case (Some d)
  have c': "c' = share_default c e"
    using eff by (simp add: Effective_ok)
  obtain c1 where e: "e = set_defaults sel c1" "pc_Default c1 = pc_Default c"
    using eff by (auto simp: Effective_ok split: if_splits)
  note legacy = share_legacy [OF Some e, folded c'] 
  have share: "share_default c' e = c'"
    using Some e by (simp add: c' share_default_def set_defaults_Default)
  have sel: "TrimSpace (legacyDefaultProfileSelector c') =
      (if es_Selector sel \<noteq> [] then es_Selector sel else TrimSpace (pc_SelectedProfile c))"
    "TrimSpace (legacyDefaultProfileTransport c') = es_Transport sel"
    using legacy chosen_selector_trim [OF eff] plain by simp_all
  show ?thesis
  proof (cases "pc_Servers c = []")
    case True
    then have "sel = choose_flat opts c" "e = set_defaults sel c"
      using eff by (simp_all add: Effective_ok)
    moreover from this(2) have "set_defaults sel c' = e"
      using Some by (intro ProjectConfig.equality) (simp_all add: c' share_default_def set_defaults_Default)
    ultimately show ?thesis
      using True choose_flat_again [OF sel] share by (simp add: Effective_ok c')
  next
    case False
    then obtain name s p where parts: "resolveServerConfig c (TrimSpace (op_Server opts)) = Inr (name, s)"
      "resolveProfileConfig c s (op_Profile opts) (uses_current opts c) (op_AllowMissingProfile opts) = Inr p"
      "sel = choose_profile opts c name p" "e = set_defaults sel (layered c s p)"
      using eff by (auto simp: Effective_ok)
    then show ?thesis
      using False choose_profile_again [OF sel parts(3)] share layered_share [of sel c s p]
      by (auto simp: Effective_ok c')
  qed
qed

section \<open>Changing the current selection\<close>

lemma chosen_name:
  "(if xs = [] then if t then Inl e1 else Inr (a, [])
    else if q = [] then Inl e2 else if m q = None then Inl (e3 q) else Inr (a, q)) = Inr (a, b) \<Longrightarrow>
   (if xs = [] then b = [] else b = q \<and> b \<noteq> [] \<and> m b \<noteq> None)"
  by (auto split: if_splits)

text \<open>A name that \<open>resolveCurrentUpdate\<close> picks is trimmed, or it is the only one there is.\<close>

lemma resolveCurrentUpdate_names:
  assumes "resolveCurrentUpdate c opts = Inr (sn, pn)"
  shows "sn \<noteq> [] \<and> (TrimSpace sn = sn \<or> (\<exists>s. pc_Servers c = [(sn, s)]))"
    and "\<exists>s. map_of (pc_Servers c) sn = Some s \<and>
      (if sv_Profiles s = [] then pn = []
       else pn \<noteq> [] \<and> map_of (sv_Profiles s) pn \<noteq> None \<and> (TrimSpace pn = pn \<or> (\<exists>p. sv_Profiles s = [(pn, p)])))"
proof -
  let ?sn = "if TrimSpace (op_Server opts) \<noteq> [] then TrimSpace (op_Server opts)
    else if currentServerName (pc_Current c) \<noteq> [] then currentServerName (pc_Current c)
    else case pc_Servers c of [(onlyName, _)] \<Rightarrow> onlyName | _ \<Rightarrow> []"
  have current: "TrimSpace (currentServerName cur) = currentServerName cur" for cur
    by (simp add: currentServerName_def split: option.split)
  obtain s where sn: "sn = ?sn" "sn \<noteq> []" "map_of (pc_Servers c) sn = Some s"
    using assms by (auto simp: resolveCurrentUpdate_def Let_def split: if_splits option.splits)
  show "sn \<noteq> [] \<and> (TrimSpace sn = sn \<or> (\<exists>s. pc_Servers c = [(sn, s)]))"
    using sn(1,2) current by (auto split: if_splits list.splits)
  let ?pn = "if TrimSpace (op_Profile opts) \<noteq> [] then TrimSpace (op_Profile opts)
    else if map_of (sv_Profiles s) ''default'' \<noteq> None then ''default''
    else case sv_Profiles s of [(onlyName, _)] \<Rightarrow> onlyName | _ \<Rightarrow> []"
  have default: "TrimSpace ''default'' = ''default''"
    by code_simp
  have "(if sv_Profiles s = [] then if TrimSpace (op_Profile opts) \<noteq> [] then Inl (ServerHasNoProfiles sn) else Inr (sn, [])
      else if ?pn = [] then Inl ProfileRequired
      else if map_of (sv_Profiles s) ?pn = None then Inl (ProfileNotConfigured ?pn) else Inr (sn, ?pn)) = Inr (sn, pn)"
    using assms sn(2,3) unfolding resolveCurrentUpdate_def Let_def sn(1) [symmetric]
    by (cases "pc_Servers c = []") simp_all
  then have "if sv_Profiles s = [] then pn = [] else pn = ?pn \<and> pn \<noteq> [] \<and> map_of (sv_Profiles s) pn \<noteq> None"
    by (rule chosen_name)
  then show "\<exists>s. map_of (pc_Servers c) sn = Some s \<and>
      (if sv_Profiles s = [] then pn = []
       else pn \<noteq> [] \<and> map_of (sv_Profiles s) pn \<noteq> None \<and> (TrimSpace pn = pn \<or> (\<exists>p. sv_Profiles s = [(pn, p)])))"
    using sn(3) default by (intro exI [of _ s]) (auto split: if_splits list.splits)
qed

lemma map_of_only: "map_of [(a, x)] b = Some y \<Longrightarrow> b = a \<and> y = x"
  by (simp split: if_splits)

lemma resolveServer_current:
  assumes "pc_Current c = Some \<lparr>cu_Server = sn, cu_Profile = pn\<rparr>"
    and "sn \<noteq> []" "TrimSpace sn = sn \<or> (\<exists>s. pc_Servers c = [(sn, s)])"
    and "resolveServerConfig c [] = Inr (name, s)"
  shows "name = sn \<and> map_of (pc_Servers c) sn = Some s"
  using assms by (auto simp: resolveServerConfig_def currentServerName_def Let_def split: if_splits option.splits)

lemma resolveProfile_current:
  assumes "pc_Current c = Some \<lparr>cu_Server = sn, cu_Profile = pn\<rparr>"
    and "if sv_Profiles s = [] then pn = []
       else pn \<noteq> [] \<and> map_of (sv_Profiles s) pn \<noteq> None \<and> (TrimSpace pn = pn \<or> (\<exists>p. sv_Profiles s = [(pn, p)]))"
    and "resolveProfileConfig c s [] True allow = Inr profile"
  shows "(case profile of None \<Rightarrow> [] | Some (n, _) \<Rightarrow> n) = pn"
  using assms by (auto simp: resolveProfileConfig_def currentProfileName_def Let_def split: if_splits option.splits)

lemma choose_profile_names [simp]:
  "es_Server (choose_profile opts c name profile) = name"
  "es_Profile (choose_profile opts c name profile) = (case profile of None \<Rightarrow> [] | Some (n, _) \<Rightarrow> n)"
  by (simp_all add: choose_profile_def Let_def split: option.split prod.split)

lemma current_selected:
  assumes "resolveCurrentUpdate c opts = Inr (sn, pn)"
    and "Effective noOptions (c\<lparr>pc_Current := Some \<lparr>cu_Server = sn, cu_Profile = pn\<rparr>\<rparr>) = (Inr (e, sel), c')"
  shows "es_Server sel = sn \<and> es_Profile sel = pn"
proof -
  let ?c = "c\<lparr>pc_Current := Some \<lparr>cu_Server = sn, cu_Profile = pn\<rparr>\<rparr>"
  note names = resolveCurrentUpdate_names [OF assms(1)]
  have "pc_Servers c \<noteq> []"
    using assms(1) by (auto simp: resolveCurrentUpdate_def)
  then obtain name s p where parts: "resolveServerConfig ?c [] = Inr (name, s)"
    "resolveProfileConfig ?c s [] True False = Inr p" "sel = choose_profile noOptions ?c name p"
    using assms(2) by (auto simp: Effective_ok uses_current_def)
  have sn: "name = sn \<and> map_of (pc_Servers c) sn = Some s"
    using resolveServer_current [OF _ _ _ parts(1), of sn pn] names(1) by simp
  then show ?thesis
    using resolveProfile_current [OF _ _ parts(2), of sn pn] names(2) parts(3) by auto
qed

section \<open>Properties\<close>



text \<open>
  Bypass suffixes accumulate down the layers: a missing list keeps the base, an explicit empty list
  resets it to a full tunnel, and any other list adds to the base, normalised and without duplicates.
\<close>

theorem bypass_suffixes_merge:
  "mergeBypassSuffixes base None = cloneStrings base \<and> mergeBypassSuffixes base (Some []) = Some [] \<and>
   (xs \<noteq> [] \<longrightarrow> (\<exists>ys. mergeBypassSuffixes base (Some xs) = Some ys \<and> distinct ys \<and>
      set ys = normalizeSuffix ` (set (elems base) \<union> set xs) - {[]} \<and> length ys \<le> length (elems base) + length xs))"
  using suffix.dedup_length [of "[]" "elems base @ xs"]
  by (simp add: mergeBypassSuffixes_def normalizeSuffixes_def suffix.dedup_set suffix.dedup_distinct)

text \<open>
  An explicit empty list of bypass exceptions on a server or profile is lost in the merge: its clone
  is the nil slice, so the accessor falls back to the exceptions of the legacy render section.
\<close>

theorem empty_excludes_fall_back:
  assumes "ro_BypassExcludes r = Some []" "pc_Servers c = []" "pc_Render c = Some legacy"
  shows "BypassExcludes (c\<lparr>pc_Routing := mergeRoutingConfig (pc_Routing c) (Some r)\<rparr>) = cloneStrings (re_BypassExcludes legacy)"
  using assms by (simp add: BypassExcludes_def flat_flat mergeRoutingConfig_def cloneStrings_def append_nil_def)

text \<open>
  (C36) \<open>Effective\<close> overwrites the caller's default section: the configuration it was called on carries,
  after the call, the selector and transport of the selection instead of its own.
\<close>

theorem effective_overwrites_default:
  assumes "Effective opts c = (Inr (e, sel), c')" "pc_Default c = Some d"
  shows "pc_Default c' = Some \<lparr>df_ProfileSelector = es_Selector sel, df_Transport = normalizeTransport (es_Transport sel)\<rparr>"
proof -
  obtain c1 where "e = set_defaults sel c1" "pc_Default c1 = pc_Default c"
    using assms(1) by (auto simp: Effective_ok split: if_splits)
  then show ?thesis
    using assms chosen_selector_trim [OF assms(1)]
    by (auto simp: Effective_ok share_default_def set_defaults_Default)
qed

section \<open>Witnesses\<close>

definition sample_profile :: "string \<Rightarrow> ProfileConfig" where
  "sample_profile selector = \<lparr>pf_Selector = selector, pf_ProfileSelector = [], pf_Transport = [], pf_PreferredTransport = [],
     pf_Match = None, pf_Pick = [], pf_Routing = None, pf_Engine = None, pf_Singbox = None\<rparr>"

definition sample_server :: ServerConfig where
  "sample_server = \<lparr>sv_Source = zeroSource, sv_CacheDir = [], sv_Artifacts = None, sv_Routing = None,
     sv_Engine = Some (zeroEngine\<lparr>en_Type := EngineSingbox\<rparr>), sv_Singbox = None,
     sv_Profiles = [(''de'', sample_profile ''de-1''), (''any'', sample_profile [])]\<rparr>"

definition sample_base :: config_env where
  "sample_base = \<lparr>ce_getwd = Inr ''/work'', ce_getenv = (\<lambda>_. []), ce_home = Inr ''/home/u'', ce_stat = (\<lambda>_. None),
     ce_readFile = (\<lambda>_. Inr ''{}''), ce_unmarshal = (\<lambda>_ c. Inr c), ce_mkdirAll = (\<lambda>_. None), ce_writeFile = (\<lambda>_. None),
     ce_compiles = (\<lambda>_. True)\<rparr>"

definition sample_project :: ProjectConfig where
  "sample_project = (DefaultForPath sample_base ''/work/c.json'')
     \<lparr>pc_Servers := [(''eu'', sample_server)], pc_Current := Some \<lparr>cu_Server = ''eu'', cu_Profile = ''de''\<rparr>,
      pc_Default := Some (zeroDefault\<lparr>df_ProfileSelector := ''keep''\<rparr>)\<rparr>"

definition sample_env :: config_env where
  "sample_env = sample_base\<lparr>ce_unmarshal := (\<lambda>_ _. Inr sample_project)\<rparr>"

definition sample_pick :: SelectionOptions where
  "sample_pick = noOptions\<lparr>op_Profile := ''any''\<rparr>"

lemma sample_trim:
  "TrimSpace ''eu'' = ''eu''"
  "TrimSpace ''de'' = ''de''"
  "TrimSpace ''any'' = ''any''"
  "TrimSpace ''de-1'' = ''de-1''"
  "TrimSpace ''keep'' = ''keep''"
  "TrimSpace ''default'' = ''default''"
  "TrimSpace ''proxy'' = ''proxy''"
  "TrimSpace ''https://key.vpn.dance/connect?key=REPLACE_ME'' = ''https://key.vpn.dance/connect?key=REPLACE_ME''"
  "TrimSpace ''tun'' = ''tun''"
  "TrimSpace ''utun233'' = ''utun233''"
  "TrimSpace ''sing-box'' = ''sing-box''"
  "TrimSpace ''warn'' = ''warn''"
  "TrimSpace ''.cache/vpn-config'' = ''.cache/vpn-config''"
  "TrimSpace ''configs/generated/sing-box.json'' = ''configs/generated/sing-box.json''"
  by code_simp+

lemma sample_words_lower: "ToLower ''proxy'' = ''proxy''" "ToLower ''sing-box'' = ''sing-box''" "ToLower ''warn'' = ''warn''"
  by code_simp+
lemma sample_default: "DefaultForPath sample_base ''/work/c.json'' =
 \<lparr>pc_Current = None, pc_Servers = [], pc_CacheDir = ''.cache/vpn-config'',
       pc_Source = zeroSource\<lparr>so_Mode := SourceModeProxy, so_URL :=
         ''https://key.vpn.dance/connect?key=REPLACE_ME''\<rparr>,
       pc_Default = None,
       pc_Network = \<lparr>nw_Mode = defaultRenderMode,
         nw_TUN = \<lparr>tn_InterfaceName = ''utun233'', tn_Addresses = Some [''172.19.0.1/30'',
           ''fdfe:dcba:9876::1/126'']\<rparr>\<rparr>,
       pc_Launch = None,
       pc_Routing = zeroRouting\<lparr>ro_BypassSuffixes := Some [''.ru'', ''.'' @ cyrillic_rf],
         ro_BypassExcludes := Some [''.telegram.org'', ''t.me'', ''.telegram.me'', ''.telegra.ph'', ''.telesco.pe'']\<rparr>,
       pc_Engine = None, pc_Singbox = None,
       pc_DNS = \<lparr>px_Address = ''1.1.1.1'', px_Port = 853, px_TLSServerName = ''cloudflare-dns.com''\<rparr>,
       pc_Logging = \<lparr>lg_Level = ''warn'', lg_MaxLines = 1000\<rparr>,
       pc_Artifacts = zeroArtifacts\<lparr>ar_SingboxConfigPath := ''configs/generated/sing-box.json''\<rparr>,
       pc_SubscriptionURL = [], pc_SelectedProfile = [], pc_Render = None\<rparr>"
proof -
  have "filepath_Abs sample_base ''/work/c.json'' = Inr ''/work/c.json''" "defaultPathAbs sample_base \<noteq> ''/work/c.json''"
    by code_simp+
  then show ?thesis by (simp add: DefaultForPath_def)
qed

lemmas sample_simps = sample_project_def sample_default sample_server_def sample_profile_def sample_trim sample_words_lower
  zeroSource_def zeroRouting_def zeroArtifacts_def zeroEngine_def zeroDefault_def EngineSingbox_def EngineXray_def
    SourceModeProxy_def
  SourceModeDirect_def RenderModeTun_def defaultRenderMode_def 

lemma sample_checked:
  "validateExplicitServerEngines sample_project = Inr ()"
  "validateConfiguredTransports sample_project = Inr ()"
  "validateProfileMatches f sample_project = Inr ()"
  by (simp_all add: sample_simps validateExplicitServerEngines_def validateConfiguredTransports_def validateProfileMatches_def
   validateTransportValue_def legacyDefaultProfileTransport_def normalizeTransport_def profileTransport_def
     normalizeEngineType_def Let_def check_def)


definition sample_selection :: "string \<Rightarrow> string \<Rightarrow> string \<Rightarrow> EffectiveSelection" where
  "sample_selection n own d = \<lparr>es_Server = ''eu'', es_Profile = n, es_Selector = (if own \<noteq> [] then own else d), es_Transport = [],
     es_Match = None, es_Pick = [], es_UsesServerModel = True\<rparr>"

definition sample_flat :: "ProjectConfig \<Rightarrow> string \<Rightarrow> string \<Rightarrow> string \<Rightarrow> ProjectConfig" where
  "sample_flat c n own d = set_defaults (sample_selection n own d) (layered c sample_server (Some (n, sample_profile own)))"

lemma sample_effective:
  assumes "pc_Servers c = [(''eu'', sample_server)]" "pc_Current c = Some \<lparr>cu_Server = ''eu'', cu_Profile = n\<rparr>"
    "pc_Default c = Some \<lparr>df_ProfileSelector = d, df_Transport = []\<rparr>" "pc_SelectedProfile c = []"
    "(n, own) \<in> {(''de'', ''de-1''), (''any'', [])}" "TrimSpace d = d"
  shows "Effective (noOptions\<lparr>op_AllowMissingProfile := b\<rparr>) c =
    (Inr (sample_flat c n own d, sample_selection n own d), share_default c (sample_flat c n own d))"
  using assms
  by (auto simp: Effective_ok sample_flat_def sample_selection_def sample_server_def sample_profile_def sample_trim
    resolveServerConfig_def resolveProfileConfig_def uses_current_def currentServerName_def currentProfileName_def
    choose_profile_def Let_def legacyDefaultProfileSelector_def legacyDefaultProfileTransport_def profileTransport_def
      normalizeTransport_def cloneProfileMatch_def)

lemma noOptions_id: "noOptions\<lparr>op_AllowMissingProfile := False\<rparr> = noOptions"
  by (simp add: noOptions_def)

lemma sample_project_parts [simp]:
  "pc_Servers sample_project = [(''eu'', sample_server)]" "pc_Current sample_project = Some \<lparr>cu_Server = ''eu'', cu_Profile = ''de''\<rparr>"
    "pc_Default sample_project = Some \<lparr>df_ProfileSelector = ''keep'', df_Transport = []\<rparr>" "pc_SelectedProfile sample_project = []"
  by (simp_all add: sample_project_def sample_default zeroDefault_def)

lemma sample_flat_valid: "validateFlat (sample_flat sample_project ''de'' ''de-1'' ''keep'') = Inr ()"
  by (simp add: validateFlat_def sample_flat_def flat_flat layered_def server_layer_def profile_layer_def sample_simps
     SourceURL_def SourceMode_def SingboxConfigPath_def EngineType_def EngineConfigOf_def ProxyResolver_def
       NetworkMode_def TunInterfaceName_def TunAddresses_def LaunchOrDefault_def LogLevel_def LogMaxLines_def
   validateLogLevel_def normalizeLogLevel_def normalizeEngineType_def cloneEngineConfig_def cloneXrayEngineConfig_def
     mergeEngineConfig_def mergeSourceConfig_def mergeArtifactsConfig_def or_else_def Let_def defaultLaunch_def
     LaunchModeAuto_def allowedLogLevels_def cloneStrings_def append_nil_def
   legacyRenderLogLevel_def legacyRenderOutputPath_def legacyRenderInterfaceName_def check_def mergeXrayEngineConfig_def)

lemma sample_validated:
  "Validate f sample_project = (Inr (), share_default sample_project (sample_flat sample_project ''de'' ''de-1'' ''keep''))"
  using sample_effective [of sample_project "''de''" "''keep''" "''de-1''" True] 
  by (simp add: Validate_def sample_checked sample_trim sample_flat_valid)

definition sample_loaded :: ProjectConfig where
  "sample_loaded = resolveRelativePaths ''/work'' (share_default sample_project (sample_flat sample_project ''de'' ''de-1'' ''keep''))"

lemma sample_load: "ResolveLoadPath sample_env ''/work/c.json'' = Inr ''/work/c.json''" "Load sample_env ''/work/c.json'' = Inr sample_loaded"
proof -
  show path: "ResolveLoadPath sample_env ''/work/c.json'' = Inr ''/work/c.json''" by code_simp
  have "Dir ''/work/c.json'' = ''/work''" by code_simp
  then show "Load sample_env ''/work/c.json'' = Inr sample_loaded"
    by (simp add: Load_def path sample_validated sample_loaded_def) (simp add: sample_env_def sample_base_def sample_validated)
qed

lemma sample_loaded_parts [simp]:
  "pc_Servers sample_loaded = [(''eu'', sample_server)]" "pc_Current sample_loaded = Some \<lparr>cu_Server = ''eu'', cu_Profile = ''de''\<rparr>"
    "pc_Default sample_loaded = Some \<lparr>df_ProfileSelector = ''de-1'', df_Transport = []\<rparr>" "pc_SelectedProfile sample_loaded = []"
  by (simp_all add: sample_loaded_def resolveRelativePaths_def share_default_def sample_flat_def set_defaults_Default
    sample_selection_def sample_trim normalizeTransport_def
     sample_server_def)



theorem effective_overwrites_default_witness:
  "pc_Default sample_project = Some (zeroDefault\<lparr>df_ProfileSelector := ''keep''\<rparr>) \<and>
   pc_Default (snd (Effective noOptions sample_project)) = Some (zeroDefault\<lparr>df_ProfileSelector := ''de-1''\<rparr>)"
proof -
  let ?sel = "sample_selection ''de'' ''de-1'' ''keep''"
  obtain e w where eff: "Effective noOptions sample_project = (Inr (e, ?sel), w)"
    using sample_effective [of sample_project "''de''" "''keep''" "''de-1''" False] by (simp add: noOptions_id sample_trim)
  from effective_overwrites_default [OF this sample_project_parts(3)] show ?thesis
    by (simp add: eff zeroDefault_def sample_selection_def normalizeTransport_def)
qed

theorem bypass_suffixes_merge_witness:
  "\<exists>ys. mergeBypassSuffixes (Some [''.ru'']) (Some [''.RU '', ''.example.com'']) = Some ys \<and> set ys = {''.ru'', ''.example.com''}"
proof -
  have "normalizeSuffix ''.ru'' = ''.ru''" "normalizeSuffix ''.RU '' = ''.ru''" "normalizeSuffix ''.example.com'' = ''.example.com''"
    by code_simp+
  then show ?thesis
    using bypass_suffixes_merge [of "Some [''.ru'']" "[''.RU '', ''.example.com'']"] by auto
qed

theorem empty_excludes_fall_back_witness:
  "\<exists>c r. ro_BypassExcludes r = Some [] \<and>
    BypassExcludes (c\<lparr>pc_Routing := mergeRoutingConfig (pc_Routing c) (Some r)\<rparr>) = Some [''.old'']"
proof -
  let ?legacy = "\<lparr>re_Mode = [], re_OutputPath = [], re_InterfaceName = [], re_TunAddresses = None, re_LogLevel = [],
    re_BypassSuffixes = None, re_BypassExcludes = Some [''.old''], re_ProxyDNS = zeroProxyDNS, re_PrivilegedLaunch = None\<rparr>"
  let ?c = "sample_project\<lparr>pc_Servers := [], pc_Render := Some ?legacy\<rparr>" and ?r = "zeroRouting\<lparr>ro_BypassExcludes := Some []\<rparr>"
  have "BypassExcludes (?c\<lparr>pc_Routing := mergeRoutingConfig (pc_Routing ?c) (Some ?r)\<rparr>) = cloneStrings (Some [''.old''])"
    using empty_excludes_fall_back [of ?r ?c ?legacy] by simp
  then show ?thesis
    by (intro exI [of _ ?c] exI [of _ ?r]) (simp add: cloneStrings_def append_nil_def)
qed

end
