(* ===== verification/Vless_Model.thy ===== *)
theory Vless_Model
  imports Go_Prelude
begin

text \<open>An upstream profile of a VLESS subscription, \<open>vless/model/profile.go\<close>.\<close>

record Profile =
  md_ID :: string
  md_Name :: string
  md_URI :: string
  md_Protocol :: string
  md_UUID :: string
  md_Host :: string
  md_Port :: int
  md_Security :: string
  md_Network :: string
  md_ServiceName :: string
  md_Authority :: string
  md_SNI :: string
  md_Fingerprint :: string
  md_PublicKey :: string
  md_ShortID :: string
  md_Flow :: string
  md_Encryption :: string
  md_SpiderX :: string
  md_Query :: "(string, string) gomap"

definition Endpoint :: "Profile \<Rightarrow> string" where
  "Endpoint p = md_Host p @ '':'' @ itoa (md_Port p)"

definition DisplayName :: "Profile \<Rightarrow> string" where
  "DisplayName p = (if md_Name p \<noteq> [] then md_Name p else Endpoint p)"

end
