(* ===== verification/Sing_Box_Render.thy ===== *)
theory Sing_Box_Render
  imports Vless_Laws Vless_Model Sing_Box_Schema
begin

text \<open>
  The sing-box configuration the client renders, \<open>vless/singbox/render.go\<close>.
  A \<open>map[string]any\<close> literal is the field list of a JSON object, in the order of the source; the
  renderers return the tree they hand to \<open>json.MarshalIndent\<close>.
\<close>

section \<open>Options\<close>

record OverlayDNS =
  ov_Domains :: "string slice"
  ov_Nameservers :: "string slice"
  ov_RouteExcludes :: "string slice"

record proxyRenderBackend =
  be_Outbound :: "(string \<times> json) list option"
  be_UseUpstreamDirectDNS :: bool
  be_UpstreamRouteExcludes :: "string slice"
  be_DirectProcessNames :: "string slice"

datatype render_error = OutboundRequired | UnsupportedMode string | UnsupportedNetwork string

definition opt_field :: "bool \<Rightarrow> string \<Rightarrow> json \<Rightarrow> (string \<times> json) list" where
  "opt_field present key v = (if present then [(key, v)] else [])"

definition opt_json :: "string \<Rightarrow> json option \<Rightarrow> (string \<times> json) list" where
  "opt_json key v = (case v of None \<Rightarrow> [] | Some t \<Rightarrow> [(key, t)])"

section \<open>Normalisation\<close>

definition lower_trim :: "string \<Rightarrow> string" where
  "lower_trim s = ToLower (TrimSpace s)"

definition normalizeOverlayDNS :: "OverlayDNS option \<Rightarrow> OverlayDNS option" where
  "normalizeOverlayDNS overlay =
    (case overlay of
       None \<Rightarrow> None
     | Some o' \<Rightarrow>
        (let domains = dedup_loop lower_trim [] (elems (ov_Domains o'));
             nameservers = dedup_loop TrimSpace [] (elems (ov_Nameservers o')) in
         if domains = [] \<or> nameservers = [] then None
         else Some \<lparr>ov_Domains = Some domains, ov_Nameservers = Some nameservers,
           ov_RouteExcludes = Some (dedup_loop TrimSpace [] (elems (ov_RouteExcludes o')))\<rparr>))"

definition normalizeRouteExcludes :: "string slice \<Rightarrow> string slice" where
  "normalizeRouteExcludes xs = Some (dedup_loop TrimSpace [] (elems xs))"

definition configNormalStrings :: "string slice \<Rightarrow> string slice" where
  "configNormalStrings xs = Some (dedup_loop TrimSpace [] (elems xs))"

definition upstreamRouteExcludeCIDRs :: "Profile \<Rightarrow> string slice" where
  "upstreamRouteExcludeCIDRs profile =
    (let host = TrimSpace (md_Host profile) in
     if host = [] then None
     else case ParseAddr host of None \<Rightarrow> None | Some addr \<Rightarrow> Some [host_prefix (Unmap addr)])"

definition upstreamHostNeedsDirectDNS :: "Profile \<Rightarrow> bool" where
  "upstreamHostNeedsDirectDNS profile =
    (let host = TrimSpace (md_Host profile) in host \<noteq> [] \<and> ParseAddr host = None)"

section \<open>Rules and inbounds\<close>

definition buildSniffRule :: "ProjectConfig \<Rightarrow> json" where
  "buildSniffRule cfg =
    JObject ([(''action'', JString ''sniff'')]
      @ opt_field (elems (NormalizedSniffers cfg) \<noteq> []) ''sniffer'' (jstrings (NormalizedSniffers cfg))
      @ opt_field (SniffTimeout cfg \<noteq> []) ''timeout'' (JString (SniffTimeout cfg)))"

definition baseRouteRules :: "ProjectConfig \<Rightarrow> string \<Rightarrow> json list" where
  "baseRouteRules cfg mode =
    (if mode = RenderModeTun then [JObject [(''protocol'', JString ''dns''), (''action'', JString ''hijack-dns'')]] else [])
    @ (if SniffEnabled cfg then [buildSniffRule cfg] else [])
    @ [JObject [(''ip_is_private'', JBool True), (''action'', JString ''route''), (''outbound'', JString ''direct'')]]"

definition processNameDirectRules :: "string slice \<Rightarrow> json list" where
  "processNameDirectRules names =
    (let processNames = configNormalStrings names in
     if elems processNames = [] then []
     else [JObject [(''process_name'', jstrings processNames), (''action'', JString ''route''), (''outbound'', JString ''direct'')]])"

definition buildInbounds :: "ProjectConfig \<Rightarrow> OverlayDNS option \<Rightarrow> string slice \<Rightarrow> render_error + json list" where
  "buildInbounds cfg overlay upstreamRouteExcludes =
    (if NetworkMode cfg \<noteq> RenderModeTun then Inl (UnsupportedMode (NetworkMode cfg))
     else let routeExcludes = elems upstreamRouteExcludes @
            (case overlay of None \<Rightarrow> [] | Some o' \<Rightarrow> elems (ov_RouteExcludes o')) in
       Inr [JObject ([(''type'', JString ''tun''), (''tag'', JString ''tun-in''),
         (''interface_name'', JString (TunInterfaceName cfg)), (''address'', jstrings (TunAddresses cfg)),
         (''auto_route'', JBool True), (''strict_route'', JBool True), (''mtu'', jint 1400)]
         @ opt_field (routeExcludes \<noteq> []) ''route_exclude_address'' (jstrings (normalizeRouteExcludes (Some routeExcludes))))])"

section \<open>Outbounds\<close>

definition buildTransport :: "Profile \<Rightarrow> render_error + json option" where
  "buildTransport profile =
    (if md_Network profile \<in> {[], ''tcp''} then Inr None
     else if md_Network profile = ''grpc'' then
       Inr (Some (JObject ([(''type'', JString ''grpc'')]
         @ opt_field (md_ServiceName profile \<noteq> []) ''service_name'' (JString (md_ServiceName profile)))))
     else Inl (UnsupportedNetwork (md_Network profile)))"

definition applyTLSClientOptions :: "ProjectConfig \<Rightarrow> (string \<times> json) list" where
  "applyTLSClientOptions cfg =
    (let options = TLSOptions cfg; curvePreferences = NormalizedCurvePreferences cfg in
     opt_json ''fragment'' (map_option JBool (tl_Fragment options))
     @ opt_field (tl_FragmentFallbackDelay options \<noteq> []) ''fragment_fallback_delay'' (JString (tl_FragmentFallbackDelay options))
     @ opt_json ''record_fragment'' (map_option JBool (tl_RecordFragment options))
     @ opt_field (elems curvePreferences \<noteq> []) ''curve_preferences'' (jstrings curvePreferences))"

definition tls_names :: "Profile \<Rightarrow> (string \<times> json) list" where
  "tls_names profile =
    opt_field (md_SNI profile \<noteq> []) ''server_name'' (JString (md_SNI profile))
    @ opt_field (md_Fingerprint profile \<noteq> []) ''utls''
        (JObject [(''enabled'', JBool True), (''fingerprint'', JString (md_Fingerprint profile))])"

definition buildTLS :: "ProjectConfig \<Rightarrow> Profile \<Rightarrow> json option" where
  "buildTLS cfg profile =
    (if md_Security profile \<in> {[], ''none''} then None
     else if md_Security profile = ''tls'' then
       Some (JObject ([(''enabled'', JBool True)] @ tls_names profile @ applyTLSClientOptions cfg))
     else if md_Security profile = ''reality'' then
       Some (JObject ([(''enabled'', JBool True),
         (''reality'', JObject ([(''enabled'', JBool True), (''public_key'', JString (md_PublicKey profile))]
            @ opt_field (md_ShortID profile \<noteq> []) ''short_id'' (JString (md_ShortID profile))))]
         @ tls_names profile @ applyTLSClientOptions cfg))
     else Some (JObject ([(''enabled'', JBool True)] @ applyTLSClientOptions cfg)))"

definition singboxFlow :: "string \<Rightarrow> string" where
  "singboxFlow flow = (if flow = ''xtls-rprx-vision-udp443'' then ''xtls-rprx-vision'' else flow)"

definition buildVLESSOutbound :: "ProjectConfig \<Rightarrow> Profile \<Rightarrow> render_error + (string \<times> json) list" where
  "buildVLESSOutbound cfg profile =
    result_bind (buildTransport profile) (\<lambda>transport.
      Inr ([(''type'', JString ''vless''), (''tag'', JString ''proxy''), (''server'', JString (md_Host profile)),
        (''server_port'', jint (md_Port profile)), (''uuid'', JString (md_UUID profile))]
        @ opt_field (singboxFlow (md_Flow profile) \<noteq> []) ''flow'' (JString (singboxFlow (md_Flow profile)))
        @ opt_json ''tls'' (buildTLS cfg profile)
        @ opt_json ''transport'' transport
        @ opt_field (upstreamHostNeedsDirectDNS profile) ''domain_resolver'' (JString ''dns-direct'')))"

section \<open>The configuration\<close>

definition inline_set :: "string \<Rightarrow> string \<Rightarrow> string slice \<Rightarrow> json" where
  "inline_set tag key xs =
    JObject [(''type'', JString ''inline''), (''tag'', JString tag), (''rules'', JArray [JObject [(key, jstrings xs)]])]"

definition set_rule :: "string \<Rightarrow> string \<Rightarrow> string \<Rightarrow> json" where
  "set_rule tag key dest =
    JObject [(''rule_set'', jstrings (Some [tag])), (''action'', JString ''route''), (key, JString dest)]"

definition dns_servers :: "ProxyDNSConfig \<Rightarrow> OverlayDNS option \<Rightarrow> bool \<Rightarrow> json list" where
  "dns_servers resolver overlay direct =
    (if direct then [JObject [(''type'', JString ''local''), (''tag'', JString ''dns-direct''), (''detour'', JString ''direct'')]] else [])
    @ [JObject [(''type'', JString ''tls''), (''tag'', JString ''dns-proxy''), (''server'', JString (px_Address resolver)),
        (''server_port'', jint (px_Port resolver)), (''detour'', JString ''proxy''),
        (''tls'', JObject [(''enabled'', JBool True), (''server_name'', JString (px_TLSServerName resolver))])]]
    @ (case overlay of
         None \<Rightarrow> []
       | Some o' \<Rightarrow> [JObject [(''type'', JString ''udp''), (''tag'', JString ''dns-overlay''),
           (''server'', JString (hd (elems (ov_Nameservers o')))), (''server_port'', jint 53), (''detour'', JString ''direct'')]])"

definition dns_rules :: "OverlayDNS option \<Rightarrow> bool \<Rightarrow> bool \<Rightarrow> json list" where
  "dns_rules overlay bypass excludes =
    (if excludes then [set_rule ''proxy-exceptions'' ''server'' ''dns-proxy''] else [])
    @ (if bypass then [set_rule ''ru-direct'' ''server'' ''dns-direct''] else [])
    @ (case overlay of
         None \<Rightarrow> []
       | Some o' \<Rightarrow> [JObject [(''domain_suffix'', jstrings (ov_Domains o')), (''action'', JString ''route''),
           (''server'', JString ''dns-overlay'')]])
    @ [JObject [(''action'', JString ''route''), (''server'', JString ''dns-proxy'')]]"

definition rule_sets :: "string slice \<Rightarrow> string slice \<Rightarrow> string slice \<Rightarrow> string slice \<Rightarrow> json list" where
  "rule_sets upstream excludes bypass routes =
    (if elems excludes \<noteq> [] then [inline_set ''proxy-exceptions'' ''domain_suffix'' excludes] else [])
    @ (if elems upstream \<noteq> [] then [inline_set ''upstream-direct'' ''ip_cidr'' upstream] else [])
    @ (if elems bypass \<noteq> [] then [inline_set ''ru-direct'' ''domain_suffix'' bypass] else [])
    @ (if elems routes \<noteq> [] then [inline_set ''direct-routes'' ''ip_cidr'' routes] else [])"

definition set_rules :: "string slice \<Rightarrow> string slice \<Rightarrow> string slice \<Rightarrow> string slice \<Rightarrow> json list" where
  "set_rules upstream excludes bypass routes =
    (if elems upstream \<noteq> [] then [set_rule ''upstream-direct'' ''outbound'' ''direct''] else [])
    @ (if elems excludes \<noteq> [] then [set_rule ''proxy-exceptions'' ''outbound'' ''proxy''] else [])
    @ (if elems bypass \<noteq> [] then [set_rule ''ru-direct'' ''outbound'' ''direct''] else [])
    @ (if elems routes \<noteq> [] then [set_rule ''direct-routes'' ''outbound'' ''direct''] else [])"

definition route_rules :: "ProjectConfig \<Rightarrow> string slice \<Rightarrow> string slice \<Rightarrow> json list" where
  "route_rules cfg names upstream =
    processNameDirectRules names @ baseRouteRules cfg (NetworkMode cfg)
    @ set_rules upstream (NormalizedBypassExcludes cfg) (NormalizedBypassSuffixes cfg) (NormalizedRoutes cfg)"

definition used_overlay :: "ProjectConfig \<Rightarrow> OverlayDNS option \<Rightarrow> OverlayDNS option" where
  "used_overlay cfg options = (if NetworkMode cfg = RenderModeTun then normalizeOverlayDNS options else None)"

definition bypass_dns :: "ProjectConfig \<Rightarrow> bool" where
  "bypass_dns cfg \<longleftrightarrow> NetworkMode cfg = RenderModeTun \<and> elems (NormalizedBypassSuffixes cfg) \<noteq> []"

definition exclude_dns :: "ProjectConfig \<Rightarrow> bool" where
  "exclude_dns cfg \<longleftrightarrow> NetworkMode cfg = RenderModeTun \<and> elems (NormalizedBypassExcludes cfg) \<noteq> []"

definition dns_section :: "ProjectConfig \<Rightarrow> OverlayDNS option \<Rightarrow> bool \<Rightarrow> json" where
  "dns_section cfg overlay upstreamDirect = JObject [
     (''servers'', JArray (dns_servers (ProxyResolver cfg) overlay (overlay = None \<or> bypass_dns cfg \<or> upstreamDirect))),
     (''rules'', JArray (dns_rules overlay (bypass_dns cfg) (exclude_dns cfg))),
     (''final'', JString ''dns-proxy''), (''strategy'', JString ''prefer_ipv4''), (''reverse_mapping'', JBool True)]"

definition direct_outbound :: "OverlayDNS option \<Rightarrow> (string \<times> json) list" where
  "direct_outbound overlay = [(''type'', JString ''direct''), (''tag'', JString ''direct''),
     (''domain_resolver'', JString (if overlay \<noteq> None then ''dns-proxy'' else ''dns-direct''))]"

definition block_outbound :: "(string \<times> json) list" where
  "block_outbound = [(''type'', JString ''block''), (''tag'', JString ''block'')]"

definition route_section :: "ProjectConfig \<Rightarrow> string slice \<Rightarrow> string slice \<Rightarrow> json" where
  "route_section cfg names upstream = JObject [(''auto_detect_interface'', JBool True),
     (''default_domain_resolver'', JObject [(''server'', JString ''dns-proxy''), (''strategy'', JString ''prefer_ipv4'')]),
     (''rule_set'', JArray (rule_sets upstream (NormalizedBypassExcludes cfg) (NormalizedBypassSuffixes cfg) (NormalizedRoutes cfg))),
     (''rules'', JArray (route_rules cfg names upstream)),
     (''final'', JString ''proxy'')]"

definition renderWithProxyOutbound ::
    "ProjectConfig \<Rightarrow> OverlayDNS option \<Rightarrow> proxyRenderBackend \<Rightarrow> render_error + (string \<times> json) list" where
  "renderWithProxyOutbound cfg options backend =
    (let overlay = used_overlay cfg options;
         upstream = normalizeRouteExcludes (be_UpstreamRouteExcludes backend) in
     case be_Outbound backend of
       None \<Rightarrow> Inl OutboundRequired
     | Some proxyOutbound \<Rightarrow>
        result_bind (buildInbounds cfg (normalizeOverlayDNS options) upstream) (\<lambda>inbounds. Inr
          [(''log'', JObject [(''level'', JString (LogLevel cfg))]),
           (''dns'', dns_section cfg overlay (be_UseUpstreamDirectDNS backend)),
           (''inbounds'', JArray inbounds),
           (''outbounds'', JArray [JObject proxyOutbound, JObject (direct_outbound overlay), JObject block_outbound]),
           (''route'', route_section cfg (be_DirectProcessNames backend) upstream)]))"

definition RenderWithOptions :: "ProjectConfig \<Rightarrow> Profile \<Rightarrow> OverlayDNS option \<Rightarrow> render_error + (string \<times> json) list" where
  "RenderWithOptions cfg profile options =
    result_bind (buildVLESSOutbound cfg profile) (\<lambda>proxyOutbound.
      renderWithProxyOutbound cfg options
        \<lparr>be_Outbound = Some proxyOutbound, be_UseUpstreamDirectDNS = upstreamHostNeedsDirectDNS profile,
         be_UpstreamRouteExcludes = upstreamRouteExcludeCIDRs profile, be_DirectProcessNames = None\<rparr>)"

definition RenderXrayFrontendWithOptions :: "ProjectConfig \<Rightarrow> OverlayDNS option \<Rightarrow> render_error + (string \<times> json) list" where
  "RenderXrayFrontendWithOptions cfg options =
    renderWithProxyOutbound cfg options
      \<lparr>be_Outbound = Some [(''type'', JString ''socks''), (''tag'', JString ''proxy''),
         (''server'', JString (XraySocksListen cfg)), (''server_port'', jint (XraySocksPort cfg)), (''version'', JString ''5'')],
       be_UseUpstreamDirectDNS = False, be_UpstreamRouteExcludes = None, be_DirectProcessNames = XrayProcessNames cfg\<rparr>"

end
