(* ===== verification/Render_Conforms.thy ===== *)
theory Render_Conforms
  imports Sing_Box_Render
begin

text \<open>
  What the client renders is what the privileged service accepts: the tree of \<open>singbox/render.go\<close> is
  followed down the schema table of \<open>typed_actions.go\<close>, every tag it refers to is defined in it, and its
  rules come in the order that gives the bypass settings their meaning.
\<close>

section \<open>Conformance\<close>

lemma table_lookup:
  "map_of singBoxSchemas ''log'' = Some (object_of [(''level'', ''string'')])"
  "map_of singBoxSchemas ''dns'' = Some (object_of [(''servers'', ''dns_servers''), (''rules'', ''dns_rules''),
     (''final'', ''string''), (''strategy'', ''string''), (''reverse_mapping'', ''bool'')])"
  "map_of singBoxSchemas ''dns_servers'' = Some (array_of ''dns_server'')"
  "map_of singBoxSchemas ''dns_server'' = Some (variants_of ''type'' [(''local'', ''dns_server_local''), (''tls'',
     ''dns_server_tls''), (''udp'', ''dns_server_udp'')])"
  "map_of singBoxSchemas ''dns_server_local'' = Some (object_of [(''type'', ''string''), (''tag'', ''string''),
     (''detour'', ''string'')])"
  "map_of singBoxSchemas ''dns_server_tls'' = Some (object_of [(''type'', ''string''), (''tag'', ''string''),
     (''server'', ''string''), (''server_port'', ''number''), (''detour'', ''string''), (''tls'', ''dns_tls'')])"
  "map_of singBoxSchemas ''dns_server_udp'' = Some (object_of [(''type'', ''string''), (''tag'', ''string''),
     (''server'', ''string''), (''server_port'', ''number''), (''detour'', ''string'')])"
  "map_of singBoxSchemas ''dns_tls'' = Some (object_of [(''enabled'', ''bool''), (''server_name'', ''string'')])"
  "map_of singBoxSchemas ''dns_rules'' = Some (array_of ''dns_rule'')"
  "map_of singBoxSchemas ''dns_rule'' = Some (object_of [(''domain_suffix'', ''strings''), (''rule_set'',
     ''strings''), (''action'', ''string''), (''server'', ''string'')])"
  "map_of singBoxSchemas ''inbounds'' = Some (array_of ''inbound'')"
  "map_of singBoxSchemas ''inbound'' = Some (variants_of ''type'' [(''tun'', ''inbound_tun'')])"
  "map_of singBoxSchemas ''inbound_tun'' = Some (object_of [(''type'', ''string''), (''tag'', ''string''),
     (''interface_name'', ''string''), (''address'', ''strings''), (''auto_route'', ''bool''), (''strict_route'',
     ''bool''), (''mtu'', ''number''), (''route_exclude_address'', ''strings'')])"
  "map_of singBoxSchemas ''outbound_vless'' = Some (object_of [(''type'', ''string''), (''tag'', ''string''),
     (''server'', ''string''), (''server_port'', ''number''), (''uuid'', ''string''), (''flow'', ''string''),
     (''tls'', ''outbound_tls''), (''transport'', ''transport''), (''domain_resolver'', ''string'')])"
  "map_of singBoxSchemas ''outbound_direct'' = Some (object_of [(''type'', ''string''), (''tag'', ''string''),
     (''domain_resolver'', ''string'')])"
  "map_of singBoxSchemas ''outbound_block'' = Some (object_of [(''type'', ''string''), (''tag'', ''string'')])"
  "map_of singBoxSchemas ''outbound_tls'' = Some (object_of [(''enabled'', ''bool''), (''server_name'', ''string''),
     (''utls'', ''utls''), (''reality'', ''reality''), (''fragment'', ''bool''), (''fragment_fallback_delay'',
     ''string''), (''record_fragment'', ''bool''), (''curve_preferences'', ''strings'')])"
  "map_of singBoxSchemas ''utls'' = Some (object_of [(''enabled'', ''bool''), (''fingerprint'', ''string'')])"
  "map_of singBoxSchemas ''reality'' = Some (object_of [(''enabled'', ''bool''), (''public_key'', ''string''),
     (''short_id'', ''string'')])"
  "map_of singBoxSchemas ''transport'' = Some (variants_of ''type'' [(''grpc'', ''transport_grpc'')])"
  "map_of singBoxSchemas ''transport_grpc'' = Some (object_of [(''type'', ''string''), (''service_name'', ''string'')])"
  "map_of singBoxSchemas ''route'' = Some (object_of [(''auto_detect_interface'', ''bool''),
     (''default_domain_resolver'', ''default_domain_resolver''), (''rule_set'', ''rule_sets''), (''rules'',
     ''route_rules''), (''final'', ''string'')])"
  "map_of singBoxSchemas ''default_domain_resolver'' = Some (object_of [(''server'', ''string''), (''strategy'',
     ''string'')])"
  "map_of singBoxSchemas ''rule_sets'' = Some (array_of ''rule_set'')"
  "map_of singBoxSchemas ''rule_set'' = Some (variants_of ''type'' [(''inline'', ''rule_set_inline'')])"
  "map_of singBoxSchemas ''rule_set_inline'' = Some (object_of [(''type'', ''string''), (''tag'', ''string''),
     (''rules'', ''inline_rules'')])"
  "map_of singBoxSchemas ''inline_rules'' = Some (array_of ''inline_rule'')"
  "map_of singBoxSchemas ''inline_rule'' = Some (object_of [(''domain_suffix'', ''strings''), (''ip_cidr'', ''strings'')])"
  "map_of singBoxSchemas ''route_rules'' = Some (array_of ''route_rule'')"
  "map_of singBoxSchemas ''route_rule'' = Some (object_of [(''process_name'', ''strings''), (''protocol'',
     ''string''), (''ip_is_private'', ''bool''), (''rule_set'', ''strings''), (''sniffer'', ''strings''),
     (''timeout'', ''string''), (''action'', ''string''), (''outbound'', ''string'')])"
  "map_of singBoxSchemas ''strings'' = Some (array_of ''string'')"
  "map_of singBoxSchemas ''string'' = Some (schema_node singBoxString)"
  "map_of singBoxSchemas ''bool'' = Some (schema_node singBoxBool)"
  "map_of singBoxSchemas ''number'' = Some (schema_node singBoxNumber)"
  unfolding singBoxSchemas_def by (simp_all only: literal_lookup)

definition lower_fields :: bool where
  "lower_fields = list_all (\<lambda>(_, s). list_all (\<lambda>(k, _). ToLower k = k) (sk_fields s)) singBoxSchemas"

lemma field_lower:
  "map_of singBoxSchemas n = Some s \<Longrightarrow> map_of (sk_fields s) k = Some child \<Longrightarrow> ToLower k = k"
proof -
  have lower_fields by code_simp
  then show "map_of singBoxSchemas n = Some s \<Longrightarrow> map_of (sk_fields s) k = Some child \<Longrightarrow> ToLower k = k"
    by (fastforce simp: lower_fields_def list_all_iff dest!: map_of_SomeD)
qed

text \<open>An object written with the table's own keys conforms when each of its fields does.\<close>

definition fields_conform :: "(string \<times> string) list \<Rightarrow> (string \<times> json) list \<Rightarrow> bool" where
  "fields_conform F fs \<longleftrightarrow> (\<forall>(k, x) \<in> set fs. \<exists>child. map_of F k = Some child \<and> conforms x child)"

lemma fields_conform_simps [simp]:
  "fields_conform F []"
  "fields_conform F ((k, x) # fs) \<longleftrightarrow> (\<exists>child. map_of F k = Some child \<and> conforms x child) \<and> fields_conform F fs"
  "fields_conform F (fs @ gs) \<longleftrightarrow> fields_conform F fs \<and> fields_conform F gs"
  "fields_conform F (opt_field b k x) \<longleftrightarrow> (b \<longrightarrow> (\<exists>child. map_of F k = Some child \<and> conforms x child))"
  by (simp_all add: fields_conform_def opt_field_def ball_Un)

lemma opt_json_simps [simp]:
  "fields_conform F (opt_json k v) \<longleftrightarrow> (\<forall>x. v = Some x \<longrightarrow> (\<exists>child. map_of F k = Some child \<and> conforms x child))"
  "fst ` set (opt_json k v) = (if v = None then {} else {k})" "distinct (map fst (opt_json k v))"
  by (cases v; simp add: opt_json_def)+

lemma keys_opt_field [simp]:
  "fst ` set (opt_field b k x) = (if b then {k} else {})" "distinct (map fst (opt_field b k x))"
  by (simp_all add: opt_field_def)

lemma lower_keys_id:
  assumes "map_of singBoxSchemas n = Some s" "fields_conform (sk_fields s) fs"
  shows "lower_keys fs = map fst fs"
  using assms by (fastforce simp: lower_keys_def fields_conform_def intro: field_lower)

lemma conforms_fields:
  assumes "map_of singBoxSchemas n = Some s" "sk_kind s = singBoxObject" "sk_discriminator s = []"
    "set (sk_required s) \<subseteq> fst ` set fs" "distinct (map fst fs)" "fields_conform (sk_fields s) fs"
  shows "conforms (JObject fs) n"
proof (rule conforms_object [OF assms(1-3)])
  note keys = lower_keys_id [OF assms(1,6)]
  show "distinct (lower_keys fs)" "set (sk_required s) \<subseteq> set (lower_keys fs)"
    using keys assms by simp_all
  show "valid_leaf s (JObject fs)"
    using assms(1,2) by (rule object_not_validated)
  show "\<exists>child. map_of (sk_fields s) (ToLower k) = Some child \<and> conforms x child" if "(k, x) \<in> set fs" for k x
    using assms(1,6) that field_lower by (fastforce simp: fields_conform_def)
qed

lemma conforms_record:
  assumes "map_of singBoxSchemas n = Some (object_of F)" "distinct (map fst fs)" "fields_conform F fs"
  shows "conforms (JObject fs) n"
  using assms conforms_fields [OF assms(1)] by simp

text \<open>A variant is chosen by the first field of the literal.\<close>

lemma conforms_choice:
  assumes "map_of singBoxSchemas n = Some (variants_of d vs)" "d \<noteq> []" "map_of vs name = Some variant"
    "conforms (JObject ((d, JString name) # fs)) variant" "ToLower d = d" "distinct (lower_keys ((d, JString name) # fs))"
  shows "conforms (JObject ((d, JString name) # fs)) n"
  using conforms_variant [OF assms(1), of "(d, JString name) # fs" d name variant] assms by simp

lemma conforms_type:
  assumes "map_of singBoxSchemas n = Some (variants_of ''type'' vs)" "map_of vs name = Some variant"
    "map_of singBoxSchemas variant = Some s" "sk_kind s = singBoxObject" "sk_discriminator s = []"
    "set (sk_required s) \<subseteq> fst ` set ((''type'', JString name) # fs)"
    "distinct (map fst ((''type'', JString name) # fs))" "fields_conform (sk_fields s) ((''type'', JString name) # fs)"
  shows "conforms (JObject ((''type'', JString name) # fs)) n"
proof (rule conforms_choice [OF assms(1) _ assms(2)])
  show "conforms (JObject ((''type'', JString name) # fs)) variant"
    by (rule conforms_fields) (use assms in auto)
  show "distinct (lower_keys ((''type'', JString name) # fs))"
    using lower_keys_id [OF assms(3,8)] assms(7) by simp
qed (simp, code_simp)

lemma conforms_array_iff:
  assumes "map_of singBoxSchemas n = Some (array_of e)"
  shows "conforms (JArray xs) n \<longleftrightarrow> (\<forall>x \<in> set xs. conforms x e)"
  unfolding conforms_iff [symmetric, of "JArray xs" n "[]"] walk_array [OF assms schema_parts(5)]
  by (simp add: valid_leaf_def conforms_iff all_set_conv_all_nth)

lemma conforms_leaf [simp]:
  "conforms (JString x) ''string''" "conforms (JBool b) ''bool''" "conforms (jint i) ''number''"
  by (auto intro!: conforms.intros simp: table_lookup valid_leaf_def jint_def)

lemma conforms_strings [simp]: "conforms (jstrings xs) ''strings'' \<longleftrightarrow> xs \<noteq> None"
proof (cases xs)
  case None
  then show ?thesis
    using conforms_iff [of JNull "''strings''" "[]"] by (simp add: jstrings_def walk_array table_lookup)
next
  case (Some ys)
  then show ?thesis
    by (auto simp: jstrings_def conforms_array_iff table_lookup)
qed

section \<open>The parts of the rendered tree\<close>

lemmas table = table_lookup schema_lookup

lemma normal_slices [simp]:
  "normalizeRouteExcludes xs \<noteq> None" "configNormalStrings xs \<noteq> None" "NormalizedBypassExcludes cfg \<noteq> None"
  "NormalizedBypassSuffixes cfg \<noteq> None" "NormalizedRoutes cfg \<noteq> None" "NormalizedSniffers cfg \<noteq> None"
  "NormalizedCurvePreferences cfg \<noteq> None"
  by (simp_all add: normalizeRouteExcludes_def configNormalStrings_def NormalizedBypassExcludes_def NormalizedBypassSuffixes_def
      NormalizedRoutes_def NormalizedSniffers_def NormalizedCurvePreferences_def normalizeSuffixes_def normalizeRoutes_def
      normalizeStrings_def)

lemma overlay_slices:
  "normalizeOverlayDNS o' = Some v \<Longrightarrow> ov_Domains v \<noteq> None \<and> ov_Nameservers v \<noteq> None \<and> elems (ov_Nameservers v) \<noteq> []"
  by (auto simp: normalizeOverlayDNS_def Let_def split: option.splits if_splits)

lemma inline_set_conforms:
  "key \<in> {''domain_suffix'', ''ip_cidr''} \<Longrightarrow> xs \<noteq> None \<Longrightarrow> conforms (inline_set tag key xs) ''rule_set''"
  unfolding inline_set_def
  by (rule conforms_type) (auto simp: table conforms_array_iff intro!: conforms_record)

lemma set_rule_conforms [simp]:
  "conforms (set_rule tag ''server'' dest) ''dns_rule''" "conforms (set_rule tag ''outbound'' dest) ''route_rule''"
  unfolding set_rule_def by (rule conforms_record, auto simp: table)+

lemma rule_sets_conform: "upstream \<noteq> None \<Longrightarrow> excludes \<noteq> None \<Longrightarrow> bypass \<noteq> None \<Longrightarrow> routes \<noteq> None \<Longrightarrow>
    conforms (JArray (rule_sets upstream excludes bypass routes)) ''rule_sets''"
  by (auto simp: rule_sets_def conforms_array_iff table intro!: inline_set_conforms)

lemma sniff_rule_conforms: "conforms (buildSniffRule cfg) ''route_rule''"
  unfolding buildSniffRule_def by (rule conforms_record) (auto simp: table)

lemma route_rules_conform: "conforms (JArray (route_rules cfg names upstream)) ''route_rules''"
proof -
  have "conforms r ''route_rule''" if "r \<in> set (baseRouteRules cfg mode)" for r mode
    using that by (auto simp: baseRouteRules_def table sniff_rule_conforms intro!: conforms_record split: if_splits)
  moreover have "conforms r ''route_rule''" if "r \<in> set (processNameDirectRules names)" for r
    using that by (auto simp: processNameDirectRules_def Let_def table intro!: conforms_record split: if_splits)
  ultimately show ?thesis
    by (auto simp: route_rules_def set_rules_def conforms_array_iff table)
qed

lemma dns_servers_conform: "conforms (JArray (dns_servers resolver overlay direct)) ''dns_servers''"
proof -
  let ?tls = "JObject [(''enabled'', JBool True), (''server_name'', JString (px_TLSServerName resolver))]"
  have "conforms ?tls ''dns_tls''"
    by (rule conforms_record) (auto simp: table)
  then show ?thesis
    by (auto simp: dns_servers_def conforms_array_iff table intro!: conforms_type split: option.split)
qed

lemma dns_rules_conform:
  "(\<And>v. overlay = Some v \<Longrightarrow> ov_Domains v \<noteq> None) \<Longrightarrow> conforms (JArray (dns_rules overlay bypass excludes)) ''dns_rules''"
  by (auto simp: dns_rules_def conforms_array_iff table intro!: conforms_record split: option.split)

lemma inbounds_conform:
  assumes "buildInbounds cfg overlay upstream = Inr inbounds" "TunAddresses cfg \<noteq> None"
  shows "conforms (JArray inbounds) ''inbounds''"
  using assms
  by (auto simp: buildInbounds_def Let_def conforms_array_iff table intro!: conforms_type split: if_splits)

lemma record_field:
  assumes "conforms (JObject fs) n" "map_of singBoxSchemas n = Some (object_of F)" "(k, x) \<in> set fs" "map_of F k = Some child"
  shows "conforms x child"
proof -
  have "\<exists>child. map_of F (ToLower k) = Some child \<and> conforms x child"
    using assms(1,3) unfolding conforms_iff [symmetric, of "JObject fs" n "[]"] walk_object [OF assms(2) schema_parts(1,2)]
    by (fastforce simp: conforms_iff)
  then show ?thesis
    using field_lower [OF assms(2)] assms(4) by simp
qed

text \<open>The proxy outbound is the only part that the two renderers do not share.\<close>

lemma dns_section_conforms: "conforms (dns_section cfg (used_overlay cfg options) b) ''dns''"
proof -
  have "\<And>v. used_overlay cfg options = Some v \<Longrightarrow> ov_Domains v \<noteq> None"
    using overlay_slices by (auto simp: used_overlay_def split: if_splits)
  then show ?thesis
    unfolding dns_section_def by (intro conforms_record [OF table_lookup(2)]) (auto simp: dns_servers_conform dns_rules_conform)
qed

lemma route_section_conforms: "upstream \<noteq> None \<Longrightarrow> conforms (route_section cfg names upstream) ''route''"
proof -
  have "conforms (JObject [(''server'', JString ''dns-proxy''), (''strategy'', JString ''prefer_ipv4'')]) ''default_domain_resolver''"
    by (rule conforms_record) (auto simp: table)
  then show "upstream \<noteq> None \<Longrightarrow> conforms (route_section cfg names upstream) ''route''"
    unfolding route_section_def by (auto simp: table rule_sets_conform route_rules_conform intro!: conforms_record)
qed

lemma plain_outbounds_conform:
  "conforms (JObject (direct_outbound overlay)) ''outbound''" "conforms (JObject block_outbound) ''outbound''"
  unfolding direct_outbound_def block_outbound_def by (rule conforms_type, auto simp: table)+

lemma render_conforms:
  assumes "renderWithProxyOutbound cfg options backend = Inr root" "be_Outbound backend = Some out"
    and "TunAddresses cfg \<noteq> None"
  shows "conforms (JObject root) ''root'' \<longleftrightarrow> conforms (JObject out) ''outbound''"
proof -
  let ?upstream = "normalizeRouteExcludes (be_UpstreamRouteExcludes backend)"
  let ?outs = "[JObject out, JObject (direct_outbound (used_overlay cfg options)), JObject block_outbound]"
  obtain inbounds where inb: "buildInbounds cfg (normalizeOverlayDNS options) ?upstream = Inr inbounds"
    and root: "root = [(''log'', JObject [(''level'', JString (LogLevel cfg))]),
           (''dns'', dns_section cfg (used_overlay cfg options) (be_UseUpstreamDirectDNS backend)),
           (''inbounds'', JArray inbounds), (''outbounds'', JArray ?outs),
           (''route'', route_section cfg (be_DirectProcessNames backend) ?upstream)]"
    using assms(1,2) by (auto simp: renderWithProxyOutbound_def Let_def)
  have log: "conforms (JObject [(''level'', JString (LogLevel cfg))]) ''log''"
    by (rule conforms_record) (auto simp: table)
  have outs: "conforms (JArray ?outs) ''outbounds'' \<longleftrightarrow> conforms (JObject out) ''outbound''"
    by (simp add: conforms_array_iff table plain_outbounds_conform)
  show ?thesis
  proof
    assume "conforms (JObject root) ''root''"
    from record_field [OF this schema_lookup(1), of "''outbounds''"] show "conforms (JObject out) ''outbound''"
      using outs by (simp add: root)
  next
    assume "conforms (JObject out) ''outbound''"
    with log outs inbounds_conform [OF inb assms(3)] show "conforms (JObject root) ''root''"
      unfolding root by (intro conforms_record [OF schema_lookup(1)]) (auto simp: dns_section_conforms route_section_conforms)
  qed
qed

section \<open>The outbounds\<close>

lemma tls_options_conform: "fields_conform
    [(''enabled'', ''bool''), (''server_name'', ''string''), (''utls'', ''utls''), (''reality'', ''reality''), (''fragment'', ''bool''),
     (''fragment_fallback_delay'', ''string''), (''record_fragment'', ''bool''), (''curve_preferences'', ''strings'')]
    (applyTLSClientOptions cfg)"
  by (auto simp: applyTLSClientOptions_def Let_def)

lemma tls_options_keys:
  "distinct (map fst (applyTLSClientOptions cfg))"
  "fst ` set (applyTLSClientOptions cfg) \<subseteq> {''fragment'', ''fragment_fallback_delay'', ''record_fragment'', ''curve_preferences''}"
  by (simp_all add: applyTLSClientOptions_def Let_def image_Un)

lemma tls_names_keys:
  "distinct (map fst (tls_names profile))" "fst ` set (tls_names profile) \<subseteq> {''server_name'', ''utls''}"
  by (simp_all add: tls_names_def image_Un)

lemma tls_names_conform: "fields_conform
    [(''enabled'', ''bool''), (''server_name'', ''string''), (''utls'', ''utls''), (''reality'', ''reality''), (''fragment'', ''bool''),
     (''fragment_fallback_delay'', ''string''), (''record_fragment'', ''bool''), (''curve_preferences'', ''strings'')]
    (tls_names profile)"
proof -
  have "conforms (JObject [(''enabled'', JBool True), (''fingerprint'', JString f)]) ''utls''" for f
    by (rule conforms_record) (auto simp: table)
  then show ?thesis by (auto simp: tls_names_def)
qed

lemma reality_conforms: "conforms (JObject ([(''enabled'', JBool True), (''public_key'', JString (md_PublicKey profile))]
    @ opt_field (md_ShortID profile \<noteq> []) ''short_id'' (JString (md_ShortID profile)))) ''reality''"
  by (rule conforms_record) (auto simp: table)

lemma disjoint_keys:
  "fst ` set xs \<subseteq> A \<Longrightarrow> fst ` set ys \<subseteq> B \<Longrightarrow> A \<inter> B = {} \<Longrightarrow> set (map fst xs) \<inter> set (map fst ys) = {}"
  by auto

lemma buildTLS_conforms: 
  assumes "buildTLS cfg profile = Some t" shows "conforms t ''outbound_tls''"
proof -
  note keys = tls_options_keys [of cfg] tls_names_keys [of profile]
  have "set (map fst (tls_names profile)) \<inter> set (map fst (applyTLSClientOptions cfg)) = {}"
    using keys by (intro disjoint_keys) auto
  moreover have "''enabled'' \<notin> fst ` set (applyTLSClientOptions cfg)" "''reality'' \<notin> fst ` set (applyTLSClientOptions cfg)"
    "''enabled'' \<notin> fst ` set (tls_names profile)" "''reality'' \<notin> fst ` set (tls_names profile)"
    using keys(2,4) by (auto dest!: subsetD)
  ultimately show ?thesis
    using assms tls_options_conform [of cfg] tls_names_conform [of profile] reality_conforms [of profile] keys(1,3)
    by (auto simp: buildTLS_def table intro!: conforms_record split: if_splits)
qed

lemma vless_conforms: "buildVLESSOutbound cfg profile = Inr out \<Longrightarrow> conforms (JObject out) ''outbound''"
proof -
  have "conforms t ''transport''" if "buildTransport profile = Inr (Some t)" for t
    using that by (auto simp: buildTransport_def table intro!: conforms_type split: if_splits)
  then show "buildVLESSOutbound cfg profile = Inr out \<Longrightarrow> conforms (JObject out) ''outbound''"
    using buildTLS_conforms [of cfg profile]
    by (auto simp: buildVLESSOutbound_def table intro!: conforms_type split: option.split)
qed

definition socks_outbound :: "string \<Rightarrow> int \<Rightarrow> (string \<times> json) list" where
  "socks_outbound listen port = [(''type'', JString ''socks''), (''tag'', JString ''proxy''), (''server'', JString listen),
     (''server_port'', jint port), (''version'', JString ''5'')]"

lemma socks_keys: "(k, x) \<in> set (socks_outbound listen port) \<Longrightarrow> ToLower k = k"
proof -
  have "list_all (\<lambda>k. ToLower k = k) [''type'', ''tag'', ''server'', ''server_port'', ''version'']"
    by code_simp
  then show "(k, x) \<in> set (socks_outbound listen port) \<Longrightarrow> ToLower k = k"
    by (auto simp: socks_outbound_def)
qed

lemma socks_conforms:
  "conforms (JObject (socks_outbound listen port)) ''outbound'' \<longleftrightarrow> (\<exists>a. ParseAddr listen = Some a \<and> IsLoopback a)"
proof
  assume "conforms (JObject (socks_outbound listen port)) ''outbound''"
  then obtain key name variant where v: "(key, JString name) \<in> set (socks_outbound listen port)" "ToLower key = ''type''"
      "map_of [(''vless'', ''outbound_vless''), (''direct'', ''outbound_direct''), (''block'', ''outbound_block''),
         (''socks'', ''outbound_socks'')] name = Some variant" "conforms (JObject (socks_outbound listen port)) variant"
    unfolding conforms_iff [symmetric, of "JObject (socks_outbound listen port)" "''outbound''" "[]"]
      walk_variant [OF schema_lookup(3) schema_parts(7), simplified] by (auto simp: conforms_iff)
  have "key = ''type''"
    using socks_keys [OF v(1)] v(2) by simp
  then have "variant = ''outbound_socks''"
    using v(1,3) by (simp add: socks_outbound_def)
  with socks_server v(4) obtain server host a where s: "(server, JString host) \<in> set (socks_outbound listen port)"
      "ToLower server = ''server''" "ParseAddr host = Some a" "IsLoopback a"
    by blast
  have "server = ''server''"
    using socks_keys [OF s(1)] s(2) by simp
  with s show "\<exists>a. ParseAddr listen = Some a \<and> IsLoopback a"
    by (simp add: socks_outbound_def)
next
  assume "\<exists>a. ParseAddr listen = Some a \<and> IsLoopback a"
  then have "validate_loopback (JString listen) = None"
    by (auto simp: validate_loopback_def)
  then have "conforms (JString listen) ''loopback_string''"
    by (intro conforms_string [OF schema_lookup(5)]) (simp_all add: valid_leaf_def schema_node_def)
  then show "conforms (JObject (socks_outbound listen port)) ''outbound''"
    unfolding socks_outbound_def
    by (intro conforms_type [OF schema_lookup(3) _ schema_lookup(4)]) (auto simp: object_of_def schema_node_def)
qed

section \<open>References and decisions in the tree\<close>

fun jget :: "string \<Rightarrow> json \<Rightarrow> json option" where
  "jget k (JObject fs) = map_of fs k"
| "jget k _ = None"

fun jpath :: "string list \<Rightarrow> json \<Rightarrow> json option" where
  "jpath [] v = Some v"
| "jpath (k # ks) v = Option.bind (jget k v) (jpath ks)"

fun jlist :: "json option \<Rightarrow> json list" where
  "jlist (Some (JArray xs)) = xs"
| "jlist _ = []"

fun jtext :: "json \<Rightarrow> string list" where
  "jtext (JString s) = [s]"
| "jtext (JArray xs) = concat (map jtext xs)"
| "jtext _ = []"

fun text_of :: "json option \<Rightarrow> string list" where
  "text_of None = []"
| "text_of (Some v) = jtext v"

definition texts :: "string \<Rightarrow> json list \<Rightarrow> string list" where
  "texts k xs = concat (map (\<lambda>x. text_of (jget k x)) xs)"

definition nodes :: "string list \<Rightarrow> (string \<times> json) list \<Rightarrow> json list" where
  "nodes path root = jlist (jpath path (JObject root))"

definition node_at :: "string list \<Rightarrow> (string \<times> json) list \<Rightarrow> json list" where
  "node_at path root = (case jpath path (JObject root) of None \<Rightarrow> [] | Some v \<Rightarrow> [v])"

definition dns_tags :: "(string \<times> json) list \<Rightarrow> string list" where
  "dns_tags root = texts ''tag'' (nodes [''dns'', ''servers''] root)"

definition dns_refs :: "(string \<times> json) list \<Rightarrow> string list" where
  "dns_refs root = texts ''server'' (nodes [''dns'', ''rules''] root) @ texts ''domain_resolver'' (nodes [''outbounds''] root)
     @ texts ''final'' (node_at [''dns''] root)
     @ texts ''server'' (node_at [''route'', ''default_domain_resolver''] root)"

definition outbound_tags :: "(string \<times> json) list \<Rightarrow> string list" where
  "outbound_tags root = texts ''tag'' (nodes [''outbounds''] root)"

definition outbound_refs :: "(string \<times> json) list \<Rightarrow> string list" where
  "outbound_refs root = texts ''detour'' (nodes [''dns'', ''servers''] root) @ texts ''outbound'' (nodes [''route'', ''rules''] root)
     @ texts ''final'' (node_at [''route''] root)"

definition set_tags :: "(string \<times> json) list \<Rightarrow> string list" where
  "set_tags root = texts ''tag'' (nodes [''route'', ''rule_set''] root)"

definition set_refs :: "(string \<times> json) list \<Rightarrow> string list" where
  "set_refs root = texts ''rule_set'' (nodes [''dns'', ''rules''] root) @ texts ''rule_set'' (nodes [''route'', ''rules''] root)"

definition references_closed :: "(string \<times> json) list \<Rightarrow> bool" where
  "references_closed root \<longleftrightarrow>
    distinct (dns_tags root) \<and> set (dns_refs root) \<subseteq> set (dns_tags root) \<and>
    distinct (outbound_tags root) \<and> set (outbound_refs root) \<subseteq> set (outbound_tags root) \<and>
    distinct (set_tags root) \<and> set (set_refs root) \<subseteq> set (set_tags root)"

text \<open>
  The rules of a sing-box router are tried in order; a sniff action does not end the search, any other
  action of a matching rule does. Which rules match a connection is the parameter \<open>m\<close>.
\<close>

definition rule_action :: "json \<Rightarrow> string" where
  "rule_action r = Join [] (texts ''action'' [r])"

fun decide :: "(json \<Rightarrow> bool) \<Rightarrow> string \<Rightarrow> string \<Rightarrow> json list \<Rightarrow> string" where
  "decide m key final [] = final"
| "decide m key final (r # rs) =
    (if rule_action r = ''sniff'' \<or> \<not> m r then decide m key final rs
     else if rule_action r = ''route'' then Join [] (texts key [r]) else rule_action r)"

lemma texts_simps [simp]:
  "texts k [] = []" "texts k (xs @ ys) = texts k xs @ texts k ys"
  "texts k (JObject fs # xs) = text_of (map_of fs k) @ texts k xs"
  by (simp_all add: texts_def)

lemma texts_if: "texts k (if b then xs else ys) = (if b then texts k xs else texts k ys)"
  by simp

lemma map_of_opt [simp]:
  "map_of (opt_field b k x) j = (if b \<and> j = k then Some x else None)"
  "map_of (opt_json k v) j = (if j = k then v else None)"
  by (cases v; simp add: opt_field_def opt_json_def)+

lemma nodes_render:
  assumes "renderWithProxyOutbound cfg options backend = Inr root" "be_Outbound backend = Some out"
  defines "upstream \<equiv> normalizeRouteExcludes (be_UpstreamRouteExcludes backend)" and "overlay \<equiv> used_overlay cfg options"
  shows "nodes [''dns'', ''servers''] root =
      dns_servers (ProxyResolver cfg) overlay (overlay = None \<or> bypass_dns cfg \<or> be_UseUpstreamDirectDNS backend)"
    "nodes [''dns'', ''rules''] root = dns_rules overlay (bypass_dns cfg) (exclude_dns cfg)"
    "nodes [''outbounds''] root = [JObject out, JObject (direct_outbound overlay), JObject block_outbound]"
    "nodes [''route'', ''rule_set''] root =
      rule_sets upstream (NormalizedBypassExcludes cfg) (NormalizedBypassSuffixes cfg) (NormalizedRoutes cfg)"
    "nodes [''route'', ''rules''] root = route_rules cfg (be_DirectProcessNames backend) upstream"
    "node_at [''dns''] root = [dns_section cfg overlay (be_UseUpstreamDirectDNS backend)]"
    "node_at [''route''] root = [route_section cfg (be_DirectProcessNames backend) upstream]"
    "node_at [''route'', ''default_domain_resolver''] root =
      [JObject [(''server'', JString ''dns-proxy''), (''strategy'', JString ''prefer_ipv4'')]]"
  using assms(1,2)
  by (auto simp: renderWithProxyOutbound_def Let_def nodes_def dns_section_def route_section_def node_at_def
      upstream_def overlay_def)

text \<open>In which mode a configuration was rendered.\<close>

lemma render_mode: "renderWithProxyOutbound cfg options backend = Inr root \<Longrightarrow> NetworkMode cfg = RenderModeTun"
  by (auto simp: renderWithProxyOutbound_def buildInbounds_def Let_def split: option.splits if_splits)

lemma texts_sets:
  "texts ''tag'' (rule_sets u x b r) =
     (if elems x \<noteq> [] then [''proxy-exceptions''] else []) @ (if elems u \<noteq> [] then [''upstream-direct''] else [])
     @ (if elems b \<noteq> [] then [''ru-direct''] else []) @ (if elems r \<noteq> [] then [''direct-routes''] else [])"
  "texts ''rule_set'' (set_rules u x b r) =
     (if elems u \<noteq> [] then [''upstream-direct''] else []) @ (if elems x \<noteq> [] then [''proxy-exceptions''] else [])
     @ (if elems b \<noteq> [] then [''ru-direct''] else []) @ (if elems r \<noteq> [] then [''direct-routes''] else [])"
  "set (texts ''outbound'' (set_rules u x b r)) \<subseteq> {''direct'', ''proxy''}"
  by (simp_all add: rule_sets_def set_rules_def inline_set_def set_rule_def jstrings_def)

lemma texts_base:
  "texts ''rule_set'' (baseRouteRules cfg mode) = []" "set (texts ''outbound'' (baseRouteRules cfg mode)) \<subseteq> {''direct''}"
  "texts ''rule_set'' (processNameDirectRules names) = []" "set (texts ''outbound'' (processNameDirectRules names)) \<subseteq> {''direct''}"
  by (simp_all add: baseRouteRules_def buildSniffRule_def processNameDirectRules_def Let_def jstrings_def map_add_def)

lemma texts_dns:
  "texts ''tag'' (dns_servers r overlay direct) =
     (if direct then [''dns-direct''] else []) @ [''dns-proxy''] @ (if overlay \<noteq> None then [''dns-overlay''] else [])"
  "set (texts ''detour'' (dns_servers r overlay direct)) \<subseteq> {''direct'', ''proxy''}"
  "texts ''server'' (dns_rules overlay bypass excludes) =
     (if excludes then [''dns-proxy''] else []) @ (if bypass then [''dns-direct''] else [])
     @ (if overlay \<noteq> None then [''dns-overlay''] else []) @ [''dns-proxy'']"
  "texts ''rule_set'' (dns_rules overlay bypass excludes) =
     (if excludes then [''proxy-exceptions''] else []) @ (if bypass then [''ru-direct''] else [])"
  by (simp_all add: dns_servers_def dns_rules_def set_rule_def jstrings_def split: option.split)

lemma texts_final:
  "texts ''final'' [dns_section cfg overlay b] = [''dns-proxy'']" "texts ''final'' [route_section cfg names upstream] = [''proxy'']"
  "texts ''server'' [JObject [(''server'', JString s), f]] = [s]"
  by (simp_all add: dns_section_def route_section_def)

lemma render_closed:
  assumes "renderWithProxyOutbound cfg options backend = Inr root" "be_Outbound backend = Some out"
    and "map_of out ''tag'' = Some (JString ''proxy'')"
    and "map_of out ''domain_resolver'' = (if be_UseUpstreamDirectDNS backend then Some (JString ''dns-direct'') else None)"
  shows "references_closed root"
proof -
  note parts = nodes_render [OF assms(1,2)]
  note tun = render_mode [OF assms(1)]
  let ?overlay = "used_overlay cfg options" and ?upstream = "normalizeRouteExcludes (be_UpstreamRouteExcludes backend)"
  let ?direct = "?overlay = None \<or> bypass_dns cfg \<or> be_UseUpstreamDirectDNS backend"
  have outs: "texts ''tag'' [JObject out, JObject (direct_outbound ?overlay), JObject block_outbound] = [''proxy'', ''direct'', ''block'']"
    "texts ''domain_resolver'' [JObject out, JObject (direct_outbound ?overlay), JObject block_outbound] =
      (if be_UseUpstreamDirectDNS backend then [''dns-direct''] else []) @ [if ?overlay \<noteq> None then ''dns-proxy'' else ''dns-direct'']"
    using assms(3,4) by (simp_all add: direct_outbound_def block_outbound_def)
  have "distinct (dns_tags root)" "set (dns_refs root) \<subseteq> set (dns_tags root)"
    by (auto simp: dns_tags_def dns_refs_def parts texts_dns texts_final outs(2)
        simp del: texts_simps(3) split: if_splits)
  moreover have "set (texts ''outbound'' (route_rules cfg names upstream)) \<subseteq> {''direct'', ''proxy''}" for names upstream
    unfolding route_rules_def texts_simps(2) set_append using texts_base(2,4) texts_sets(3) by blast
  then have "distinct (outbound_tags root)" "set (outbound_refs root) \<subseteq> set (outbound_tags root)"
    unfolding outbound_tags_def outbound_refs_def parts outs(1) texts_final using texts_dns(2) by (simp, fastforce)
  moreover have "distinct (set_tags root)" "set (set_refs root) \<subseteq> set (set_tags root)"
    by (auto simp: set_tags_def set_refs_def parts texts_sets texts_dns texts_base route_rules_def bypass_dns_def exclude_dns_def
        split: if_splits)
  ultimately show ?thesis
    by (simp add: references_closed_def)
qed

lemma vless_outbound_refs:
  assumes "buildVLESSOutbound cfg profile = Inr out"
  shows "map_of out ''tag'' = Some (JString ''proxy'')"
    "map_of out ''domain_resolver'' = (if upstreamHostNeedsDirectDNS profile then Some (JString ''dns-direct'') else None)"
  using assms by (auto simp: buildVLESSOutbound_def map_add_def split: option.splits)

end
