(* ===== verification/Render_Policy.thy ===== *)
theory Render_Policy
  imports Render_Conforms
begin

text \<open>
  The properties of the rendered sing-box configuration: a validated configuration renders to a tree that
  the privileged service accepts, rendering fails for two reasons only, and the rules of the tree give the
  bypass settings and the upstream their routes.
\<close>

section \<open>Properties\<close>

lemma render_ok_iff:
  "(\<exists>root. RenderWithOptions cfg profile options = Inr root) \<longleftrightarrow>
    md_Network profile \<in> set plain_transports \<and> NetworkMode cfg = RenderModeTun"
  by (auto simp: RenderWithOptions_def renderWithProxyOutbound_def buildInbounds_def buildVLESSOutbound_def buildTransport_def
      plain_transports_def Let_def)

lemma flat_modes:
  "validateFlat e = Inr () \<Longrightarrow> NetworkMode e = RenderModeTun \<and> elems (TunAddresses e) \<noteq> []"
  by (simp add: validateFlat_def)

lemma mode_frame:
  assumes "Effective opts c = (Inr (e, sel), c')"
  shows "NetworkMode e = NetworkMode c" "TunAddresses e = TunAddresses c"
  using Effective_frame [OF assms] by (simp_all add: NetworkMode_def TunAddresses_def)

lemma validated_modes:
  assumes "Validate compiles c = (Inr (), c')" "Effective opts c = (Inr (e, sel), c'')"
  shows "NetworkMode e = RenderModeTun" "TunAddresses e \<noteq> None"
proof -
  obtain e0 sel0 c0 where "Effective (noOptions\<lparr>op_AllowMissingProfile := True\<rparr>) c = (Inr (e0, sel0), c0)" "validateFlat e0 = Inr ()"
    using assms(1) by (auto simp: Validate_def split: sum.splits prod.splits)
  with flat_modes mode_frame assms(2) show "NetworkMode e = RenderModeTun" "TunAddresses e \<noteq> None"
    by (metis, metis elems_simps(1))
qed

lemma rendered_accepted:
  assumes "RenderWithOptions cfg profile options = Inr root" "TunAddresses cfg \<noteq> None"
  shows "walkSingBoxSchema (JObject root) ''root'' ''$'' = Inr () \<and> references_closed root"
proof -
  obtain out where out: "buildVLESSOutbound cfg profile = Inr out"
    and render: "renderWithProxyOutbound cfg options \<lparr>be_Outbound = Some out, be_UseUpstreamDirectDNS = upstreamHostNeedsDirectDNS profile,
         be_UpstreamRouteExcludes = upstreamRouteExcludeCIDRs profile, be_DirectProcessNames = None\<rparr> = Inr root"
    using assms(1) by (auto simp: RenderWithOptions_def)
  have "conforms (JObject root) ''root''"
    using render_conforms [OF render _ assms(2)] vless_conforms [OF out] by simp
  moreover have "references_closed root"
    using render_closed [OF render] vless_outbound_refs [OF out] by simp
  ultimately show ?thesis using conforms_iff by blast
qed

text \<open>
  (C3) A configuration that passes validation renders, for every selection that resolves and every
  upstream profile with a supported transport, to a sing-box configuration that the privileged
  service accepts and in which every tag that is referred to is defined exactly once.
\<close>

theorem validated_render_accepted:
  assumes "Validate compiles c = (Inr (), c')" "Effective opts c = (Inr (e, sel), c'')"
    and "md_Network profile \<in> set plain_transports"
  shows "\<exists>root. RenderWithOptions e profile options = Inr root \<and>
    walkSingBoxSchema (JObject root) ''root'' ''$'' = Inr () \<and> references_closed root"
proof -
  note modes = validated_modes [OF assms(1,2)]
  obtain root where "RenderWithOptions e profile options = Inr root"
    using modes(1) assms(3) render_ok_iff by blast
  with rendered_accepted modes(2) show ?thesis by blast
qed

text \<open>
  The Xray front end is accepted by the privileged service exactly when its SOCKS listener is a
  loopback address, which the validation of the configuration does not ask for.
\<close>

theorem xray_frontend_accepted_iff:
  assumes "RenderXrayFrontendWithOptions cfg options = Inr root" "TunAddresses cfg \<noteq> None"
  shows "walkSingBoxSchema (JObject root) ''root'' ''$'' = Inr () \<longleftrightarrow>
    (\<exists>a. ParseAddr (XraySocksListen cfg) = Some a \<and> IsLoopback a)"
  using render_conforms [OF assms(1) [unfolded RenderXrayFrontendWithOptions_def] _ assms(2)] socks_conforms [of "XraySocksListen cfg" "XraySocksPort cfg"]
  by (simp add: conforms_iff socks_outbound_def)

lemma xray_closed: "RenderXrayFrontendWithOptions cfg options = Inr root \<Longrightarrow> references_closed root"
  unfolding RenderXrayFrontendWithOptions_def by (rule render_closed) auto

text \<open>
  Rendering fails only for a transport other than TCP and gRPC or a mode other than TUN, and the
  error names the one that is wrong, the transport first.
\<close>

theorem render_errors:
  "RenderWithOptions cfg profile options = Inl e \<longleftrightarrow>
    (if md_Network profile \<notin> set plain_transports then e = UnsupportedNetwork (md_Network profile)
     else NetworkMode cfg \<noteq> RenderModeTun \<and> e = UnsupportedMode (NetworkMode cfg))"
  by (auto simp: RenderWithOptions_def renderWithProxyOutbound_def buildInbounds_def buildVLESSOutbound_def buildTransport_def
      plain_transports_def Let_def)

section \<open>Routing\<close>

definition private_rule :: json where
  "private_rule = JObject [(''ip_is_private'', JBool True), (''action'', JString ''route''), (''outbound'', JString ''direct'')]"

definition hijack_rule :: json where
  "hijack_rule = JObject [(''protocol'', JString ''dns''), (''action'', JString ''hijack-dns'')]"

lemma rule_texts [simp]:
  "rule_action (set_rule tag key dest) = ''route''" "rule_action private_rule = ''route''" "rule_action hijack_rule = ''hijack-dns''"
  "texts ''outbound'' [set_rule tag ''outbound'' dest] = [dest]" "texts ''outbound'' [private_rule] = [''direct'']"
  "rule_action (buildSniffRule cfg) = ''sniff''" "texts ''server'' [set_rule tag ''server'' dest] = [dest]"
  by (simp_all add: rule_action_def set_rule_def private_rule_def hijack_rule_def buildSniffRule_def map_add_def)

lemma decide_append:
  "decide m key final (xs @ ys) = decide m key (decide m key final ys) xs"
  by (induction xs) auto

lemma decide_if: "decide m key final (if b then [r] else []) = (if b then decide m key final [r] else final)"
  by simp

text \<open>
  (C28) The rendered rules decide in this order: DNS is hijacked, private addresses and the upstream go
  direct, the exceptions go through the proxy although they may match a bypass suffix, then the bypass
  suffixes and the direct routes go direct, and everything else goes through the proxy.
\<close>

theorem routing_decision:
  assumes "RenderWithOptions cfg profile options = Inr root"
  shows "decide m ''outbound'' ''proxy'' (nodes [''route'', ''rules''] root) =
    (let hit = (\<lambda>xs tag dest. elems xs \<noteq> [] \<and> m (set_rule tag ''outbound'' dest)) in
     if m hijack_rule then ''hijack-dns''
     else if m private_rule then ''direct''
     else if hit (normalizeRouteExcludes (upstreamRouteExcludeCIDRs profile)) ''upstream-direct'' ''direct'' then ''direct''
     else if hit (NormalizedBypassExcludes cfg) ''proxy-exceptions'' ''proxy'' then ''proxy''
     else if hit (NormalizedBypassSuffixes cfg) ''ru-direct'' ''direct'' then ''direct''
     else if hit (NormalizedRoutes cfg) ''direct-routes'' ''direct'' then ''direct''
     else ''proxy'')"
proof -
  obtain out where render: "renderWithProxyOutbound cfg options \<lparr>be_Outbound = Some out, be_UseUpstreamDirectDNS = upstreamHostNeedsDirectDNS profile,
         be_UpstreamRouteExcludes = upstreamRouteExcludeCIDRs profile, be_DirectProcessNames = None\<rparr> = Inr root"
    using assms by (auto simp: RenderWithOptions_def)
  have rules: "nodes [''route'', ''rules''] root = [hijack_rule] @ (if SniffEnabled cfg then [buildSniffRule cfg] else []) @ [private_rule]
      @ set_rules (normalizeRouteExcludes (upstreamRouteExcludeCIDRs profile)) (NormalizedBypassExcludes cfg)
          (NormalizedBypassSuffixes cfg) (NormalizedRoutes cfg)"
    using nodes_render(5) [OF render] render_mode [OF render]
    by (simp add: route_rules_def processNameDirectRules_def configNormalStrings_def baseRouteRules_def private_rule_def hijack_rule_def)
  show ?thesis
    unfolding rules set_rules_def Let_def decide_append decide_if by simp
qed


text \<open>
  (C29) The tunnel never carries its own transport: an upstream given as an IP address is excluded from
  the TUN routes and sent direct by a rule of its own, and an upstream given by name is resolved by the
  direct DNS server, which the configuration then defines.
\<close>

theorem upstream_bypasses_tunnel:
  assumes "RenderWithOptions cfg profile options = Inr root" "TrimSpace (md_Host profile) \<noteq> []"
  shows "case ParseAddr (TrimSpace (md_Host profile)) of
      Some a \<Rightarrow> host_prefix (Unmap a) \<in> set (texts ''route_exclude_address'' (nodes [''inbounds''] root)) \<and>
        inline_set ''upstream-direct'' ''ip_cidr'' (Some [host_prefix (Unmap a)]) \<in> set (nodes [''route'', ''rule_set''] root) \<and>
        set_rule ''upstream-direct'' ''outbound'' ''direct'' \<in> set (nodes [''route'', ''rules''] root)
    | None \<Rightarrow> ''dns-direct'' \<in> set (texts ''domain_resolver'' (take 1 (nodes [''outbounds''] root))) \<and>
        ''dns-direct'' \<in> set (dns_tags root)"
proof -
  obtain out where out: "buildVLESSOutbound cfg profile = Inr out"
    and render: "renderWithProxyOutbound cfg options \<lparr>be_Outbound = Some out, be_UseUpstreamDirectDNS = upstreamHostNeedsDirectDNS profile,
         be_UpstreamRouteExcludes = upstreamRouteExcludeCIDRs profile, be_DirectProcessNames = None\<rparr> = Inr root"
    using assms(1) by (auto simp: RenderWithOptions_def)
  note parts = nodes_render [OF render, simplified]
  show ?thesis
  proof (cases "ParseAddr (TrimSpace (md_Host profile))")
    case None
    then have direct: "upstreamHostNeedsDirectDNS profile"
      using assms(2) by (simp add: upstreamHostNeedsDirectDNS_def)
    then show ?thesis
      using None vless_outbound_refs(2) [OF out] by (simp add: parts dns_tags_def texts_dns)
  next
    case (Some a)
    have "host_prefix (Unmap a) \<noteq> []"
      by (simp add: host_prefix_def split: netip_addr.split)
    then have norm: "normalizeRouteExcludes (upstreamRouteExcludeCIDRs profile) = Some [host_prefix (Unmap a)]"
      using Some assms(2) host_prefix_trim [OF Some]
      by (simp add: normalizeRouteExcludes_def upstreamRouteExcludeCIDRs_def Let_def)
    define rest where "rest = (case normalizeOverlayDNS options of None \<Rightarrow> [] | Some o' \<Rightarrow> elems (ov_RouteExcludes o'))"
    have "map_of (case nodes [''inbounds''] root of [JObject fs] \<Rightarrow> fs | _ \<Rightarrow> []) ''route_exclude_address'' =
        Some (jstrings (normalizeRouteExcludes (Some (host_prefix (Unmap a) # rest)))) \<and>
        (\<exists>fs. nodes [''inbounds''] root = [JObject fs])"
      using render by (auto simp: renderWithProxyOutbound_def buildInbounds_def Let_def norm nodes_def rest_def split: if_splits)
    then have "host_prefix (Unmap a) \<in> set (texts ''route_exclude_address'' (nodes [''inbounds''] root))"
      using host_prefix_trim [OF Some] \<open>host_prefix (Unmap a) \<noteq> []\<close>
      by (auto simp: normalizeRouteExcludes_def jstrings_def Let_def)
    then show ?thesis
      using Some by (simp add: parts norm rule_sets_def route_rules_def set_rules_def)
  qed
qed

section \<open>Witnesses\<close>

definition sample_upstream :: Profile where
  "sample_upstream = \<lparr>md_ID = ''1'', md_Name = ''de-1'', md_URI = [], md_Protocol = ''vless'', md_UUID = ''u'', md_Host = ''203.0.113.7'',
     md_Port = 443, md_Security = ''reality'', md_Network = ''grpc'', md_ServiceName = ''s'', md_Authority = [], md_SNI = ''example.com'',
     md_Fingerprint = ''chrome'', md_PublicKey = ''k'', md_ShortID = ''01'', md_Flow = [], md_Encryption = [], md_SpiderX = [], md_Query = []\<rparr>"

lemma sample_rendered:
  "\<exists>e root. fst (Effective noOptions sample_project) = Inr (e, sample_selection ''de'' ''de-1'' ''keep'') \<and>
     RenderWithOptions e sample_upstream None = Inr root"
proof -
  obtain e w where eff: "Effective noOptions sample_project = (Inr (e, sample_selection ''de'' ''de-1'' ''keep''), w)"
    using sample_effective [of sample_project "''de''" "''keep''" "''de-1''" False] by (simp add: noOptions_id sample_trim)
  have "md_Network sample_upstream \<in> set plain_transports"
    by (simp add: sample_upstream_def plain_transports_def)
  then show ?thesis
    using validated_modes(1) [OF sample_validated eff] render_ok_iff eff by (metis fst_conv)
qed

theorem validated_render_accepted_witness:
  "\<exists>e root. fst (Effective noOptions sample_project) = Inr (e, sample_selection ''de'' ''de-1'' ''keep'') \<and>
     RenderWithOptions e sample_upstream None = Inr root \<and> walkSingBoxSchema (JObject root) ''root'' ''$'' = Inr () \<and> references_closed root"
proof -
  obtain e w where eff: "Effective noOptions sample_project = (Inr (e, sample_selection ''de'' ''de-1'' ''keep''), w)"
    using sample_effective [of sample_project "''de''" "''keep''" "''de-1''" False] by (simp add: noOptions_id sample_trim)
  have "md_Network sample_upstream \<in> set plain_transports"
    by (simp add: sample_upstream_def plain_transports_def)
  from validated_render_accepted [OF sample_validated eff this, of None] show ?thesis
    using eff by (metis fst_conv)
qed

theorem routing_decision_witness:
  "\<exists>e root. fst (Effective noOptions sample_project) = Inr (e, sample_selection ''de'' ''de-1'' ''keep'') \<and>
     RenderWithOptions e sample_upstream None = Inr root \<and>
     decide (\<lambda>r. r = set_rule ''proxy-exceptions'' ''outbound'' ''proxy'') ''outbound'' ''proxy'' (nodes [''route'', ''rules''] root) = ''proxy''"
proof -
  obtain e root where r: "fst (Effective noOptions sample_project) = Inr (e, sample_selection ''de'' ''de-1'' ''keep'')"
    "RenderWithOptions e sample_upstream None = Inr root"
    using sample_rendered by blast
  then show ?thesis
    using routing_decision [OF r(2), of "\<lambda>r. r = set_rule ''proxy-exceptions'' ''outbound'' ''proxy''"]
    by (auto simp: hijack_rule_def private_rule_def set_rule_def Let_def)
qed

theorem upstream_bypasses_tunnel_witness:
  "\<exists>e root. RenderWithOptions e sample_upstream None = Inr root \<and>
     ''203.0.113.7/32'' \<in> set (texts ''route_exclude_address'' (nodes [''inbounds''] root))"
proof -
  obtain e root where r: "RenderWithOptions e sample_upstream None = Inr root"
    using sample_rendered by blast
  have host: "TrimSpace (md_Host sample_upstream) = ''203.0.113.7''" "ParseAddr ''203.0.113.7'' = Some (IPv4 [203, 0, 113, 7])"
    "host_prefix (Unmap (IPv4 [203, 0, 113, 7])) = ''203.0.113.7/32''"
    by code_simp+
  from upstream_bypasses_tunnel [OF r] r show ?thesis
    by (auto simp: host simp del: Unmap.simps)
qed

theorem xray_frontend_accepted_iff_witness:
  "\<exists>cfg root. RenderXrayFrontendWithOptions cfg None = Inr root \<and> walkSingBoxSchema (JObject root) ''root'' ''$'' = Inr ()"
proof -
  obtain e w where eff: "Effective noOptions sample_project = (Inr (e, sample_selection ''de'' ''de-1'' ''keep''), w)"
    using sample_effective [of sample_project "''de''" "''keep''" "''de-1''" False] by (simp add: noOptions_id sample_trim)
  note modes = validated_modes [OF sample_validated eff]
  obtain root where root: "RenderXrayFrontendWithOptions e None = Inr root"
    using modes(1) by (auto simp: RenderXrayFrontendWithOptions_def renderWithProxyOutbound_def buildInbounds_def Let_def)
  have e: "e = sample_flat sample_project ''de'' ''de-1'' ''keep''"
    using eff sample_effective [of sample_project "''de''" "''keep''" "''de-1''" False] by (simp add: noOptions_id sample_trim)
  have listen: "XraySocksListen e = ''127.0.0.1''"
    by (simp add: e XraySocksListen_def EngineConfigOf_def sample_flat_def flat_flat layered_def server_layer_def profile_layer_def
        sample_simps mergeEngineConfig_def mergeXrayEngineConfig_def cloneEngineConfig_def cloneXrayEngineConfig_def Let_def)
  have "ParseAddr ''127.0.0.1'' = Some (IPv4 [127, 0, 0, 1])" "IsLoopback (IPv4 [127, 0, 0, 1])"
    by code_simp+
  with xray_frontend_accepted_iff [OF root modes(2)] listen root show ?thesis
    by auto
qed

end
