(* ===== verification/Go_Url.thy ===== *)
theory Go_Url
  imports Go_Prelude
begin

text \<open>
  Package \<open>net/url\<close> as \<open>ParseVLESSURI\<close> uses it: \<open>url.Parse\<close> with the parts of its result that the program
  reads, \<open>Hostname\<close>, \<open>Port\<close> and \<open>Query\<close>; and \<open>encoding/base64\<close> and \<open>strings.EqualFold\<close> for the subscription
  payload. \<open>None\<close> is an error whose text the program only passes on.
\<close>

section \<open>Escaping\<close>

datatype url_mode = encodePath | encodeHost | encodeZone | encodeUserPassword | encodeQueryComponent | encodeFragment

definition is_alnum :: "char \<Rightarrow> bool" where
  "is_alnum c \<longleftrightarrow> is_digit c \<or> is_upper c \<or> is_lower c"

text \<open>\<open>shouldEscape\<close> in the two host modes; \<open>CHR 0x22\<close> is the quotation mark and \<open>CHR 0x27\<close> the apostrophe.\<close>

definition shouldEscape_host :: "char \<Rightarrow> bool" where
  "shouldEscape_host c \<longleftrightarrow> \<not> (is_alnum c \<or> c \<in> set ''!$&()*+,;=:[]<>-_.~'' \<or> c = CHR 0x22 \<or> c = CHR 0x27)"

fun url_unescape :: "url_mode \<Rightarrow> string \<Rightarrow> string option" where
  "url_unescape m [] = Some []"
| "url_unescape m (c # s) =
    (if c = CHR ''%'' then
       (case s of
          a # b # r \<Rightarrow>
            (case (hex_digit a, hex_digit b) of
               (Some x, Some y) \<Rightarrow>
                 if m = encodeHost \<and> x < 8 \<and> [a, b] \<noteq> ''25'' then None
                 else if m = encodeZone \<and> [a, b] \<noteq> ''25'' \<and> x * 16 + y \<noteq> 32 \<and> shouldEscape_host (char_of (x * 16 + y)) then None
                 else map_option ((#) (char_of (x * 16 + y))) (url_unescape m r)
             | _ \<Rightarrow> None)
        | _ \<Rightarrow> None)
     else if c = CHR ''+'' \<and> m = encodeQueryComponent then map_option ((#) (CHR '' '')) (url_unescape m s)
     else if m \<in> {encodeHost, encodeZone} \<and> byte_of c < 128 \<and> shouldEscape_host c \<and> c \<noteq> CHR ''+'' then None
     else map_option ((#) c) (url_unescape m s))"

definition QueryUnescape :: "string \<Rightarrow> string option" where
  "QueryUnescape s = url_unescape encodeQueryComponent s"

section \<open>Parsing\<close>

record url =
  ul_Scheme :: string
  ul_User :: "string option"
  ul_Host :: string
  ul_RawQuery :: string
  ul_Fragment :: string

text \<open>\<open>strings.Cut\<close> with its result when the separator is missing, and the split at the last occurrence.\<close>

definition cut_at :: "char \<Rightarrow> string \<Rightarrow> string \<times> string" where
  "cut_at d s = (takeWhile (\<lambda>c. c \<noteq> d) s, drop 1 (dropWhile (\<lambda>c. c \<noteq> d) s))"

definition last_cut :: "char \<Rightarrow> string \<Rightarrow> (string \<times> string) option" where
  "last_cut d s =
    (if d \<in> set s then
       (let after = rev (takeWhile (\<lambda>c. c \<noteq> d) (rev s)) in Some (take (length s - length after - 1) s, after))
     else None)"

definition scheme_char :: "char \<Rightarrow> bool" where
  "scheme_char c \<longleftrightarrow> is_alnum c \<or> c = CHR ''+'' \<or> c = CHR ''-'' \<or> c = CHR ''.''"

text \<open>\<open>getScheme\<close>: the scheme, empty when there is none, and the rest.\<close>

definition getScheme :: "string \<Rightarrow> (string \<times> string) option" where
  "getScheme raw =
    (let word = takeWhile scheme_char raw; rest = drop (length word) raw in
     if word \<noteq> [] \<and> \<not> (is_upper (hd word) \<or> is_lower (hd word)) then Some ([], raw)
     else case rest of
       c # after \<Rightarrow> if c = CHR '':'' then (if word = [] then None else Some (word, after)) else Some ([], raw)
     | [] \<Rightarrow> Some ([], raw))"

definition validOptionalPort :: "string \<Rightarrow> bool" where
  "validOptionalPort port \<longleftrightarrow> port = [] \<or> (hd port = CHR '':'' \<and> list_all is_digit (tl port))"

definition validUserinfo :: "string \<Rightarrow> bool" where
  "validUserinfo s \<longleftrightarrow> list_all (\<lambda>c. is_alnum c \<or> c \<in> set ''-._:~!$&()*+,;=%@'' \<or> c = CHR 0x27) s"

definition parseHost :: "string \<Rightarrow> string option" where
  "parseHost host =
    (if HasPrefix host ''['' then
       (case last_cut (CHR '']'') host of
          None \<Rightarrow> None
        | Some (front, colonPort) \<Rightarrow>
           if \<not> validOptionalPort colonPort then None
           else (case Index front ''%25'' of
              None \<Rightarrow> url_unescape encodeHost host
            | Some zone \<Rightarrow>
                (case (url_unescape encodeHost (take zone front), url_unescape encodeZone (drop zone front),
                       url_unescape encodeHost (CHR '']'' # colonPort)) of
                   (Some h1, Some h2, Some h3) \<Rightarrow> Some (h1 @ h2 @ h3)
                 | _ \<Rightarrow> None)))
     else case last_cut (CHR '':'') host of
       None \<Rightarrow> url_unescape encodeHost host
     | Some (_, port) \<Rightarrow> if list_all is_digit port then url_unescape encodeHost host else None)"

definition parseAuthority :: "string \<Rightarrow> (string option \<times> string) option" where
  "parseAuthority authority =
    (case last_cut (CHR ''@'') authority of
       None \<Rightarrow> map_option (\<lambda>host. (None, host)) (parseHost authority)
     | Some (userinfo, hostPart) \<Rightarrow>
        (case parseHost hostPart of
           None \<Rightarrow> None
         | Some host \<Rightarrow>
            if \<not> validUserinfo userinfo then None
            else case cut_at (CHR '':'') userinfo of
              (username, password) \<Rightarrow>
                (case (url_unescape encodeUserPassword username, url_unescape encodeUserPassword password) of
                   (Some u, Some _) \<Rightarrow> Some (Some u, host)
                 | _ \<Rightarrow> None)))"

definition url_parse_main :: "string \<Rightarrow> url option" where
  "url_parse_main raw =
    (if list_ex (\<lambda>c. byte_of c < 32 \<or> byte_of c = 127) raw then None
     else let none = \<lparr>ul_Scheme = [], ul_User = None, ul_Host = [], ul_RawQuery = [], ul_Fragment = []\<rparr> in
     if raw = ''*'' then Some none
     else case getScheme raw of
       None \<Rightarrow> None
     | Some (scheme0, rest0) \<Rightarrow>
        (let scheme = ToLower scheme0; (rest, query) = cut_at (CHR ''?'') rest0;
             u = none\<lparr>ul_Scheme := scheme, ul_RawQuery := query\<rparr> in
         if \<not> HasPrefix rest ''/'' \<and> scheme \<noteq> [] then Some u
         else if \<not> HasPrefix rest ''/'' \<and> CHR '':'' \<in> set (fst (cut_at (CHR ''/'') rest)) then None
         else if (scheme \<noteq> [] \<or> \<not> HasPrefix rest ''///'') \<and> HasPrefix rest ''//'' then
           (let authority = takeWhile (\<lambda>c. c \<noteq> CHR ''/'') (drop 2 rest); path = drop (length authority) (drop 2 rest) in
            case parseAuthority authority of
              None \<Rightarrow> None
            | Some (user, host) \<Rightarrow>
               (case url_unescape encodePath path of
                  None \<Rightarrow> None
                | Some _ \<Rightarrow> Some (u\<lparr>ul_User := user, ul_Host := host\<rparr>)))
         else (case url_unescape encodePath rest of None \<Rightarrow> None | Some _ \<Rightarrow> Some u)))"

definition url_Parse :: "string \<Rightarrow> url option" where
  "url_Parse raw =
    (case cut_at (CHR ''#'') raw of
       (u, frag) \<Rightarrow>
         (case url_parse_main u of
            None \<Rightarrow> None
          | Some v \<Rightarrow>
             if frag = [] then Some v
             else map_option (\<lambda>f. v\<lparr>ul_Fragment := f\<rparr>) (url_unescape encodeFragment frag)))"

definition splitHostPort :: "string \<Rightarrow> string \<times> string" where
  "splitHostPort hostPort =
    (let (host, port) = (case last_cut (CHR '':'') hostPort of
          None \<Rightarrow> (hostPort, [])
        | Some (h, p) \<Rightarrow> if list_all is_digit p then (h, p) else (hostPort, [])) in
     (if HasPrefix host ''['' \<and> HasSuffix host '']'' then take (length host - 2) (drop 1 host) else host, port))"

definition Hostname :: "url \<Rightarrow> string" where
  "Hostname u = fst (splitHostPort (ul_Host u))"

definition Port :: "url \<Rightarrow> string" where
  "Port u = snd (splitHostPort (ul_Host u))"

text \<open>\<open>URL.Query\<close> drops malformed pairs; the values of a key are in order.\<close>

definition parse_pair :: "string \<Rightarrow> (string \<times> string) option" where
  "parse_pair pair =
    (if CHR '';'' \<in> set pair \<or> pair = [] then None
     else case cut_at (CHR ''='') pair of
       (k, v) \<Rightarrow> (case (QueryUnescape k, QueryUnescape v) of (Some k', Some v') \<Rightarrow> Some (k', v') | _ \<Rightarrow> None))"

definition url_Query :: "url \<Rightarrow> (string \<times> string) list" where
  "url_Query u = List.map_filter parse_pair (Split (CHR ''&'') (ul_RawQuery u))"

definition Values_Get :: "(string \<times> string) list \<Rightarrow> string \<Rightarrow> string" where
  "Values_Get q key = (case map_of q key of None \<Rightarrow> [] | Some v \<Rightarrow> v)"

section \<open>Numbers, base64, case folding\<close>

text \<open>\<open>strconv.Atoi\<close> of a string of digits: an empty string and a value past 64 bits are errors.\<close>

definition atoi_digits :: "string \<Rightarrow> int option" where
  "atoi_digits s =
    (let n = foldl (\<lambda>acc c. acc * 10 + (byte_of c - 48)) 0 s in
     if s = [] \<or> \<not> list_all is_digit s \<or> n \<ge> 2 ^ 63 then None else Some n)"

definition b64_value :: "bool \<Rightarrow> char \<Rightarrow> int option" where
  "b64_value url c =
    (if is_upper c then Some (byte_of c - 65)
     else if is_lower c then Some (byte_of c - 71)
     else if is_digit c then Some (byte_of c + 4)
     else if c = (if url then CHR ''-'' else CHR ''+'') then Some 62
     else if c = (if url then CHR ''_'' else CHR ''/'') then Some 63
     else None)"

definition b64_bytes :: "int list \<Rightarrow> string" where
  "b64_bytes vs =
    (case vs of
       [a, b] \<Rightarrow> [char_of (a * 4 + b div 16)]
     | [a, b, c] \<Rightarrow> [char_of (a * 4 + b div 16), char_of (b mod 16 * 16 + c div 4)]
     | [a, b, c, d] \<Rightarrow> [char_of (a * 4 + b div 16), char_of (b mod 16 * 16 + c div 4), char_of (c mod 4 * 64 + d)]
     | _ \<Rightarrow> [])"

definition b64_quantum :: "bool \<Rightarrow> string \<Rightarrow> string option" where
  "b64_quantum url cs = map_option b64_bytes (those (map (b64_value url) cs))"

text \<open>\<open>DecodeString\<close> of one of the four encodings (on text without line ends).\<close>

fun b64_decode :: "bool \<Rightarrow> bool \<Rightarrow> string \<Rightarrow> string option" where
  "b64_decode url padded [] = Some []"
| "b64_decode url padded [a] = None"
| "b64_decode url padded [a, b] = (if padded then None else b64_quantum url [a, b])"
| "b64_decode url padded [a, b, c] = (if padded then None else b64_quantum url [a, b, c])"
| "b64_decode url padded (a # b # c # d # rest) =
    (if padded \<and> d = CHR ''='' then
       (if rest \<noteq> [] then None
        else if c = CHR ''='' then b64_quantum url [a, b] else b64_quantum url [a, b, c])
     else case (b64_quantum url [a, b, c, d], b64_decode url padded rest) of
       (Some x, Some y) \<Rightarrow> Some (x @ y)
     | _ \<Rightarrow> None)"

text \<open>
  \<open>strings.EqualFold\<close> against an ASCII word: besides the two cases of a letter, only the long s and the
  Kelvin sign fold to ASCII.
\<close>

definition fold_ascii :: "int \<Rightarrow> int" where
  "fold_ascii r = (if 65 \<le> r \<and> r \<le> 90 then r + 32 else if r = 0x17F then 115 else if r = 0x212A then 107 else r)"

definition EqualFold_ascii :: "string \<Rightarrow> string \<Rightarrow> bool" where
  "EqualFold_ascii s word \<longleftrightarrow> map fold_ascii (runes s) = map fold_ascii (map byte_of word)"

end
