(* ===== verification/Subscription.thy ===== *)
theory Subscription
  imports Vless_Config Vless_Model Go_Url
begin

text \<open>
  The subscription of the VLESS tunnel, \<open>vless/subscription/parse.go\<close> and \<open>fetch.go\<close>: decoding a payload,
  reading \<open>vless://\<close> URIs, choosing an upstream profile, and fetching and caching. The Unicode tables
  (\<open>unicode.ToUpper\<close>, \<open>IsLetter\<close>, \<open>IsDigit\<close>), the regular expression engine and SHA-1 are parameters. A probe
  of the candidates is the sequence of events its loop sees: connections that completed or failed, in
  the order they arrived, and the end of the time budget.
\<close>

section \<open>Payload\<close>

datatype payload_error = PayloadEmpty | PayloadUnsupported

fun first_base64 :: "(bool \<times> bool) list \<Rightarrow> string \<Rightarrow> payload_error + string \<times> string" where
  "first_base64 [] compact = Inl PayloadUnsupported"
| "first_base64 ((url, padded) # ds) compact =
    (case b64_decode url padded compact of
       None \<Rightarrow> first_base64 ds compact
     | Some decoded \<Rightarrow>
        if Contains (TrimSpace decoded) ''://'' then Inr (TrimSpace decoded, ''base64'') else first_base64 ds compact)"

definition NormalizePayload :: "string \<Rightarrow> payload_error + string \<times> string" where
  "NormalizePayload body =
    (let trimmed = TrimSpace body in
     if trimmed = [] then Inl PayloadEmpty
     else if Contains trimmed ''://'' then Inr (trimmed, ''plain'')
     else first_base64 [(False, True), (False, False), (True, True), (True, False)]
       (filter (\<lambda>c. c \<notin> {CHR 0x0A, CHR 0x0D, CHR 0x09, CHR '' ''}) trimmed))"

section \<open>URIs\<close>

datatype uri_error =
    UriInvalid
  | UnsupportedScheme string
  | MissingUser
  | InvalidPort
  | MissingHost
  | MissingUUID

text \<open>The package's own \<open>firstNonEmpty\<close> does not trim.\<close>

fun first_nonempty :: "string list \<Rightarrow> string" where
  "first_nonempty [] = []"
| "first_nonempty (v # vs) = (if v \<noteq> [] then v else first_nonempty vs)"

definition profileID :: "(string \<Rightarrow> int list) \<Rightarrow> string \<Rightarrow> string" where
  "profileID sha1 raw = hex_encode (take 6 (sha1 raw))"

definition uri_profile :: "(string \<Rightarrow> int list) \<Rightarrow> string \<Rightarrow> url \<Rightarrow> string \<Rightarrow> int \<Rightarrow> Profile" where
  "uri_profile sha1 raw parsed username port =
    (let q = url_Query parsed; get = Values_Get q in
     \<lparr>md_ID = profileID sha1 raw,
      md_Name = (case QueryUnescape (ul_Fragment parsed) of
                   Some decoded \<Rightarrow> if decoded \<noteq> [] then decoded else ul_Fragment parsed
                 | None \<Rightarrow> ul_Fragment parsed),
      md_URI = raw, md_Protocol = ''vless'', md_UUID = username, md_Host = Hostname parsed, md_Port = port,
      md_Security = get ''security'',
      md_Network = first_nonempty [get ''type'', get ''network'', ''tcp''],
      md_ServiceName = first_nonempty [get ''serviceName'', get ''service_name''],
      md_Authority = get ''authority'',
      md_SNI = first_nonempty [get ''sni'', get ''serverName''],
      md_Fingerprint = first_nonempty [get ''fp'', get ''fingerprint''],
      md_PublicKey = first_nonempty [get ''pbk'', get ''publicKey''],
      md_ShortID = first_nonempty [get ''sid'', get ''shortId''],
      md_Flow = get ''flow'', md_Encryption = get ''encryption'', md_SpiderX = get ''spx'',
      md_Query = map (\<lambda>k. (k, get k)) (remdups (map fst q))\<rparr>)"

definition ParseVLESSURI :: "(string \<Rightarrow> int list) \<Rightarrow> string \<Rightarrow> uri_error + Profile" where
  "ParseVLESSURI sha1 raw =
    (case url_Parse raw of
       None \<Rightarrow> Inl UriInvalid
     | Some parsed \<Rightarrow>
        if ul_Scheme parsed \<noteq> ''vless'' then Inl (UnsupportedScheme (ul_Scheme parsed))
        else (case ul_User parsed of
           None \<Rightarrow> Inl MissingUser
         | Some username \<Rightarrow>
            (case atoi_digits (Port parsed) of
               None \<Rightarrow> Inl InvalidPort
             | Some port \<Rightarrow>
                (let profile = uri_profile sha1 raw parsed username port in
                 if md_Host profile = [] then Inl MissingHost
                 else if md_UUID profile = [] then Inl MissingUUID
                 else Inr profile))))"

datatype profiles_error = BadURI uri_error | NoProfilesFound

definition skipped_line :: "string \<Rightarrow> bool" where
  "skipped_line candidate \<longleftrightarrow> candidate = [] \<or> HasPrefix candidate ''#'' \<or> HasPrefix candidate ''//'' \<or>
    (case Cut candidate ''://'' of None \<Rightarrow> False | Some (scheme, _) \<Rightarrow> \<not> EqualFold_ascii scheme ''vless'')"

fun parse_lines :: "(string \<Rightarrow> int list) \<Rightarrow> string list \<Rightarrow> profiles_error + Profile list" where
  "parse_lines sha1 [] = Inr []"
| "parse_lines sha1 (line # ls) =
    (if skipped_line (TrimSpace line) then parse_lines sha1 ls
     else case ParseVLESSURI sha1 (TrimSpace line) of
       Inl e \<Rightarrow> Inl (BadURI e)
     | Inr profile \<Rightarrow> result_bind (parse_lines sha1 ls) (\<lambda>ps. Inr (profile # ps)))"

definition ParseProfiles :: "(string \<Rightarrow> int list) \<Rightarrow> string \<Rightarrow> profiles_error + Profile list" where
  "ParseProfiles sha1 payload =
    result_bind (parse_lines sha1 (Split newline payload)) (\<lambda>profiles.
      if profiles = [] then Inl NoProfilesFound else Inr profiles)"

section \<open>Countries\<close>

record unicode =
  uc_upper :: "int \<Rightarrow> int"
  uc_letter :: "int \<Rightarrow> bool"
  uc_digit :: "int \<Rightarrow> bool"

definition ascii_runes :: "string \<Rightarrow> int list" where
  "ascii_runes s = map byte_of s"

definition countryNames :: "(int list \<times> string) list" where
  "countryNames = [
    (ascii_runes ''united states'', ''US''), ([1089, 1096, 1072], ''US''), (ascii_runes ''usa'', ''US''),
    ([1075, 1077, 1088, 1084, 1072, 1085, 1080, 1103], ''DE''), (ascii_runes ''germany'', ''DE''),
    ([1085, 1080, 1076, 1077, 1088, 1083, 1072, 1085, 1076, 1099], ''NL''), (ascii_runes ''netherlands'', ''NL''),
    ([1092, 1080, 1085, 1083, 1103, 1085, 1076, 1080, 1103], ''FI''), (ascii_runes ''finland'', ''FI''),
    ([1090, 1091, 1088, 1094, 1080, 1103], ''TR''), (ascii_runes ''turkey'', ''TR''),
    ([1087, 1086, 1083, 1100, 1096, 1072], ''PL''), (ascii_runes ''poland'', ''PL''),
    ([1092, 1088, 1072, 1085, 1094, 1080, 1103], ''FR''), (ascii_runes ''france'', ''FR''),
    ([1096, 1074, 1077, 1094, 1080, 1103], ''SE''), (ascii_runes ''sweden'', ''SE''),
    ([1096, 1074, 1077, 1081, 1094, 1072, 1088, 1080, 1103], ''CH''), (ascii_runes ''switzerland'', ''CH''),
    ([1101, 1089, 1090, 1086, 1085, 1080, 1103], ''EE''), (ascii_runes ''estonia'', ''EE''),
    ([1083, 1080, 1090, 1074, 1072], ''LT''), (ascii_runes ''lithuania'', ''LT''),
    ([1083, 1072, 1090, 1074, 1080, 1103], ''LV''), (ascii_runes ''latvia'', ''LV''),
    ([1085, 1086, 1088, 1074, 1077, 1075, 1080, 1103], ''NO''), (ascii_runes ''norway'', ''NO''),
    ([1083, 1102, 1082, 1089, 1077, 1084, 1073, 1091, 1088, 1075], ''LU''), (ascii_runes ''luxembourg'', ''LU''),
    ([1088, 1086, 1089, 1089, 1080, 1103], ''RU''), (ascii_runes ''russia'', ''RU''),
    ([1072, 1079, 1077, 1088, 1073, 1072, 1081, 1076, 1078, 1072, 1085], ''AZ''), (ascii_runes ''azerbaijan'', ''AZ''),
    ([1074, 1077, 1083, 1080, 1082, 1086, 1073, 1088, 1080, 1090, 1072, 1085, 1080, 1103], ''GB''),
    (ascii_runes ''united kingdom'', ''GB''), (ascii_runes ''uk'', ''GB''),
    ([1082, 1072, 1079, 1072, 1093, 1089, 1090, 1072, 1085], ''KZ''), (ascii_runes ''kazakhstan'', ''KZ''),
    ([1103, 1087, 1086, 1085, 1080, 1103], ''JP''), (ascii_runes ''japan'', ''JP''),
    ([1089, 1080, 1085, 1075, 1072, 1087, 1091, 1088], ''SG''), (ascii_runes ''singapore'', ''SG'')]"

definition ToUpper :: "unicode \<Rightarrow> string \<Rightarrow> string" where
  "ToUpper uc s =
    (if is_ascii s then map (\<lambda>c. if is_lower c then char_of (byte_of c - 32) else c) s
     else concat (map (encode_rune \<circ> uc_upper uc) (runes s)))"

definition regionalIndicator :: "int \<Rightarrow> bool" where
  "regionalIndicator r \<longleftrightarrow> 0x1F1E6 \<le> r \<and> r \<le> 0x1F1FF"

definition isWordRune :: "unicode \<Rightarrow> int \<Rightarrow> bool" where
  "isWordRune uc r \<longleftrightarrow> uc_letter uc r \<or> uc_digit uc r \<or> r = 95"

text \<open>The loop over the start positions; \<open>prev\<close> is the rune in front of the current one.\<close>

fun phrase_from :: "unicode \<Rightarrow> int list \<Rightarrow> int option \<Rightarrow> int list \<Rightarrow> bool" where
  "phrase_from uc phrase prev value =
    (if take (length phrase) value = phrase \<and>
        (case prev of None \<Rightarrow> True | Some r \<Rightarrow> \<not> isWordRune uc r) \<and>
        (case drop (length phrase) value of [] \<Rightarrow> True | r # _ \<Rightarrow> \<not> isWordRune uc r) then True
     else case value of [] \<Rightarrow> False | r # rest \<Rightarrow> phrase_from uc phrase (Some r) rest)"

definition containsWholePhrase :: "unicode \<Rightarrow> int list \<Rightarrow> int list \<Rightarrow> bool" where
  "containsWholePhrase uc value phrase \<longleftrightarrow> phrase \<noteq> [] \<and> phrase_from uc phrase None value"

fun flag_code :: "int list \<Rightarrow> string option" where
  "flag_code (a # b # rs) =
    (if regionalIndicator a \<and> regionalIndicator b then Some [char_of (65 + (a - 0x1F1E6)), char_of (65 + (b - 0x1F1E6))]
     else flag_code (b # rs))"
| "flag_code _ = None"

definition CountryCode :: "unicode \<Rightarrow> string \<Rightarrow> string" where
  "CountryCode uc displayName =
    (case flag_code (runes displayName) of
       Some code \<Rightarrow> code
     | None \<Rightarrow>
        (case find (\<lambda>(name, _). containsWholePhrase uc (runes (ToLower displayName)) name) countryNames of
           Some (_, code) \<Rightarrow> code
         | None \<Rightarrow> []))"

declare phrase_from.simps [simp del]

section \<open>Selection\<close>

record SelectOptions =
  sl_Selector :: string
  sl_Transport :: string
  sl_Match :: "ProfileMatch option"
  sl_Pick :: string
  sl_SkipProbe :: bool
  sl_StickyID :: string
  sl_SkipReason :: string

record ProfileResolution =
  rs_Profile :: Profile
  rs_Reason :: string
  rs_Matched :: bool

datatype select_error =
    NoProfiles
  | TransportNoMatch string
  | TransportAmbiguous string
  | SelectorRequired
  | SelectorAmbiguous string
  | SelectorMultiple string
  | SelectorNoMatch string
  | PatternInvalid
  | MatchNone string string
  | MatchNotOne string nat string
  | ProbeFailed string string
  | UnsupportedPick string

definition normalizeProfileTransport :: "string \<Rightarrow> string" where
  "normalizeProfileTransport value = ToLower (TrimSpace value)"

definition profile_transport :: "Profile \<Rightarrow> string" where
  "profile_transport profile =
    (let transport = normalizeProfileTransport (md_Network profile) in if transport = [] then ''tcp'' else transport)"

definition filterProfilesByTransport :: "Profile list \<Rightarrow> string \<Rightarrow> Profile list" where
  "filterProfilesByTransport profiles transport = filter (\<lambda>p. profile_transport p = transport) profiles"

definition exact_match :: "string \<Rightarrow> Profile \<Rightarrow> bool" where
  "exact_match needle p \<longleftrightarrow> ToLower (Endpoint p) = needle \<or> ToLower (md_ID p) = needle \<or>
     ToLower (DisplayName p) = needle \<or> profile_transport p = needle"

definition contains_match :: "string \<Rightarrow> Profile \<Rightarrow> bool" where
  "contains_match needle p \<longleftrightarrow> Contains (ToLower (DisplayName p)) needle \<or> Contains (ToLower (Endpoint p)) needle \<or>
     Contains (ToLower (md_ID p)) needle"

definition selectProfileFromCandidates :: "Profile list \<Rightarrow> string \<Rightarrow> select_error + Profile" where
  "selectProfileFromCandidates profiles selector =
    (let needle = ToLower selector in
     case filter (exact_match needle) profiles of
       [p] \<Rightarrow> Inr p
     | _ # _ # _ \<Rightarrow> Inl (SelectorAmbiguous selector)
     | [] \<Rightarrow>
        (case filter (contains_match needle) profiles of
           [p] \<Rightarrow> Inr p
         | _ # _ # _ \<Rightarrow> Inl (SelectorMultiple selector)
         | [] \<Rightarrow> Inl (SelectorNoMatch selector)))"

definition profileMatches :: "unicode \<Rightarrow> Profile \<Rightarrow> ProfileMatch \<Rightarrow> string \<Rightarrow> (string \<Rightarrow> bool) option \<Rightarrow> bool" where
  "profileMatches uc profile match selectionTransport pattern \<longleftrightarrow>
    (let country = ToUpper uc (TrimSpace (pm_Country match)); name = DisplayName profile in
     (country = [] \<or> CountryCode uc name = country) \<and>
     (case pattern of None \<Rightarrow> True | Some matches \<Rightarrow> matches name) \<and>
     list_all (\<lambda>x. let excluded = ToLower (TrimSpace x) in excluded = [] \<or> \<not> Contains (ToLower name) excluded)
       (elems (pm_Exclude match)) \<and>
     (TrimSpace (pm_Transport match) = [] \<or>
       profile_transport profile = normalizeProfileTransport (TrimSpace (pm_Transport match))) \<and>
     (TrimSpace selectionTransport = [] \<or>
       profile_transport profile = normalizeProfileTransport (TrimSpace selectionTransport)))"

definition nonEmptyValues :: "string slice \<Rightarrow> string list" where
  "nonEmptyValues xs = filter (\<lambda>v. v \<noteq> []) (map TrimSpace (elems xs))"

definition describeMatch :: "unicode \<Rightarrow> ProfileMatch \<Rightarrow> string \<Rightarrow> string" where
  "describeMatch uc match selectionTransport =
    (let country = ToUpper uc (TrimSpace (pm_Country match)); pattern = TrimSpace (pm_NamePattern match);
         excludes = nonEmptyValues (pm_Exclude match); transport = TrimSpace (pm_Transport match);
         selection = TrimSpace selectionTransport in
     Join '',''
       ((if country \<noteq> [] then [''country='' @ country] else [])
        @ (if pattern \<noteq> [] then [''name_pattern='' @ pattern] else [])
        @ (if excludes \<noteq> [] then [''exclude='' @ Join '','' excludes] else [])
        @ (if transport \<noteq> [] then [''match.transport='' @ normalizeProfileTransport transport] else [])
        @ (if selection \<noteq> [] then [''transport='' @ normalizeProfileTransport selection] else [])))"

definition describeCandidates :: "Profile list \<Rightarrow> string" where
  "describeCandidates profiles =
    (if profiles = [] then ''none''
     else Join ''; '' (map (\<lambda>p. DisplayName p @ '' ('' @ md_ID p @ '')'') profiles))"

subsection \<open>Probing\<close>

datatype probe_event = Arrived nat int bool | BudgetSpent

text \<open>
  The receiving loop of \<open>probeProfiles\<close>: \<open>left\<close> results are still to come, \<open>best\<close> is the index and time of
  the fastest reachable candidate so far. \<open>None\<close> means that the loop is still waiting.
\<close>

definition better :: "nat \<times> int \<Rightarrow> (nat \<times> int) option \<Rightarrow> bool" where
  "better r best = (case best of None \<Rightarrow> True | Some b \<Rightarrow> snd r < snd b \<or> (snd r = snd b \<and> fst r < fst b))"

fun probe_loop :: "nat \<Rightarrow> (nat \<times> int) option \<Rightarrow> probe_event list \<Rightarrow> (nat \<times> int) option option" where
  "probe_loop 0 best events = Some best"
| "probe_loop (Suc left) best [] = None"
| "probe_loop (Suc left) best (BudgetSpent # events) = Some best"
| "probe_loop (Suc left) best (Arrived index duration ok # events) =
    probe_loop left (if ok \<and> better (index, duration) best then Some (index, duration) else best) events"

definition probeProfiles :: "Profile list \<Rightarrow> probe_event list \<Rightarrow> Profile option option" where
  "probeProfiles candidates events =
    map_option (map_option (\<lambda>b. candidates ! fst b)) (probe_loop (length candidates) None events)"

subsection \<open>Resolution\<close>

definition compileOptionalPattern ::
    "(string \<Rightarrow> (string \<Rightarrow> bool) option) \<Rightarrow> string \<Rightarrow> select_error + (string \<Rightarrow> bool) option" where
  "compileOptionalPattern compile value =
    (if TrimSpace value = [] then Inr None
     else case compile value of None \<Rightarrow> Inl PatternInvalid | Some m \<Rightarrow> Inr (Some m))"

definition matched :: "Profile \<Rightarrow> string \<Rightarrow> select_error + ProfileResolution" where
  "matched p reason = Inr \<lparr>rs_Profile = p, rs_Reason = reason, rs_Matched = True\<rparr>"

text \<open>\<open>None\<close>: a probe is still waiting for its events.\<close>

definition resolveMatchedProfile ::
    "unicode \<Rightarrow> (string \<Rightarrow> (string \<Rightarrow> bool) option) \<Rightarrow> probe_event list \<Rightarrow> Profile list \<Rightarrow> ProfileMatch \<Rightarrow> SelectOptions \<Rightarrow>
     (select_error + ProfileResolution) option" where
  "resolveMatchedProfile uc compile events profiles match options =
    (case compileOptionalPattern compile (pm_NamePattern match) of
       Inl e \<Rightarrow> Some (Inl e)
     | Inr pattern \<Rightarrow>
        (let candidates = filter (\<lambda>p. profileMatches uc p match (sl_Transport options) pattern) profiles;
             criteria = describeMatch uc match (sl_Transport options);
             pick0 = ToLower (TrimSpace (sl_Pick options));
             pick = (if pick0 = [] then ''only'' else pick0);
             reason = ''match '' @ criteria in
         if candidates = [] then Some (Inl (MatchNone criteria (describeCandidates profiles)))
         else if pick = ''only'' then
           (if length candidates \<noteq> 1 then Some (Inl (MatchNotOne criteria (length candidates) (describeCandidates candidates)))
            else Some (matched (hd candidates) (reason @ ''; pick=only'')))
         else if pick = ''first'' then Some (matched (hd candidates) (reason @ ''; pick=first''))
         else if pick = ''probe'' then
           (if sl_SkipProbe options then
              (let sticky = TrimSpace (sl_StickyID options); skip = TrimSpace (sl_SkipReason options) in
               case (if sticky = [] then None else find (\<lambda>p. md_ID p = sticky) candidates) of
                 Some p \<Rightarrow> Some (matched p (reason @ ''; pick reason: sticky, tunnel up''))
               | None \<Rightarrow> Some (matched (hd candidates)
                   (reason @ ''; pick reason: first, '' @ (if skip = [] then ''probe skipped'' else skip))))
            else case probeProfiles candidates events of
              None \<Rightarrow> None
            | Some None \<Rightarrow> Some (Inl (ProbeFailed criteria (describeCandidates candidates)))
            | Some (Some p) \<Rightarrow> Some (matched p (reason @ ''; pick=probe fastest reachable'')))
         else Some (Inl (UnsupportedPick (sl_Pick options)))))"

definition unmatched :: "Profile \<Rightarrow> ProfileResolution" where
  "unmatched p = \<lparr>rs_Profile = p, rs_Reason = [], rs_Matched = False\<rparr>"

definition ResolveProfileWithOptions ::
    "unicode \<Rightarrow> (string \<Rightarrow> (string \<Rightarrow> bool) option) \<Rightarrow> probe_event list \<Rightarrow> Profile list \<Rightarrow> SelectOptions \<Rightarrow>
     (select_error + ProfileResolution) option" where
  "ResolveProfileWithOptions uc compile events profiles options =
    (if profiles = [] then Some (Inl NoProfiles)
     else case sl_Match options of
       Some match \<Rightarrow> resolveMatchedProfile uc compile events profiles match options
     | None \<Rightarrow>
        (let selector = TrimSpace (sl_Selector options);
             transport = normalizeProfileTransport (sl_Transport options);
             candidates = (if transport = [] then profiles else filterProfilesByTransport profiles transport) in
         Some (if candidates = [] then Inl (TransportNoMatch (TrimSpace (sl_Transport options)))
          else if selector = [] then
            (if length candidates = 1 then Inr (unmatched (hd candidates))
             else if transport \<noteq> [] then Inl (TransportAmbiguous (TrimSpace (sl_Transport options)))
             else Inl SelectorRequired)
          else map_sum (\<lambda>e. e) unmatched (selectProfileFromCandidates candidates selector))))"

section \<open>Fetching and caching\<close>

text \<open>
  What the HTTP client reports: the request could not be sent, or a status with its text and the body
  or the error that broke it off.
\<close>

datatype http_reply = HttpError string | HttpReply int string "string + string"

datatype fetch_error =
    InvalidURL
  | TransientFetchError string
  | RequestRefused string
  | PayloadError payload_error
  | ProfilesError profiles_error
  | UnsupportedSourceMode string
  | CacheError string

record FetchOptions =
  fo_UserAgent :: string
  fo_Headers :: "(string, string) gomap"

record fetch_env =
  fe_validURL :: "string \<Rightarrow> bool"
  fe_do :: "string \<Rightarrow> (string \<times> string) list \<Rightarrow> http_reply"
  fe_sha1 :: "string \<Rightarrow> int list"
  fe_now :: go_time

definition maxBody :: nat where
  "maxBody = 4194304"

text \<open>The calls of \<open>Header.Set\<close>, in order.\<close>

definition request_headers :: "FetchOptions \<Rightarrow> (string \<times> string) list" where
  "request_headers options =
    (let agent = TrimSpace (fo_UserAgent options) in
     [(''User-Agent'', if agent = [] then ''vless-tun/0.1'' else agent),
      (''Accept'', ''text/plain, application/json;q=0.9, */*;q=0.8'')]
     @ map (\<lambda>(n, v). (TrimSpace n, v)) (filter (\<lambda>(n, v). TrimSpace n \<noteq> []) (fo_Headers options)))"

definition FetchWithOptions :: "fetch_env \<Rightarrow> string \<Rightarrow> FetchOptions \<Rightarrow> fetch_error + string" where
  "FetchWithOptions env url options =
    (if \<not> fe_validURL env url then Inl InvalidURL
     else case fe_do env url (request_headers options) of
       HttpError e \<Rightarrow> Inl (TransientFetchError (''subscription request failed: '' @ e))
     | HttpReply status statusText body \<Rightarrow>
        if status < 200 \<or> 300 \<le> status then
          (let e = ''subscription request failed with status '' @ statusText in
           Inl (if (500 \<le> status \<and> status < 600) \<or> status = 429 then TransientFetchError e else RequestRefused e))
        else (case body of
           Inl e \<Rightarrow> Inl (TransientFetchError (''subscription response read failed: '' @ e))
         | Inr data \<Rightarrow> Inr (take maxBody data)))"

definition IsTransientFetchError :: "fetch_error \<Rightarrow> bool" where
  "IsTransientFetchError e = (case e of TransientFetchError _ \<Rightarrow> True | _ \<Rightarrow> False)"

definition resolveSourcePayload ::
    "fetch_env \<Rightarrow> string \<Rightarrow> string \<Rightarrow> FetchOptions \<Rightarrow> fetch_error + string \<times> string" where
  "resolveSourcePayload env sourceMode sourceURL options =
    (if sourceMode = ''direct'' then
       (case NormalizePayload sourceURL of
          Inl e \<Rightarrow> Inl (PayloadError e)
        | Inr (normalized, _) \<Rightarrow> Inr (normalized, ''direct''))
     else if sourceMode = [] \<or> sourceMode = ''proxy'' then
       (case FetchWithOptions env sourceURL options of
          Inl e \<Rightarrow> Inl e
        | Inr body \<Rightarrow> map_sum PayloadError (\<lambda>x. x) (NormalizePayload body))
     else Inl (UnsupportedSourceMode sourceMode))"

record CacheSnapshot =
  cs_SourceURL :: string
  cs_SourceMode :: string
  cs_FetchedAt :: go_time
  cs_PayloadFormat :: string
  cs_Raw :: string
  cs_Profiles :: "Profile list"

text \<open>
  The cache directory: the two files it may hold, and the errors of the file system. A snapshot file is
  the value encoded in it, or bytes that do not decode. A write that fails has either not opened the
  file or left the given part of its content in it.
\<close>

record cache_dir =
  cd_raw :: "string option"
  cd_snapshot :: "(string + CacheSnapshot) option"

record cache_io =
  ci_mkdir :: "string option"
  ci_writeRaw :: "(string \<times> string option) option"
  ci_writeSnapshot :: "(string \<times> string option) option"
  ci_read :: "string option"

definition SaveCache :: "cache_io \<Rightarrow> CacheSnapshot \<Rightarrow> cache_dir \<Rightarrow> (fetch_error + unit) \<times> cache_dir" where
  "SaveCache io snapshot d =
    (case ci_mkdir io of
       Some e \<Rightarrow> (Inl (CacheError e), d)
     | None \<Rightarrow>
        (case ci_writeRaw io of
           Some (e, left) \<Rightarrow> (Inl (CacheError e), case left of None \<Rightarrow> d | Some part \<Rightarrow> d\<lparr>cd_raw := Some part\<rparr>)
         | None \<Rightarrow>
            (let d1 = d\<lparr>cd_raw := Some (cs_Raw snapshot)\<rparr> in
             case ci_writeSnapshot io of
               Some (e, left) \<Rightarrow>
                 (Inl (CacheError e), case left of None \<Rightarrow> d1 | Some part \<Rightarrow> d1\<lparr>cd_snapshot := Some (Inl part)\<rparr>)
             | None \<Rightarrow> (Inr (), d1\<lparr>cd_snapshot := Some (Inr snapshot)\<rparr>))))"

datatype load_cache_error = CacheMissing | CacheUnreadable string

definition LoadCache :: "cache_io \<Rightarrow> cache_dir \<Rightarrow> load_cache_error + CacheSnapshot" where
  "LoadCache io d =
    (case cd_snapshot d of
       None \<Rightarrow> Inl CacheMissing
     | Some content \<Rightarrow>
        (case ci_read io of
           Some e \<Rightarrow> Inl (CacheUnreadable e)
         | None \<Rightarrow> (case content of Inl e \<Rightarrow> Inl (CacheUnreadable e) | Inr snapshot \<Rightarrow> Inr snapshot)))"

definition RefreshWithOptions ::
    "fetch_env \<Rightarrow> cache_io \<Rightarrow> string \<Rightarrow> string \<Rightarrow> FetchOptions \<Rightarrow> cache_dir \<Rightarrow> (fetch_error + CacheSnapshot) \<times> cache_dir" where
  "RefreshWithOptions env io sourceMode sourceURL options d =
    (case resolveSourcePayload env sourceMode sourceURL options of
       Inl e \<Rightarrow> (Inl e, d)
     | Inr (normalized, payloadFormat) \<Rightarrow>
        (case ParseProfiles (fe_sha1 env) normalized of
           Inl e \<Rightarrow> (Inl (ProfilesError e), d)
         | Inr profiles \<Rightarrow>
            (let snapshot = \<lparr>cs_SourceURL = sourceURL, cs_SourceMode = sourceMode, cs_FetchedAt = fe_now env,
                   cs_PayloadFormat = payloadFormat, cs_Raw = normalized, cs_Profiles = profiles\<rparr> in
             case SaveCache io snapshot d of
               (Inl e, d1) \<Rightarrow> (Inl e, d1)
             | (Inr _, d1) \<Rightarrow> (Inr snapshot, d1))))"

end
