(* ===== verification/Subscription_Laws.thy ===== *)
theory Subscription_Laws
  imports Subscription
begin

text \<open>
  What the subscription code promises: the profiles of a payload are its \<open>vless\<close> lines in order and are
  usable, a resolved profile is one of them and meets every criterion of the selection, a probe ends
  and returns the fastest reachable candidate whatever the order of arrival, and only failures that
  may pass count as transient.
\<close>

section \<open>Parsing\<close>

lemma first_nonempty_last: "first_nonempty (xs @ [y]) = [] \<Longrightarrow> y = []"
  by (induction xs) (auto split: if_splits)

lemma ParseVLESSURI_ok:
  assumes "ParseVLESSURI sha1 raw = Inr p"
  shows "md_URI p = raw" "md_Protocol p = ''vless''" "md_Host p \<noteq> []" "md_UUID p \<noteq> []" "md_Network p \<noteq> []"
    "0 \<le> md_Port p" "md_Port p < 2 ^ 63"
proof -
  obtain parsed username port where p: "p = uri_profile sha1 raw parsed username port"
      "atoi_digits (Port parsed) = Some port" "md_Host p \<noteq> []" "md_UUID p \<noteq> []"
    using assms by (auto simp: ParseVLESSURI_def Let_def split: option.splits if_splits)
  then show "md_URI p = raw" "md_Protocol p = ''vless''" "md_Host p \<noteq> []" "md_UUID p \<noteq> []"
    by (simp_all add: uri_profile_def Let_def)
  show "md_Network p \<noteq> []"
    using p(1) by (simp add: uri_profile_def Let_def)
  have "0 \<le> foldl (\<lambda>acc c. acc * 10 + (byte_of c - 48)) n s" if "list_all is_digit s" "0 \<le> n" for s and n :: int
    using that by (induction s arbitrary: n) (auto simp: is_digit_def)
  then have "0 \<le> port" "port < 2 ^ 63"
    using p(2) by (auto simp: atoi_digits_def Let_def split: if_splits)
  moreover have "md_Port p = port"
    using p(1) by (simp add: uri_profile_def Let_def)
  ultimately show "0 \<le> md_Port p" "md_Port p < 2 ^ 63"
    by simp_all
qed

lemma parse_lines_ok:
  "parse_lines sha1 ls = Inr ps \<Longrightarrow>
    map md_URI ps = filter (Not \<circ> skipped_line) (map TrimSpace ls) \<and> list_all (\<lambda>p. ParseVLESSURI sha1 (md_URI p) = Inr p) ps"
proof (induction ls arbitrary: ps)
  case (Cons line ls)
  then show ?case
    using ParseVLESSURI_ok(1) [of sha1 "TrimSpace line"]
    by (auto split: if_splits sum.splits)
qed simp

section \<open>Probing\<close>

definition seen_events :: "nat \<Rightarrow> probe_event list \<Rightarrow> probe_event list" where
  "seen_events n events = take n (takeWhile (\<lambda>e. e \<noteq> BudgetSpent) events)"

fun probe_step :: "probe_event \<Rightarrow> (nat \<times> int) option \<Rightarrow> (nat \<times> int) option" where
  "probe_step (Arrived i d ok) best = (if ok \<and> better (i, d) best then Some (i, d) else best)"
| "probe_step BudgetSpent best = best"

lemma probe_loop_fold:
  "probe_loop n best events =
    (if BudgetSpent \<in> set events \<or> n \<le> length events then Some (fold probe_step (seen_events n events) best) else None)"
  by (induction n best events rule: probe_loop.induct) (auto simp: seen_events_def)

definition reachable :: "probe_event list \<Rightarrow> (nat \<times> int) set" where
  "reachable es = {(i, d). Arrived i d True \<in> set es}"

definition no_slower :: "nat \<times> int \<Rightarrow> nat \<times> int \<Rightarrow> bool" where
  "no_slower a b \<longleftrightarrow> snd a < snd b \<or> (snd a = snd b \<and> fst a \<le> fst b)"

lemma reachable_Cons:
  "reachable (Arrived i d ok # es) = (if ok then insert (i, d) (reachable es) else reachable es)"
  "reachable (BudgetSpent # es) = reachable es" "reachable [] = {}"
  by (auto simp: reachable_def)

lemma no_slower_order:
  "no_slower a a" "no_slower a b \<Longrightarrow> no_slower b c \<Longrightarrow> no_slower a c" "\<not> better a (Some b) \<Longrightarrow> no_slower b a"
  "better a (Some b) \<Longrightarrow> no_slower a b"
  by (auto simp: no_slower_def better_def)

lemma fold_probe:
  "case fold probe_step es best of
     None \<Rightarrow> best = None \<and> reachable es = {}
   | Some b \<Rightarrow> b \<in> reachable es \<union> set_option best \<and> (\<forall>r \<in> reachable es \<union> set_option best. no_slower b r)"
proof (induction es arbitrary: best)
  case Nil
  then show ?case by (cases best) (auto simp: reachable_Cons no_slower_order)
next
  case (Cons e es)
  show ?case
  proof (cases e)
    case BudgetSpent
    then have "reachable (e # es) = reachable es" "fold probe_step (e # es) best = fold probe_step es best"
      by (simp_all add: reachable_Cons)
    then show ?thesis using Cons [of best] by (simp only:)
  next
    case (Arrived i d ok)
    show ?thesis
    proof (cases "ok \<and> better (i, d) best")
      case True
      then show ?thesis
        using Cons [of "Some (i, d)"] Arrived
        by (cases best) (auto simp: reachable_Cons split: option.splits intro: no_slower_order)
    next
      case False
      then show ?thesis
        using Cons [of best] Arrived
        by (cases best; cases ok) (auto simp: reachable_Cons better_def no_slower_def split: option.splits if_splits)
    qed
  qed
qed


lemma probe_result:
  "probeProfiles cs events =
    (if BudgetSpent \<in> set events \<or> length cs \<le> length events
     then Some (map_option (\<lambda>b. cs ! fst b) (fold probe_step (seen_events (length cs) events) None)) else None)"
  by (simp add: probeProfiles_def probe_loop_fold)

section \<open>Selection\<close>

lemma filter_single: "filter P xs = [x] \<Longrightarrow> x \<in> set xs \<and> P x"
  by (metis filter_eq_Cons_iff in_set_conv_decomp)

lemma select_ok:
  "selectProfileFromCandidates cs selector = Inr p \<Longrightarrow>
    p \<in> set cs \<and> (exact_match (ToLower selector) p \<or> contains_match (ToLower selector) p)"
  by (auto simp: selectProfileFromCandidates_def Let_def dest: filter_single split: list.splits)

text \<open>The arrivals of a probe carry the indices of its candidates.\<close>

definition probes_of :: "nat \<Rightarrow> probe_event list \<Rightarrow> bool" where
  "probes_of n events \<longleftrightarrow> list_all (\<lambda>e. case e of Arrived i _ _ \<Rightarrow> i < n | BudgetSpent \<Rightarrow> True) events"

lemma probe_member:
  assumes "probeProfiles cs events = Some (Some p)" "probes_of (length cs) events"
  shows "p \<in> set cs"
proof -
  obtain b where b: "fold probe_step (seen_events (length cs) events) None = Some b" "p = cs ! fst b"
    using assms(1) by (auto simp: probe_result split: if_splits)
  then have "b \<in> reachable (seen_events (length cs) events)"
    using fold_probe [where es = "seen_events (length cs) events" and best = None] by simp
  then have "Arrived (fst b) (snd b) True \<in> set events"
    by (auto simp: reachable_def seen_events_def dest!: in_set_takeD set_takeWhileD)
  with assms(2) b(2) show ?thesis
    by (fastforce simp: probes_of_def list_all_iff)
qed

lemma matched_ok [simp]: "matched p reason = Inr r \<longleftrightarrow> r = \<lparr>rs_Profile = p, rs_Reason = reason, rs_Matched = True\<rparr>"
  by (auto simp: matched_def)

definition candidates_of ::
    "unicode \<Rightarrow> (string \<Rightarrow> (string \<Rightarrow> bool) option) \<Rightarrow> Profile list \<Rightarrow> ProfileMatch \<Rightarrow> SelectOptions \<Rightarrow> Profile list" where
  "candidates_of uc compile profiles match options =
    (case compileOptionalPattern compile (pm_NamePattern match) of
       Inl _ \<Rightarrow> []
     | Inr pattern \<Rightarrow> filter (\<lambda>p. profileMatches uc p match (sl_Transport options) pattern) profiles)"

lemma resolve_matched_ok:
  assumes "resolveMatchedProfile uc compile events profiles match options = Some (Inr r)"
    and "probes_of (length (candidates_of uc compile profiles match options)) events"
  shows "rs_Matched r \<and> rs_Profile r \<in> set (candidates_of uc compile profiles match options)"
proof -
  obtain pattern where pattern: "compileOptionalPattern compile (pm_NamePattern match) = Inr pattern"
    using assms(1) by (cases "compileOptionalPattern compile (pm_NamePattern match)") (auto simp: resolveMatchedProfile_def)
  let ?cs = "filter (\<lambda>p. profileMatches uc p match (sl_Transport options) pattern) profiles"
  have cs: "candidates_of uc compile profiles match options = ?cs"
    by (simp add: candidates_of_def pattern)
  have "?cs \<noteq> []" and cases: "(\<exists>reason. r = \<lparr>rs_Profile = hd ?cs, rs_Reason = reason, rs_Matched = True\<rparr>) \<or>
      (\<exists>p reason. find (\<lambda>p. md_ID p = TrimSpace (sl_StickyID options)) ?cs = Some p \<and>
        r = \<lparr>rs_Profile = p, rs_Reason = reason, rs_Matched = True\<rparr>) \<or>
      (\<exists>p reason. probeProfiles ?cs events = Some (Some p) \<and> r = \<lparr>rs_Profile = p, rs_Reason = reason, rs_Matched = True\<rparr>)"
    using assms(1) unfolding resolveMatchedProfile_def pattern sum.case Let_def
    by (auto split: if_splits option.splits simp del: filter_empty_conv)
  with assms(2) probe_member show ?thesis
    unfolding cs by (auto simp: find_Some_iff simp del: filter_empty_conv set_filter)
qed


section \<open>Properties\<close>


text \<open>
  (C38) A probe ends when its budget is spent or every candidate has answered, and returns a reachable
  candidate that no other candidate heard of by then beats, ties going to the earlier one; it returns
  none exactly when none was reachable. The order of arrival does not matter.
\<close>

theorem probe_fastest:
  assumes "BudgetSpent \<in> set events \<or> length cs \<le> length events"
  shows "\<exists>result. probeProfiles cs events = Some result \<and>
    (case result of
       None \<Rightarrow> reachable (seen_events (length cs) events) = {}
     | Some p \<Rightarrow> \<exists>i d. (i, d) \<in> reachable (seen_events (length cs) events) \<and> p = cs ! i \<and>
        (\<forall>r \<in> reachable (seen_events (length cs) events). no_slower (i, d) r))"
  using assms fold_probe [where es = "seen_events (length cs) events" and best = None]
  by (auto simp: probe_result split: option.splits)

text \<open>
  (C39) The profiles of a payload are its lines that are not blank, comments or other protocols, in order,
  and each has a host, a user, a network and a port that fits a machine integer.
\<close>

theorem parsed_profiles:
  assumes "ParseProfiles sha1 payload = Inr ps"
  shows "ps \<noteq> [] \<and> map md_URI ps = filter (Not \<circ> skipped_line) (map TrimSpace (Split newline payload)) \<and>
    (\<forall>p \<in> set ps. ParseVLESSURI sha1 (md_URI p) = Inr p \<and> md_Protocol p = ''vless'' \<and> md_Host p \<noteq> [] \<and> md_UUID p \<noteq> [] \<and>
      md_Network p \<noteq> [] \<and> 0 \<le> md_Port p \<and> md_Port p < 2 ^ 63)"
proof -
  have lines: "parse_lines sha1 (Split newline payload) = Inr ps" "ps \<noteq> []"
    using assms by (auto simp: ParseProfiles_def split: if_splits)
  show ?thesis
  proof (intro conjI ballI)
    fix p
    assume "p \<in> set ps"
    then have "ParseVLESSURI sha1 (md_URI p) = Inr p"
      using parse_lines_ok [OF lines(1)] by (auto simp: list_all_iff)
    from this ParseVLESSURI_ok [OF this]
    show "ParseVLESSURI sha1 (md_URI p) = Inr p" "md_Protocol p = ''vless''" "md_Host p \<noteq> []" "md_UUID p \<noteq> []"
      "md_Network p \<noteq> []" "0 \<le> md_Port p" "md_Port p < 2 ^ 63"
      by blast+
  qed (use lines parse_lines_ok [OF lines(1)] in \<open>simp_all add: comp_def\<close>)
qed

section \<open>Errors of a refresh\<close>

definition may_pass :: "http_reply \<Rightarrow> bool" where
  "may_pass reply = (case reply of
     HttpError _ \<Rightarrow> True
   | HttpReply status _ body \<Rightarrow> (500 \<le> status \<and> status < 600) \<or> status = 429 \<or>
       (200 \<le> status \<and> status < 300 \<and> (\<exists>err. body = Inl err)))"

definition refresh_transient :: "fetch_env \<Rightarrow> string \<Rightarrow> string \<Rightarrow> FetchOptions \<Rightarrow> bool" where
  "refresh_transient env mode url options \<longleftrightarrow> (mode = [] \<or> mode = ''proxy'') \<and> fe_validURL env url \<and>
     may_pass (fe_do env url (request_headers options))"

lemma transient_simps [simp]:
  "IsTransientFetchError (TransientFetchError m)"
  "\<not> IsTransientFetchError InvalidURL"
  "\<not> IsTransientFetchError (RequestRefused m)"
  "\<not> IsTransientFetchError (PayloadError p)"
  "\<not> IsTransientFetchError (ProfilesError q)"
  "\<not> IsTransientFetchError (UnsupportedSourceMode m)"
  "\<not> IsTransientFetchError (CacheError m)"
  by (simp_all add: IsTransientFetchError_def)

lemma fetch_transient:
  "(\<exists>e. FetchWithOptions env url options = Inl e \<and> IsTransientFetchError e) \<longleftrightarrow>
     fe_validURL env url \<and> may_pass (fe_do env url (request_headers options))"
  by (cases "fe_do env url (request_headers options)")
    (auto simp: FetchWithOptions_def may_pass_def Let_def split: sum.splits)

lemma payload_transient:
  "(\<exists>e. resolveSourcePayload env mode url options = Inl e \<and> IsTransientFetchError e) \<longleftrightarrow>
     refresh_transient env mode url options"
proof (cases "mode = [] \<or> mode = ''proxy''")
  case True
  then have "resolveSourcePayload env mode url options = (case FetchWithOptions env url options of
      Inl e \<Rightarrow> Inl e | Inr body \<Rightarrow> map_sum PayloadError (\<lambda>x. x) (NormalizePayload body))"
    by (auto simp: resolveSourcePayload_def)
  moreover have "\<not> (map_sum PayloadError (\<lambda>x. x) (NormalizePayload body) = Inl e \<and> IsTransientFetchError e)" for body e
    by (cases "NormalizePayload body") auto
  ultimately show ?thesis
    unfolding refresh_transient_def fetch_transient [symmetric] using True
    by (cases "FetchWithOptions env url options") simp_all
next
  case False
  then show ?thesis
    by (cases "NormalizePayload url") (auto simp: refresh_transient_def resolveSourcePayload_def)
qed

lemma save_not_transient:
  "SaveCache io snapshot d = (Inl e, d') \<Longrightarrow> \<not> IsTransientFetchError e"
  by (auto simp: SaveCache_def Let_def split: option.splits prod.splits)

text \<open>
  (C40) Only a failure that may pass is transient: the request could not be completed, the server failed
  or asked to slow down, or the body broke off. A refusal, a bad payload and a failed write of the cache
  are final. A transient failure leaves the cache as it was.
\<close>

theorem transient_iff:
  assumes "RefreshWithOptions env io mode url options d = (Inl e, d')"
  shows "(IsTransientFetchError e \<longleftrightarrow> refresh_transient env mode url options) \<and>
    (IsTransientFetchError e \<longrightarrow> d' = d)"
proof (cases "resolveSourcePayload env mode url options")
  case (Inl e')
  then have "e = e'" "d' = d"
    using assms by (simp_all add: RefreshWithOptions_def)
  with Inl show ?thesis
    unfolding payload_transient [symmetric] by simp
next
  case (Inr x)
  then have "\<not> IsTransientFetchError e"
    using assms save_not_transient
    by (auto simp: RefreshWithOptions_def Let_def split: sum.splits prod.splits)
  with Inr show ?thesis
    unfolding payload_transient [symmetric] by simp
qed

definition sample_fetch :: fetch_env where
  "sample_fetch = \<lparr>fe_validURL = (\<lambda>_. True), fe_do = (\<lambda>_ _. HttpReply 503 ''503 Service Unavailable'' (Inr [])), fe_sha1 = (\<lambda>_. []), fe_now = 0\<rparr>"

definition sample_cache_io :: cache_io where
  "sample_cache_io = \<lparr>ci_mkdir = None, ci_writeRaw = None, ci_writeSnapshot = None, ci_read = None\<rparr>"

definition sample_fetch_options :: FetchOptions where
  "sample_fetch_options = \<lparr>fo_UserAgent = [], fo_Headers = []\<rparr>"

definition sample_cache :: cache_dir where
  "sample_cache = \<lparr>cd_raw = None, cd_snapshot = None\<rparr>"

definition sample_listed :: "string \<Rightarrow> string \<Rightarrow> Profile" where
  "sample_listed i host = \<lparr>md_ID = i, md_Name = [], md_URI = [], md_Protocol = ''vless'', md_UUID = ''u'', md_Host = host, md_Port = 443,
     md_Security = [], md_Network = ''tcp'', md_ServiceName = [], md_Authority = [], md_SNI = [], md_Fingerprint = [],
     md_PublicKey = [], md_ShortID = [], md_Flow = [], md_Encryption = [], md_SpiderX = [], md_Query = []\<rparr>"

definition sample_listing :: "Profile list" where
  "sample_listing = [sample_listed ''a1'' ''x'', sample_listed ''b2'' ''y'', sample_listed ''c3'' ''z'']"

definition sample_unicode :: unicode where
  "sample_unicode = \<lparr>uc_upper = (\<lambda>r. r), uc_letter = (\<lambda>r. False), uc_digit = (\<lambda>r. False)\<rparr>"

definition sample_select :: SelectOptions where
  "sample_select = \<lparr>sl_Selector = [], sl_Transport = ''TCP'', sl_Match = Some \<lparr>pm_Country = [], pm_NamePattern = [],
     pm_Exclude = None, pm_Transport = []\<rparr>, sl_Pick = ''Probe'', sl_SkipProbe = False, sl_StickyID = [], sl_SkipReason = []\<rparr>"

definition sample_arrivals :: "probe_event list" where
  "sample_arrivals = [Arrived 2 30 True, Arrived 0 20 False, Arrived 1 30 True]"


theorem probe_fastest_witness:
  "probeProfiles sample_listing [Arrived 2 30 True, BudgetSpent] = Some (Some (sample_listed ''c3'' ''z'')) \<and>
   (\<exists>result. probeProfiles sample_listing [Arrived 2 30 True, BudgetSpent] = Some result)"
  using probe_fastest [of "[Arrived 2 30 True, BudgetSpent]" sample_listing]
  by (simp add: sample_listing_def probeProfiles_def better_def)

definition sample_uri :: string where
  "sample_uri = ''vless://u@h:443#x''"

definition sample_parsed :: Profile where
  "sample_parsed = (sample_listed [] ''h'')\<lparr>md_Name := ''x'', md_URI := sample_uri\<rparr>"

lemma sample_parses: "ParseProfiles (\<lambda>_. []) sample_uri = Inr [sample_parsed]"
  by code_simp

theorem parsed_profiles_witness:
  "ParseProfiles (\<lambda>_. []) sample_uri = Inr [sample_parsed] \<and> md_Host sample_parsed \<noteq> [] \<and>
   0 \<le> md_Port sample_parsed \<and> md_Port sample_parsed < 2 ^ 63"
  using parsed_profiles [OF sample_parses] sample_parses by (simp only: list.set_intros simp_thms)

theorem transient_iff_witness:
  "\<exists>e. RefreshWithOptions sample_fetch sample_cache_io ''proxy'' sample_uri sample_fetch_options sample_cache = (Inl e, sample_cache) \<and>
     IsTransientFetchError e \<and> refresh_transient sample_fetch ''proxy'' sample_uri sample_fetch_options"
proof -
  have "RefreshWithOptions sample_fetch sample_cache_io ''proxy'' sample_uri sample_fetch_options sample_cache =
      (Inl (TransientFetchError ''subscription request failed with status 503 Service Unavailable''), sample_cache)"
    by (simp add: RefreshWithOptions_def resolveSourcePayload_def FetchWithOptions_def sample_fetch_def Let_def)
  with transient_iff [OF this] show ?thesis
    by simp
qed

end
