(* ===== verification/Session_Record.thy ===== *)
theory Session_Record
  imports Vless_Selection
begin

text \<open>
  The records of a tunnel session, \<open>vless/session/session.go\<close>: what a start is asked for, and what the
  session file says about the running tunnel and its sidecar processes.
\<close>

definition LaunchModeDirect :: string where "LaunchModeDirect = ''direct''"
definition LaunchModeSudo :: string where "LaunchModeSudo = ''sudo''"
definition LaunchModeLaunchd :: string where "LaunchModeLaunchd = ''launchd''"
definition LaunchModeHelper :: string where "LaunchModeHelper = ''helper''"

record SidecarOptions =
  so_Name :: string
  so_Executable :: string
  so_Args :: "string list"

record StartOptions =
  st_Mode :: string
  st_Engine :: string
  st_BypassSuffixes :: "string list"
  st_InterfaceName :: string
  st_TunAddresses :: "string list"
  st_OverlayDNSActive :: bool
  st_OverlayDNSDomains :: "string list"
  st_SystemDNSServers :: "string list"
  st_PrivilegedLaunch :: LaunchConfig
  st_Sidecars :: "SidecarOptions list"
  st_LogMaxLines :: int
  st_ResolvedServer :: string
  st_ResolvedAlias :: string
  st_ResolvedName :: string
  st_ResolvedID :: string
  st_ResolutionReason :: string
  st_SnapshotFetchedAt :: "go_time option"

record SidecarSession =
  sc_ProcessComm :: string
  sc_ProcessStart :: go_time
  sc_Name :: string
  sc_PID :: int
  sc_Command :: "string list"
  sc_LogPath :: string

record CurrentSession =
  cu_ID :: string
  cu_PID :: int
  cu_Handle :: string
  cu_StartedAt :: go_time
  cu_ProcessComm :: string
  cu_ProcessStart :: go_time
  cu_Engine :: string
  cu_InterfaceName :: string
  cu_ConfigPath :: string
  cu_LogPath :: string
  cu_LogMaxLines :: int
  cu_MetadataPath :: string
  cu_ProfileID :: string
  cu_ProfileName :: string
  cu_ProfileEndpoint :: string
  cu_ResolvedServer :: string
  cu_ResolvedAlias :: string
  cu_ResolvedProfileName :: string
  cu_ResolvedProfileID :: string
  cu_ResolutionReason :: string
  cu_SnapshotFetchedAt :: "go_time option"
  cu_Mode :: string
  cu_BypassSuffixes :: "string list"
  cu_Command :: "string list"
  cu_Sidecars :: "SidecarSession list"
  cu_LaunchMode :: string
  cu_LaunchLabel :: string
  cu_LaunchPlistPath :: string
  cu_DNSHandoffMode :: string
  cu_DNSHandoffService :: string
  cu_DNSHandoffServiceID :: string
  cu_DNSHandoffInterface :: string
  cu_DNSHandoffServers :: "string list"
  cu_DNSHandoffRestoreServers :: "string list"
  cu_DNSHandoffRestoreAuto :: bool

text \<open>\<open>CurrentSession{}\<close>\<close>

definition zeroSession :: CurrentSession where
  "zeroSession =
    \<lparr>cu_ID = [], cu_PID = 0, cu_Handle = [], cu_StartedAt = zero_time, cu_ProcessComm = [], cu_ProcessStart = zero_time,
     cu_Engine = [], cu_InterfaceName = [], cu_ConfigPath = [], cu_LogPath = [], cu_LogMaxLines = 0, cu_MetadataPath = [],
     cu_ProfileID = [], cu_ProfileName = [], cu_ProfileEndpoint = [], cu_ResolvedServer = [], cu_ResolvedAlias = [],
     cu_ResolvedProfileName = [], cu_ResolvedProfileID = [], cu_ResolutionReason = [], cu_SnapshotFetchedAt = None,
     cu_Mode = [], cu_BypassSuffixes = [], cu_Command = [], cu_Sidecars = [], cu_LaunchMode = [], cu_LaunchLabel = [],
     cu_LaunchPlistPath = [], cu_DNSHandoffMode = [], cu_DNSHandoffService = [], cu_DNSHandoffServiceID = [],
     cu_DNSHandoffInterface = [], cu_DNSHandoffServers = [], cu_DNSHandoffRestoreServers = [], cu_DNSHandoffRestoreAuto = False\<rparr>"

end
