(* ===== verification/Dns_Handoff.thy ===== *)
theory Dns_Handoff
  imports Typed_Actions Session_Record
begin

text \<open>
  The hand-over of the system DNS to the tunnel, \<open>vless/session/dns_handoff.go\<close>: a script for \<open>scutil\<close>, or
  the DNS servers of the active network service when that fails, and taking it back. The outputs of
  \<open>route\<close> and \<open>networksetup\<close>, SHA-1, the platform and the results of privileged calls are parameters; the
  calls made are recorded in order. Lines written to the session log are not modelled.
\<close>

section \<open>Privileged calls\<close>

text \<open>The two typed actions of the privileged service, \<open>sudo -v\<close>, and a command that is run and logged.\<close>

datatype dns_call =
    CoreNetworkSetup string "string list"
  | CoreSCUtil string
  | SudoCheck
  | RanCommand "string list" string

datatype handoff_error =
    CallFailed string
  | LogOpenFailed string
  | MissingCommand
  | HelperNeedsTypedAction
  | SudoAuthentication string
  | LaunchModeUnsupported string
  | NoSystemDNS
  | MissingInterface
  | MissingTunIPv4
  | RouteLookup string
  | DefaultInterfaceNotFound
  | ServiceOrderFailed string
  | DeviceRequired
  | ScanFailed
  | ServiceNotFound string
  | GetDNSFailed string

record dns_env =
  dn_darwin :: bool
  dn_disabled :: bool
  dn_euid :: int
  dn_sha1 :: "string \<Rightarrow> int list"
  dn_route :: "string + string"
  dn_serviceOrder :: "string + string"
  dn_dnsServers :: "string \<Rightarrow> string + string"
  dn_openLog :: "string option"
  dn_run :: "dns_call \<Rightarrow> string option"

type_synonym 'a handoff = "(handoff_error + 'a) \<times> dns_call list"

definition call :: "dns_env \<Rightarrow> dns_call \<Rightarrow> unit handoff" where
  "call env c = (case dn_run env c of None \<Rightarrow> (Inr (), [c]) | Some e \<Rightarrow> (Inl (CallFailed e), [c]))"

definition ensureSudo :: "dns_env \<Rightarrow> unit handoff" where
  "ensureSudo env =
    (if dn_euid env = 0 then (Inr (), [])
     else case dn_run env SudoCheck of
       None \<Rightarrow> (Inr (), [SudoCheck])
     | Some e \<Rightarrow> (Inl (SudoAuthentication e), [SudoCheck]))"

definition runLoggedCommand :: "dns_env \<Rightarrow> string list \<Rightarrow> string \<Rightarrow> unit handoff" where
  "runLoggedCommand env command stdinData =
    (case dn_openLog env of
       Some e \<Rightarrow> (Inl (LogOpenFailed e), [])
     | None \<Rightarrow> call env (RanCommand command stdinData))"

definition runPrivilegedLoggedCommandWithInput :: "dns_env \<Rightarrow> string \<Rightarrow> string list \<Rightarrow> string \<Rightarrow> unit handoff" where
  "runPrivilegedLoggedCommandWithInput env launchMode command stdinData =
    (if command = [] then (Inl MissingCommand, [])
     else if launchMode = LaunchModeHelper then (Inl HelperNeedsTypedAction, [])
     else if launchMode = LaunchModeDirect then runLoggedCommand env command stdinData
     else if launchMode = LaunchModeSudo then
       (case ensureSudo env of
          (Inl e, cs) \<Rightarrow> (Inl e, cs)
        | (Inr _, cs) \<Rightarrow> map_prod (\<lambda>r. r) ((@) cs) (runLoggedCommand env (''sudo'' # command) stdinData))
     else (Inl (LaunchModeUnsupported launchMode), []))"

definition setDNSServersPrivileged :: "dns_env \<Rightarrow> string \<Rightarrow> string \<Rightarrow> string list \<Rightarrow> unit handoff" where
  "setDNSServersPrivileged env launchMode service servers =
    (let given = (if servers = [] then [''Empty''] else servers) in
     if launchMode = LaunchModeHelper then call env (CoreNetworkSetup service given)
     else runPrivilegedLoggedCommandWithInput env launchMode
       ([''/usr/sbin/networksetup'', ''-setdnsservers'', service] @ given) [])"

definition runScutilPrivileged :: "dns_env \<Rightarrow> string \<Rightarrow> string \<Rightarrow> unit handoff" where
  "runScutilPrivileged env launchMode stdinData =
    (if launchMode = LaunchModeHelper then call env (CoreSCUtil stdinData)
     else runPrivilegedLoggedCommandWithInput env launchMode [''/usr/sbin/scutil''] stdinData)"

section \<open>Addresses and identifiers\<close>

text \<open>\<open>net.ParseIP\<close> with \<open>To4\<close>: the bytes of an IPv4 or IPv4-mapped address; a zone is refused.\<close>

definition parse_ip4 :: "string \<Rightarrow> int list option" where
  "parse_ip4 s =
    (case ParseAddr s of
       None \<Rightarrow> None
     | Some (IPv4 bs) \<Rightarrow> Some bs
     | Some (IPv6 bs zone) \<Rightarrow> if zone = [] \<and> Is4In6 (IPv6 bs zone) then Some (drop 12 bs) else None)"

definition dns_server_text :: "string \<Rightarrow> string" where
  "dns_server_text raw =
    (let value = TrimSpace raw in
     if value = [] then [] else case parse_ip4 value of None \<Rightarrow> [] | Some bs \<Rightarrow> string4 bs)"

definition normalizeDNSServerList :: "string list \<Rightarrow> string list" where
  "normalizeDNSServerList values = dedup_loop dns_server_text [] values"

fun firstTunnelIPv4Address :: "string list \<Rightarrow> string" where
  "firstTunnelIPv4Address [] = []"
| "firstTunnelIPv4Address (raw # rest) =
    (let address = TrimSpace raw;
         host = (case Index address ''/'' of None \<Rightarrow> address | Some i \<Rightarrow> take i address) in
     if address = [] then firstTunnelIPv4Address rest
     else case parse_ip4 (TrimSpace host) of
       None \<Rightarrow> firstTunnelIPv4Address rest
     | Some bs \<Rightarrow> string4 bs)"

text \<open>\<open>strings.ToUpper\<close> of hexadecimal digits.\<close>

definition ascii_upper :: "char \<Rightarrow> char" where
  "ascii_upper c = (if is_lower c then char_of (byte_of c - 32) else c)"

definition dnsHandoffServiceID :: "(string \<Rightarrow> int list) \<Rightarrow> string \<Rightarrow> string" where
  "dnsHandoffServiceID sha1 sessionID =
    (let token = map ascii_upper (hex_encode (take 16 (sha1 (''vless-tun:dns-handoff:'' @ TrimSpace sessionID)))) in
     Join ''-'' [take 8 token, take 4 (drop 8 token), take 4 (drop 12 token), take 4 (drop 16 token), take 12 (drop 20 token)])"

section \<open>Scripts\<close>

definition script :: "string list \<Rightarrow> string" where
  "script ls = concat (map (\<lambda>l. l @ [newline]) ls)"

definition buildScutilApplyInput :: "string \<Rightarrow> string \<Rightarrow> string \<Rightarrow> string list \<Rightarrow> string" where
  "buildScutilApplyInput serviceID interfaceName tunnelIPv4 dnsServers =
    script ([''d.init'',
      ''d.add ConfirmedServiceID '' @ serviceID,
      ''d.add InterfaceName '' @ interfaceName,
      ''d.add ServerAddresses *'' @ concat (map (\<lambda>server. '' '' @ server) dnsServers),
      ''set State:/Network/Service/'' @ serviceID @ ''/DNS'']
     @ (if tunnelIPv4 \<noteq> [] then
         [''d.init'',
          ''d.add Addresses * '' @ tunnelIPv4,
          ''d.add InterfaceName '' @ interfaceName,
          ''d.add Router '' @ tunnelIPv4,
          ''set State:/Network/Service/'' @ serviceID @ ''/IPv4'']
        else []))"

definition buildScutilRemoveInput :: "string \<Rightarrow> string" where
  "buildScutilRemoveInput serviceID =
    script [''remove State:/Network/Service/'' @ serviceID @ ''/DNS'', ''remove State:/Network/Service/'' @ serviceID @ ''/IPv4'']"

section \<open>Outputs of system tools\<close>

text \<open>The white space of a regular expression.\<close>

definition re_space :: "char \<Rightarrow> bool" where
  "re_space c \<longleftrightarrow> c \<in> {CHR 0x09, CHR 0x0A, CHR 0x0C, CHR 0x0D, CHR '' ''}"

text \<open>
  \<open>(?m)^\s*interface:\s+(\S+)\s*$\<close>: the first line of the output that starts with the key, whose value, on
  this line or a later one, ends its line.
\<close>

definition interface_at :: "string \<Rightarrow> string option" where
  "interface_at s =
    (case CutPrefix (dropWhile re_space s) ''interface:'' of
       None \<Rightarrow> None
     | Some r \<Rightarrow>
        (let v = dropWhile re_space r; token = takeWhile (\<lambda>c. \<not> re_space c) v;
             rest = takeWhile (\<lambda>c. c \<noteq> newline) (drop (length token) v) in
         if v \<noteq> r \<and> token \<noteq> [] \<and> list_all re_space rest then Some token else None))"

function find_interface :: "string \<Rightarrow> string option" where
  "find_interface s =
    (case interface_at s of
       Some token \<Rightarrow> Some token
     | None \<Rightarrow>
        (case dropWhile (\<lambda>c. c \<noteq> newline) s of [] \<Rightarrow> None | _ # rest \<Rightarrow> find_interface rest))"
  by pat_completeness auto
termination
proof (relation "measure length")
  fix s :: string and c rest
  assume "dropWhile (\<lambda>c. c \<noteq> newline) s = c # rest"
  then have "length (c # rest) \<le> length s"
    by (metis length_dropWhile_le)
  then show "(rest, s) \<in> measure length"
    by simp
qed simp

declare find_interface.simps [simp del]

definition parseDefaultInterface :: "string \<Rightarrow> handoff_error + string" where
  "parseDefaultInterface output =
    (case find_interface output of
       None \<Rightarrow> Inl DefaultInterfaceNotFound
     | Some token \<Rightarrow> Inr (TrimSpace token))"

text \<open>\<open>^\((?:\d+|\*)\)\s+(.+)$\<close> on a trimmed line.\<close>

definition service_name :: "string \<Rightarrow> string option" where
  "service_name line =
    (case CutPrefix line ''('' of
       None \<Rightarrow> None
     | Some r \<Rightarrow>
        (let number = takeWhile is_digit r;
             r1 = (if number \<noteq> [] then drop (length number) r else TrimPrefix r ''*'') in
         if number = [] \<and> \<not> HasPrefix r ''*'' then None
         else case CutPrefix r1 '')'' of
           None \<Rightarrow> None
         | Some r2 \<Rightarrow>
            (let name = dropWhile re_space r2 in if name \<noteq> r2 \<and> name \<noteq> [] then Some name else None)))"

text \<open>\<open>^\(Hardware Port: .*?, Device: ([^)]+)\)$\<close>\<close>

fun device_from :: "string \<Rightarrow> string option" where
  "device_from [] = None"
| "device_from (c # s) =
    (let r = drop (length '', Device: '') (c # s) in
     if HasPrefix (c # s) '', Device: '' \<and> r \<noteq> [] \<and> last r = CHR '')'' \<and> butlast r \<noteq> [] \<and> CHR '')'' \<notin> set (butlast r)
     then Some (butlast r) else device_from s)"

definition service_device :: "string \<Rightarrow> string option" where
  "service_device line =
    (case CutPrefix line ''(Hardware Port: '' of None \<Rightarrow> None | Some r \<Rightarrow> device_from r)"

fun service_order_loop :: "string \<Rightarrow> string \<Rightarrow> string option list \<Rightarrow> handoff_error + string" where
  "service_order_loop device currentService [] = Inl (ServiceNotFound device)"
| "service_order_loop device currentService (None # ls) = Inl ScanFailed"
| "service_order_loop device currentService (Some raw # ls) =
    (let line = TrimSpace raw in
     if line = [] then service_order_loop device currentService ls
     else case service_name line of
       Some name \<Rightarrow> service_order_loop device (TrimSpace name) ls
     | None \<Rightarrow>
        (case service_device line of
           Some d \<Rightarrow>
             if currentService \<noteq> [] \<and> TrimSpace d = device then Inr currentService
             else service_order_loop device currentService ls
         | None \<Rightarrow> service_order_loop device currentService ls))"

definition parseNetworkServiceOrder :: "string \<Rightarrow> string \<Rightarrow> handoff_error + string" where
  "parseNetworkServiceOrder output device0 =
    (let device = TrimSpace device0 in
     if device = [] then Inl DeviceRequired else service_order_loop device [] (scan_lines output))"

definition parseDNSServers :: "string \<Rightarrow> handoff_error + string list \<times> bool" where
  "parseDNSServers output =
    (if None \<in> set (scan_lines output) then Inl ScanFailed
     else let ls = filter (\<lambda>l. l \<noteq> []) (map (TrimSpace \<circ> the) (scan_lines output)) in
       if ls = [] then Inr ([], True)
       else if Contains (hd ls) ''There aren't any DNS Servers set on'' then Inr ([], True)
       else Inr (ls, False))"

definition currentDefaultInterface :: "dns_env \<Rightarrow> handoff_error + string" where
  "currentDefaultInterface env =
    (case dn_route env of Inl e \<Rightarrow> Inl (RouteLookup e) | Inr out \<Rightarrow> parseDefaultInterface out)"

definition currentNetworkService :: "dns_env \<Rightarrow> string \<Rightarrow> handoff_error + string" where
  "currentNetworkService env device =
    (case dn_serviceOrder env of Inl e \<Rightarrow> Inl (ServiceOrderFailed e) | Inr out \<Rightarrow> parseNetworkServiceOrder out device)"

definition currentDNSServers :: "dns_env \<Rightarrow> string \<Rightarrow> handoff_error + string list \<times> bool" where
  "currentDNSServers env service =
    (case dn_dnsServers env service of Inl e \<Rightarrow> Inl (GetDNSFailed e) | Inr out \<Rightarrow> parseDNSServers out)"

section \<open>Apply and restore\<close>

definition shouldApplySystemDNSHandoff :: "dns_env \<Rightarrow> string \<Rightarrow> StartOptions \<Rightarrow> bool" where
  "shouldApplySystemDNSHandoff env mode options \<longleftrightarrow>
    \<not> dn_disabled env \<and> dn_darwin env \<and> mode = RenderModeTun \<and> st_OverlayDNSActive options \<and>
    normalizeDNSServerList (st_SystemDNSServers options) \<noteq> []"

definition applyScutilDNSHandoff ::
    "dns_env \<Rightarrow> StartOptions \<Rightarrow> string list \<Rightarrow> CurrentSession \<Rightarrow> CurrentSession handoff" where
  "applyScutilDNSHandoff env options dnsServers current =
    (let interfaceName = TrimSpace (st_InterfaceName options);
         tunnelIPv4 = firstTunnelIPv4Address (st_TunAddresses options);
         serviceID = dnsHandoffServiceID (dn_sha1 env) (cu_ID current) in
     if interfaceName = [] then (Inl MissingInterface, [])
     else if tunnelIPv4 = [] then (Inl MissingTunIPv4, [])
     else case runScutilPrivileged env (cu_LaunchMode current)
            (buildScutilApplyInput serviceID interfaceName tunnelIPv4 dnsServers) of
       (Inl e, cs) \<Rightarrow> (Inl e, cs)
     | (Inr _, cs) \<Rightarrow>
        (Inr (current\<lparr>cu_DNSHandoffMode := ''scutil'', cu_DNSHandoffService := [], cu_DNSHandoffServiceID := serviceID,
            cu_DNSHandoffInterface := interfaceName, cu_DNSHandoffServers := dnsServers, cu_DNSHandoffRestoreServers := [],
            cu_DNSHandoffRestoreAuto := False\<rparr>), cs))"

definition applyNetworkServiceDNSHandoff ::
    "dns_env \<Rightarrow> string list \<Rightarrow> CurrentSession \<Rightarrow> CurrentSession handoff" where
  "applyNetworkServiceDNSHandoff env dnsServers current =
    (case currentDefaultInterface env of
       Inl e \<Rightarrow> (Inl e, [])
     | Inr device \<Rightarrow>
        (case currentNetworkService env device of
           Inl e \<Rightarrow> (Inl e, [])
         | Inr service \<Rightarrow>
            (case currentDNSServers env service of
               Inl e \<Rightarrow> (Inl e, [])
             | Inr (restoreServers, restoreAuto) \<Rightarrow>
                (case setDNSServersPrivileged env (cu_LaunchMode current) service dnsServers of
                   (Inl e, cs) \<Rightarrow> (Inl e, cs)
                 | (Inr _, cs) \<Rightarrow>
                    (Inr (current\<lparr>cu_DNSHandoffMode := ''networksetup'', cu_DNSHandoffService := service,
                        cu_DNSHandoffServiceID := [], cu_DNSHandoffInterface := [], cu_DNSHandoffServers := dnsServers,
                        cu_DNSHandoffRestoreServers := restoreServers, cu_DNSHandoffRestoreAuto := restoreAuto\<rparr>), cs)))))"

definition applySystemDNSHandoff :: "dns_env \<Rightarrow> StartOptions \<Rightarrow> CurrentSession \<Rightarrow> CurrentSession handoff" where
  "applySystemDNSHandoff env options current =
    (if \<not> shouldApplySystemDNSHandoff env (cu_Mode current) options then (Inr current, [])
     else let dnsServers = normalizeDNSServerList (st_SystemDNSServers options) in
       if dnsServers = [] then (Inl NoSystemDNS, [])
       else case applyScutilDNSHandoff env options dnsServers current of
         (Inr c, cs) \<Rightarrow> (Inr c, cs)
       | (Inl _, cs) \<Rightarrow> map_prod (\<lambda>r. r) ((@) cs) (applyNetworkServiceDNSHandoff env dnsServers current))"

definition restoreSystemDNSHandoff :: "dns_env \<Rightarrow> CurrentSession \<Rightarrow> unit handoff" where
  "restoreSystemDNSHandoff env current =
    (if \<not> dn_darwin env then (Inr (), [])
     else if cu_DNSHandoffServers current = [] then (Inr (), [])
     else let serviceID = TrimSpace (cu_DNSHandoffServiceID current) in
       if cu_DNSHandoffMode current = ''scutil'' \<or> serviceID \<noteq> [] then
         (if serviceID = [] then (Inr (), [])
          else runScutilPrivileged env (cu_LaunchMode current) (buildScutilRemoveInput serviceID))
       else if TrimSpace (cu_DNSHandoffService current) \<noteq> [] then
         setDNSServersPrivileged env (cu_LaunchMode current) (cu_DNSHandoffService current)
           (if cu_DNSHandoffRestoreAuto current then [] else cu_DNSHandoffRestoreServers current)
       else (Inr (), []))"

end
