(* ===== verification/Session_Process.thy ===== *)
theory Session_Process
  imports Dns_Handoff
begin

text \<open>
  The processes of a session, \<open>processidentity/identity.go\<close> and the parts of \<open>vless/session/session.go\<close> that
  decide whether a recorded process is still running and that stop a sidecar. What the operating system
  says about a process at one moment is an observation; a loop that polls until a deadline takes the list
  of the observations it makes before the deadline. Every observation and every signal is recorded in the
  order in which it happens.
\<close>

section \<open>Observations\<close>

text \<open>The results of \<open>kill(2)\<close> that the code distinguishes.\<close>

datatype kill_result = KillOk | KillESRCH | KillEPERM | KillError string

datatype identity_error = IdentityUnsupported | IdentityFailed string

record observation =
  ob_kill :: kill_result
  ob_identity :: "identity_error + string \<times> go_time"
  ob_launchd :: "string + int"

datatype unix_signal = SIGTERM | SIGKILL

datatype session_error =
    KillFailed string
  | VerifyIdentity int string
  | RecordIdentity int string
  | MissingRecordedCommand int
  | LegacyWrapped string int string
  | LaunchdFailed string
  | SidecarTimeout string int
  | SessionMissing
  | SessionUnreadable string
  | ReadDirFailed string
  | HelperWithoutHandle
  | CoreSignalFailed string
  | StopTimeout int
  | KillTimeout int
  | SudoFailed string
  | BootoutFailed string
  | LaunchdTimeout string
  | HandoffFailed handoff_error
  | RemoveFailed string
  | UnsupportedRenderMode string
  | LaunchdOnlyOnDarwin
  | UnsupportedLaunchMode string
  | ExecutableNotFound string
  | SystemFailed string
  | UpstreamRoute handoff_error
  | NestedTunnel string "string list"
  | OrphanStillAlive string int
  | ProcessListFailed string
  | SidecarExecutableRequired string
  | SidecarExited string
  | CoreStartFailed string
  | ReleaseFailed string
  | LivenessUnknown session_error
  | ExitedDuringStartup
  | ReadinessCheck session_error
  | ReadinessExited
  | ReadinessTimeout

text \<open>The group of a process is signalled by its identifier, a child of the privileged service by its handle.\<close>

datatype session_event =
    Saw int observation
  | Signalled int unix_signal kill_result
  | SignalledProcess int unix_signal kill_result
  | CoreSignalled string string "string option"
  | Launchctl "string list"
  | DnsCalled dns_call
  | RemovedCurrent
  | SavedCurrent CurrentSession
  | SavedMetadata CurrentSession
  | StartedSidecar int
  | ReapedSidecar int
  | StartedProcess int
  | StartedCore int string

type_synonym 'a traced = "(session_error + 'a) \<times> session_event list"

text \<open>Sequencing: the second computation runs when the first has not failed; the events add up.\<close>

definition and_then :: "('e + 'a) \<times> 'x list \<Rightarrow> ('a \<Rightarrow> ('e + 'b) \<times> 'x list) \<Rightarrow> ('e + 'b) \<times> 'x list" where
  "and_then m f =
    (case m of
       (Inl e, es) \<Rightarrow> (Inl e, es)
     | (Inr x, es) \<Rightarrow> (case f x of (r, es') \<Rightarrow> (r, es @ es')))"

section \<open>Identity\<close>

text \<open>Negation of a 64-bit duration: the least one is its own negative.\<close>

definition neg64 :: "duration \<Rightarrow> duration" where
  "neg64 d = (if d = - (2 ^ 63) then d else - d)"

definition Matches :: "string \<Rightarrow> go_time \<Rightarrow> string \<Rightarrow> go_time \<Rightarrow> string \<Rightarrow> bool" where
  "Matches comm started recordedComm recordedStart legacyName =
    (if recordedComm \<noteq> [] then
       (let delta0 = time_Sub started recordedStart; delta = (if delta0 < 0 then neg64 delta0 else delta0) in
        comm = recordedComm \<and> delta \<le> second)
     else comm = take 16 legacyName)"

definition ProcessAlive :: "int \<Rightarrow> observation \<Rightarrow> session_error + bool" where
  "ProcessAlive pid ob =
    (if pid \<le> 0 then Inr False
     else case ob_kill ob of
       KillOk \<Rightarrow> Inr True
     | KillESRCH \<Rightarrow> Inr False
     | KillEPERM \<Rightarrow> Inr True
     | KillError e \<Rightarrow> Inl (KillFailed e))"

definition sessionProcessMatches :: "CurrentSession \<Rightarrow> observation \<Rightarrow> session_error + bool" where
  "sessionProcessMatches current ob =
    (case ob_identity ob of
       Inl IdentityUnsupported \<Rightarrow> Inr True
     | Inl (IdentityFailed e) \<Rightarrow> Inl (VerifyIdentity (cu_PID current) e)
     | Inr (comm, started) \<Rightarrow>
        Inr (Matches comm started (cu_ProcessComm current) (cu_ProcessStart current)
          (case cu_Command current of
             [] \<Rightarrow> ''sing-box''
           | c # _ \<Rightarrow> if TrimSpace c \<noteq> [] then Base c else ''sing-box'')))"

text \<open>\<open>SessionAlive\<close>: liveness and the process identifier under which the session runs now.\<close>

definition session_alive :: "CurrentSession \<Rightarrow> observation \<Rightarrow> session_error + bool \<times> int" where
  "session_alive current ob =
    (case ProcessAlive (cu_PID current) ob of
       Inl e \<Rightarrow> Inl e
     | Inr alive \<Rightarrow>
        (case (if alive then sessionProcessMatches current ob else Inr False) of
           Inl e \<Rightarrow> Inl e
         | Inr True \<Rightarrow> Inr (True, cu_PID current)
         | Inr False \<Rightarrow>
            if cu_LaunchMode current \<noteq> LaunchModeLaunchd \<or> cu_LaunchLabel current = [] then Inr (False, cu_PID current)
            else (case ob_launchd ob of
               Inl e \<Rightarrow> Inl (LaunchdFailed e)
             | Inr pid \<Rightarrow> if pid \<le> 0 then Inr (False, cu_PID current) else Inr (True, pid))))"

definition SessionAlive :: "CurrentSession \<Rightarrow> observation \<Rightarrow> (bool \<times> int) traced" where
  "SessionAlive current ob = (session_alive current ob, [Saw (cu_PID current) ob])"

text \<open>\<open>recordProcessIdentity\<close>: a failed lookup is tried once more.\<close>

definition recordProcessIdentity ::
    "(identity_error + string \<times> go_time) \<times> (identity_error + string \<times> go_time) \<Rightarrow> CurrentSession \<Rightarrow> session_error + CurrentSession" where
  "recordProcessIdentity lookups s =
    (case (case fst lookups of Inl (IdentityFailed _) \<Rightarrow> snd lookups | r \<Rightarrow> r) of
       Inl IdentityUnsupported \<Rightarrow> Inr s
     | Inl (IdentityFailed e) \<Rightarrow> Inl (RecordIdentity (cu_PID s) e)
     | Inr (comm, started) \<Rightarrow> Inr (s\<lparr>cu_ProcessComm := comm, cu_ProcessStart := started\<rparr>))"

definition recordSidecarIdentity ::
    "(identity_error + string \<times> go_time) \<times> (identity_error + string \<times> go_time) \<Rightarrow> SidecarSession \<Rightarrow> session_error + SidecarSession" where
  "recordSidecarIdentity lookups sidecar =
    (case recordProcessIdentity lookups (zeroSession\<lparr>cu_PID := sc_PID sidecar\<rparr>) of
       Inl e \<Rightarrow> Inl e
     | Inr current \<Rightarrow> Inr (sidecar\<lparr>sc_ProcessComm := cu_ProcessComm current, sc_ProcessStart := cu_ProcessStart current\<rparr>))"

section \<open>Legacy sidecar commands\<close>

definition isSidecarWrapper :: "string \<Rightarrow> bool" where
  "isSidecarWrapper name \<longleftrightarrow> name \<in> {''sudo'', ''env'', ''nice'', ''nohup'', ''caffeinate''}"

text \<open>Whether an option of a wrapper is known, and whether it takes a value.\<close>

definition wrapper_option :: "string \<Rightarrow> string \<Rightarrow> (bool \<times> bool)" where
  "wrapper_option name arg =
    (if name = ''sudo'' then
       (if arg \<in> {''-n'', ''-E'', ''-H'', ''-S'', ''-k'', ''-b''} then (True, False)
        else if arg \<in> {''-u'', ''-g'', ''-h'', ''-p'', ''-C'', ''-T'', ''-r'', ''-t'', ''-D'', ''-R''} then (True, True)
        else (False, False))
     else if name = ''env'' then
       (if arg \<in> {''-i'', ''--ignore-environment''} then (True, False)
        else if arg \<in> {''-u'', ''--unset'', ''-C'', ''--chdir''} then (True, True)
        else (False, False))
     else if name = ''nice'' then (arg = ''-n'', arg = ''-n'')
     else if name = ''caffeinate'' then
       (if arg = ''-t'' \<or> arg = ''-w'' then (True, True)
        else (length arg > 1 \<and> list_all (\<lambda>c. c \<in> set ''dimsu'') (drop 1 arg), False))
     else (False, False))"

datatype payload_failure = UnsupportedArgument string string | MissingPayload

text \<open>The inner loop: what is left of the command after the options of a wrapper.\<close>

fun skip_options :: "string \<Rightarrow> string list \<Rightarrow> payload_failure + string list" where
  "skip_options name [] = Inr []"
| "skip_options name (arg # command) =
    (if arg = ''--'' then Inr command
     else if name = ''env'' \<and> Contains arg ''='' \<and> \<not> HasPrefix arg ''-'' then skip_options name command
     else if \<not> HasPrefix arg ''-'' then Inr (arg # command)
     else case wrapper_option name arg of
       (known, takesValue) \<Rightarrow>
         if \<not> known \<or> (takesValue \<and> command = []) then Inl (UnsupportedArgument name arg)
         else if takesValue then skip_options name (tl command) else skip_options name command)"

lemma skip_options_shorter: "skip_options name command = Inr rest \<Longrightarrow> length rest \<le> length command"
  by (induction name command rule: skip_options.induct) (auto split: if_splits prod.splits, fastforce+)

function legacySidecarPayload :: "string list \<Rightarrow> payload_failure + string" where
  "legacySidecarPayload [] = Inl MissingPayload"
| "legacySidecarPayload (c # command) =
    (let name = Base c in
     if \<not> isSidecarWrapper name then (if TrimSpace c = [] then Inl MissingPayload else Inr name)
     else case skip_options name command of
       Inl e \<Rightarrow> Inl e
     | Inr rest \<Rightarrow> legacySidecarPayload rest)"
  by pat_completeness auto
termination
  by (relation "measure length") (auto dest: skip_options_shorter)

section \<open>Sidecars\<close>

definition payload_text :: "payload_failure \<Rightarrow> string" where
  "payload_text e =
    (case e of
       MissingPayload \<Rightarrow> ''missing wrapper payload''
     | UnsupportedArgument name arg \<Rightarrow> ''unsupported or incomplete '' @ name @ '' argument '' @ arg)"

definition sidecar_alive :: "SidecarSession \<Rightarrow> observation \<Rightarrow> session_error + bool" where
  "sidecar_alive sidecar ob =
    (case ProcessAlive (sc_PID sidecar) ob of
       Inl e \<Rightarrow> Inl e
     | Inr False \<Rightarrow> Inr False
     | Inr True \<Rightarrow>
        if sc_ProcessComm sidecar = [] \<and> (sc_Command sidecar = [] \<or> TrimSpace (hd (sc_Command sidecar)) = [])
        then Inl (MissingRecordedCommand (sc_PID sidecar))
        else if sc_ProcessComm sidecar \<noteq> [] \<or> \<not> isSidecarWrapper (Base (hd (sc_Command sidecar)))
        then sessionProcessMatches (zeroSession\<lparr>cu_PID := sc_PID sidecar, cu_Command := sc_Command sidecar,
               cu_ProcessComm := sc_ProcessComm sidecar, cu_ProcessStart := sc_ProcessStart sidecar\<rparr>) ob
        else case ob_identity ob of
           Inl IdentityUnsupported \<Rightarrow> Inr True
         | Inl (IdentityFailed e) \<Rightarrow> Inl (VerifyIdentity (sc_PID sidecar) e)
         | Inr (comm, started) \<Rightarrow>
            if Matches comm started [] zero_time (Base (hd (sc_Command sidecar))) then Inr True
            else (case legacySidecarPayload (sc_Command sidecar) of
               Inl e \<Rightarrow> Inl (LegacyWrapped (sc_Name sidecar) (sc_PID sidecar) (payload_text e))
             | Inr payload \<Rightarrow> Inr (Matches comm started [] zero_time payload)))"

definition sidecarAlive :: "SidecarSession \<Rightarrow> observation \<Rightarrow> bool traced" where
  "sidecarAlive sidecar ob = (sidecar_alive sidecar ob, [Saw (sc_PID sidecar) ob])"

text \<open>\<open>signalGroup\<close>: the group of the process is signalled; a group that is gone is no error.\<close>

definition signalGroup :: "int \<Rightarrow> unix_signal \<Rightarrow> kill_result \<Rightarrow> unit traced" where
  "signalGroup pid sig result =
    ((case result of
        KillOk \<Rightarrow> Inr ()
      | KillESRCH \<Rightarrow> Inr ()
      | KillEPERM \<Rightarrow> Inl (KillFailed ''operation not permitted'')
      | KillError e \<Rightarrow> Inl (KillFailed e)), [Signalled pid sig result])"

text \<open>
  The waiting loops: \<open>poll ob\<close> is one look at the process. The result says whether it was seen to be gone
  before the deadline.
\<close>

fun wait_gone :: "('o \<Rightarrow> ('e + bool) \<times> 'x list) \<Rightarrow> 'o list \<Rightarrow> ('e + bool) \<times> 'x list" where
  "wait_gone poll [] = (Inr False, [])"
| "wait_gone poll (ob # obs) =
    and_then (poll ob) (\<lambda>alive. if alive then wait_gone poll obs else (Inr True, []))"

text \<open>What happens while one sidecar is stopped.\<close>

record side_world =
  sw_first :: observation
  sw_term :: kill_result
  sw_polls :: "observation list"
  sw_last :: observation
  sw_kill :: kill_result

definition stopSidecar :: "side_world \<Rightarrow> bool \<Rightarrow> SidecarSession \<Rightarrow> unit traced" where
  "stopSidecar w force sidecar =
    and_then (sidecarAlive sidecar (sw_first w)) (\<lambda>alive.
    if \<not> alive then (Inr (), [])
    else and_then (signalGroup (sc_PID sidecar) SIGTERM (sw_term w)) (\<lambda>_.
      and_then (wait_gone (sidecarAlive sidecar) (sw_polls w)) (\<lambda>gone.
      if gone then (Inr (), [])
      else if \<not> force then (Inl (SidecarTimeout (sc_Name sidecar) (sc_PID sidecar)), [])
      else and_then (sidecarAlive sidecar (sw_last w)) (\<lambda>alive.
        if \<not> alive then (Inr (), [])
        else signalGroup (sc_PID sidecar) SIGKILL (sw_kill w)))))"

text \<open>\<open>stopSidecars\<close> goes from the last sidecar to the first and stops at the first error.\<close>

fun stop_in_order :: "(SidecarSession \<Rightarrow> side_world) \<Rightarrow> bool \<Rightarrow> SidecarSession list \<Rightarrow> unit traced" where
  "stop_in_order world force [] = (Inr (), [])"
| "stop_in_order world force (s # ss) =
    and_then (stopSidecar (world s) force s) (\<lambda>_. stop_in_order world force ss)"

definition stopSidecars :: "(SidecarSession \<Rightarrow> side_world) \<Rightarrow> bool \<Rightarrow> SidecarSession list \<Rightarrow> unit traced" where
  "stopSidecars world force sidecars = stop_in_order world force (rev sidecars)"

end
