(* ===== verification/Session_Stop.thy ===== *)
theory Session_Stop
  imports Session_Process
begin

text \<open>
  Finding and stopping a session: \<open>ResolveCurrent\<close>, \<open>Stop\<close> and what they call, in \<open>vless/session/session.go\<close>,
  \<open>vpncore.go\<close> and \<open>launchd.go\<close>.
\<close>

section \<open>The session files\<close>

text \<open>A session file holds a record or bytes that do not decode; an unreadable one is its error.\<close>

record metadata_entry =
  me_name :: string
  me_isDir :: bool
  me_content :: "string + CurrentSession"

record session_files =
  sf_current :: "(string + CurrentSession) option"
  sf_entries :: "(string + metadata_entry list) option"

definition LoadCurrent :: "session_files \<Rightarrow> session_error + CurrentSession" where
  "LoadCurrent files =
    (case sf_current files of
       None \<Rightarrow> Inl SessionMissing
     | Some (Inl e) \<Rightarrow> Inl (SessionUnreadable e)
     | Some (Inr current) \<Rightarrow> Inr current)"

definition metadata_of :: "string \<Rightarrow> metadata_entry \<Rightarrow> CurrentSession option" where
  "metadata_of label entry =
    (if me_isDir entry \<or> \<not> HasPrefix (me_name entry) ''session-'' \<or> Ext (me_name entry) \<noteq> ''.json'' then None
     else case me_content entry of
       Inl _ \<Rightarrow> None
     | Inr current \<Rightarrow>
        if cu_LaunchMode current \<noteq> LaunchModeLaunchd \<or> cu_LaunchLabel current \<noteq> label then None else Some current)"

fun first_metadata :: "string \<Rightarrow> metadata_entry list \<Rightarrow> CurrentSession option" where
  "first_metadata label [] = None"
| "first_metadata label (e # es) =
    (case metadata_of label e of Some current \<Rightarrow> Some current | None \<Rightarrow> first_metadata label es)"

text \<open>The entries are in the order of \<open>os.ReadDir\<close>; the search starts at the last one.\<close>

definition latestLaunchdSessionMetadata :: "session_files \<Rightarrow> string \<Rightarrow> session_error + CurrentSession option" where
  "latestLaunchdSessionMetadata files label =
    (case sf_entries files of
       None \<Rightarrow> Inr None
     | Some (Inl e) \<Rightarrow> Inl (ReadDirFailed e)
     | Some (Inr entries) \<Rightarrow> Inr (first_metadata label (rev entries)))"

definition dashes :: "string \<Rightarrow> string" where
  "dashes s = map (\<lambda>c. if c = CHR ''.'' then CHR ''-'' else c) s"

definition resolveLegacyLaunchdCurrent ::
    "(string \<Rightarrow> string + int) \<Rightarrow> session_files \<Rightarrow> LaunchConfig \<Rightarrow> session_error + CurrentSession option" where
  "resolveLegacyLaunchdCurrent launchdPID files launch =
    (let label = TrimSpace (la_Label launch) in
     if label = [] then Inr None
     else case launchdPID label of
       Inl e \<Rightarrow> Inl (LaunchdFailed e)
     | Inr pid \<Rightarrow>
        if pid \<le> 0 then Inr None
        else (case latestLaunchdSessionMetadata files label of
           Inl e \<Rightarrow> Inl e
         | Inr found \<Rightarrow>
            (let current = (case found of Some c \<Rightarrow> c | None \<Rightarrow> zeroSession\<lparr>cu_ID := ''legacy-launchd-'' @ dashes label\<rparr>) in
             Inr (Some (current\<lparr>cu_PID := pid, cu_LaunchMode := LaunchModeLaunchd,
               cu_LaunchLabel := (if cu_LaunchLabel current = [] then label else cu_LaunchLabel current),
               cu_LaunchPlistPath := (if cu_LaunchPlistPath current = [] then la_PlistPath launch else cu_LaunchPlistPath current)\<rparr>)))))"

definition ResolveCurrent ::
    "(string \<Rightarrow> string + int) \<Rightarrow> session_files \<Rightarrow> LaunchConfig \<Rightarrow> session_error + CurrentSession" where
  "ResolveCurrent launchdPID files launch =
    (case LoadCurrent files of
       Inr current \<Rightarrow> Inr current
     | Inl SessionMissing \<Rightarrow>
        (case resolveLegacyLaunchdCurrent launchdPID files launch of
           Inl e \<Rightarrow> Inl e
         | Inr (Some current) \<Rightarrow> Inr current
         | Inr None \<Rightarrow> Inl SessionMissing)
     | Inl e \<Rightarrow> Inl e)"

section \<open>Stopping\<close>

text \<open>
  What happens while a session is stopped: the first look at its process, the results of signals, the
  observations of the waiting loops, and the worlds of the sidecars. \<open>sp_kills i\<close> is the \<open>i\<close>-th of the ten looks
  after a \<open>SIGKILL\<close>.
\<close>

record stop_world =
  sp_launchdPID :: "string \<Rightarrow> string + int"
  sp_first :: observation
  sp_term :: kill_result
  sp_polls :: "observation list"
  sp_kill :: kill_result
  sp_kills :: "nat \<Rightarrow> observation"
  sp_coreKills :: "observation list"
  sp_core :: "string \<Rightarrow> string \<Rightarrow> string option"
  sp_sudo :: "string option"
  sp_bootout :: "string option"
  sp_sidecars :: "SidecarSession \<Rightarrow> side_world"
  sp_dns :: dns_env
  sp_remove :: "string option"

definition ClearCurrent :: "stop_world \<Rightarrow> unit traced" where
  "ClearCurrent w = (case sp_remove w of Some e \<Rightarrow> (Inl (RemoveFailed e), []) | None \<Rightarrow> (Inr (), [RemovedCurrent]))"

definition restore_dns :: "stop_world \<Rightarrow> CurrentSession \<Rightarrow> unit traced" where
  "restore_dns w current =
    (case restoreSystemDNSHandoff (sp_dns w) current of
       (r, cs) \<Rightarrow> (map_sum HandoffFailed (\<lambda>x. x) r, map DnsCalled cs))"

text \<open>The three steps that end every successful stop.\<close>

definition finish_stop :: "stop_world \<Rightarrow> bool \<Rightarrow> CurrentSession \<Rightarrow> string \<Rightarrow> (CurrentSession \<times> string) traced" where
  "finish_stop w force current state =
    and_then (stopSidecars (sp_sidecars w) force (cu_Sidecars current)) (\<lambda>_.
    and_then (restore_dns w current) (\<lambda>_.
    and_then (ClearCurrent w) (\<lambda>_. (Inr (current, state), []))))"

definition core_signal :: "stop_world \<Rightarrow> string \<Rightarrow> string \<Rightarrow> unit traced" where
  "core_signal w handle sig =
    ((case sp_core w handle sig of Some e \<Rightarrow> Inl (CoreSignalFailed e) | None \<Rightarrow> Inr ()),
     [CoreSignalled handle sig (sp_core w handle sig)])"

definition poll_session :: "CurrentSession \<Rightarrow> observation \<Rightarrow> bool traced" where
  "poll_session current ob = and_then (SessionAlive current ob) (\<lambda>(alive, _). (Inr alive, []))"

definition stopHelperSession :: "stop_world \<Rightarrow> bool \<Rightarrow> CurrentSession \<Rightarrow> unit traced" where
  "stopHelperSession w force current =
    (if cu_Handle current = [] then (Inl HelperWithoutHandle, [])
     else and_then (core_signal w (cu_Handle current) ''-TERM'') (\<lambda>_.
       and_then (wait_gone (poll_session current) (sp_polls w)) (\<lambda>gone.
       if gone then (Inr (), [])
       else if \<not> force then (Inl (StopTimeout (cu_PID current)), [])
       else and_then (core_signal w (cu_Handle current) ''-KILL'') (\<lambda>_.
         and_then (wait_gone (poll_session current) (sp_coreKills w)) (\<lambda>gone.
         if gone then (Inr (), []) else (Inl (StopTimeout (cu_PID current)), []))))))"

definition launchdStopPollRecord :: "CurrentSession \<Rightarrow> CurrentSession" where
  "launchdStopPollRecord current =
    zeroSession\<lparr>cu_PID := cu_PID current, cu_Command := cu_Command current, cu_ProcessComm := cu_ProcessComm current,
      cu_ProcessStart := cu_ProcessStart current, cu_LaunchMode := cu_LaunchMode current,
      cu_LaunchLabel := cu_LaunchLabel current\<rparr>"

definition stopLaunchdSession :: "stop_world \<Rightarrow> CurrentSession \<Rightarrow> unit traced" where
  "stopLaunchdSession w current =
    (case sp_sudo w of
       Some e \<Rightarrow> (Inl (SudoFailed e), [])
     | None \<Rightarrow>
        and_then ((case sp_bootout w of Some e \<Rightarrow> Inl (BootoutFailed e) | None \<Rightarrow> Inr ()),
            [Launchctl [''bootout'', ''system/'' @ cu_LaunchLabel current]]) (\<lambda>_.
        and_then (wait_gone (poll_session (launchdStopPollRecord current)) (sp_polls w)) (\<lambda>gone.
        if gone then (Inr (), []) else (Inl (LaunchdTimeout (cu_LaunchLabel current)), []))))"

definition stopProcessSession :: "stop_world \<Rightarrow> bool \<Rightarrow> CurrentSession \<Rightarrow> (CurrentSession \<times> string) traced" where
  "stopProcessSession w force current =
    and_then (signalGroup (cu_PID current) SIGTERM (sp_term w)) (\<lambda>_.
    and_then (wait_gone (poll_session current) (sp_polls w)) (\<lambda>gone.
    if gone then finish_stop w force current ''stopped''
    else if \<not> force then (Inl (StopTimeout (cu_PID current)), [])
    else and_then (signalGroup (cu_PID current) SIGKILL (sp_kill w)) (\<lambda>_.
      and_then (wait_gone (poll_session current) (map (sp_kills w) [0..<10])) (\<lambda>gone.
      if gone then finish_stop w True current ''killed'' else (Inl (KillTimeout (cu_PID current)), [])))))"

definition Stop :: "stop_world \<Rightarrow> session_files \<Rightarrow> LaunchConfig \<Rightarrow> bool \<Rightarrow> (CurrentSession \<times> string) traced" where
  "Stop w files launch force =
    (case ResolveCurrent (sp_launchdPID w) files launch of
       Inl e \<Rightarrow> (Inl e, [])
     | Inr current0 \<Rightarrow>
        and_then (SessionAlive current0 (sp_first w)) (\<lambda>(alive, pid).
        let current = (if pid > 0 then current0\<lparr>cu_PID := pid\<rparr> else current0) in
        if \<not> alive then finish_stop w force current ''stale''
        else if cu_LaunchMode current = LaunchModeHelper then
          and_then (stopHelperSession w force current) (\<lambda>_. finish_stop w force current ''stopped'')
        else if cu_LaunchMode current = LaunchModeLaunchd then
          and_then (stopLaunchdSession w current) (\<lambda>_. finish_stop w force current ''stopped'')
        else stopProcessSession w force current))"

end
