(* ===== verification/Session_Sidecars.thy ===== *)
theory Session_Sidecars
  imports Session_Stop Go_Url Vless_Model
begin

text \<open>
  Starting the sidecars of a session and removing the ones a crashed session left behind:
  \<open>vless/session/sidecar_cleanup.go\<close> and the sidecar part of \<open>vless/session/session.go\<close>. The process list is the
  text \<open>ps\<close> prints.
\<close>

section \<open>Process lists\<close>

record sidecarProcess =
  sy_PID :: int
  sy_PPID :: int
  sy_PGID :: int
  sy_Command :: string

record orphanSidecarTarget =
  ot_Name :: string
  ot_ExecutableBase :: string
  ot_ConfigPath :: string

text \<open>\<open>(\d+)\s+\<close> at the front of the text.\<close>

definition number_column :: "string \<Rightarrow> (string \<times> string) option" where
  "number_column s =
    (let digits = takeWhile is_digit s; rest = drop (length digits) s in
     if digits = [] \<or> rest = [] \<or> \<not> re_space (hd rest) then None else Some (digits, dropWhile re_space rest))"

text \<open>\<open>^\s*(\d+)\s+(\d+)\s+(\d+)\s+(.+?)\s*$\<close> and the conversions that follow it.\<close>

definition parse_process :: "string \<Rightarrow> sidecarProcess option" where
  "parse_process line =
    (case number_column (dropWhile re_space line) of
       None \<Rightarrow> None
     | Some (a, r1) \<Rightarrow>
        (case number_column r1 of
           None \<Rightarrow> None
         | Some (b, r2) \<Rightarrow>
            (case number_column r2 of
               None \<Rightarrow> None
             | Some (c, r3) \<Rightarrow>
                (case (atoi_digits a, atoi_digits b, atoi_digits c) of
                   (Some pid, Some ppid, Some pgid) \<Rightarrow>
                     if TrimSpace r3 = [] then None
                     else Some \<lparr>sy_PID = pid, sy_PPID = ppid, sy_PGID = pgid, sy_Command = TrimSpace r3\<rparr>
                 | _ \<Rightarrow> None))))"

definition parseSidecarProcesses :: "string \<Rightarrow> sidecarProcess list" where
  "parseSidecarProcesses out = List.map_filter parse_process (Split newline out)"

text \<open>\<open>strings.Trim\<close> with a set of ASCII characters.\<close>

definition trim_chars :: "string \<Rightarrow> string \<Rightarrow> string" where
  "trim_chars cs s = rev (dropWhile (\<lambda>c. c \<in> set cs) (rev (dropWhile (\<lambda>c. c \<in> set cs) s)))"

definition processCommandBase :: "string \<Rightarrow> string" where
  "processCommandBase command =
    (case Fields command of
       [] \<Rightarrow> []
     | f # _ \<Rightarrow>
        (let base = trim_chars ''()'' (Base (trim_chars [CHR 0x22, CHR 0x27] f)) in
         if base = ''.'' \<or> base = ''/'' then [] else base))"

definition orphanSidecarMatches :: "orphanSidecarTarget \<Rightarrow> sidecarProcess \<Rightarrow> bool" where
  "orphanSidecarMatches target process \<longleftrightarrow>
    ot_ConfigPath target \<noteq> [] \<and> Contains (sy_Command process) (ot_ConfigPath target) \<and>
    (let processBase = processCommandBase (sy_Command process) in
     processBase \<noteq> [] \<and>
     ((ot_ExecutableBase target \<noteq> [] \<and> processBase = ot_ExecutableBase target) \<or> processBase = ot_Name target))"

fun sidecarConfigPath :: "string list \<Rightarrow> string" where
  "sidecarConfigPath [] = []"
| "sidecarConfigPath (raw # args) =
    (let arg = TrimSpace raw in
     if arg = ''-c'' \<or> arg = ''-config'' \<or> arg = ''--config'' then
       (case args of [] \<Rightarrow> [] | v # _ \<Rightarrow> TrimSpace v)
     else if HasPrefix arg ''-c='' then TrimSpace (TrimPrefix arg ''-c='')
     else if HasPrefix arg ''-config='' then TrimSpace (TrimPrefix arg ''-config='')
     else if HasPrefix arg ''--config='' then TrimSpace (TrimPrefix arg ''--config='')
     else sidecarConfigPath args)"

definition sidecar_name :: "SidecarOptions \<Rightarrow> string" where
  "sidecar_name option = (let name = TrimSpace (so_Name option) in if name = [] then ''sidecar'' else name)"

definition sidecar_target :: "SidecarOptions \<Rightarrow> orphanSidecarTarget option" where
  "sidecar_target option =
    (let configPath = sidecarConfigPath (so_Args option); base = Base (TrimSpace (so_Executable option)) in
     if configPath = [] then None
     else Some \<lparr>ot_Name = sidecar_name option, ot_ExecutableBase = (if base = ''.'' \<or> base = ''/'' then [] else base),
       ot_ConfigPath = configPath\<rparr>)"

definition orphanSidecarTargets :: "SidecarOptions list \<Rightarrow> orphanSidecarTarget list" where
  "orphanSidecarTargets options = List.map_filter sidecar_target options"

section \<open>Orphans\<close>

text \<open>
  A loop that looks first and checks the clock afterwards always looks once: its observations are a first
  one and the ones that follow before the deadline.
\<close>

record orphan_world =
  ow_group :: "unix_signal \<Rightarrow> kill_result"
  ow_single :: "unix_signal \<Rightarrow> kill_result"
  ow_afterTerm :: "observation \<times> observation list"
  ow_afterKill :: "observation \<times> observation list"

definition signalPID :: "int \<Rightarrow> unix_signal \<Rightarrow> kill_result \<Rightarrow> unit traced" where
  "signalPID pid sig result =
    ((case result of
        KillOk \<Rightarrow> Inr ()
      | KillESRCH \<Rightarrow> Inr ()
      | KillEPERM \<Rightarrow> Inl (KillFailed ''operation not permitted'')
      | KillError e \<Rightarrow> Inl (KillFailed e)), [SignalledProcess pid sig result])"

definition signalOrphanSidecar :: "orphan_world \<Rightarrow> sidecarProcess \<Rightarrow> unix_signal \<Rightarrow> unit traced" where
  "signalOrphanSidecar w process sig =
    (if sy_PGID process = sy_PID process then
       (if ow_group w sig = KillEPERM then
          (case signalPID (sy_PID process) sig (ow_single w sig) of
             (r, es) \<Rightarrow> (r, Signalled (sy_PID process) sig KillEPERM # es))
        else signalGroup (sy_PID process) sig (ow_group w sig))
     else signalPID (sy_PID process) sig (ow_single w sig))"

definition look_alive :: "int \<Rightarrow> observation \<Rightarrow> bool traced" where
  "look_alive pid ob = (ProcessAlive pid ob, [Saw pid ob])"

definition waitForSidecarProcessExit :: "int \<Rightarrow> observation \<times> observation list \<Rightarrow> bool traced" where
  "waitForSidecarProcessExit pid looks = wait_gone (look_alive pid) (fst looks # snd looks)"

definition terminateOrphanSidecar :: "orphan_world \<Rightarrow> string \<Rightarrow> sidecarProcess \<Rightarrow> unit traced" where
  "terminateOrphanSidecar w name process =
    and_then (signalOrphanSidecar w process SIGTERM) (\<lambda>_.
    and_then (waitForSidecarProcessExit (sy_PID process) (ow_afterTerm w)) (\<lambda>stopped.
    if stopped then (Inr (), [])
    else and_then (signalOrphanSidecar w process SIGKILL) (\<lambda>_.
      and_then (waitForSidecarProcessExit (sy_PID process) (ow_afterKill w)) (\<lambda>stopped.
      if stopped then (Inr (), []) else (Inl (OrphanStillAlive name (sy_PID process)), [])))))"

text \<open>The two nested loops; \<open>seen\<close> are the processes already stopped.\<close>

fun cleanup_processes ::
    "(sidecarProcess \<Rightarrow> orphan_world) \<Rightarrow> int \<Rightarrow> orphanSidecarTarget \<Rightarrow> int list \<Rightarrow> sidecarProcess list \<Rightarrow> int list traced" where
  "cleanup_processes world self target seen [] = (Inr seen, [])"
| "cleanup_processes world self target seen (p # ps) =
    (if sy_PID p = self \<or> sy_PID p \<in> set seen \<or> \<not> orphanSidecarMatches target p
     then cleanup_processes world self target seen ps
     else and_then (terminateOrphanSidecar (world p) (ot_Name target) p) (\<lambda>_.
       cleanup_processes world self target (sy_PID p # seen) ps))"

fun cleanup_targets ::
    "(sidecarProcess \<Rightarrow> orphan_world) \<Rightarrow> int \<Rightarrow> sidecarProcess list \<Rightarrow> int list \<Rightarrow> orphanSidecarTarget list \<Rightarrow> unit traced" where
  "cleanup_targets world self ps seen [] = (Inr (), [])"
| "cleanup_targets world self ps seen (t # ts) =
    and_then (cleanup_processes world self t seen ps) (\<lambda>seen'. cleanup_targets world self ps seen' ts)"

definition cleanupOrphanSidecars ::
    "(sidecarProcess \<Rightarrow> orphan_world) \<Rightarrow> int \<Rightarrow> string + string \<Rightarrow> SidecarOptions list \<Rightarrow> unit traced" where
  "cleanupOrphanSidecars world self ps options =
    (let targets = orphanSidecarTargets options in
     if targets = [] then (Inr (), [])
     else case ps of
       Inl e \<Rightarrow> (Inl (ProcessListFailed e), [])
     | Inr out \<Rightarrow> cleanup_targets world self (parseSidecarProcesses out) [] targets)"

definition findRunningSidecar :: "int \<Rightarrow> string + string \<Rightarrow> SidecarOptions \<Rightarrow> session_error + sidecarProcess option" where
  "findRunningSidecar self ps option =
    (case orphanSidecarTargets [option] of
       [] \<Rightarrow> Inr None
     | target # _ \<Rightarrow>
        (case ps of
           Inl e \<Rightarrow> Inl (ProcessListFailed e)
         | Inr out \<Rightarrow> Inr (find (\<lambda>p. sy_PID p \<noteq> self \<and> orphanSidecarMatches target p) (parseSidecarProcesses out))))"

section \<open>Starting a sidecar\<close>

text \<open>The colour escapes \<open>\x1b\[[0-9;]*m\<close> are removed.\<close>

function strip_ansi :: "string \<Rightarrow> string" where
  "strip_ansi [] = []"
| "strip_ansi (c # s) =
    (let body = dropWhile (\<lambda>c. is_digit c \<or> c = CHR '';'') (drop 1 s) in
     if c = CHR 0x1B \<and> s \<noteq> [] \<and> hd s = CHR ''['' \<and> body \<noteq> [] \<and> hd body = CHR ''m''
     then strip_ansi (tl body) else c # strip_ansi s)"
  by pat_completeness auto
termination
proof (relation "measure length")
  fix c s and body :: string
  assume "body = dropWhile (\<lambda>c. is_digit c \<or> c = CHR '';'') (drop 1 s)"
  then have "length body \<le> length s"
    using length_dropWhile_le [of "\<lambda>c. is_digit c \<or> c = CHR '';''" "drop 1 s"] by simp
  then show "(tl body, c # s) \<in> measure length"
    by simp
qed auto

definition header_line :: "string \<Rightarrow> bool" where
  "header_line line \<longleftrightarrow> list_ex (HasPrefix line)
    [''==='', ''session_id:'', ''started_at:'', ''profile:'', ''engine:'', ''sidecar:'', ''config_path:'', ''log_max_lines:'',
     ''mode:'', ''launch_mode:'', ''launch_label:'', ''launch_plist_path:'', ''bypasses:'', ''command:'', ''---'']"

text \<open>An unreadable log has no lines.\<close>

definition LastRelevantLogLine :: "string option \<Rightarrow> string" where
  "LastRelevantLogLine log =
    (case log of
       None \<Rightarrow> []
     | Some written \<Rightarrow>
        (case find (\<lambda>l. l \<noteq> [] \<and> \<not> header_line l) (map (TrimSpace \<circ> strip_ansi) (rev (Split newline written))) of
           None \<Rightarrow> []
         | Some line \<Rightarrow> line))"

definition safe_char :: "char \<Rightarrow> bool" where
  "safe_char c \<longleftrightarrow> is_lower c \<or> is_digit c \<or> c = CHR ''.'' \<or> c = CHR ''_'' \<or> c = CHR ''-''"

text \<open>\<open>[^a-z0-9._-]+\<close> is replaced by a dash.\<close>

function dash_runs :: "string \<Rightarrow> string" where
  "dash_runs [] = []"
| "dash_runs (c # s) =
    (if safe_char c then c # dash_runs s else CHR ''-'' # dash_runs (dropWhile (\<lambda>c. \<not> safe_char c) s))"
  by pat_completeness auto
termination
  by (relation "measure length") (auto simp: less_Suc_eq_le length_dropWhile_le)

definition safeSidecarName :: "string \<Rightarrow> string" where
  "safeSidecarName value =
    (let v = trim_chars ''-.'' (dash_runs (ToLower (TrimSpace value))) in if v = [] then ''sidecar'' else v)"

record sidecar_start =
  sx_openLog :: "string option"
  sx_start :: "string + int"
  sx_identity :: "(identity_error + string \<times> go_time) \<times> (identity_error + string \<times> go_time)"
  sx_release :: "string option"
  sx_looks :: "observation \<times> observation list"
  sx_ps :: "string + string"
  sx_identity2 :: "(identity_error + string \<times> go_time) \<times> (identity_error + string \<times> go_time)"
  sx_log :: "string option"

text \<open>
  \<open>waitForSidecarStart\<close>: a sidecar that has exited may have left a child that carries on; otherwise it must
  stay alive until the deadline.
\<close>

fun sidecar_looks :: "sidecar_start \<Rightarrow> int \<Rightarrow> SidecarOptions \<Rightarrow> SidecarSession \<Rightarrow> observation list \<Rightarrow> SidecarSession traced" where
  "sidecar_looks w self option sidecar [] = (Inr sidecar, [])"
| "sidecar_looks w self option sidecar (ob # obs) =
    and_then (look_alive (sc_PID sidecar) ob) (\<lambda>alive.
    if alive then sidecar_looks w self option sidecar obs
    else case findRunningSidecar self (sx_ps w) option of
      Inl e \<Rightarrow> (Inl e, [])
    | Inr (Some p) \<Rightarrow> (recordSidecarIdentity (sx_identity2 w) (sidecar\<lparr>sc_PID := sy_PID p\<rparr>), [])
    | Inr None \<Rightarrow> (Inl (SidecarExited (LastRelevantLogLine (sx_log w))), []))"

definition startSidecar ::
    "sidecar_start \<Rightarrow> int \<Rightarrow> (string \<Rightarrow> string + string) \<Rightarrow> string \<Rightarrow> string \<Rightarrow> SidecarOptions \<Rightarrow> SidecarSession traced" where
  "startSidecar w self lookPath cacheDir sessionID option =
    (let name = sidecar_name option; executable = TrimSpace (so_Executable option) in
     if executable = [] then (Inl (SidecarExecutableRequired name), [])
     else case lookPath executable of
       Inl e \<Rightarrow> (Inl (ExecutableNotFound e), [])
     | Inr resolvedExecutable \<Rightarrow>
        (let logPath = filepath_Join [filepath_Join [cacheDir, ''sessions''], safeSidecarName name @ ''-session-'' @ sessionID @ ''.log''];
             command = resolvedExecutable # so_Args option in
         case sx_openLog w of
           Some e \<Rightarrow> (Inl (SystemFailed e), [])
         | None \<Rightarrow>
            (case sx_start w of
               Inl e \<Rightarrow> (Inl (SystemFailed e), [])
             | Inr pid \<Rightarrow>
                (case recordSidecarIdentity (sx_identity w)
                        \<lparr>sc_ProcessComm = [], sc_ProcessStart = zero_time, sc_Name = name, sc_PID = pid, sc_Command = command,
                         sc_LogPath = logPath\<rparr> of
                   Inl e \<Rightarrow> (Inl e, [StartedSidecar pid, ReapedSidecar pid])
                 | Inr sidecar \<Rightarrow>
                    (case sx_release w of
                       Some e \<Rightarrow> (Inl (ReleaseFailed e), [StartedSidecar pid])
                     | None \<Rightarrow>
                        and_then (Inr (), [StartedSidecar pid]) (\<lambda>_.
                          sidecar_looks w self option sidecar (fst (sx_looks w) # snd (sx_looks w))))))))"

text \<open>\<open>startSidecars\<close>: when one fails, the ones before it are stopped by force.\<close>

fun start_sidecars ::
    "(SidecarOptions \<Rightarrow> sidecar_start) \<Rightarrow> (SidecarSession \<Rightarrow> side_world) \<Rightarrow> int \<Rightarrow> (string \<Rightarrow> string + string) \<Rightarrow> string \<Rightarrow> string \<Rightarrow>
     SidecarSession list \<Rightarrow> SidecarOptions list \<Rightarrow> SidecarSession list traced" where
  "start_sidecars world sides self lookPath cacheDir sessionID started [] = (Inr started, [])"
| "start_sidecars world sides self lookPath cacheDir sessionID started (opt # opts) =
    (case startSidecar (world opt) self lookPath cacheDir sessionID opt of
       (Inl e, es) \<Rightarrow> (Inl e, es @ snd (stopSidecars sides True started))
     | (Inr sidecar, es) \<Rightarrow>
        (case start_sidecars world sides self lookPath cacheDir sessionID (started @ [sidecar]) opts of
           (r, es') \<Rightarrow> (r, es @ es')))"

definition startSidecars ::
    "(SidecarOptions \<Rightarrow> sidecar_start) \<Rightarrow> (SidecarSession \<Rightarrow> side_world) \<Rightarrow> int \<Rightarrow> (string \<Rightarrow> string + string) \<Rightarrow> string \<Rightarrow> string \<Rightarrow>
     SidecarOptions list \<Rightarrow> SidecarSession list traced" where
  "startSidecars world sides self lookPath cacheDir sessionID options =
    start_sidecars world sides self lookPath cacheDir sessionID [] options"

end
