(* ===== verification/Session_Start.thy ===== *)
theory Session_Start
  imports Session_Sidecars
begin

text \<open>
  Starting a session, \<open>Start\<close> in \<open>vless/session/session.go\<close>: the launch mode, the guard against a nested
  tunnel, orphans and sidecars, the tunnel process, its identity, the wait for a stable start, the DNS
  hand-over and the wait for name resolution. Lines written to logs are not modelled. The check that a log
  opened as a file is a file cannot fail and is left out.
\<close>

section \<open>Launch mode\<close>

definition resolveLaunchMode :: "bool \<Rightarrow> int \<Rightarrow> bool \<Rightarrow> string \<Rightarrow> LaunchConfig \<Rightarrow> session_error + string" where
  "resolveLaunchMode available euid darwin renderMode launch =
    (let mode0 = TrimSpace (la_Mode launch); mode = (if mode0 = [] then LaunchModeAuto else mode0) in
     if renderMode \<noteq> RenderModeTun then Inl (UnsupportedRenderMode renderMode)
     else if mode = LaunchModeAuto then
       Inr (if available then LaunchModeHelper else if euid = 0 then LaunchModeDirect else LaunchModeSudo)
     else if mode = LaunchModeDirect \<or> mode = LaunchModeSudo \<or> mode = LaunchModeHelper then Inr mode
     else if mode = LaunchModeLaunchd then (if \<not> darwin then Inl LaunchdOnlyOnDarwin else Inr LaunchModeHelper)
     else Inl (UnsupportedLaunchMode mode))"

definition logicalCommand :: "int \<Rightarrow> string \<Rightarrow> string \<Rightarrow> string \<Rightarrow> string list" where
  "logicalCommand euid executable configPath launchMode =
    (if launchMode = LaunchModeSudo \<and> euid \<noteq> 0 then [''sudo'', executable, ''run'', ''-c'', configPath]
     else [executable, ''run'', ''-c'', configPath])"

definition processCommand :: "int \<Rightarrow> string option \<Rightarrow> string \<Rightarrow> string \<Rightarrow> string \<Rightarrow> session_error + string \<times> string list" where
  "processCommand euid sudo executable configPath launchMode =
    (if launchMode = LaunchModeDirect then Inr (executable, [''run'', ''-c'', configPath])
     else if launchMode = LaunchModeSudo then
       (if euid = 0 then Inr (executable, [''run'', ''-c'', configPath])
        else case sudo of
          Some e \<Rightarrow> Inl (SudoFailed e)
        | None \<Rightarrow> Inr (''sudo'', [executable, ''run'', ''-c'', configPath]))
     else Inl (UnsupportedLaunchMode launchMode))"

section \<open>The guard against nested tunnels\<close>

definition isVPNInterfaceName :: "string \<Rightarrow> bool" where
  "isVPNInterfaceName value0 \<longleftrightarrow>
    (let value = ToLower (TrimSpace value0) in
     HasPrefix value ''utun'' \<or> HasPrefix value ''tun'' \<or> HasPrefix value ''ppp'' \<or> HasPrefix value ''ipsec'')"

text \<open>What is between the first and the last quotation mark of a line.\<close>

definition quoted :: "string \<Rightarrow> string option" where
  "quoted line =
    (let start = length (takeWhile (\<lambda>c. c \<noteq> CHR 0x22) line);
         behind = length (takeWhile (\<lambda>c. c \<noteq> CHR 0x22) (rev line)); stop = length line - behind - 1 in
     if CHR 0x22 \<notin> set line \<or> stop \<le> start then None else Some (take (stop - start - 1) (drop (start + 1) line)))"

definition connected_name :: "string \<Rightarrow> string" where
  "connected_name raw =
    (let line = TrimSpace raw in
     if \<not> Contains line ''(Connected)'' then []
     else case quoted line of None \<Rightarrow> [] | Some name \<Rightarrow> TrimSpace name)"

definition connectedVPNServiceNames :: "string \<Rightarrow> string list" where
  "connectedVPNServiceNames out = dedup_loop connected_name [] (Split newline out)"

definition guardNestedTunnelStartup ::
    "bool \<Rightarrow> (string \<Rightarrow> string + string) \<Rightarrow> string + string \<Rightarrow> Profile \<Rightarrow> string \<Rightarrow> session_error + unit" where
  "guardNestedTunnelStartup darwin route ncList profile mode =
    (let upstreamHost = TrimSpace (md_Host profile) in
     if \<not> darwin \<or> mode \<noteq> RenderModeTun \<or> upstreamHost = [] then Inr ()
     else case (case route upstreamHost of Inl e \<Rightarrow> Inl (RouteLookup e) | Inr out \<Rightarrow> parseDefaultInterface out) of
       Inl e \<Rightarrow> Inl (UpstreamRoute e)
     | Inr face \<Rightarrow>
        if \<not> isVPNInterfaceName face then Inr ()
        else Inl (NestedTunnel face (case ncList of Inl _ \<Rightarrow> [] | Inr out \<Rightarrow> connectedVPNServiceNames out)))"

section \<open>Waiting\<close>

text \<open>\<open>waitForStableStart\<close>: the process must be alive at every look until the deadline.\<close>

fun stable_looks :: "CurrentSession \<Rightarrow> observation \<Rightarrow> observation list \<Rightarrow> int traced" where
  "stable_looks current ob obs =
    (case session_alive current ob of
       Inl e \<Rightarrow> (Inl (LivenessUnknown e), [Saw (cu_PID current) ob])
     | Inr (alive, pid) \<Rightarrow>
        if \<not> alive then (Inl ExitedDuringStartup, [Saw (cu_PID current) ob])
        else (case obs of
           [] \<Rightarrow> (Inr (if pid > 0 then pid else cu_PID current), [Saw (cu_PID current) ob])
         | ob' # obs' \<Rightarrow> (case stable_looks current ob' obs' of (r, es) \<Rightarrow> (r, Saw (cu_PID current) ob # es))))"

declare stable_looks.simps [simp del]

definition startupReadinessHosts :: "string list" where
  "startupReadinessHosts = [''github.com'', ''yandex.ru'']"

text \<open>
  One round of the readiness loop: the process, what \<open>scutil --dns\<close> prints and what resolving a host returns.
\<close>

record ready_look =
  rl_process :: observation
  rl_scutil :: "string + string"
  rl_resolve :: "string \<Rightarrow> string + string list"

text \<open>
  \<open>strings.Split(output, "\n\n")\<close>: a separator is two line breaks, taken from the left, so of three line breaks
  in a row the last one starts the next block.
\<close>

function blocks :: "string \<Rightarrow> string list" where
  "blocks s =
    (case Index s [newline, newline] of
       None \<Rightarrow> [s]
     | Some i \<Rightarrow> take i s # (if s = [] then [] else blocks (drop (i + 2) s)))"
  by pat_completeness auto
termination
  by (relation "measure length") (auto simp: neq_Nil_conv)

declare blocks.simps [simp del]

definition scutilDNSHandoffVisible :: "string \<Rightarrow> CurrentSession \<Rightarrow> bool" where
  "scutilDNSHandoffVisible output current \<longleftrightarrow>
    (let face = TrimSpace (cu_DNSHandoffInterface current) in
     face \<noteq> [] \<and> cu_DNSHandoffServers current \<noteq> [] \<and>
     list_ex (\<lambda>block. Contains block (''('' @ face @ '')'') \<and>
       list_ex (\<lambda>server. Contains block (''nameserver[0] : '' @ server) \<or> Contains block (''nameserver[1] : '' @ server))
         (cu_DNSHandoffServers current)) (blocks output))"

definition startupDNSReady :: "CurrentSession \<Rightarrow> string list \<Rightarrow> ready_look \<Rightarrow> bool" where
  "startupDNSReady current hosts look \<longleftrightarrow>
    (cu_DNSHandoffMode current = ''scutil'' \<longrightarrow>
      (case rl_scutil look of Inl _ \<Rightarrow> False | Inr raw \<Rightarrow> scutilDNSHandoffVisible raw current)) \<and>
    list_all (\<lambda>host. case rl_resolve look host of Inl _ \<Rightarrow> False | Inr ips \<Rightarrow> ips \<noteq> []) hosts"

definition shouldWaitStartupDNSReadiness :: "bool \<Rightarrow> CurrentSession \<Rightarrow> StartOptions \<Rightarrow> bool" where
  "shouldWaitStartupDNSReadiness darwin current options \<longleftrightarrow>
    darwin \<and> cu_Mode current = RenderModeTun \<and> st_OverlayDNSActive options \<and> startupReadinessHosts \<noteq> []"

text \<open>Two rounds in a row must succeed; the clock is checked after a round that does not end the wait.\<close>

fun readiness_loop :: "CurrentSession \<Rightarrow> nat \<Rightarrow> ready_look list \<Rightarrow> unit traced" where
  "readiness_loop current successes [] = (Inl ReadinessTimeout, [])"
| "readiness_loop current successes (look # looks) =
    (case session_alive current (rl_process look) of
       Inl e \<Rightarrow> (Inl (ReadinessCheck e), [Saw (cu_PID current) (rl_process look)])
     | Inr (alive, pid) \<Rightarrow>
        (let current1 = (if pid > 0 then current\<lparr>cu_PID := pid\<rparr> else current);
             successes1 = (if startupDNSReady current1 startupReadinessHosts look then successes + 1 else 0) in
         if \<not> alive then (Inl ReadinessExited, [Saw (cu_PID current) (rl_process look)])
         else if successes1 \<ge> 2 then (Inr (), [Saw (cu_PID current) (rl_process look)])
         else (case readiness_loop current1 successes1 looks of (r, es) \<Rightarrow> (r, Saw (cu_PID current) (rl_process look) # es))))"

section \<open>Start\<close>

record start_world =
  sa_available :: bool
  sa_euid :: int
  sa_darwin :: bool
  sa_self :: int
  sa_lookPath :: "string \<Rightarrow> string + string"
  sa_now :: go_time
  sa_sessionID :: string
  sa_mkdir :: "string \<Rightarrow> string option"
  sa_openLog :: "string option"
  sa_route :: "string \<Rightarrow> string + string"
  sa_ncList :: "string + string"
  sa_ps :: "string + string"
  sa_psAfter :: "string + string"
  sa_orphans :: "sidecarProcess \<Rightarrow> orphan_world"
  sa_sidecars :: "SidecarOptions \<Rightarrow> sidecar_start"
  sa_readConfig :: "string \<Rightarrow> string + string"
  sa_coreStart :: "string \<Rightarrow> string + int \<times> string"
  sa_sudo :: "string option"
  sa_process :: "string \<Rightarrow> string list \<Rightarrow> string + int"
  sa_identity :: "(identity_error + string \<times> go_time) \<times> (identity_error + string \<times> go_time)"
  sa_identity2 :: "(identity_error + string \<times> go_time) \<times> (identity_error + string \<times> go_time)"
  sa_saveMetadata :: "string option"
  sa_looks :: "observation \<times> observation list"
  sa_saveUnknown :: "string option"
  sa_dns :: dns_env
  sa_ready :: "ready_look \<times> ready_look list"
  sa_saveMetadata2 :: "string option"
  sa_saveCurrent :: "string option"
  sa_release :: "string option"
  sa_stop :: stop_world

definition start_record ::
    "start_world \<Rightarrow> string \<Rightarrow> string \<Rightarrow> Profile \<Rightarrow> StartOptions \<Rightarrow> string \<Rightarrow> string \<Rightarrow> CurrentSession" where
  "start_record w cacheDir configPath profile options launchMode executable =
    (let sessions = filepath_Join [cacheDir, ''sessions''] in
     zeroSession\<lparr>cu_ID := sa_sessionID w, cu_StartedAt := sa_now w,
      cu_Engine := firstNonEmpty [st_Engine options, EngineSingbox], cu_InterfaceName := TrimSpace (st_InterfaceName options),
      cu_ConfigPath := configPath, cu_LogPath := filepath_Join [sessions, ''sing-box-session-'' @ sa_sessionID w @ ''.log''],
      cu_MetadataPath := filepath_Join [sessions, ''session-'' @ sa_sessionID w @ ''.json''],
      cu_ProfileID := md_ID profile, cu_ProfileName := DisplayName profile, cu_ProfileEndpoint := Endpoint profile,
      cu_ResolvedServer := st_ResolvedServer options, cu_ResolvedAlias := st_ResolvedAlias options,
      cu_ResolvedProfileName := st_ResolvedName options, cu_ResolvedProfileID := st_ResolvedID options,
      cu_ResolutionReason := st_ResolutionReason options, cu_SnapshotFetchedAt := st_SnapshotFetchedAt options,
      cu_Mode := st_Mode options, cu_BypassSuffixes := st_BypassSuffixes options,
      cu_Command := logicalCommand (sa_euid w) executable configPath launchMode, cu_LaunchMode := launchMode,
      cu_LaunchLabel := (if launchMode = LaunchModeLaunchd then la_Label (st_PrivilegedLaunch options) else []),
      cu_LaunchPlistPath := (if launchMode = LaunchModeLaunchd then la_PlistPath (st_PrivilegedLaunch options) else []),
      cu_LogMaxLines := (if launchMode = LaunchModeHelper then st_LogMaxLines options else 0)\<rparr>)"

definition killHelperSession :: "stop_world \<Rightarrow> CurrentSession \<Rightarrow> unit traced" where
  "killHelperSession w current =
    (if cu_Handle current = [] then (Inl HelperWithoutHandle, []) else core_signal w (cu_Handle current) ''-KILL'')"

text \<open>\<open>stopStartedSession\<close>: every step is taken, whatever the others return.\<close>

definition stopStartedSession :: "stop_world \<Rightarrow> CurrentSession \<Rightarrow> unit traced" where
  "stopStartedSession w current =
    (case restore_dns w current of
       (restored, es1) \<Rightarrow>
        (case (if cu_LaunchMode current = LaunchModeHelper then killHelperSession w current
               else if cu_LaunchMode current = LaunchModeLaunchd then stopLaunchdSession w current
               else signalGroup (cu_PID current) SIGKILL (sp_kill w)) of
           (killed, es2) \<Rightarrow>
            (case stopSidecars (sp_sidecars w) True (cu_Sidecars current) of
               (sides, es3) \<Rightarrow>
                ((case killed of
                    Inl e \<Rightarrow> Inl e
                  | Inr _ \<Rightarrow> (case sides of Inl e \<Rightarrow> Inl e | Inr _ \<Rightarrow> restored)), es1 @ es2 @ es3))))"

text \<open>\<open>startWithVPNCore\<close> and \<open>startProcessSession\<close>.\<close>

definition startWithVPNCore :: "start_world \<Rightarrow> CurrentSession \<Rightarrow> CurrentSession traced" where
  "startWithVPNCore w s =
    (case sa_readConfig w (cu_ConfigPath s) of
       Inl e \<Rightarrow> (Inl (SystemFailed e), [])
     | Inr configJSON \<Rightarrow>
        (case sa_coreStart w configJSON of
           Inl e \<Rightarrow> (Inl (CoreStartFailed e), [])
         | Inr (pid, handle) \<Rightarrow> (Inr (s\<lparr>cu_PID := pid, cu_Handle := handle\<rparr>), [StartedCore pid handle])))"

definition startProcessSession :: "start_world \<Rightarrow> string \<Rightarrow> CurrentSession \<Rightarrow> CurrentSession traced" where
  "startProcessSession w executable s =
    (case processCommand (sa_euid w) (sa_sudo w) executable (cu_ConfigPath s) (cu_LaunchMode s) of
       Inl e \<Rightarrow> (Inl e, [])
     | Inr (execName, args) \<Rightarrow>
        (case sa_process w execName args of
           Inl e \<Rightarrow> (Inl (SystemFailed e), [])
         | Inr pid \<Rightarrow> (Inr (s\<lparr>cu_PID := pid\<rparr>), [StartedProcess pid])))"

text \<open>A failure is followed by what undoes the start; the errors of undoing are dropped.\<close>

definition on_error :: "('e + 'a) \<times> 'x list \<Rightarrow> 'x list \<Rightarrow> ('e + 'a) \<times> 'x list" where
  "on_error m undo = (case m of (Inl e, es) \<Rightarrow> (Inl e, es @ undo) | (Inr x, es) \<Rightarrow> (Inr x, es))"

definition save :: "string option \<Rightarrow> session_event \<Rightarrow> unit traced" where
  "save failure e = (case failure of Some err \<Rightarrow> (Inl (SystemFailed err), []) | None \<Rightarrow> (Inr (), [e]))"

definition stopped_events :: "start_world \<Rightarrow> CurrentSession \<Rightarrow> session_event list" where
  "stopped_events w s = snd (stopStartedSession (sa_stop w) s)"

definition cleared_events :: "start_world \<Rightarrow> CurrentSession \<Rightarrow> session_event list" where
  "cleared_events w s = stopped_events w s @ snd (ClearCurrent (sa_stop w))"

text \<open>From the running process to the saved session.\<close>

definition settle_dns :: "start_world \<Rightarrow> StartOptions \<Rightarrow> CurrentSession \<Rightarrow> CurrentSession traced" where
  "settle_dns w options s =
    (case applySystemDNSHandoff (sa_dns w) options s of
       (Inl e, cs) \<Rightarrow> (Inl (HandoffFailed e), map DnsCalled cs @ cleared_events w s)
     | (Inr s1, cs) \<Rightarrow>
        and_then (Inr (), map DnsCalled cs) (\<lambda>_.
        and_then (on_error (if shouldWaitStartupDNSReadiness (sa_darwin w) s1 options
            then readiness_loop s1 0 (fst (sa_ready w) # snd (sa_ready w)) else (Inr (), [])) (cleared_events w s1)) (\<lambda>_.
        and_then (on_error (save (sa_saveMetadata2 w) (SavedMetadata s1)) (stopped_events w s1)) (\<lambda>_.
        and_then (on_error (save (sa_saveCurrent w) (SavedCurrent s1)) (stopped_events w s1)) (\<lambda>_.
        (Inr s1, []))))))"

definition settle :: "start_world \<Rightarrow> StartOptions \<Rightarrow> CurrentSession \<Rightarrow> CurrentSession traced" where
  "settle w options s =
    (case recordProcessIdentity (sa_identity w) s of
       Inl e \<Rightarrow> (Inl e, stopped_events w s)
     | Inr s1 \<Rightarrow>
        and_then (on_error (save (sa_saveMetadata w) (SavedMetadata s1)) (stopped_events w s1)) (\<lambda>_.
        case stable_looks s1 (fst (sa_looks w)) (snd (sa_looks w)) of
          (Inl (LivenessUnknown e), es) \<Rightarrow> (Inl (LivenessUnknown e), es @ snd (save (sa_saveUnknown w) (SavedCurrent s1)))
        | (Inl e, es) \<Rightarrow> (Inl e, es @ cleared_events w s1)
        | (Inr pid, es) \<Rightarrow>
            and_then (Inr (), es) (\<lambda>_.
            if pid > 0 \<and> pid \<noteq> cu_PID s1 then
              (case recordProcessIdentity (sa_identity2 w) (s1\<lparr>cu_PID := pid\<rparr>) of
                 Inl e \<Rightarrow> (Inl e, cleared_events w (s1\<lparr>cu_PID := pid\<rparr>))
               | Inr s2 \<Rightarrow> settle_dns w options s2)
            else settle_dns w options s1)))"

text \<open>The tunnel process of one launch mode; the sidecars are stopped when it does not start.\<close>

definition launch :: "start_world \<Rightarrow> string \<Rightarrow> CurrentSession \<Rightarrow> CurrentSession traced" where
  "launch w executable s =
    on_error (if cu_LaunchMode s = LaunchModeHelper then startWithVPNCore w s else startProcessSession w executable s)
      (snd (stopSidecars (sp_sidecars (sa_stop w)) True (cu_Sidecars s)))"

definition Start ::
    "start_world \<Rightarrow> string \<Rightarrow> string \<Rightarrow> Profile \<Rightarrow> StartOptions \<Rightarrow> CurrentSession traced" where
  "Start w cacheDir configPath profile options =
    (case resolveLaunchMode (sa_available w) (sa_euid w) (sa_darwin w) (st_Mode options) (st_PrivilegedLaunch options) of
       Inl e \<Rightarrow> (Inl e, [])
     | Inr launchMode \<Rightarrow>
    (case (if launchMode = LaunchModeHelper then Inr ''sing-box'' else sa_lookPath w ''sing-box'') of
       Inl e \<Rightarrow> (Inl (ExecutableNotFound e), [])
     | Inr executable \<Rightarrow>
    (case (sa_mkdir w (filepath_Join [cacheDir, ''sessions'']), sa_mkdir w (filepath_Join [cacheDir, ''runtime'']), sa_openLog w) of
       (Some e, _, _) \<Rightarrow> (Inl (SystemFailed e), [])
     | (None, Some e, _) \<Rightarrow> (Inl (SystemFailed e), [])
     | (None, None, Some e) \<Rightarrow> (Inl (SystemFailed e), [])
     | (None, None, None) \<Rightarrow>
        (let s = start_record w cacheDir configPath profile options launchMode executable;
             sides = sp_sidecars (sa_stop w) in
         and_then (guardNestedTunnelStartup (sa_darwin w) (sa_route w) (sa_ncList w) profile (st_Mode options), []) (\<lambda>_.
         and_then (cleanupOrphanSidecars (sa_orphans w) (sa_self w) (sa_ps w) (st_Sidecars options)) (\<lambda>_.
         and_then (on_error (startSidecars (sa_sidecars w) sides (sa_self w) (sa_lookPath w) cacheDir (sa_sessionID w) (st_Sidecars options))
             (snd (cleanupOrphanSidecars (sa_orphans w) (sa_self w) (sa_psAfter w) (st_Sidecars options)))) (\<lambda>sidecars.
         and_then (launch w executable (s\<lparr>cu_Sidecars := sidecars\<rparr>)) (\<lambda>s1.
         and_then (settle w options s1) (\<lambda>s2.
         case (if launchMode = LaunchModeHelper then None else sa_release w) of
           Some e \<Rightarrow> (Inl (ReleaseFailed e), [])
         | None \<Rightarrow> (Inr s2, []))))))))))"

end
