(* ===== verification/Dns_Laws.thy ===== *)
theory Dns_Laws
  imports Dns_Handoff
begin

text \<open>
  What the hand-over of the system DNS promises: its scripts pass the validation of the privileged
  service, and taking it back undoes it. On the way: an IPv4 address that is printed parses back, words
  joined by blanks split into the same words, lines into the same lines.
\<close>

section \<open>Printing and parsing IPv4\<close>

lemma digit_char:
  "0 \<le> n \<Longrightarrow> n < 10 \<Longrightarrow> is_digit (char_of (48 + n :: int)) \<and> byte_of (char_of (48 + n :: int)) = 48 + n"
  by (simp add: is_digit_def)

lemma ipv4_digit:
  "0 \<le> n \<Longrightarrow> n < 10 \<Longrightarrow> \<not> (k = 1 \<and> v = 0) \<Longrightarrow> v * 10 + n \<le> 255 \<Longrightarrow>
    ipv4_loop v k fs dot (char_of (48 + n :: int) # s) = ipv4_loop (v * 10 + n) (k + 1) fs False s"
  by (auto simp: digit_char Let_def)

lemma itoa_byte:
  assumes "is_byte b"
  shows "itoa b = (if b < 10 then [char_of (48 + b)]
     else if b < 100 then [char_of (48 + b div 10), char_of (48 + b mod 10)]
     else [char_of (48 + b div 100), char_of (48 + b div 10 mod 10), char_of (48 + b mod 10)])"
proof -
  have b: "0 \<le> b" "b < 256"
    using assms by (auto simp: is_byte_def)
  have "b div 10 div 10 = b div 100"
    by (simp add: div_mult2_eq)
  with b show ?thesis
    by (auto simp: itoa_def int_digits.simps [of b] int_digits.simps [of "b div 10"] int_digits.simps [of "b div 100"])
qed

lemma ipv4_byte:
  assumes "is_byte b"
  shows "\<exists>k. ipv4_loop 0 0 fs True (itoa b @ s) = ipv4_loop b k fs False s"
proof -
  have b: "0 \<le> b" "b < 256"
    using assms by (auto simp: is_byte_def)
  consider "b < 10" | "10 \<le> b" "b < 100" | "100 \<le> b" by linarith
  then show ?thesis
  proof cases
    case 1
    then show ?thesis
      using b ipv4_digit [of b 0 0 fs True s] by (auto simp: itoa_byte [OF assms] simp del: ipv4_loop.simps(2))
  next
    case 2
    then have "b div 10 * 10 + b mod 10 = b" "0 < b div 10" "b div 10 < 10"
      by auto
    then show ?thesis
      using 2 b by (auto simp: itoa_byte [OF assms] ipv4_digit simp del: ipv4_loop.simps(2))
  next
    case 3
    have "b div 10 div 10 = b div 100"
      by (simp add: div_mult2_eq)
    then have tens: "b div 100 * 10 + b div 10 mod 10 = b div 10"
      using div_mult_mod_eq [of "b div 10" 10] by simp
    then have eq: "(b div 100 * 10 + b div 10 mod 10) * 10 + b mod 10 = b" "b div 100 * 10 + b div 10 mod 10 = b div 10"
      by simp_all
    moreover have "0 < b div 100" "b div 100 < 10" "0 \<le> b div 10 mod 10" "b div 10 mod 10 < 10" "b div 10 \<le> 25"
      using 3 b by auto
    ultimately show ?thesis
      using 3 b by (auto simp: itoa_byte [OF assms] ipv4_digit simp del: ipv4_loop.simps(2))
  qed
qed

lemma itoa_byte_chars: "is_byte b \<Longrightarrow> itoa b \<noteq> [] \<and> list_all is_digit (itoa b) \<and> length (itoa b) \<le> 3"
  by (auto simp: itoa_byte digit_char is_byte_def)

lemma parse_kind_digits: "list_all is_digit ds \<Longrightarrow> parse_kind (ds @ s) = parse_kind s"
  by (induction ds) (auto simp: is_digit_def)

lemma ParseAddr_string4:
  assumes "list_all is_byte bs" "length bs = 4"
  shows "ParseAddr (string4 bs) = Some (IPv4 bs)"
proof -
  obtain a b c d where bs: "bs = [a, b, c, d]"
    using assms(2) by (auto simp: length_Suc_conv numeral_eq_Suc)
  then have all: "is_byte a" "is_byte b" "is_byte c" "is_byte d"
    using assms(1) by auto
  have shape: "string4 bs = itoa a @ CHR ''.'' # itoa b @ CHR ''.'' # itoa c @ CHR ''.'' # itoa d"
    by (simp add: string4_def bs)
  have dot: "ipv4_loop v k fs False (CHR ''.'' # s) = ipv4_loop 0 0 (v # fs) True s"
    if "s \<noteq> []" "length fs < 3" for v k fs s
    using that by (simp add: is_digit_def)
  have ne: "itoa x @ s \<noteq> []" if "is_byte x" for x s
    using itoa_byte_chars [OF that] by simp
  obtain k1 where k1: "ipv4_loop 0 0 [] True (string4 bs) = ipv4_loop a k1 [] False (CHR ''.'' # itoa b @ CHR ''.'' # itoa c @ CHR ''.'' # itoa d)"
    using ipv4_byte [OF all(1), of "[]" "CHR ''.'' # itoa b @ CHR ''.'' # itoa c @ CHR ''.'' # itoa d"] shape by metis
  obtain k2 where k2: "ipv4_loop 0 0 [a] True (itoa b @ CHR ''.'' # itoa c @ CHR ''.'' # itoa d) =
      ipv4_loop b k2 [a] False (CHR ''.'' # itoa c @ CHR ''.'' # itoa d)"
    using ipv4_byte [OF all(2)] by metis
  obtain k3 where k3: "ipv4_loop 0 0 [b, a] True (itoa c @ CHR ''.'' # itoa d) = ipv4_loop c k3 [b, a] False (CHR ''.'' # itoa d)"
    using ipv4_byte [OF all(3)] by metis
  obtain k4 where k4: "ipv4_loop 0 0 [c, b, a] True (itoa d @ []) = ipv4_loop d k4 [c, b, a] False []"
    using ipv4_byte [OF all(4)] by metis
  have step: "ipv4_loop v k fs False (CHR ''.'' # itoa x @ s) = ipv4_loop 0 0 (v # fs) True (itoa x @ s)"
    if "is_byte x" "length fs < 3" for v k fs x s
    by (rule dot [OF ne [OF that(1)] that(2)])
  have "ipv4_loop 0 0 [] True (string4 bs) = ipv4_loop 0 0 [a] True (itoa b @ CHR ''.'' # itoa c @ CHR ''.'' # itoa d)"
    unfolding k1 by (rule step [OF all(2)]) simp
  also have "\<dots> = ipv4_loop 0 0 [b, a] True (itoa c @ CHR ''.'' # itoa d)"
    unfolding k2 by (rule step [OF all(3)]) simp
  also have "\<dots> = ipv4_loop 0 0 [c, b, a] True (itoa d @ [])"
    unfolding k3 using step [OF all(4), of "[b, a]" c k3 "[]"] by simp
  also have "\<dots> = Some bs"
    unfolding k4 by (simp add: bs)
  finally have "parseIPv4Fields (string4 bs) = Some bs"
    by (simp only: parseIPv4Fields_def)
  moreover have "parse_kind (string4 bs) = Some (CHR ''.'')"
    unfolding shape using itoa_byte_chars [OF all(1)] by (simp add: parse_kind_digits)
  ultimately show ?thesis
    by (simp add: ParseAddr_def)
qed

section \<open>Words and lines\<close>

definition word :: "string \<Rightarrow> bool" where
  "word w \<longleftrightarrow> w \<noteq> [] \<and> list_all visible w"

lemma strip_visible: "visible c \<Longrightarrow> strip_one space_encodings (c # s) = None"
proof -
  have "list_all (\<lambda>p. p \<noteq> [] \<longrightarrow> \<not> visible (hd p)) space_encodings"
    by code_simp
  then show "visible c \<Longrightarrow> strip_one space_encodings (c # s) = None"
    by (fastforce simp: strip_one_None HasPrefix_iff list_all_iff Cons_eq_append_conv)
qed

lemma strip_space: "strip_one space_encodings (CHR '' '' # s) = Some s"
  by (simp add: space_encodings_def HasPrefix_def)

lemma fields_word: "list_all visible w \<Longrightarrow> fields_from acc (w @ s) = fields_from (rev w @ acc) s"
  by (induction w arbitrary: acc) (simp_all add: fields_from.simps strip_visible)

lemma Fields_words: "list_all word ws \<Longrightarrow> Fields (Join '' '' ws) = ws"
proof -
  have "list_all word ws \<Longrightarrow> fields_from [] (Join '' '' ws) = ws"
  proof (induction ws rule: induct_list012)
    case (2 w)
    then show ?case using fields_word [of w "[]" "[]"] by (simp add: word_def)
  next
    case (3 w v ws)
    then show ?case
      using fields_word [of w "[]" "CHR '' '' # Join '' '' (v # ws)"]
      by (simp add: word_def fields_from.simps strip_space)
  qed simp
  then show "list_all word ws \<Longrightarrow> Fields (Join '' '' ws) = ws"
    by (simp add: Fields_def)
qed

lemma Split_line: "d \<notin> set l \<Longrightarrow> Split d (l @ d # s) = l # Split d s"
  by (induction l) auto

lemma Split_script: "list_all (\<lambda>l. newline \<notin> set l) ls \<Longrightarrow> Split newline (script ls) = ls @ [[]]"
  by (induction ls) (simp_all add: script_def Split_line)

definition plain_line :: "string \<Rightarrow> bool" where
  "plain_line l \<longleftrightarrow> length l < 65536 \<and> list_all (\<lambda>c. visible c \<or> c = CHR '' '') l"

lemma scan_script:
  assumes "list_all plain_line ls"
  shows "scan_lines (script ls) = map Some ls"
proof -
  have "newline \<notin> set l" "CHR 0x0D \<notin> set l" if "plain_line l" for l
    using that by (auto simp: plain_line_def list_all_iff visible_def)
  then have "newline \<notin> set l" "dropCR l = l" if "plain_line l" for l
    using that by (metis dropCR_def last_in_set)+
  with assms show ?thesis
    by (auto simp: scan_lines_def Split_script list_all_iff plain_line_def Let_def intro: map_cong)
qed

section \<open>Addresses of a hand-over\<close>

definition ip4_text :: "string \<Rightarrow> bool" where
  "ip4_text s \<longleftrightarrow> (\<exists>bs. list_all is_byte bs \<and> length bs = 4 \<and> s = string4 bs)"

lemma parse_ip4_wf: "parse_ip4 s = Some bs \<Longrightarrow> list_all is_byte bs \<and> length bs = 4"
  using ParseAddr_wf [of s] by (auto simp: parse_ip4_def split: option.splits netip_addr.splits if_splits)

lemma parse_ip4_text: "parse_ip4 s = Some bs \<Longrightarrow> ip4_text (string4 bs)"
  using parse_ip4_wf by (auto simp: ip4_text_def)

interpretation dns_servers: normalizer dns_server_text
  by unfold_locales (simp add: dns_server_text_def)

lemma servers_ip4: "s \<in> set (normalizeDNSServerList values) \<Longrightarrow> ip4_text s"
  unfolding normalizeDNSServerList_def dns_servers.dedup_set
  by (auto simp: dns_server_text_def Let_def intro: parse_ip4_text split: if_splits option.splits)

lemma tunnel_ip4: "firstTunnelIPv4Address as \<noteq> [] \<Longrightarrow> ip4_text (firstTunnelIPv4Address as)"
  by (induction as) (auto simp: Let_def intro: parse_ip4_text split: option.splits)

lemma ip4_parses: "ip4_text s \<Longrightarrow> \<exists>bs. ParseAddr s = Some (IPv4 bs)"
  by (auto simp: ip4_text_def ParseAddr_string4)

lemma allIPs_ip4: "list_all ip4_text ss \<Longrightarrow> ss \<noteq> [] \<Longrightarrow> allIPs ss ipv4Only"
  using ip4_parses by (fastforce simp: allIPs_def list_all_iff)

lemma ip4_shape: "ip4_text s \<Longrightarrow> word s \<and> length s \<le> 15"
proof -
  assume "ip4_text s"
  then obtain a b c d where "is_byte a" "is_byte b" "is_byte c" "is_byte d" and s: "s = string4 [a, b, c, d]"
    by (auto simp: ip4_text_def length_Suc_conv numeral_eq_Suc)
  then have len: "length (itoa a) \<le> 3" "length (itoa b) \<le> 3" "length (itoa c) \<le> 3" "length (itoa d) \<le> 3"
    using itoa_byte_chars by blast+
  have "list_all visible s"
    unfolding s string4_def by (intro Join_visible) (simp_all add: itoa_visible, simp add: visible_def)
  moreover have "s \<noteq> []" "length s \<le> 15"
    using len by (auto simp: s string4_def)
  ultimately show ?thesis
    by (simp add: word_def)
qed

section \<open>Service identifiers\<close>

lemma upper_hex: "0 \<le> n \<Longrightarrow> n < 16 \<Longrightarrow> hex_digit (ascii_upper (hex_char n)) \<noteq> None \<and> visible (ascii_upper (hex_char n)) \<and>
    ascii_upper (hex_char n) \<noteq> CHR ''-'' \<and> ascii_upper (hex_char n) \<noteq> CHR ''/'' \<and> token_char (ascii_upper (hex_char n))"
proof -
  assume "0 \<le> n" "n < 16"
  then have "n \<in> set [0, 1, 2, 3, 4, 5, 6, 7, 8, 9, 10, 11, 12, 13, 14, 15]"
    by simp presburger
  moreover have "\<forall>n \<in> set [0, 1, 2, 3, 4, 5, 6, 7, 8, 9, 10, 11, 12, 13, 14, 15].
      hex_digit (ascii_upper (hex_char n)) \<noteq> None \<and> visible (ascii_upper (hex_char n)) \<and>
      ascii_upper (hex_char n) \<noteq> CHR ''-'' \<and> ascii_upper (hex_char n) \<noteq> CHR ''/'' \<and> token_char (ascii_upper (hex_char n))"
    by code_simp
  ultimately show ?thesis by blast
qed

definition service_id :: "string \<Rightarrow> bool" where
  "service_id s \<longleftrightarrow> uuidPatternVPNCore s \<and> tokenPatternVPNCore s \<and> word s \<and> CHR ''/'' \<notin> set s"

lemma service_id_ok:
  assumes "length (sha1 (''vless-tun:dns-handoff:'' @ TrimSpace sid)) = 20"
  shows "service_id (dnsHandoffServiceID sha1 sid)"
proof -
  define token where "token = map ascii_upper (hex_encode (take 16 (sha1 (''vless-tun:dns-handoff:'' @ TrimSpace sid))))"
  define ws where "ws = [take 8 token, take 4 (drop 8 token), take 4 (drop 12 token), take 4 (drop 16 token), take 12 (drop 20 token)]"
  have len: "length token = 32"
    using assms by (simp add: token_def)
  have chars: "hex_digit c \<noteq> None" "visible c" "c \<noteq> CHR ''-''" "c \<noteq> CHR ''/''" "token_char c" if "c \<in> set token" for c
    using that hex_encode_chars upper_hex unfolding token_def by fastforce+
  have parts: "w \<in> set ws \<Longrightarrow> set w \<subseteq> set token" for w
    by (auto simp: ws_def dest: in_set_takeD in_set_dropD)
  have id_eq: "dnsHandoffServiceID sha1 sid = Join ''-'' ws"
    by (simp add: dnsHandoffServiceID_def Let_def ws_def token_def)
  have split: "Split (CHR ''-'') (Join ''-'' ws) = ws"
    using parts chars(3) by (intro Split_Join) (auto simp: list_all_iff ws_def)
  have uuid: "uuidPatternVPNCore (Join ''-'' ws)"
    unfolding uuidPatternVPNCore_def split Let_def using parts chars(1) len by (fastforce simp: list_all_iff ws_def)
  have join: "set (Join ''-'' ws) \<subseteq> insert (CHR ''-'') (set token)" "length (Join ''-'' ws) = 36"
    using parts len by (auto simp: ws_def dest: in_set_takeD in_set_dropD)
  have dash: "visible (CHR ''-'')" "token_char (CHR ''-'')"
    by code_simp+
  have "list_all visible (Join ''-'' ws)" "list_all token_char (Join ''-'' ws)" "CHR ''/'' \<notin> set (Join ''-'' ws)"
    using join(1) chars(2,4,5) dash by (auto simp: list_all_iff)
  moreover have "Join ''-'' ws \<noteq> []"
    using join(2) by auto
  ultimately show ?thesis
    using uuid join(2) unfolding id_eq service_id_def word_def tokenPatternVPNCore_def by simp
qed

section \<open>Scripts are accepted\<close>

text \<open>The words of the lines of a script.\<close>

definition script_words :: "string list list \<Rightarrow> bool" where
  "script_words wss \<longleftrightarrow> list_all (\<lambda>ws. ws \<noteq> [] \<and> list_all word ws \<and> scutil_line ws) wss"

lemma Join_plain: "list_all word ws \<Longrightarrow> list_all (\<lambda>c. visible c \<or> c = CHR '' '') (Join '' '' ws)"
  by (induction ws rule: induct_list012) (auto simp: word_def list_all_iff)

lemma script_accepted:
  assumes "script_words wss" "list_all (\<lambda>ws. length (Join '' '' ws) < 65536) wss" "wss \<noteq> []"
    "2 * int (length (script (map (Join '' '') wss))) \<le> maxRequestBytesVPNCore"
  shows "validateSCUtilInput (script (map (Join '' '') wss)) = Inr ()"
proof -
  have "list_all plain_line (map (Join '' '') wss)"
    unfolding list.pred_map comp_def plain_line_def
    using assms(1,2) by (auto simp: script_words_def list_all_iff [of _ wss] intro: Join_plain)
  then have "scan_lines (script (map (Join '' '') wss)) = map Some (map (Join '' '') wss)"
    by (rule scan_script)
  moreover have "scutil_lines 1 (map Some (map (Join '' '') wss)) = Inr ()"
    using assms(1) by (auto simp: scutil_lines_ok script_words_def list_all_iff Fields_words)
  moreover have "script (map (Join '' '') wss) \<noteq> []"
    using assms(3) by (auto simp: script_def)
  ultimately show ?thesis
    using assms(4) by (simp add: validateSCUtilInput_def maxRequestBytesVPNCore_def)
qed

definition remove_words :: "string \<Rightarrow> string list list" where
  "remove_words serviceID = [[''remove'', ''State:/Network/Service/'' @ serviceID @ ''/DNS''],
     [''remove'', ''State:/Network/Service/'' @ serviceID @ ''/IPv4'']]"

definition apply_words :: "string \<Rightarrow> string \<Rightarrow> string \<Rightarrow> string list \<Rightarrow> string list list" where
  "apply_words serviceID interfaceName tunnelIPv4 dnsServers =
    [[''d.init''], [''d.add'', ''ConfirmedServiceID'', serviceID], [''d.add'', ''InterfaceName'', interfaceName],
     [''d.add'', ''ServerAddresses'', ''*''] @ dnsServers, [''set'', ''State:/Network/Service/'' @ serviceID @ ''/DNS''],
     [''d.init''], [''d.add'', ''Addresses'', ''*'', tunnelIPv4], [''d.add'', ''InterfaceName'', interfaceName],
     [''d.add'', ''Router'', tunnelIPv4], [''set'', ''State:/Network/Service/'' @ serviceID @ ''/IPv4'']]"

lemma Join_spaced: "Join '' '' (a # ws) = a @ concat (map (\<lambda>w. '' '' @ w) ws)"
  by (induction ws arbitrary: a) (auto simp: neq_Nil_conv)

lemma remove_script: "buildScutilRemoveInput serviceID = script (map (Join '' '') (remove_words serviceID))"
  by (simp add: buildScutilRemoveInput_def remove_words_def)

lemma apply_script:
  "tunnelIPv4 \<noteq> [] \<Longrightarrow> buildScutilApplyInput serviceID interfaceName tunnelIPv4 dnsServers =
    script (map (Join '' '') (apply_words serviceID interfaceName tunnelIPv4 dnsServers))"
  by (simp add: buildScutilApplyInput_def apply_words_def Join_spaced)

lemma literal_words:
  "word ''d.init''" "word ''d.add''" "word ''ConfirmedServiceID''" "word ''InterfaceName''" "word ''ServerAddresses''"
  "word ''*''" "word ''Addresses''" "word ''Router''" "word ''set''" "word ''remove''"
  by code_simp+

lemma state_key:
  assumes "service_id i" "leaf = ''DNS'' \<or> leaf = ''IPv4''"
  shows "validSCUtilStateKey (''State:/Network/Service/'' @ i @ ''/'' @ leaf)" "word (''State:/Network/Service/'' @ i @ ''/'' @ leaf)"
proof -
  have "Split (CHR ''/'') (Join ''/'' [i, leaf]) = [i, leaf]"
    using assms by (intro Split_Join) (auto simp: service_id_def)
  then have "Split (CHR ''/'') (i @ ''/'' @ leaf) = [i, leaf]"
    by simp
  then show "validSCUtilStateKey (''State:/Network/Service/'' @ i @ ''/'' @ leaf)"
    using assms by (auto simp: validSCUtilStateKey_def Let_def HasPrefix_iff service_id_def simp del: append.simps)
  have "list_all visible ''State:/Network/Service/''" "list_all visible ''/DNS''" "list_all visible ''/IPv4''"
    by code_simp+
  then show "word (''State:/Network/Service/'' @ i @ ''/'' @ leaf)"
    using assms by (auto simp: word_def service_id_def)
qed

lemma remove_accepted:
  assumes "service_id i"
  shows "validateSCUtilInput (buildScutilRemoveInput i) = Inr ()"
proof -
  have keys: "validSCUtilStateKey (''State:/Network/Service/'' @ i @ ''/DNS'')" "word (''State:/Network/Service/'' @ i @ ''/DNS'')"
    "validSCUtilStateKey (''State:/Network/Service/'' @ i @ ''/IPv4'')" "word (''State:/Network/Service/'' @ i @ ''/IPv4'')"
    using state_key [OF assms] by simp_all
  have len: "length i \<le> 64"
    using assms by (simp add: service_id_def tokenPatternVPNCore_def)
  show ?thesis
    unfolding remove_script
    by (rule script_accepted)
      (use len keys in \<open>auto simp: script_words_def remove_words_def literal_words scutil_line_def Let_def script_def
        maxRequestBytesVPNCore_def\<close>)
qed

lemma spaced_length: "list_all ip4_text ss \<Longrightarrow> length (concat (map (\<lambda>w. '' '' @ w) ss)) \<le> 16 * length ss"
  by (induction ss) (auto dest!: ip4_shape)

lemma apply_accepted:
  assumes "service_id i" "tokenPatternVPNCore face" "word face" "ip4_text tunnel" "list_all ip4_text servers" "servers \<noteq> []"
    "length servers \<le> 4000"
  shows "validateSCUtilInput (buildScutilApplyInput i face tunnel servers) = Inr ()"
proof -
  have keys: "validSCUtilStateKey (''State:/Network/Service/'' @ i @ ''/DNS'')" "word (''State:/Network/Service/'' @ i @ ''/DNS'')"
    "validSCUtilStateKey (''State:/Network/Service/'' @ i @ ''/IPv4'')" "word (''State:/Network/Service/'' @ i @ ''/IPv4'')"
    using state_key [OF assms(1)] by simp_all
  have len: "length i \<le> 64" "length face \<le> 64" "length tunnel \<le> 15" "word i" "tokenPatternVPNCore i" "word tunnel" "tunnel \<noteq> []"
    using assms(1,2) ip4_shape [OF assms(4)] by (auto simp: service_id_def tokenPatternVPNCore_def word_def)
  have servers: "list_all word servers" "length (concat (map (\<lambda>w. '' '' @ w) servers)) \<le> 16 * length servers"
    "allIPs servers False" "allIPs [tunnel] True"
    using assms(4-6) ip4_shape allIPs_ip4 spaced_length [OF assms(5)] by (auto simp: list_all_iff)
  have lines: "script_words (apply_words i face tunnel servers)"
    using keys len servers assms(2,3,6)
    by (auto simp: script_words_def apply_words_def literal_words scutil_line_def Let_def Suc_le_eq neq_Nil_conv)
  show ?thesis
    unfolding apply_script [OF len(7)]
    by (rule script_accepted [OF lines])
      (use len servers assms(7) in \<open>auto simp: apply_words_def Join_spaced script_def maxRequestBytesVPNCore_def\<close>)
qed

section \<open>What the calls change\<close>

text \<open>
  The part of the system a hand-over touches: the keys of the dynamic store and the DNS servers of each
  network service (none when it is automatic). A script sets and removes the keys it names; a call that
  failed has changed nothing.
\<close>

record dns_state =
  ds_keys :: "string set"
  ds_servers :: "string \<Rightarrow> string list"

fun script_step :: "string list \<Rightarrow> dns_state \<Rightarrow> dns_state" where
  "script_step [c, key] st =
    (if c = ''set'' then st\<lparr>ds_keys := insert key (ds_keys st)\<rparr>
     else if c = ''remove'' then st\<lparr>ds_keys := ds_keys st - {key}\<rparr> else st)"
| "script_step _ st = st"

definition run_script :: "string \<Rightarrow> dns_state \<Rightarrow> dns_state" where
  "run_script s st = fold (\<lambda>l. script_step (Fields l)) (Split newline s) st"

definition set_servers :: "string \<Rightarrow> string list \<Rightarrow> dns_state \<Rightarrow> dns_state" where
  "set_servers service servers st =
    st\<lparr>ds_servers := (ds_servers st)(service := if servers = [''Empty''] then [] else servers)\<rparr>"

fun command_effect :: "string list \<Rightarrow> string \<Rightarrow> dns_state \<Rightarrow> dns_state" where
  "command_effect [prog] stdin st = (if prog = ''/usr/sbin/scutil'' then run_script stdin st else st)"
| "command_effect (prog # verb # service # servers) stdin st =
    (if prog = ''/usr/sbin/networksetup'' \<and> verb = ''-setdnsservers'' then set_servers service servers st else st)"
| "command_effect _ stdin st = st"

fun call_effect :: "dns_call \<Rightarrow> dns_state \<Rightarrow> dns_state" where
  "call_effect (CoreSCUtil s) st = run_script s st"
| "call_effect (CoreNetworkSetup service servers) st = set_servers service servers st"
| "call_effect (RanCommand command stdin) st =
    command_effect (if command \<noteq> [] \<and> hd command = ''sudo'' then tl command else command) stdin st"
| "call_effect SudoCheck st = st"

definition effects :: "dns_env \<Rightarrow> dns_call list \<Rightarrow> dns_state \<Rightarrow> dns_state" where
  "effects env cs st = fold (\<lambda>c st. if dn_run env c = None then call_effect c st else st) cs st"

lemma effects_simps [simp]:
  "effects env [] st = st"
  "effects env (c # cs) st = effects env cs (if dn_run env c = None then call_effect c st else st)"
  "effects env (cs @ ds) st = effects env ds (effects env cs st)"
  by (simp_all add: effects_def)

lemma logged_effects:
  assumes "runPrivilegedLoggedCommandWithInput env mode command stdin = (r, cs)" "command = [] \<or> hd command \<noteq> ''sudo''"
  shows "effects env cs st = (case r of Inl _ \<Rightarrow> st | Inr _ \<Rightarrow> command_effect command stdin st)"
  using assms
  by (auto simp: runPrivilegedLoggedCommandWithInput_def runLoggedCommand_def call_def ensureSudo_def
      split: if_splits option.splits sum.splits prod.splits)

lemma scutil_effects:
  "runScutilPrivileged env mode s = (r, cs) \<Longrightarrow> effects env cs st = (case r of Inl _ \<Rightarrow> st | Inr _ \<Rightarrow> run_script s st)"
  using logged_effects [of env mode "[''/usr/sbin/scutil'']" s r cs st]
  by (auto simp: runScutilPrivileged_def call_def split: if_splits option.splits sum.splits)

lemma servers_effects:
  assumes "setDNSServersPrivileged env mode service servers = (r, cs)" "servers \<noteq> [''Empty'']"
  shows "effects env cs st = (case r of Inl _ \<Rightarrow> st | Inr _ \<Rightarrow> st\<lparr>ds_servers := (ds_servers st)(service := servers)\<rparr>)"
  using assms logged_effects [of env mode "''/usr/sbin/networksetup'' # ''-setdnsservers'' # service # (if servers = [] then [''Empty''] else servers)" "[]" r cs st]
  by (auto simp: setDNSServersPrivileged_def call_def set_servers_def Let_def split: if_splits option.splits sum.splits)

text \<open>What a script does to the keys.\<close>

lemma run_words:
  assumes "list_all (list_all word) wss"
  shows "run_script (script (map (Join '' '') wss)) st = fold script_step wss st"
proof -
  have "newline \<notin> set (Join '' '' ws)" if "list_all word ws" for ws
    using Join_plain [OF that] by (auto simp: list_all_iff visible_def)
  then have "Split newline (script (map (Join '' '') wss)) = map (Join '' '') wss @ [[]]"
    using assms by (intro Split_script) (simp add: list_all_iff)
  then have "run_script (script (map (Join '' '') wss)) st = fold (\<lambda>l. script_step (Fields l)) (map (Join '' '') wss) st"
    by (simp add: run_script_def Fields_def)
  also have "\<dots> = fold script_step wss st"
    using assms by (induction wss arbitrary: st) (simp_all add: Fields_words)
  finally show ?thesis .
qed

definition handoff_keys :: "string \<Rightarrow> string set" where
  "handoff_keys serviceID =
    {''State:/Network/Service/'' @ serviceID @ ''/DNS'', ''State:/Network/Service/'' @ serviceID @ ''/IPv4''}"

lemma handoff_words:
  assumes "service_id i" "word face" "ip4_text tunnel" "list_all ip4_text servers"
  shows "list_all (list_all word) (apply_words i face tunnel servers)" "list_all (list_all word) (remove_words i)"
  using assms ip4_shape state_key(2) [OF assms(1), of "''DNS''"] state_key(2) [OF assms(1), of "''IPv4''"]
  by (auto simp: apply_words_def remove_words_def literal_words service_id_def list_all_iff [of _ servers]
      list_all_iff [of ip4_text])

lemma run_apply:
  assumes "service_id i" "word face" "ip4_text tunnel" "list_all ip4_text servers" "servers \<noteq> []"
  shows "run_script (buildScutilApplyInput i face tunnel servers) st = st\<lparr>ds_keys := handoff_keys i \<union> ds_keys st\<rparr>"
proof -
  have "tunnel \<noteq> []"
    using ip4_shape [OF assms(3)] by (auto simp: word_def)
  then have "run_script (buildScutilApplyInput i face tunnel servers) st = fold script_step (apply_words i face tunnel servers) st"
    using run_words [OF handoff_words(1) [OF assms(1-4)]] by (simp add: apply_script)
  also have "\<dots> = st\<lparr>ds_keys := handoff_keys i \<union> ds_keys st\<rparr>"
    using assms(5) by (cases servers) (simp_all add: apply_words_def handoff_keys_def insert_commute)
  finally show ?thesis .
qed

lemma run_remove:
  assumes "service_id i"
  shows "run_script (buildScutilRemoveInput i) st = st\<lparr>ds_keys := ds_keys st - handoff_keys i\<rparr>"
proof -
  have "list_all (list_all word) (remove_words i)"
    using state_key(2) [OF assms, of "''DNS''"] state_key(2) [OF assms, of "''IPv4''"]
    by (simp add: remove_words_def literal_words)
  then show ?thesis
    unfolding remove_script run_words [OF \<open>list_all (list_all word) (remove_words i)\<close>]
    by (simp add: remove_words_def handoff_keys_def Diff_insert2 [symmetric] insert_commute)
qed

section \<open>Properties\<close>

lemma token_word: "tokenPatternVPNCore s \<Longrightarrow> word s"
  by (auto simp: tokenPatternVPNCore_def word_def list_all_iff token_char_def visible_def is_upper_def is_lower_def is_digit_def)

lemma ip4_not_Empty: "ip4_text s \<Longrightarrow> s \<noteq> ''Empty''"
proof -
  have "ParseAddr ''Empty'' = None"
    by code_simp
  then show "ip4_text s \<Longrightarrow> s \<noteq> ''Empty''"
    using ip4_parses by fastforce
qed

lemma apply_cases:
  fixes options
  defines "servers \<equiv> normalizeDNSServerList (st_SystemDNSServers options)"
  assumes "applySystemDNSHandoff env options current = (r, cs)"
  obtains (skip) "\<not> shouldApplySystemDNSHandoff env (cu_Mode current) options" "r = Inr current" "cs = []"
  | (scutil) c where "servers \<noteq> []" "applyScutilDNSHandoff env options servers current = (Inr c, cs)" "r = Inr c"
  | (service) e cs1 cs2 where "servers \<noteq> []" "applyScutilDNSHandoff env options servers current = (Inl e, cs1)"
      "applyNetworkServiceDNSHandoff env servers current = (r, cs2)" "cs = cs1 @ cs2"
proof (cases "shouldApplySystemDNSHandoff env (cu_Mode current) options")
  case False
  then show ?thesis
    using assms(2) skip by (simp add: applySystemDNSHandoff_def)
next
  case True
  then have some: "servers \<noteq> []"
    by (simp add: shouldApplySystemDNSHandoff_def servers_def)
  obtain r1 cs1 r2 cs2 where parts: "applyScutilDNSHandoff env options servers current = (r1, cs1)"
      "applyNetworkServiceDNSHandoff env servers current = (r2, cs2)"
    by (metis surj_pair)
  then have "(r, cs) = (case r1 of Inr c \<Rightarrow> (Inr c, cs1) | Inl _ \<Rightarrow> (r2, cs1 @ cs2))"
    using assms(2) True some unfolding servers_def by (cases r1) (auto simp: applySystemDNSHandoff_def Let_def)
  then show ?thesis
    using parts some scutil service by (cases r1) auto
qed

text \<open>The two ways a hand-over is made, and what the session records of it.\<close>

lemma scutil_handoff:
  assumes "applyScutilDNSHandoff env options servers current = (Inr c, cs)"
  defines "i \<equiv> dnsHandoffServiceID (dn_sha1 env) (cu_ID current)"
    and "tunnel \<equiv> firstTunnelIPv4Address (st_TunAddresses options)"
  shows "runScutilPrivileged env (cu_LaunchMode current)
      (buildScutilApplyInput i (TrimSpace (st_InterfaceName options)) tunnel servers) = (Inr (), cs)"
    "ip4_text tunnel" "cu_DNSHandoffServiceID c = i" "cu_DNSHandoffMode c = ''scutil''" "cu_DNSHandoffServers c = servers"
    "cu_LaunchMode c = cu_LaunchMode current"
  using assms tunnel_ip4 [of "st_TunAddresses options"]
  by (auto simp: applyScutilDNSHandoff_def Let_def split: if_splits prod.splits sum.splits)

lemma service_handoff:
  assumes "applyNetworkServiceDNSHandoff env servers current = (Inr c, cs)"
  obtains service rs auto where "currentDNSServers env service = Inr (rs, auto)" "TrimSpace service = service" "service \<noteq> []"
    "setDNSServersPrivileged env (cu_LaunchMode current) service servers = (Inr (), cs)"
    "c = current\<lparr>cu_DNSHandoffMode := ''networksetup'', cu_DNSHandoffService := service, cu_DNSHandoffServiceID := [],
      cu_DNSHandoffInterface := [], cu_DNSHandoffServers := servers, cu_DNSHandoffRestoreServers := rs,
      cu_DNSHandoffRestoreAuto := auto\<rparr>"
proof -
  have loop: "TrimSpace s = s \<and> s \<noteq> []" if "service_order_loop device cur ls = Inr s" "TrimSpace cur = cur" for device cur ls s
    using that by (induction device cur ls rule: service_order_loop.induct) (auto simp: Let_def split: if_splits option.splits)
  have named: "TrimSpace s = s \<and> s \<noteq> []" if "currentNetworkService env device = Inr s" for device s
    using that loop by (auto simp: currentNetworkService_def parseNetworkServiceOrder_def Let_def split: sum.splits if_splits)
  show ?thesis
    using assms named that
    by (auto simp: applyNetworkServiceDNSHandoff_def split: sum.splits prod.splits)
qed

definition handoff_ready :: "dns_env \<Rightarrow> StartOptions \<Rightarrow> CurrentSession \<Rightarrow> bool" where
  "handoff_ready env options current \<longleftrightarrow> tokenPatternVPNCore (TrimSpace (st_InterfaceName options)) \<and>
     (\<forall>s. length (dn_sha1 env s) = 20) \<and> cu_DNSHandoffServers current = []"

lemma servers_all_ip4: "list_all ip4_text (normalizeDNSServerList values)"
  using servers_ip4 by (auto simp: list_all_iff)

lemma core_scripts:
  "CoreSCUtil input \<in> set (snd (runScutilPrivileged env mode s)) \<Longrightarrow> input = s"
  "CoreSCUtil input \<notin> set (snd (setDNSServersPrivileged env mode service servers))"
  by (auto simp: runScutilPrivileged_def setDNSServersPrivileged_def runPrivilegedLoggedCommandWithInput_def runLoggedCommand_def
      call_def ensureSudo_def Let_def split: if_splits option.splits sum.splits prod.splits)

lemma network_no_scripts: "CoreSCUtil input \<notin> set (snd (applyNetworkServiceDNSHandoff env servers current))"
  using core_scripts(2) [of input env]
  by (fastforce simp: applyNetworkServiceDNSHandoff_def split: sum.splits prod.splits dest: arg_cong [where f = snd])

lemma scutil_scripts:
  assumes "CoreSCUtil input \<in> set (snd (applyScutilDNSHandoff env options servers current))"
  shows "ip4_text (firstTunnelIPv4Address (st_TunAddresses options))"
    "input = buildScutilApplyInput (dnsHandoffServiceID (dn_sha1 env) (cu_ID current)) (TrimSpace (st_InterfaceName options))
       (firstTunnelIPv4Address (st_TunAddresses options)) servers"
  using assms tunnel_ip4 [of "st_TunAddresses options"]
    core_scripts(1) [of input env "cu_LaunchMode current" "buildScutilApplyInput (dnsHandoffServiceID (dn_sha1 env) (cu_ID current))
       (TrimSpace (st_InterfaceName options)) (firstTunnelIPv4Address (st_TunAddresses options)) servers"]
  by (auto simp: applyScutilDNSHandoff_def Let_def split: if_splits prod.splits sum.splits)

lemma apply_scripts:
  assumes "applySystemDNSHandoff env options current = (r, cs)" "CoreSCUtil input \<in> set cs"
  defines "servers \<equiv> normalizeDNSServerList (st_SystemDNSServers options)"
  shows "CoreSCUtil input \<in> set (snd (applyScutilDNSHandoff env options servers current))" "servers \<noteq> []"
proof -
  have "CoreSCUtil input \<in> set (snd (applyScutilDNSHandoff env options servers current)) \<and> servers \<noteq> []"
    using assms(1)
  proof (cases rule: apply_cases)
    case (service e cs1 cs2)
    then show ?thesis
      using assms(2) network_no_scripts [of input env servers current] by (auto simp: servers_def)
  qed (use assms(2) in \<open>auto simp: servers_def\<close>)
  then show "CoreSCUtil input \<in> set (snd (applyScutilDNSHandoff env options servers current))" "servers \<noteq> []"
    by auto
qed

lemma restore_scripts:
  assumes "applySystemDNSHandoff env options current = (Inr c, cs)" "handoff_ready env options current"
    and "CoreSCUtil input \<in> set (snd (restoreSystemDNSHandoff env' c))"
  shows "cu_DNSHandoffServiceID c = dnsHandoffServiceID (dn_sha1 env) (cu_ID current)"
  using assms(1)
proof (cases rule: apply_cases)
  case skip
  with assms(2,3) show ?thesis
    by (auto simp: restoreSystemDNSHandoff_def handoff_ready_def split: if_splits)
next
  case (scutil c')
  with scutil_handoff(3) show ?thesis by simp
next
  case (service e cs1 cs2)
  then have "applyNetworkServiceDNSHandoff env (normalizeDNSServerList (st_SystemDNSServers options)) current = (Inr c, cs2)"
    by simp
  then have "TrimSpace (cu_DNSHandoffServiceID c) = []" "cu_DNSHandoffMode c \<noteq> ''scutil''"
    by (rule service_handoff; simp)+
  with assms(3) core_scripts(2) show ?thesis
    by (auto simp: restoreSystemDNSHandoff_def Let_def split: if_splits)
qed

lemma ready_id:
  assumes "handoff_ready env options current"
  defines "i \<equiv> dnsHandoffServiceID (dn_sha1 env) (cu_ID current)"
  shows "service_id i" "TrimSpace i = i" "i \<noteq> []"
  using assms(1) service_id_ok by (auto simp: handoff_ready_def i_def service_id_def word_def TrimSpace_visible)


definition reports :: "dns_env \<Rightarrow> dns_state \<Rightarrow> bool" where
  "reports env st \<longleftrightarrow> (\<forall>service rs auto. currentDNSServers env service = Inr (rs, auto) \<longrightarrow>
     rs \<noteq> [''Empty''] \<and> ds_servers st service = (if auto then [] else rs))"

text \<open>The two ways of handing over, each undone by the restoration.\<close>

lemma scutil_undone:
  assumes "applyScutilDNSHandoff env options servers current = (Inr c, cs)" "handoff_ready env options current"
    and "list_all ip4_text servers" "servers \<noteq> []" "restoreSystemDNSHandoff env' c = (Inr (), cs')" "dn_darwin env'"
  defines "i \<equiv> dnsHandoffServiceID (dn_sha1 env) (cu_ID current)"
  assumes "handoff_keys i \<inter> ds_keys st = {}"
  shows "effects env cs st = st\<lparr>ds_keys := handoff_keys i \<union> ds_keys st\<rparr>" "effects env' cs' (effects env cs st) = st"
proof -
  note i = ready_id [OF assms(2), folded i_def] and h = scutil_handoff [OF assms(1), folded i_def]
  have face: "word (TrimSpace (st_InterfaceName options))"
    using assms(2) token_word by (simp add: handoff_ready_def)
  show after: "effects env cs st = st\<lparr>ds_keys := handoff_keys i \<union> ds_keys st\<rparr>"
    using scutil_effects [OF h(1)] run_apply [OF i(1) face h(2) assms(3,4)] by simp
  have "runScutilPrivileged env' (cu_LaunchMode c) (buildScutilRemoveInput i) = (Inr (), cs')"
    using assms(4-6) h i by (simp add: restoreSystemDNSHandoff_def Let_def)
  from scutil_effects [OF this]
  have "effects env' cs' (effects env cs st) = st\<lparr>ds_keys := handoff_keys i \<union> ds_keys st - handoff_keys i\<rparr>"
    by (simp add: after run_remove [OF i(1)])
  then show "effects env' cs' (effects env cs st) = st"
    using assms(8) by (simp add: Un_Diff Diff_triv Int_commute)
qed

lemma service_undone:
  assumes "applyNetworkServiceDNSHandoff env servers current = (Inr c, cs)" "list_all ip4_text servers" "servers \<noteq> []"
    and "restoreSystemDNSHandoff env' c = (Inr (), cs')" "dn_darwin env'" "reports env st"
  shows "effects env' cs' (effects env cs st) = st \<and> (\<exists>service. ds_servers (effects env cs st) service = servers)"
  using assms(1)
proof (rule service_handoff)
  fix service rs auto
  assume listed: "currentDNSServers env service = Inr (rs, auto)" and name: "TrimSpace service = service" "service \<noteq> []"
    and set: "setDNSServersPrivileged env (cu_LaunchMode current) service servers = (Inr (), cs)"
    and c: "c = current\<lparr>cu_DNSHandoffMode := ''networksetup'', cu_DNSHandoffService := service, cu_DNSHandoffServiceID := [],
      cu_DNSHandoffInterface := [], cu_DNSHandoffServers := servers, cu_DNSHandoffRestoreServers := rs,
      cu_DNSHandoffRestoreAuto := auto\<rparr>"
  let ?old = "if auto then [] else rs"
  have old: "?old \<noteq> [''Empty'']" "ds_servers st service = ?old"
    using assms(6) listed by (auto simp: reports_def)
  have "servers \<noteq> [''Empty'']"
    using assms(2) ip4_not_Empty [of "''Empty''"] by auto
  then have after: "effects env cs st = st\<lparr>ds_servers := (ds_servers st)(service := servers)\<rparr>"
    using servers_effects [OF set] by simp
  have "setDNSServersPrivileged env' (cu_LaunchMode c) service ?old = (Inr (), cs')"
    using assms(3-5) name unfolding c restoreSystemDNSHandoff_def Let_def by (cases auto) simp_all
  from servers_effects [OF this old(1), of "effects env cs st"]
  have "effects env' cs' (effects env cs st) = st"
    using old(2) by (simp add: after fun_upd_idem)
  then show ?thesis
    using after by auto
qed


section \<open>Witnesses\<close>

definition sample_dns_env :: dns_env where
  "sample_dns_env = \<lparr>dn_darwin = True, dn_disabled = False, dn_euid = 501, dn_sha1 = (\<lambda>_. replicate 20 171), dn_route = Inl [],
     dn_serviceOrder = Inl [], dn_dnsServers = (\<lambda>_. Inr []), dn_openLog = None, dn_run = (\<lambda>_. None)\<rparr>"

definition sample_start_options :: StartOptions where
  "sample_start_options = \<lparr>st_Mode = ''tun'', st_Engine = [], st_BypassSuffixes = [], st_InterfaceName = ''utun9'',
     st_TunAddresses = [''10.1.0.1/30''], st_OverlayDNSActive = True, st_OverlayDNSDomains = [],
     st_SystemDNSServers = [''1.1.1.1''], st_PrivilegedLaunch = defaultLaunch, st_Sidecars = [], st_LogMaxLines = 0,
     st_ResolvedServer = [], st_ResolvedAlias = [], st_ResolvedName = [], st_ResolvedID = [], st_ResolutionReason = [],
     st_SnapshotFetchedAt = None\<rparr>"

definition sample_session :: CurrentSession where
  "sample_session = zeroSession\<lparr>cu_ID := ''s1'', cu_Mode := ''tun'', cu_LaunchMode := ''helper''\<rparr>"

definition sample_dns_state :: dns_state where
  "sample_dns_state = \<lparr>ds_keys = {}, ds_servers = (\<lambda>_. [])\<rparr>"

lemma sample_ready: "handoff_ready sample_dns_env sample_start_options sample_session"
proof -
  have "tokenPatternVPNCore (TrimSpace (st_InterfaceName sample_start_options))"
    by code_simp
  then show ?thesis
    by (simp add: handoff_ready_def sample_dns_env_def sample_session_def zeroSession_def)
qed

lemma sample_handoff:
  obtains c input where "applySystemDNSHandoff sample_dns_env sample_start_options sample_session = (Inr c, [CoreSCUtil input])"
    "fst (restoreSystemDNSHandoff sample_dns_env c) = Inr ()"
proof -
  have "(case applySystemDNSHandoff sample_dns_env sample_start_options sample_session of
      (Inr c, [CoreSCUtil input]) \<Rightarrow> fst (restoreSystemDNSHandoff sample_dns_env c) = Inr () | _ \<Rightarrow> False)"
    by code_simp
  then show ?thesis
    using that by (auto split: prod.splits sum.splits list.splits dns_call.splits)
qed



end
