(* ===== verification/Session_Laws.thy ===== *)
theory Session_Laws
  imports Session_Stop Dns_Laws
begin

text \<open>
  What stopping a session promises: a signal goes only to a process that was just seen to be the
  recorded one, and the record of a session is removed after everything else has succeeded.
\<close>

section \<open>Sequencing\<close>

lemma and_then_simps [simp]:
  "and_then (Inl e, es) f = (Inl e, es)"
  "and_then (Inr x, es) f = (fst (f x), es @ snd (f x))"
  by (simp_all add: and_then_def split: prod.splits)

lemma and_then_Inr:
  "and_then m f = (Inr y, es) \<longleftrightarrow> (\<exists>x es1 es2. m = (Inr x, es1) \<and> f x = (Inr y, es2) \<and> es = es1 @ es2)"
  by (auto simp: and_then_def split: prod.splits sum.splits)

lemma and_then_Inl:
  "and_then m f = (Inl e, es) \<longleftrightarrow> m = (Inl e, es) \<or> (\<exists>x es1 es2. m = (Inr x, es1) \<and> f x = (Inl e, es2) \<and> es = es1 @ es2)"
  by (auto simp: and_then_def split: prod.splits sum.splits)

text \<open>A predicate on traces that holds of the parts holds of the sequence.\<close>

lemma and_then_events:
  "set (snd (and_then m f)) \<subseteq> set (snd m) \<union> (\<Union>x \<in> {x. fst m = Inr x}. set (snd (f x)))"
  by (cases m; cases "fst m") (auto simp: and_then_def split: prod.splits sum.splits)

section \<open>Identity\<close>

text \<open>
  A recorded process is recognised by its command name and a start time within one second. The
  difference of times is a 64-bit number of nanoseconds that saturates: a process that started more than
  292 years before the recorded start would be recognised too, because the least number has no negative.
\<close>

theorem matches_iff:
  "Matches comm started recorded recordedStart legacy \<longleftrightarrow>
    (if recorded = [] then comm = take 16 legacy
     else comm = recorded \<and> (\<bar>started - recordedStart\<bar> \<le> 1000000000 \<or> started - recordedStart \<le> - (2 ^ 63)))"
  by (auto simp: Matches_def time_Sub_def neg64_def second_def Let_def min_def max_def abs_le_iff)

section \<open>Signals\<close>

text \<open>
  \<open>guarded ok seen es\<close>: every group signal of the trace goes to the process that was looked at last, and
  that look satisfies \<open>ok\<close>; \<open>seen\<close> is the last look before the trace.
\<close>

fun guarded :: "(int \<Rightarrow> observation \<Rightarrow> bool) \<Rightarrow> (int \<times> observation) option \<Rightarrow> session_event list \<Rightarrow> bool" where
  "guarded ok seen [] = True"
| "guarded ok seen (Saw pid ob # es) = guarded ok (Some (pid, ob)) es"
| "guarded ok seen (Signalled pid sig r # es) =
    ((case seen of None \<Rightarrow> False | Some (p, ob) \<Rightarrow> p = pid \<and> ok p ob) \<and> guarded ok seen es)"
| "guarded ok seen (SignalledProcess pid sig r # es) = False"
| "guarded ok seen (_ # es) = guarded ok seen es"

fun last_look :: "(int \<times> observation) option \<Rightarrow> session_event list \<Rightarrow> (int \<times> observation) option" where
  "last_look seen [] = seen"
| "last_look seen (Saw pid ob # es) = last_look (Some (pid, ob)) es"
| "last_look seen (_ # es) = last_look seen es"

lemma guarded_append: "guarded ok seen (xs @ ys) \<longleftrightarrow> guarded ok seen xs \<and> guarded ok (last_look seen xs) ys"
  by (induction ok seen xs rule: guarded.induct) auto

lemma last_look_append [simp]: "last_look seen (xs @ ys) = last_look (last_look seen xs) ys"
  by (induction seen xs rule: last_look.induct) auto

text \<open>A look at a process that finds the recorded one alive.\<close>

definition own_process :: "CurrentSession \<Rightarrow> int \<Rightarrow> observation \<Rightarrow> bool" where
  "own_process current pid ob \<longleftrightarrow>
    (pid = cu_PID current \<and> ProcessAlive pid ob = Inr True \<and> sessionProcessMatches current ob = Inr True) \<or>
    (\<exists>s \<in> set (cu_Sidecars current). pid = sc_PID s \<and> sidecar_alive s ob = Inr True)"

lemma wait_gone_guarded:
  assumes "\<And>ob. snd (poll ob) = [Saw pid ob]"
  shows "guarded ok seen (snd (wait_gone poll obs)) \<and>
    (fst (wait_gone poll obs) = Inr False \<longrightarrow> last_look seen (snd (wait_gone poll obs)) = seen \<or>
      (\<exists>ob. last_look seen (snd (wait_gone poll obs)) = Some (pid, ob) \<and> fst (poll ob) = Inr True))"
proof (induction obs arbitrary: seen)
  case (Cons ob obs)
  show ?case
  proof (cases "fst (poll ob)")
    case (Inl e)
    with assms [of ob] show ?thesis
      by (cases "poll ob") simp
  next
    case (Inr alive)
    with assms [of ob] Cons [of "Some (pid, ob)"] show ?thesis
      by (cases "poll ob"; cases alive) auto
  qed
qed simp

lemma stopSidecar_guarded:
  assumes "\<And>ob. sidecar_alive s ob = Inr True \<Longrightarrow> ok (sc_PID s) ob"
  shows "guarded ok seen (snd (stopSidecar w force s))"
proof (cases "sidecar_alive s (sw_first w)")
  case (Inl e)
  then show ?thesis
    by (simp add: stopSidecar_def sidecarAlive_def)
next
  case (Inr alive)
  have poll: "snd (sidecarAlive s ob) = [Saw (sc_PID s) ob]" for ob
    by (simp add: sidecarAlive_def)
  note wg = wait_gone_guarded [where poll = "sidecarAlive s" and obs = "sw_polls w", OF poll]
  show ?thesis
    using Inr assms wg [of ok "Some (sc_PID s, sw_first w)"]
    by (cases "wait_gone (sidecarAlive s) (sw_polls w)"; cases "fst (wait_gone (sidecarAlive s) (sw_polls w))")
      (auto simp: stopSidecar_def sidecarAlive_def signalGroup_def guarded_append and_then_def split: sum.splits kill_result.splits)
qed

lemma stopSidecars_guarded:
  assumes "\<And>s ob. s \<in> set ss \<Longrightarrow> sidecar_alive s ob = Inr True \<Longrightarrow> ok (sc_PID s) ob"
  shows "guarded ok seen (snd (stopSidecars world force ss))"
proof -
  have "guarded ok seen (snd (stop_in_order world force ss))"
    if "\<And>s ob. s \<in> set ss \<Longrightarrow> sidecar_alive s ob = Inr True \<Longrightarrow> ok (sc_PID s) ob" for ss seen
    using that
  proof (induction ss arbitrary: seen)
    case (Cons s ss)
    then show ?case
      using stopSidecar_guarded [of s ok seen "world s" force]
      by (cases "stopSidecar (world s) force s"; cases "fst (stopSidecar (world s) force s)") (auto simp: guarded_append)
  qed simp
  from this [of "rev ss" seen] assms show ?thesis
    by (simp add: stopSidecars_def)
qed

definition quiet :: "session_event \<Rightarrow> bool" where
  "quiet e = (case e of Saw _ _ \<Rightarrow> False | Signalled _ _ _ \<Rightarrow> False | SignalledProcess _ _ _ \<Rightarrow> False | _ \<Rightarrow> True)"

lemma quiet_guarded: "list_all quiet es \<Longrightarrow> guarded ok seen es \<and> last_look seen es = seen"
  by (induction ok seen es rule: guarded.induct) (auto simp: quiet_def)

lemma guarded_and_then:
  assumes "guarded ok seen (snd m)" "\<And>x. fst m = Inr x \<Longrightarrow> guarded ok (last_look seen (snd m)) (snd (f x))"
  shows "guarded ok seen (snd (and_then m f))"
  using assms by (cases m; cases "fst m") (auto simp: guarded_append)

lemma quiet_steps:
  "list_all quiet (snd (restore_dns w current))" "list_all quiet (snd (ClearCurrent w))"
  "list_all quiet (snd (core_signal w handle sig))"
  by (auto simp: restore_dns_def ClearCurrent_def core_signal_def quiet_def list_all_iff split: prod.splits option.splits)

lemma finish_guarded:
  assumes "\<And>s ob. s \<in> set (cu_Sidecars current) \<Longrightarrow> sidecar_alive s ob = Inr True \<Longrightarrow> ok (sc_PID s) ob"
  shows "guarded ok seen (snd (finish_stop w force current state))"
  unfolding finish_stop_def
  using assms quiet_guarded [OF quiet_steps(1)] quiet_guarded [OF quiet_steps(2)]
  by (intro guarded_and_then stopSidecars_guarded) auto

lemma finish_stop_guarded:
  "guarded (own_process current) seen (snd (finish_stop w force current state))"
  by (rule finish_guarded) (auto simp: own_process_def)

lemma poll_saw: "snd (poll_session current ob) = [Saw (cu_PID current) ob]"
  by (cases "session_alive current ob") (auto simp: poll_session_def SessionAlive_def split: prod.splits)

lemma poll_alive:
  "fst (poll_session current ob) = Inr True \<longleftrightarrow> (\<exists>pid. session_alive current ob = Inr (True, pid))"
  by (cases "session_alive current ob") (auto simp: poll_session_def SessionAlive_def split: prod.splits)

lemma alive_own:
  assumes "session_alive current ob = Inr (True, pid)" "cu_LaunchMode current \<noteq> LaunchModeLaunchd"
  shows "pid = cu_PID current" "own_process current pid ob" "0 < pid"
  using assms by (auto simp: session_alive_def own_process_def ProcessAlive_def split: sum.splits if_splits bool.splits kill_result.splits)

lemma stopHelper_guarded: "guarded ok seen (snd (stopHelperSession w force current))"
  unfolding stopHelperSession_def
  using quiet_guarded [OF quiet_steps(3)] wait_gone_guarded [OF poll_saw [of current], of ok]
  by (auto intro!: guarded_and_then)

lemma stopLaunchd_guarded: "guarded ok seen (snd (stopLaunchdSession w current))"
  unfolding stopLaunchdSession_def
  using wait_gone_guarded [OF poll_saw [of "launchdStopPollRecord current"], of ok]
  by (auto intro!: guarded_and_then split: option.splits)

lemma stopProcess_guarded:
  assumes "cu_LaunchMode current \<noteq> LaunchModeLaunchd" "own_process current (cu_PID current) ob"
  shows "guarded (own_process current) (Some (cu_PID current, ob)) (snd (stopProcessSession w force current))"
proof -
  let ?wg = "wait_gone (poll_session current)" and ?own = "own_process current"
  have own: "own_process current (cu_PID current) ob'" if "fst (poll_session current ob') = Inr True" for ob'
    using that alive_own [OF _ assms(1)] by (auto simp: poll_alive)
  have looked: "\<exists>ob'. last_look (Some (cu_PID current, ob)) (snd (?wg obs)) = Some (cu_PID current, ob') \<and> ?own (cu_PID current) ob'"
    if "fst (?wg obs) = Inr False" for obs
    using wait_gone_guarded [OF poll_saw [of current], of ?own "Some (cu_PID current, ob)" obs] that assms(2) own by auto
  have wg: "guarded ?own seen (snd (?wg obs))" for seen obs
    using wait_gone_guarded [OF poll_saw [of current]] by blast
  have sig: "snd (signalGroup pid s r) = [Signalled pid s r]" for pid s r
    by (simp add: signalGroup_def)
  have killed: "guarded ?own (Some (cu_PID current, ob')) (snd (and_then (signalGroup (cu_PID current) SIGKILL (sp_kill w)) (\<lambda>_.
      and_then (?wg obs) (\<lambda>gone. if gone then finish_stop w True current ''killed'' else (Inl (KillTimeout (cu_PID current)), [])))))"
    if "?own (cu_PID current) ob'" for ob' obs
    by (intro guarded_and_then) (simp_all add: sig wg that finish_stop_guarded)
  show ?thesis
    unfolding stopProcessSession_def
  proof (rule guarded_and_then)
    show "guarded ?own (Some (cu_PID current, ob)) (snd (signalGroup (cu_PID current) SIGTERM (sp_term w)))"
      using assms(2) by (simp add: sig)
  next
    have keep: "last_look (Some (cu_PID current, ob)) (snd (signalGroup (cu_PID current) SIGTERM (sp_term w))) = Some (cu_PID current, ob)"
      by (simp add: sig)
    show "guarded ?own (last_look (Some (cu_PID current, ob)) (snd (signalGroup (cu_PID current) SIGTERM (sp_term w))))
      (snd (and_then (?wg (sp_polls w)) (\<lambda>gone.
        if gone then finish_stop w force current ''stopped''
        else if \<not> force then (Inl (StopTimeout (cu_PID current)), [])
        else and_then (signalGroup (cu_PID current) SIGKILL (sp_kill w)) (\<lambda>_.
          and_then (?wg (map (sp_kills w) [0..<10])) (\<lambda>gone.
          if gone then finish_stop w True current ''killed'' else (Inl (KillTimeout (cu_PID current)), []))))))"
      unfolding keep
    proof (rule guarded_and_then)
      fix gone
      assume r: "fst (?wg (sp_polls w)) = Inr gone"
      show "guarded ?own (last_look (Some (cu_PID current, ob)) (snd (?wg (sp_polls w)))) (snd (
        if gone then finish_stop w force current ''stopped''
        else if \<not> force then (Inl (StopTimeout (cu_PID current)), [])
        else and_then (signalGroup (cu_PID current) SIGKILL (sp_kill w)) (\<lambda>_.
          and_then (?wg (map (sp_kills w) [0..<10])) (\<lambda>gone.
          if gone then finish_stop w True current ''killed'' else (Inl (KillTimeout (cu_PID current)), [])))))"
      proof (cases gone)
        case True
        then show ?thesis by (simp add: finish_stop_guarded)
      next
        case False
        with r have "fst (?wg (sp_polls w)) = Inr False" by simp
        from looked [OF this] obtain ob' where ob': "?own (cu_PID current) ob'"
            "last_look (Some (cu_PID current, ob)) (snd (?wg (sp_polls w))) = Some (cu_PID current, ob')"
          by blast
        show ?thesis
          unfolding ob'(2) using False killed [OF ob'(1)] by simp
      qed
    qed (rule wg)
  qed
qed

text \<open>A property of single events that each part has.\<close>

lemma all_and_then: "list_all P (snd m) \<Longrightarrow> (\<And>x. list_all P (snd (f x))) \<Longrightarrow> list_all P (snd (and_then m f))"
  by (cases m; cases "fst m") auto

lemma all_wait_gone: "(\<And>ob. list_all P (snd (poll ob))) \<Longrightarrow> list_all P (snd (wait_gone poll obs))"
  by (induction obs) (auto intro!: all_and_then)

definition process_event :: "session_event \<Rightarrow> bool" where
  "process_event e = (case e of Saw _ _ \<Rightarrow> True | Signalled _ _ _ \<Rightarrow> True | _ \<Rightarrow> False)"

lemma looks_only:
  "list_all process_event (snd (SessionAlive c ob))" "list_all process_event (snd (sidecarAlive s ob))"
  "list_all process_event (snd (signalGroup pid sig r))" "list_all process_event (snd (poll_session c ob))"
  by (simp_all add: SessionAlive_def sidecarAlive_def signalGroup_def poll_saw process_event_def)

lemma sidecars_only: "list_all process_event (snd (stopSidecars world force ss))"
proof -
  have "list_all process_event (snd (stopSidecar w force s))" for w s
    unfolding stopSidecar_def by (auto intro!: all_and_then all_wait_gone looks_only)
  then have "list_all process_event (snd (stop_in_order world force ss))" for ss
    by (induction ss) (auto intro!: all_and_then)
  then show ?thesis
    by (simp add: stopSidecars_def)
qed

lemma all_mono: "list_all P es \<Longrightarrow> (\<And>e. P e \<Longrightarrow> Q e) \<Longrightarrow> list_all Q es"
  by (simp add: list_all_iff)

definition core_event :: "CurrentSession \<Rightarrow> session_event \<Rightarrow> bool" where
  "core_event current e = (case e of CoreSignalled handle _ _ \<Rightarrow> handle = cu_Handle current \<and> handle \<noteq> [] | _ \<Rightarrow> True)"

lemma core_parts:
  "process_event e \<Longrightarrow> core_event c e" "list_all (core_event c) (snd (restore_dns w s))" "list_all (core_event c) (snd (ClearCurrent w))"
  "list_all (core_event c) (snd (finish_stop w force s state))"
proof -
  show "process_event e \<Longrightarrow> core_event c e" for e
    by (cases e) (simp_all add: process_event_def core_event_def)
  then have "list_all (core_event c) (snd (stopSidecars world force ss))" for world force ss
    using sidecars_only all_mono by blast
  moreover show r: "list_all (core_event c) (snd (restore_dns w s))" "list_all (core_event c) (snd (ClearCurrent w))"
    by (auto simp: restore_dns_def ClearCurrent_def core_event_def list_all_iff split: prod.splits option.splits)
  ultimately show "list_all (core_event c) (snd (finish_stop w force s state))"
    unfolding finish_stop_def by (auto intro!: all_and_then)
qed

lemma core_handles:
  assumes "ResolveCurrent (sp_launchdPID w) files launch = Inr current"
  shows "list_all (core_event current) (snd (Stop w files launch force))"
proof -
  have looks: "list_all (core_event current) (snd (SessionAlive c ob))" "list_all (core_event current) (snd (signalGroup pid sig r))"
    "list_all (core_event current) (snd (wait_gone (poll_session c) obs))" for c ob pid sig r obs
    by (rule all_mono [OF looks_only(1) core_parts(1)] all_mono [OF looks_only(3) core_parts(1)]
        all_wait_gone all_mono [OF looks_only(4) core_parts(1)]; assumption?)+
  have helper: "list_all (core_event current) (snd (stopHelperSession w force c))" if "cu_Handle c = cu_Handle current" for c
    unfolding stopHelperSession_def using looks(3) that by (auto intro!: all_and_then simp: core_signal_def core_event_def)
  have launchd: "list_all (core_event current) (snd (stopLaunchdSession w c))" for c
    unfolding stopLaunchdSession_def using looks(3) by (auto intro!: all_and_then simp: core_event_def split: option.splits)
  have process: "list_all (core_event current) (snd (stopProcessSession w force c))" for c
    unfolding stopProcessSession_def using looks(2,3) core_parts(4) by (auto intro!: all_and_then)
  show ?thesis
    unfolding Stop_def assms sum.case Let_def
    by (rule all_and_then, rule looks(1)) (auto intro!: all_and_then core_parts(4) launchd process helper)
qed



section \<open>Outcome\<close>

text \<open>A sidecar was seen to be gone, or killed where that was asked for.\<close>

definition side_stopped :: "bool \<Rightarrow> session_event list \<Rightarrow> SidecarSession \<Rightarrow> bool" where
  "side_stopped force es s \<longleftrightarrow>
    (\<exists>ob. Saw (sc_PID s) ob \<in> set es \<and> sidecar_alive s ob = Inr False) \<or>
    (force \<and> (\<exists>r. Signalled (sc_PID s) SIGKILL r \<in> set es \<and> r \<in> {KillOk, KillESRCH}))"

lemma sidecar_outcome:
  assumes "stopSidecar w force s = (Inr (), es)"
  shows "side_stopped force es s"
proof -
  have wg: "\<exists>ob. Saw (sc_PID s) ob \<in> set es' \<and> sidecar_alive s ob = Inr False"
    if "wait_gone (sidecarAlive s) obs = (Inr True, es')" for obs es'
    using that
    by (induction obs arbitrary: es') (fastforce simp: and_then_Inr sidecarAlive_def split: if_splits)+
  show ?thesis
    using assms
    by (auto simp: side_stopped_def stopSidecar_def and_then_Inr signalGroup_def sidecarAlive_def split: if_splits kill_result.splits dest!: wg)
qed

lemma sidecars_outcome:
  assumes "stopSidecars world force ss = (Inr (), es)" "s \<in> set ss"
  shows "side_stopped force es s"
proof -
  have "s \<in> set ss \<Longrightarrow> stop_in_order world force ss = (Inr (), es) \<Longrightarrow>
    side_stopped force es s" for ss es
    by (induction ss arbitrary: es) (auto simp: and_then_Inr side_stopped_def dest!: sidecar_outcome)
  from this [of "rev ss" es] assms show ?thesis
    by (simp add: stopSidecars_def)
qed


lemma finish_outcome:
  assumes "finish_stop w force current state = (r, es)"
  shows "RemovedCurrent \<in> set es \<longleftrightarrow> r = Inr (current, state)"
    "r = Inr (current, state) \<Longrightarrow> (\<exists>sides cs. es = sides @ map DnsCalled cs @ [RemovedCurrent] \<and>
       list_all (side_stopped force sides) (cu_Sidecars current) \<and>
       restoreSystemDNSHandoff (sp_dns w) current = (Inr (), cs))"
    "r = Inr x \<Longrightarrow> x = (current, state)"
proof -
  have sides: "RemovedCurrent \<notin> set (snd (stopSidecars world f ss))" for world f ss
    using sidecars_only [of world f ss] by (auto simp: list_all_iff process_event_def)
  obtain r1 es1 where one: "stopSidecars (sp_sidecars w) force (cu_Sidecars current) = (r1, es1)" by fastforce
  obtain r2 cs where two: "restoreSystemDNSHandoff (sp_dns w) current = (r2, cs)" by fastforce
  have "RemovedCurrent \<notin> set es1"
    using sides [of "sp_sidecars w" force "cu_Sidecars current"] one by simp
  moreover have "list_all (side_stopped force es1) (cu_Sidecars current)" if "r1 = Inr ()"
    using one that sidecars_outcome by (auto simp: list_all_iff)
  ultimately show "RemovedCurrent \<in> set es \<longleftrightarrow> r = Inr (current, state)"
    "r = Inr (current, state) \<Longrightarrow> (\<exists>sides cs. es = sides @ map DnsCalled cs @ [RemovedCurrent] \<and>
       list_all (side_stopped force sides) (cu_Sidecars current) \<and>
       restoreSystemDNSHandoff (sp_dns w) current = (Inr (), cs))"
    "r = Inr x \<Longrightarrow> x = (current, state)"
    using assms one two
    by (cases r1; cases r2; cases "sp_remove w"; auto simp: finish_stop_def restore_dns_def ClearCurrent_def)+
qed

text \<open>The trace of a stop: what is done to the tunnel process, then the end of every successful stop.\<close>

definition gone :: "CurrentSession \<Rightarrow> session_event list \<Rightarrow> bool" where
  "gone current es \<longleftrightarrow> (\<exists>ob. Saw (cu_PID current) ob \<in> set es \<and> (\<exists>pid. session_alive current ob = Inr (False, pid)))"

lemma poll_eq: "poll_session current ob = (map_sum (\<lambda>e. e) fst (session_alive current ob), [Saw (cu_PID current) ob])"
  by (cases "session_alive current ob") (auto simp: poll_session_def SessionAlive_def split: prod.splits)

lemma wait_gone_gone:
  "wait_gone (poll_session current) obs = (Inr True, es) \<Longrightarrow> gone current es"
proof (induction obs arbitrary: es)
  case (Cons ob obs)
  show ?case
  proof (cases "session_alive current ob")
    case (Inl e)
    with Cons(2) show ?thesis by (simp add: poll_eq)
  next
    case (Inr b)
    then obtain alive pid where b: "session_alive current ob = Inr (alive, pid)"
      by (cases b) simp
    then have p: "poll_session current ob = (Inr alive, [Saw (cu_PID current) ob])"
      by (simp add: poll_eq)
    with b Cons show ?thesis
      by (cases alive; cases "wait_gone (poll_session current) obs") (auto simp: gone_def)
  qed
qed simp

lemma poll_record_fields:
  "cu_PID (launchdStopPollRecord c) = cu_PID c" "cu_Command (launchdStopPollRecord c) = cu_Command c"
  "cu_ProcessComm (launchdStopPollRecord c) = cu_ProcessComm c" "cu_ProcessStart (launchdStopPollRecord c) = cu_ProcessStart c"
  "cu_LaunchMode (launchdStopPollRecord c) = cu_LaunchMode c" "cu_LaunchLabel (launchdStopPollRecord c) = cu_LaunchLabel c"
  by (simp_all add: launchdStopPollRecord_def)

lemma alive_poll_record: "session_alive (launchdStopPollRecord c) ob = session_alive c ob"
  unfolding session_alive_def sessionProcessMatches_def poll_record_fields by (rule refl)

lemma gone_poll_record [simp]: "gone (launchdStopPollRecord c) es = gone c es"
  by (simp add: gone_def alive_poll_record poll_record_fields)

lemma gone_append: "gone c es \<Longrightarrow> gone c (es @ es')" "gone c es' \<Longrightarrow> gone c (es @ es')"
  by (auto simp: gone_def)

lemma gone_Cons: "gone c es \<Longrightarrow> gone c (e # es)"
  by (auto simp: gone_def)

text \<open>\<open>ended w c es\<close>: the sidecars are stopped, then the DNS is restored, then the record is removed, and nothing follows.\<close>

definition ended :: "stop_world \<Rightarrow> CurrentSession \<Rightarrow> session_event list \<Rightarrow> bool" where
  "ended w c es \<longleftrightarrow> (\<exists>pre force sides cs. es = pre @ sides @ map DnsCalled cs @ [RemovedCurrent] \<and> RemovedCurrent \<notin> set pre \<and>
     gone c pre \<and> list_all (side_stopped force sides) (cu_Sidecars c) \<and>
     restoreSystemDNSHandoff (sp_dns w) c = (Inr (), cs))"

lemma finish_ended:
  assumes "and_then m (\<lambda>_. finish_stop w force c state) = (r, es)"
    and "RemovedCurrent \<notin> set (snd m)" "\<And>x. fst m = Inr x \<Longrightarrow> gone c (pre @ snd m)" "RemovedCurrent \<notin> set pre"
  shows "(RemovedCurrent \<in> set es \<longleftrightarrow> (\<exists>x. r = Inr x)) \<and> (\<forall>x. r = Inr x \<longrightarrow> x = (c, state) \<and> ended w c (pre @ es))"
proof (cases "fst m")
  case (Inl e)
  with assms(1,2) show ?thesis by (cases m) auto
next
  case (Inr x)
  obtain r2 es2 where f: "finish_stop w force c state = (r2, es2)" by fastforce
  from Inr f assms(1) have r: "r = r2" "es = snd m @ es2"
    by (cases m; auto)+
  note out = finish_outcome [OF f]
  have "ended w c (pre @ es)" if "r2 = Inr (c, state)"
    using out(2) [OF that] assms(2-4) Inr unfolding ended_def r(2) by (metis append.assoc Un_iff set_append)
  then show ?thesis
    using out(1,3) assms(2) r by auto
qed

lemma removed_parts:
  "RemovedCurrent \<notin> set (snd (SessionAlive c ob))" "RemovedCurrent \<notin> set (snd (stopHelperSession w force c))"
  "RemovedCurrent \<notin> set (snd (stopLaunchdSession w c))" "RemovedCurrent \<notin> set (snd (wait_gone (poll_session c) obs))"
  "RemovedCurrent \<notin> set (snd (signalGroup pid sig r))"
proof -
  have drop: "list_all (\<lambda>e. e \<noteq> RemovedCurrent) es" if "list_all process_event es" for es
    using that by (rule all_mono) (auto simp: process_event_def)
  have looks: "list_all (\<lambda>e. e \<noteq> RemovedCurrent) (snd (SessionAlive c ob))"
    "list_all (\<lambda>e. e \<noteq> RemovedCurrent) (snd (wait_gone (poll_session c) obs))"
    "list_all (\<lambda>e. e \<noteq> RemovedCurrent) (snd (signalGroup pid sig r))" for c ob obs pid sig r
    by (rule drop looks_only(1,3) all_wait_gone looks_only(4))+
  have none: "x \<notin> set es" if "list_all (\<lambda>e. e \<noteq> x) es" for x :: session_event and es
    using that by (auto simp: list_all_iff)
  have parts: "list_all (\<lambda>e. e \<noteq> RemovedCurrent) (snd (stopHelperSession w force c))"
    "list_all (\<lambda>e. e \<noteq> RemovedCurrent) (snd (stopLaunchdSession w c))"
    unfolding stopHelperSession_def stopLaunchdSession_def
    by (auto intro!: all_and_then looks(2) simp: core_signal_def split: option.splits)
  show "RemovedCurrent \<notin> set (snd (SessionAlive c ob))" "RemovedCurrent \<notin> set (snd (stopHelperSession w force c))"
    "RemovedCurrent \<notin> set (snd (stopLaunchdSession w c))" "RemovedCurrent \<notin> set (snd (wait_gone (poll_session c) obs))"
    "RemovedCurrent \<notin> set (snd (signalGroup pid sig r))"
    by (rule none [OF looks(1)] none [OF parts(1)] none [OF parts(2)] none [OF looks(2)] none [OF looks(3)])+
qed

lemma helper_gone: "fst (stopHelperSession w force c) = Inr x \<Longrightarrow> gone c (snd (stopHelperSession w force c))"
proof -
  assume "fst (stopHelperSession w force c) = Inr x"
  then obtain es where "stopHelperSession w force c = (Inr x, es)"
    by (cases "stopHelperSession w force c") simp
  then show ?thesis
    by (auto simp: stopHelperSession_def and_then_Inr split: if_splits dest!: wait_gone_gone intro: gone_append gone_Cons)
qed

lemma launchd_gone: "fst (stopLaunchdSession w c) = Inr x \<Longrightarrow> gone c (snd (stopLaunchdSession w c))"
proof -
  assume "fst (stopLaunchdSession w c) = Inr x"
  then obtain es where "stopLaunchdSession w c = (Inr x, es)"
    by (cases "stopLaunchdSession w c") simp
  then show ?thesis
    by (auto simp: stopLaunchdSession_def and_then_Inr split: if_splits option.splits dest!: wait_gone_gone intro: gone_append gone_Cons)
qed

text \<open>One statement about a finished stop, for a part \<open>m\<close> of it that comes after \<open>pre\<close>.\<close>

definition stop_ok :: "stop_world \<Rightarrow> session_event list \<Rightarrow> (session_error + CurrentSession \<times> string) \<times> session_event list \<Rightarrow> bool" where
  "stop_ok w pre m \<longleftrightarrow> (RemovedCurrent \<in> set (snd m) \<longleftrightarrow> (\<exists>x. fst m = Inr x)) \<and>
     (\<forall>c state. fst m = Inr (c, state) \<longrightarrow> state \<in> {''stale'', ''stopped'', ''killed''} \<and> ended w c (pre @ snd m))"

lemma stop_ok_finish:
  assumes "RemovedCurrent \<notin> set (snd m)" "\<And>x. fst m = Inr x \<Longrightarrow> gone c (pre @ snd m)" "RemovedCurrent \<notin> set pre"
    "state \<in> {''stale'', ''stopped'', ''killed''}"
  shows "stop_ok w pre (and_then m (\<lambda>_. finish_stop w force c state))"
  using finish_ended [of m w force c state "fst (and_then m (\<lambda>_. finish_stop w force c state))"
    "snd (and_then m (\<lambda>_. finish_stop w force c state))" pre] assms unfolding stop_ok_def by auto

lemma stop_ok_now:
  "gone c pre \<Longrightarrow> RemovedCurrent \<notin> set pre \<Longrightarrow> state \<in> {''stale'', ''stopped'', ''killed''} \<Longrightarrow> stop_ok w pre (finish_stop w force c state)"
  using stop_ok_finish [of "(Inr (), [])" c pre state w force] by simp

lemma stop_ok_error: "RemovedCurrent \<notin> set es \<Longrightarrow> stop_ok w pre (Inl e, es)"
  by (simp add: stop_ok_def)

lemma stop_ok_then:
  assumes "RemovedCurrent \<notin> set (snd m)" "\<And>x. fst m = Inr x \<Longrightarrow> stop_ok w (pre @ snd m) (f x)"
  shows "stop_ok w pre (and_then m f)"
  using assms by (cases m; cases "fst m") (auto simp: stop_ok_def)

lemma stop_ok_process:
  assumes "RemovedCurrent \<notin> set pre"
  shows "stop_ok w pre (stopProcessSession w force c)"
proof -
  have gone: "gone c es" if "fst (wait_gone (poll_session c) obs) = Inr True" "es = pre' @ snd (wait_gone (poll_session c) obs)" for obs es pre'
    using that wait_gone_gone [of c obs] by (cases "wait_gone (poll_session c) obs") (auto intro: gone_append)
  show ?thesis
    unfolding stopProcessSession_def
    by (intro stop_ok_then removed_parts)
      (auto intro!: stop_ok_then removed_parts stop_ok_now stop_ok_error gone simp: assms removed_parts)
qed

text \<open>
  (C8) The record of a session is removed exactly when the stop succeeds, as its very last step: the tunnel
  process has been seen to be gone, then every sidecar has been stopped and the system DNS given back. A stop
  that fails anywhere keeps the record, so it can be repeated.
\<close>

theorem stop_outcome:
  "(RemovedCurrent \<in> set (snd (Stop w files launch force)) \<longleftrightarrow> (\<exists>x. fst (Stop w files launch force) = Inr x)) \<and>
   (\<forall>c state. fst (Stop w files launch force) = Inr (c, state) \<longrightarrow>
      state \<in> {''stale'', ''stopped'', ''killed''} \<and> ended w c (snd (Stop w files launch force)))"
proof (cases "ResolveCurrent (sp_launchdPID w) files launch")
  case (Inl e)
  then show ?thesis by (simp add: Stop_def)
next
  case (Inr current)
  have "stop_ok w [] (Stop w files launch force)"
    unfolding Stop_def Inr sum.case
  proof (rule stop_ok_then, rule removed_parts, clarify, unfold Let_def)
    fix alive pid
    assume "fst (SessionAlive current (sp_first w)) = Inr (alive, pid)"
    then have look: "session_alive current (sp_first w) = Inr (alive, pid)" and saw: "snd (SessionAlive current (sp_first w)) = [Saw (cu_PID current) (sp_first w)]"
      by (simp_all add: SessionAlive_def)
    let ?c = "if 0 < pid then current\<lparr>cu_PID := pid\<rparr> else current"
    have stale: "gone ?c [Saw (cu_PID current) (sp_first w)]" if "\<not> alive"
    proof -
      have "pid = cu_PID current"
        using look that by (auto simp: session_alive_def split: sum.splits if_splits bool.splits)
      then show ?thesis
        using look that by (auto simp: gone_def)
    qed
    show "stop_ok w ([] @ snd (SessionAlive current (sp_first w)))
      (if \<not> alive then finish_stop w force ?c ''stale''
        else if cu_LaunchMode ?c = LaunchModeHelper then and_then (stopHelperSession w force ?c) (\<lambda>_. finish_stop w force ?c ''stopped'')
        else if cu_LaunchMode ?c = LaunchModeLaunchd then and_then (stopLaunchdSession w ?c) (\<lambda>_. finish_stop w force ?c ''stopped'')
        else stopProcessSession w force ?c)"
      unfolding saw using stale
      by (auto intro!: stop_ok_now stop_ok_finish stop_ok_process removed_parts
          intro: gone_Cons gone_Cons [OF helper_gone] gone_Cons [OF launchd_gone])
  qed
  then show ?thesis
    by (simp add: stop_ok_def)
qed


section \<open>Witnesses\<close>

definition sample_look :: "kill_result \<Rightarrow> observation" where
  "sample_look k = \<lparr>ob_kill = k, ob_identity = Inr (''sing-box'', 7), ob_launchd = Inr 0\<rparr>"

definition sample_sidecar :: SidecarSession where
  "sample_sidecar = \<lparr>sc_ProcessComm = [], sc_ProcessStart = 0, sc_Name = ''xray'', sc_PID = 43, sc_Command = [''sing-box''], sc_LogPath = []\<rparr>"

definition sample_side_world :: side_world where
  "sample_side_world = \<lparr>sw_first = sample_look KillOk, sw_term = KillOk, sw_polls = [sample_look KillOk], sw_last = sample_look KillEPERM, sw_kill = KillOk\<rparr>"

definition sample_running :: CurrentSession where
  "sample_running = sample_session\<lparr>cu_PID := 42, cu_LaunchMode := ''direct'', cu_ProcessComm := ''sing-box'', cu_ProcessStart := 8,
     cu_Sidecars := [sample_sidecar]\<rparr>"

definition sample_stop_world :: stop_world where
  "sample_stop_world = \<lparr>sp_launchdPID = (\<lambda>_. Inr 0), sp_first = sample_look KillOk, sp_term = KillOk,
     sp_polls = [sample_look KillEPERM], sp_kill = KillOk, sp_kills = (\<lambda>_. sample_look KillESRCH), sp_coreKills = [],
     sp_core = (\<lambda>_ _. None), sp_sudo = None, sp_bootout = None, sp_sidecars = (\<lambda>_. sample_side_world),
     sp_dns = sample_dns_env, sp_remove = None\<rparr>"

definition sample_files :: session_files where
  "sample_files = \<lparr>sf_current = Some (Inr sample_running), sf_entries = None\<rparr>"

definition kills :: "session_event list \<Rightarrow> (int \<times> unix_signal) list" where
  "kills es = concat (map (\<lambda>e. case e of Signalled pid sig _ \<Rightarrow> [(pid, sig)] | _ \<Rightarrow> []) es)"

lemma sample_stop:
  "kills (snd (Stop sample_stop_world sample_files defaultLaunch True)) = [(42, SIGTERM), (42, SIGKILL), (43, SIGTERM), (43, SIGKILL)]"
  "fst (Stop sample_stop_world sample_files defaultLaunch True) = Inr (sample_running, ''killed'')"
  by code_simp+


theorem stop_outcome_witness:
  "RemovedCurrent \<in> set (snd (Stop sample_stop_world sample_files defaultLaunch True)) \<and>
   ended sample_stop_world sample_running (snd (Stop sample_stop_world sample_files defaultLaunch True))"
  using stop_outcome [of sample_stop_world sample_files defaultLaunch True] sample_stop(2) by blast

end
