(* ===== verification/Session_Start_Laws.thy ===== *)
theory Session_Start_Laws
  imports Session_Start Session_Laws
begin

text \<open>
  What starting a session promises: a start that fails leaves no tunnel process behind it and no record of
  a session, and a start that succeeds has recorded the process it started, as its last step.
\<close>

section \<open>Events of the parts\<close>

text \<open>The events that concern the tunnel process and the session file.\<close>

definition tunnel_event :: "session_event \<Rightarrow> bool" where
  "tunnel_event e = (case e of StartedProcess _ \<Rightarrow> True | StartedCore _ _ \<Rightarrow> True | SavedCurrent _ \<Rightarrow> True | _ \<Rightarrow> False)"

lemma tunnel_simps [simp]:
  "\<not> tunnel_event (Saw p ob)" "\<not> tunnel_event (Signalled p sig r)" "\<not> tunnel_event (SignalledProcess p sig r)"
  "\<not> tunnel_event (CoreSignalled h c f)" "\<not> tunnel_event (Launchctl xs)" "\<not> tunnel_event (DnsCalled c')"
  "\<not> tunnel_event RemovedCurrent" "tunnel_event (SavedCurrent s)" "\<not> tunnel_event (SavedMetadata s)"
  "\<not> tunnel_event (StartedSidecar p)" "\<not> tunnel_event (ReapedSidecar p)" "tunnel_event (StartedProcess p)"
  "tunnel_event (StartedCore p h)"
  by (simp_all add: tunnel_event_def)

abbreviation no_tunnel :: "session_event list \<Rightarrow> bool" where
  "no_tunnel \<equiv> list_all (\<lambda>e. \<not> tunnel_event e)"

lemma process_no_tunnel: "process_event e \<Longrightarrow> \<not> tunnel_event e"
  by (cases e) (simp_all add: process_event_def)

lemma stop_sides_no_tunnel: "no_tunnel (snd (stopSidecars world force ss))"
  by (rule all_mono [OF sidecars_only process_no_tunnel])

lemma stopped_no_tunnel: "no_tunnel (stopped_events w s)" "no_tunnel (cleared_events w s)"
proof -
  have restore: "no_tunnel (snd (restore_dns v s))" for v
    by (auto simp: restore_dns_def list_all_iff split: prod.splits)
  have polls: "no_tunnel (snd (wait_gone (poll_session c) obs))" for c obs
    by (rule all_mono [OF all_wait_gone process_no_tunnel]) (rule looks_only)
  have launchd: "no_tunnel (snd (stopLaunchdSession v s))" for v
    unfolding stopLaunchdSession_def by (auto intro!: all_and_then polls split: option.splits)
  have kill: "no_tunnel (snd (killHelperSession v s))" "no_tunnel (snd (signalGroup pid sig r))" for v pid sig r
    by (simp_all add: killHelperSession_def core_signal_def signalGroup_def)
  show one: "no_tunnel (stopped_events w s)"
    using restore [of "sa_stop w"] launchd [of "sa_stop w"] kill(1) [of "sa_stop w"] kill(2) stop_sides_no_tunnel [of "sp_sidecars (sa_stop w)" True "cu_Sidecars s"]
    by (auto simp: stopped_events_def stopStartedSession_def split: prod.splits if_splits) (metis snd_conv)+
  show "no_tunnel (cleared_events w s)"
    using one by (auto simp: cleared_events_def ClearCurrent_def split: option.splits)
qed

lemma look_only: "list_all process_event (snd (look_alive pid ob))"
  by (simp add: look_alive_def process_event_def)

definition side_event :: "session_event \<Rightarrow> bool" where
  "side_event e = (case e of Saw _ _ \<Rightarrow> True | Signalled _ _ _ \<Rightarrow> True | SignalledProcess _ _ _ \<Rightarrow> True | StartedSidecar _ \<Rightarrow> True
     | ReapedSidecar _ \<Rightarrow> True | _ \<Rightarrow> False)"

lemma side_simps [simp]:
  "side_event (Saw p ob)" "side_event (Signalled p sig r)" "side_event (SignalledProcess p sig r)"
  "side_event (StartedSidecar p)" "side_event (ReapedSidecar p)"
  by (simp_all add: side_event_def)

lemma side_no_tunnel: "side_event e \<Longrightarrow> \<not> tunnel_event e" "process_event e \<Longrightarrow> side_event e"
  by (cases e; simp_all add: side_event_def process_event_def)+

lemma orphan_events: "list_all side_event (snd (cleanupOrphanSidecars world self ps options))"
proof -
  have wait: "list_all side_event (snd (waitForSidecarProcessExit pid looks))" for pid looks
    unfolding waitForSidecarProcessExit_def by (rule all_mono [OF all_wait_gone side_no_tunnel(2)]) (rule look_only)
  have signal: "list_all side_event (snd (signalOrphanSidecar w p sig))" for w p sig
    by (simp add: signalOrphanSidecar_def signalPID_def signalGroup_def)
  have stop: "list_all side_event (snd (terminateOrphanSidecar w n p))" for w n p
    unfolding terminateOrphanSidecar_def by (auto intro!: all_and_then wait signal)
  have processes: "list_all side_event (snd (cleanup_processes world self t seen qs))" for t seen qs
    by (induction world self t seen qs rule: cleanup_processes.induct) (auto intro!: all_and_then stop)
  have "list_all side_event (snd (cleanup_targets world self qs seen ts))" for qs seen ts
    by (induction ts arbitrary: seen) (auto intro!: all_and_then processes)
  then show ?thesis
    by (simp add: cleanupOrphanSidecars_def Let_def split: sum.splits)
qed

lemma sidecar_events: "list_all side_event (snd (startSidecars world sides self lookPath cacheDir sid options))"
proof -
  have looks: "list_all side_event (snd (sidecar_looks w slf opt s obs))" for w slf opt s obs
  proof (induction obs)
    case (Cons ob obs)
    show ?case
      unfolding sidecar_looks.simps
    proof (rule all_and_then, rule all_mono [OF look_only side_no_tunnel(2)], assumption)
      fix alive
      show "list_all side_event (snd (if alive then sidecar_looks w slf opt s obs
        else case findRunningSidecar slf (sx_ps w) opt of
          Inl e \<Rightarrow> (Inl e, [])
        | Inr (Some p) \<Rightarrow> (recordSidecarIdentity (sx_identity2 w) (s\<lparr>sc_PID := sy_PID p\<rparr>), [])
        | Inr None \<Rightarrow> (Inl (SidecarExited (LastRelevantLogLine (sx_log w))), [])))"
        using Cons by (simp split: sum.splits option.splits)
    qed
  qed simp
  have one: "list_all side_event (snd (startSidecar w self lookPath cacheDir sid opt))" for w opt
    unfolding startSidecar_def Let_def
    by (auto intro!: all_and_then looks simp del: sidecar_looks.simps split: sum.splits option.splits)
  have "list_all side_event (snd (start_sidecars world sides self lookPath cacheDir sid started opts))" for started opts
  proof (induction opts arbitrary: started)
    case (Cons opt opts)
    have stop: "list_all side_event (snd (stopSidecars sides True started))"
      by (rule all_mono [OF sidecars_only side_no_tunnel(2)])
    obtain r es where s: "startSidecar (world opt) self lookPath cacheDir sid opt = (r, es)" by fastforce
    then have "list_all side_event es"
      using one [of "world opt" opt] by simp
    then show ?case
      using s stop Cons by (cases r) (auto split: prod.splits, metis snd_conv)
  qed simp
  then show ?thesis
    by (simp add: startSidecars_def)
qed

section \<open>From the process to the record\<close>

definition same_process :: "CurrentSession \<Rightarrow> CurrentSession \<Rightarrow> bool" where
  "same_process s t \<longleftrightarrow> cu_PID s = cu_PID t \<and> cu_Handle s = cu_Handle t \<and> cu_LaunchMode s = cu_LaunchMode t"

text \<open>The tunnel process was killed: by its handle when the privileged service holds it, by its group otherwise.\<close>

definition abandoned :: "CurrentSession \<Rightarrow> session_event list \<Rightarrow> bool" where
  "abandoned s es \<longleftrightarrow>
    (if cu_LaunchMode s = LaunchModeHelper then cu_Handle s = [] \<or> (\<exists>r. CoreSignalled (cu_Handle s) ''-KILL'' r \<in> set es)
     else \<exists>r. Signalled (cu_PID s) SIGKILL r \<in> set es)"

lemma abandoned_same: "same_process s t \<Longrightarrow> abandoned s es = abandoned t es"
  by (simp add: same_process_def abandoned_def)

lemma abandoned_append: "abandoned s es \<Longrightarrow> abandoned s (es @ es')" "abandoned s es' \<Longrightarrow> abandoned s (es @ es')" "abandoned s es \<Longrightarrow> abandoned s (e # es)"
  by (auto simp: abandoned_def split: if_splits)

lemma stopped_kills:
  assumes "cu_LaunchMode s \<noteq> LaunchModeLaunchd"
  shows "abandoned s (stopped_events w s)" "abandoned s (cleared_events w s)"
proof -
  show "abandoned s (stopped_events w s)"
    using assms by (auto simp: abandoned_def stopped_events_def stopStartedSession_def killHelperSession_def core_signal_def signalGroup_def
        split: prod.splits)
  then show "abandoned s (cleared_events w s)"
    by (simp add: cleared_events_def abandoned_append)
qed

lemma handoff_same: "applySystemDNSHandoff env options s = (Inr t, cs) \<Longrightarrow> same_process t s \<and> cu_ProcessComm t = cu_ProcessComm s \<and>
    cu_ProcessStart t = cu_ProcessStart s \<and> cu_Command t = cu_Command s"
  by (erule apply_cases)
    (auto simp: same_process_def applyScutilDNSHandoff_def applyNetworkServiceDNSHandoff_def Let_def split: if_splits prod.splits sum.splits)

lemma snd_Cons [simp]: "snd (case m of (r, es) \<Rightarrow> (r, e # es)) = e # snd m"
  by (cases m) simp

lemma readiness_no_tunnel: "no_tunnel (snd (readiness_loop s n looks))"
proof (induction looks arbitrary: s n)
  case (Cons look looks)
  show ?case
  proof (cases "session_alive s (rl_process look)")
    case (Inr x)
    with Cons show ?thesis by (cases x) (simp add: Let_def)
  qed simp
qed simp

text \<open>\<open>outcome s m\<close>: a failure has killed the process of \<open>s\<close> and saved nothing, a success ends with the record of that process.\<close>

definition outcome :: "CurrentSession \<Rightarrow> (session_error + CurrentSession) \<times> session_event list \<Rightarrow> bool" where
  "outcome s m \<longleftrightarrow>
    (case fst m of
       Inl e \<Rightarrow> (\<exists>e'. e = LivenessUnknown e') \<or> (no_tunnel (snd m) \<and> abandoned s (snd m))
     | Inr t \<Rightarrow> same_process t s \<and> (\<exists>pre. snd m = pre @ [SavedCurrent t] \<and> no_tunnel pre))"

lemma outcome_then:
  assumes "no_tunnel (snd m)" "\<And>e. fst m = Inl e \<Longrightarrow> abandoned s (snd m)" "\<And>x. fst m = Inr x \<Longrightarrow> outcome s (f x)"
  shows "outcome s (and_then m f)"
proof (cases "fst m")
  case (Inl e)
  with assms(1,2) show ?thesis
    by (cases m) (auto simp: outcome_def)
next
  case (Inr x)
  then have "and_then m f = (fst (f x), snd m @ snd (f x))"
    by (cases m) simp
  with assms(1) assms(3) [OF Inr] show ?thesis
    by (auto simp: outcome_def abandoned_append split: sum.splits)
qed

lemma saved:
  "snd (save f e) \<in> {[], [e]}" "fst (save f e) = Inl x \<Longrightarrow> snd (save f e) = []" "fst (save f e) = Inr u \<Longrightarrow> snd (save f e) = [e]"
  by (auto simp: save_def split: option.splits)

lemma on_error_parts:
  "fst (on_error m undo) = fst m" "fst m = Inl e \<Longrightarrow> snd (on_error m undo) = snd m @ undo" "fst m = Inr x \<Longrightarrow> snd (on_error m undo) = snd m"
  by (cases m; cases "fst m"; auto simp: on_error_def)+

lemma settle_dns_outcome:
  assumes "cu_LaunchMode s \<noteq> LaunchModeLaunchd"
  shows "outcome s (settle_dns w options s)"
proof -
  obtain r cs where a: "applySystemDNSHandoff (sa_dns w) options s = (r, cs)" by fastforce
  have dns: "no_tunnel (map DnsCalled cs)"
    by (simp add: list_all_iff)
  show ?thesis
  proof (cases r)
    case (Inl e)
    with a dns stopped_no_tunnel stopped_kills [OF assms] show ?thesis
      by (simp add: settle_dns_def outcome_def abandoned_append)
  next
    case (Inr s1)
    note same = handoff_same [OF a [unfolded Inr], THEN conjunct1]
    then have kills: "abandoned s (stopped_events w s1)" "abandoned s (cleared_events w s1)"
      using assms stopped_kills [of s1 w] by (auto simp: same_process_def abandoned_def)
    let ?wait = "if shouldWaitStartupDNSReadiness (sa_darwin w) s1 options
      then readiness_loop s1 0 (fst (sa_ready w) # snd (sa_ready w)) else (Inr (), [])"
    have wait: "no_tunnel (snd (on_error ?wait (cleared_events w s1)))" "\<And>e. fst ?wait = Inl e \<Longrightarrow> abandoned s (snd (on_error ?wait (cleared_events w s1)))"
      using kills(2) stopped_no_tunnel(2) readiness_no_tunnel [of s1 0 "fst (sa_ready w) # snd (sa_ready w)"]
      by (cases "fst ?wait"; simp add: on_error_parts abandoned_append)+
    have last: "outcome s (and_then (on_error (save (sa_saveCurrent w) (SavedCurrent s1)) (stopped_events w s1)) (\<lambda>_. (Inr s1, [])))"
      using kills(1) stopped_no_tunnel(1) same
      by (cases "sa_saveCurrent w") (auto simp: on_error_def save_def outcome_def)
    have meta: "outcome s (and_then (on_error (save (sa_saveMetadata2 w) (SavedMetadata s1)) (stopped_events w s1)) (\<lambda>_.
        and_then (on_error (save (sa_saveCurrent w) (SavedCurrent s1)) (stopped_events w s1)) (\<lambda>_. (Inr s1, []))))"
      using kills(1) stopped_no_tunnel(1) last
      by (intro outcome_then [where m = "on_error (save (sa_saveMetadata2 w) (SavedMetadata s1)) (stopped_events w s1)"])
        (auto simp: on_error_def save_def split: option.splits)
    show ?thesis
      unfolding settle_dns_def a Inr prod.case sum.case
    proof (rule outcome_then)
      show "outcome s (and_then (on_error ?wait (cleared_events w s1)) (\<lambda>_.
          and_then (on_error (save (sa_saveMetadata2 w) (SavedMetadata s1)) (stopped_events w s1)) (\<lambda>_.
          and_then (on_error (save (sa_saveCurrent w) (SavedCurrent s1)) (stopped_events w s1)) (\<lambda>_. (Inr s1, [])))))"
        using wait meta by (intro outcome_then [where m = "on_error ?wait (cleared_events w s1)"]) (auto simp: on_error_parts(1))
    qed (use dns in simp_all)
  qed
qed

lemma stable_outcome:
  assumes "cu_LaunchMode s \<noteq> LaunchModeLaunchd" "stable_looks s ob obs = (r, es)"
  shows "no_tunnel es" "\<And>pid. r = Inr pid \<Longrightarrow> pid = cu_PID s \<and> (\<exists>ob. Saw (cu_PID s) ob \<in> set es \<and> own_process s (cu_PID s) ob)"
proof -
  have "no_tunnel es \<and> (\<forall>pid. r = Inr pid \<longrightarrow> pid = cu_PID s \<and> (\<exists>ob. Saw (cu_PID s) ob \<in> set es \<and> own_process s (cu_PID s) ob))"
    using assms(2)
  proof (induction obs arbitrary: ob r es)
    case Nil
    then show ?case
      using alive_own [OF _ assms(1)] by (auto simp: stable_looks.simps [of s ob] split: sum.splits prod.splits if_splits)
  next
    case (Cons ob' obs)
    obtain r' es' where rec: "stable_looks s ob' obs = (r', es')" by fastforce
    then show ?case
      using Cons(1) [OF rec] Cons(2) by (auto simp: stable_looks.simps [of s ob] split: sum.splits prod.splits if_splits)
  qed
  then show "no_tunnel es" "\<And>pid. r = Inr pid \<Longrightarrow> pid = cu_PID s \<and> (\<exists>ob. Saw (cu_PID s) ob \<in> set es \<and> own_process s (cu_PID s) ob)"
    by auto
qed

lemma identity_same:
  "recordProcessIdentity lookups s = Inr t \<Longrightarrow> same_process t s"
  by (auto simp: recordProcessIdentity_def same_process_def split: sum.splits identity_error.splits)

lemma settle_outcome:
  assumes "cu_LaunchMode s \<noteq> LaunchModeLaunchd"
  shows "outcome s (settle w options s)"
proof (cases "recordProcessIdentity (sa_identity w) s")
  case (Inl e)
  then show ?thesis
    using stopped_no_tunnel stopped_kills [OF assms] by (simp add: settle_def outcome_def)
next
  case (Inr s1)
  note same = identity_same [OF this]
  then have mode: "cu_LaunchMode s1 \<noteq> LaunchModeLaunchd"
    using assms by (simp add: same_process_def)
  have ab: "abandoned s es = abandoned s1 es" for es
    by (rule abandoned_same [OF same, symmetric])
  have out: "outcome s m = outcome s1 m" for m
    using same ab by (auto simp: outcome_def same_process_def split: sum.splits)
  obtain r es where looks: "stable_looks s1 (fst (sa_looks w)) (snd (sa_looks w)) = (r, es)" by fastforce
  note st = stable_outcome [OF mode looks]
  have "outcome s1 (case (r, es) of
          (Inl (LivenessUnknown e), es) \<Rightarrow> (Inl (LivenessUnknown e), es @ snd (save (sa_saveUnknown w) (SavedCurrent s1)))
        | (Inl e, es) \<Rightarrow> (Inl e, es @ cleared_events w s1)
        | (Inr pid, es) \<Rightarrow>
            and_then (Inr (), es) (\<lambda>_.
            if pid > 0 \<and> pid \<noteq> cu_PID s1 then
              (case recordProcessIdentity (sa_identity2 w) (s1\<lparr>cu_PID := pid\<rparr>) of
                 Inl e \<Rightarrow> (Inl e, cleared_events w (s1\<lparr>cu_PID := pid\<rparr>))
               | Inr s2 \<Rightarrow> settle_dns w options s2)
            else settle_dns w options s1))"
  proof (cases r)
    case (Inl e)
    with st(1) stopped_no_tunnel(2) stopped_kills(2) [OF mode] show ?thesis
      by (cases e) (auto simp: outcome_def abandoned_append)
  next
    case (Inr pid)
    with st have "pid = cu_PID s1" by blast
    then show ?thesis
      using Inr st(1) settle_dns_outcome [OF mode, of w options] by (auto simp: outcome_def abandoned_append split: sum.splits)
  qed
  then have "outcome s1 (and_then (on_error (save (sa_saveMetadata w) (SavedMetadata s1)) (stopped_events w s1)) (\<lambda>_.
        case stable_looks s1 (fst (sa_looks w)) (snd (sa_looks w)) of
          (Inl (LivenessUnknown e), es) \<Rightarrow> (Inl (LivenessUnknown e), es @ snd (save (sa_saveUnknown w) (SavedCurrent s1)))
        | (Inl e, es) \<Rightarrow> (Inl e, es @ cleared_events w s1)
        | (Inr pid, es) \<Rightarrow>
            and_then (Inr (), es) (\<lambda>_.
            if pid > 0 \<and> pid \<noteq> cu_PID s1 then
              (case recordProcessIdentity (sa_identity2 w) (s1\<lparr>cu_PID := pid\<rparr>) of
                 Inl e \<Rightarrow> (Inl e, cleared_events w (s1\<lparr>cu_PID := pid\<rparr>))
               | Inr s2 \<Rightarrow> settle_dns w options s2)
            else settle_dns w options s1)))"
    unfolding looks using stopped_no_tunnel(1) stopped_kills(1) [OF mode]
    by (intro outcome_then [where m = "on_error (save (sa_saveMetadata w) (SavedMetadata s1)) (stopped_events w s1)"])
      (auto simp: on_error_def save_def split: option.splits)
  then show ?thesis
    unfolding out by (simp only: settle_def Inr sum.case)
qed

lemma launch_mode: "resolveLaunchMode a u d m l = Inr mode \<Longrightarrow> mode \<noteq> LaunchModeLaunchd"
  by (auto simp: resolveLaunchMode_def Let_def LaunchModeLaunchd_def LaunchModeHelper_def LaunchModeDirect_def LaunchModeSudo_def
      split: if_splits)

text \<open>The event with which the tunnel process of a session appears.\<close>

definition launched :: "CurrentSession \<Rightarrow> session_event" where
  "launched s = (if cu_LaunchMode s = LaunchModeHelper then StartedCore (cu_PID s) (cu_Handle s) else StartedProcess (cu_PID s))"

lemma launch_parts:
  assumes "launch w executable s = (r, es)"
  shows "\<And>e. r = Inl e \<Longrightarrow> no_tunnel es" "\<And>t. r = Inr t \<Longrightarrow> es = [launched t] \<and> cu_LaunchMode t = cu_LaunchMode s"
  using assms stop_sides_no_tunnel
  by (auto simp: launch_def on_error_def startWithVPNCore_def startProcessSession_def launched_def split: if_splits sum.splits prod.splits)

text \<open>The whole start: up to the launch nothing concerns the tunnel process, then comes the launch, then the outcome of settling.\<close>

definition shape :: "(session_error + CurrentSession) \<times> session_event list \<Rightarrow> bool" where
  "shape m \<longleftrightarrow> (no_tunnel (snd m) \<and> (\<exists>e. fst m = Inl e)) \<or>
    (\<exists>pre s post r. snd m = pre @ launched s # post \<and> no_tunnel pre \<and> outcome s (r, post) \<and>
      (case r of Inl e \<Rightarrow> fst m = Inl e | Inr t \<Rightarrow> fst m = Inr t \<or> (\<exists>e. fst m = Inl (ReleaseFailed e))))"

lemma shape_then:
  assumes "no_tunnel (snd m)" "\<And>x. fst m = Inr x \<Longrightarrow> shape (f x)"
  shows "shape (and_then m f)"
proof (cases "fst m")
  case (Inl e)
  with assms(1) show ?thesis by (cases m) (simp add: shape_def)
next
  case (Inr x)
  then have run: "and_then m f = (fst (f x), snd m @ snd (f x))"
    by (cases m) simp
  from assms(2) [OF Inr] consider "no_tunnel (snd (f x))" "\<exists>e. fst (f x) = Inl e"
    | pre s post r where "snd (f x) = pre @ launched s # post" "no_tunnel pre" "outcome s (r, post)"
        "case r of Inl e \<Rightarrow> fst (f x) = Inl e | Inr t \<Rightarrow> fst (f x) = Inr t \<or> (\<exists>e. fst (f x) = Inl (ReleaseFailed e))"
    unfolding shape_def by blast
  then show ?thesis
  proof cases
    case 1
    with assms(1) show ?thesis by (simp add: shape_def run)
  next
    case 2
    with assms(1) have "snd (and_then m f) = (snd m @ pre) @ launched s # post" "no_tunnel (snd m @ pre)" "fst (and_then m f) = fst (f x)"
      by (simp_all add: run)
    with 2 show ?thesis unfolding shape_def by metis
  qed
qed

lemma side_list_no_tunnel: "list_all side_event es \<Longrightarrow> no_tunnel es"
  by (rule all_mono [OF _ side_no_tunnel(1)])

lemma launch_shape:
  assumes "cu_LaunchMode s \<noteq> LaunchModeLaunchd"
  shows "shape (and_then (launch w executable s) (\<lambda>s1. and_then (settle w options s1) (\<lambda>s2.
    case release of Some e \<Rightarrow> (Inl (ReleaseFailed e), []) | None \<Rightarrow> (Inr s2, []))))"
proof -
  obtain r es where l: "launch w executable s = (r, es)" by fastforce
  note parts = launch_parts [OF l]
  show ?thesis
  proof (cases r)
    case (Inl e)
    with l parts(1) show ?thesis by (simp add: shape_def)
  next
    case (Inr t)
    with parts(2) assms have t: "es = [launched t]" "cu_LaunchMode t \<noteq> LaunchModeLaunchd" by auto
    obtain r2 es2 where s2: "settle w options t = (r2, es2)" by fastforce
    with settle_outcome [OF t(2), of w options] have out: "outcome t (r2, es2)" by simp
    show ?thesis
      unfolding shape_def
    proof (rule disjI2, intro exI conjI)
      show "snd (and_then (launch w executable s) (\<lambda>s1. and_then (settle w options s1) (\<lambda>s2.
          case release of Some e \<Rightarrow> (Inl (ReleaseFailed e), []) | None \<Rightarrow> (Inr s2, [])))) = [] @ launched t # es2"
        using l Inr t(1) s2 by (cases r2) (simp_all split: option.splits)
      show "outcome t (r2, es2)" by (rule out)
      show "case r2 of
          Inl e \<Rightarrow> fst (and_then (launch w executable s) (\<lambda>s1. and_then (settle w options s1) (\<lambda>s2.
            case release of Some e \<Rightarrow> (Inl (ReleaseFailed e), []) | None \<Rightarrow> (Inr s2, [])))) = Inl e
        | Inr t \<Rightarrow> fst (and_then (launch w executable s) (\<lambda>s1. and_then (settle w options s1) (\<lambda>s2.
            case release of Some e \<Rightarrow> (Inl (ReleaseFailed e), []) | None \<Rightarrow> (Inr s2, [])))) = Inr t \<or>
            (\<exists>e. fst (and_then (launch w executable s) (\<lambda>s1. and_then (settle w options s1) (\<lambda>s2.
            case release of Some e \<Rightarrow> (Inl (ReleaseFailed e), []) | None \<Rightarrow> (Inr s2, [])))) = Inl (ReleaseFailed e))"
        using l Inr t(1) s2 by (cases r2) (simp_all split: option.splits)
    qed simp
  qed
qed

lemma start_shape: "shape (Start w cacheDir configPath profile options)"
proof (cases "resolveLaunchMode (sa_available w) (sa_euid w) (sa_darwin w) (st_Mode options) (st_PrivilegedLaunch options)")
  case (Inl e)
  then show ?thesis by (simp add: Start_def shape_def)
next
  case (Inr mode)
  note md = launch_mode [OF Inr]
  have err: "shape (Inl e, [])" for e
    by (simp add: shape_def)
  have cleanup: "no_tunnel (snd (cleanupOrphanSidecars (sa_orphans w) (sa_self w) ps (st_Sidecars options)))" for ps
    by (rule side_list_no_tunnel [OF orphan_events])
  have sides: "no_tunnel (snd (on_error (startSidecars (sa_sidecars w) sd (sa_self w) (sa_lookPath w) cacheDir (sa_sessionID w) (st_Sidecars options))
      (snd (cleanupOrphanSidecars (sa_orphans w) (sa_self w) (sa_psAfter w) (st_Sidecars options)))))" for sd
    using cleanup side_list_no_tunnel [OF sidecar_events]
    by (cases "startSidecars (sa_sidecars w) sd (sa_self w) (sa_lookPath w) cacheDir (sa_sessionID w) (st_Sidecars options)")
      (auto simp: on_error_def split: sum.splits, (metis snd_conv)+)
  have rec_mode: "cu_LaunchMode (start_record w cacheDir configPath profile options mode executable\<lparr>cu_Sidecars := sidecars\<rparr>) \<noteq> LaunchModeLaunchd" for executable sidecars
    using md by (simp add: start_record_def Let_def)
  have main: "shape (and_then (guardNestedTunnelStartup (sa_darwin w) (sa_route w) (sa_ncList w) profile (st_Mode options), []) (\<lambda>_.
         and_then (cleanupOrphanSidecars (sa_orphans w) (sa_self w) (sa_ps w) (st_Sidecars options)) (\<lambda>_.
         and_then (on_error (startSidecars (sa_sidecars w) (sp_sidecars (sa_stop w)) (sa_self w) (sa_lookPath w) cacheDir (sa_sessionID w) (st_Sidecars options))
             (snd (cleanupOrphanSidecars (sa_orphans w) (sa_self w) (sa_psAfter w) (st_Sidecars options)))) (\<lambda>sidecars.
         and_then (launch w executable (start_record w cacheDir configPath profile options mode executable\<lparr>cu_Sidecars := sidecars\<rparr>)) (\<lambda>s1.
         and_then (settle w options s1) (\<lambda>s2.
         case (if mode = LaunchModeHelper then None else sa_release w) of
           Some e \<Rightarrow> (Inl (ReleaseFailed e), [])
         | None \<Rightarrow> (Inr s2, [])))))))" for executable
    by (rule shape_then, simp, rule shape_then, rule cleanup, rule shape_then, rule sides, rule launch_shape, rule rec_mode)
  show ?thesis
    unfolding Start_def Inr sum.case Let_def
    using main err by (auto split: sum.splits option.splits simp del: if_split)
qed

lemma shape_cases:
  assumes "shape (res, es)"
  obtains (early) e where "no_tunnel es" "res = Inl e"
  | (late) pre s post r where "es = pre @ launched s # post" "no_tunnel pre" "outcome s (r, post)"
      "case r of Inl e \<Rightarrow> res = Inl e | Inr t \<Rightarrow> res = Inr t \<or> (\<exists>e. res = Inl (ReleaseFailed e))"
  using assms unfolding shape_def fst_conv snd_conv
  by (elim disjE conjE exE) (erule (1) early, erule (3) late)

section \<open>Properties\<close>


lemma launched_same: "same_process s t \<Longrightarrow> launched s = launched t"
  by (simp add: same_process_def launched_def)

text \<open>
  (C7) A start that succeeds has started exactly one tunnel process, and its very last step was to write the
  record of that process; nothing else of the run concerns a tunnel process.
\<close>

theorem start_records:
  assumes "Start w cacheDir configPath profile options = (Inr s, es)"
  shows "\<exists>pre post. es = pre @ launched s # post @ [SavedCurrent s] \<and> no_tunnel pre \<and> no_tunnel post"
proof -
  have "shape (Inr s, es)"
    using start_shape [of w cacheDir configPath profile options] assms by simp
  then show ?thesis
  proof (cases rule: shape_cases)
    case (late pre t post r)
    then have r: "r = Inr s"
      by (cases r) auto
    with late(3) obtain post' where "post = post' @ [SavedCurrent s]" "no_tunnel post'" "launched s = launched t"
      by (auto simp: outcome_def launched_same)
    with late(1,2) show ?thesis by auto
  qed simp
qed

section \<open>Witnesses\<close>

definition sample_start :: "observation \<Rightarrow> start_world" where
  "sample_start ob = \<lparr>sa_available = True, sa_euid = 501, sa_darwin = False, sa_self = 1, sa_lookPath = Inr, sa_now = 5, sa_sessionID = ''s1'',
     sa_mkdir = (\<lambda>_. None), sa_openLog = None, sa_route = (\<lambda>_. Inl []), sa_ncList = Inl [], sa_ps = Inl [], sa_psAfter = Inl [],
     sa_orphans = (\<lambda>_. undefined), sa_sidecars = (\<lambda>_. undefined), sa_readConfig = (\<lambda>_. Inr ''cfg''),
     sa_coreStart = (\<lambda>_. Inr (42, ''h1'')), sa_sudo = None, sa_process = (\<lambda>_ _. Inl []),
     sa_identity = (Inr (''sing-box'', 7), Inr (''sing-box'', 7)), sa_identity2 = (Inr (''sing-box'', 7), Inr (''sing-box'', 7)),
     sa_saveMetadata = None, sa_looks = (ob, []), sa_saveUnknown = None, sa_dns = sample_dns_env\<lparr>dn_darwin := False\<rparr>,
     sa_ready = undefined, sa_saveMetadata2 = None, sa_saveCurrent = None, sa_release = None, sa_stop = sample_stop_world\<rparr>"

definition sample_target :: Profile where
  "sample_target = \<lparr>md_ID = ''a1'', md_Name = [], md_URI = [], md_Protocol = ''vless'', md_UUID = ''u'', md_Host = ''h'', md_Port = 443,
     md_Security = [], md_Network = ''tcp'', md_ServiceName = [], md_Authority = [], md_SNI = [], md_Fingerprint = [],
     md_PublicKey = [], md_ShortID = [], md_Flow = [], md_Encryption = [], md_SpiderX = [], md_Query = []\<rparr>"

text \<open>What a trace does to the tunnel process: 0 a start, 9 a kill, 1 another signal, 2 the record.\<close>

definition starts :: "session_event list \<Rightarrow> nat list" where
  "starts es = concat (map (\<lambda>e. case e of StartedCore _ _ \<Rightarrow> [0] | CoreSignalled _ sig _ \<Rightarrow> [if sig = ''-KILL'' then 9 else 1]
     | SavedCurrent _ \<Rightarrow> [2] | _ \<Rightarrow> []) es)"

lemma sample_starts:
  "starts (snd (Start (sample_start (sample_look KillESRCH)) ''/c'' ''/c/x'' sample_target sample_start_options)) = [0, 9]"
  "fst (Start (sample_start (sample_look KillESRCH)) ''/c'' ''/c/x'' sample_target sample_start_options) = Inl ExitedDuringStartup"
  by code_simp+

lemma no_tunnel_starts: "no_tunnel es \<Longrightarrow> 0 \<notin> set (starts es)"
proof (induction es)
  case (Cons e es)
  then show ?case by (cases e) (auto simp: starts_def)
qed (simp add: starts_def)


theorem start_records_witness:
  "\<exists>s es pre post. Start (sample_start (sample_look KillOk)) ''/c'' ''/c/x'' sample_target sample_start_options = (Inr s, es) \<and>
     es = pre @ launched s # post @ [SavedCurrent s] \<and> no_tunnel pre \<and> no_tunnel post"
proof -
  have "case fst (Start (sample_start (sample_look KillOk)) ''/c'' ''/c/x'' sample_target sample_start_options) of Inl _ \<Rightarrow> False | Inr _ \<Rightarrow> True"
    by code_simp
  then obtain s es where run: "Start (sample_start (sample_look KillOk)) ''/c'' ''/c/x'' sample_target sample_start_options = (Inr s, es)"
    by (cases "Start (sample_start (sample_look KillOk)) ''/c'' ''/c/x'' sample_target sample_start_options") (auto split: sum.splits)
  from start_records [OF run] run show ?thesis
    by blast
qed

end
