(* ===== verification/Openconnect_Domains.thy ===== *)
theory Openconnect_Domains
  imports Go_Netip
begin

text \<open>
  Which names and routes an OpenConnect session takes into its tunnel: the lists of the split-include mode as
  the command line merges them (\<open>anyconnect/openconnectcli/app.go\<close>) and the resolver specification the
  runtime derives from them (\<open>anyconnect/openconnect/runtime.go\<close>).
\<close>

section \<open>Lists\<close>

text \<open>\<open>uniqueStrings\<close>: values are compared in lower case, the first spelling is kept.\<close>

fun unique_loop :: "string list \<Rightarrow> string list \<Rightarrow> string list" where
  "unique_loop seen [] = []"
| "unique_loop seen (raw # rest) =
    (let value = TrimSpace raw; key = ToLower value in
     if value = [] \<or> key \<in> set seen then unique_loop seen rest
     else value # unique_loop (key # seen) rest)"

definition uniqueStrings :: "string list \<Rightarrow> string list" where
  "uniqueStrings values = unique_loop [] values"

definition mergeNormalizedList :: "string list \<Rightarrow> string list \<Rightarrow> string list" where
  "mergeNormalizedList base extra = unique_loop [] (base @ extra)"

text \<open>The runtime's \<open>firstNonEmpty\<close> looks for a value that is not blank and returns it as it is.\<close>

fun firstNonBlank :: "string list \<Rightarrow> string" where
  "firstNonBlank [] = []"
| "firstNonBlank (v # vs) = (if TrimSpace v \<noteq> [] then v else firstNonBlank vs)"

definition splitCSV :: "string \<Rightarrow> string list" where
  "splitCSV value =
    (if TrimSpace value = [] then [] else filter (\<lambda>p. p \<noteq> []) (map TrimSpace (Split (CHR '','') value)))"

section \<open>Domain suffixes\<close>

text \<open>The form in which domains and suffixes are compared: lower case, trimmed, without leading dots.\<close>

definition suffix_form :: "string \<Rightarrow> string" where
  "suffix_form value = dropWhile (\<lambda>c. c = CHR ''.'') (TrimSpace (ToLower value))"

definition lies_under :: "string \<Rightarrow> string \<Rightarrow> bool" where
  "lies_under domain parent \<longleftrightarrow> domain = parent \<or> HasSuffix domain (CHR ''.'' # parent)"

definition normalizeDomainSuffixesOpenConnect :: "string list \<Rightarrow> string list" where
  "normalizeDomainSuffixesOpenConnect values = uniqueStrings (filter (\<lambda>v. v \<noteq> []) (map suffix_form values))"

definition domainCoveredBySuffixesOpenConnect :: "string \<Rightarrow> string list \<Rightarrow> bool" where
  "domainCoveredBySuffixesOpenConnect domain0 others \<longleftrightarrow>
    (let domain = suffix_form domain0 in
     domain \<noteq> [] \<and> list_ex (\<lambda>s. suffix_form s \<noteq> [] \<and> lies_under domain (suffix_form s)) others)"

definition filterCoveredDomainsOpenConnect :: "string list \<Rightarrow> string list \<Rightarrow> string list" where
  "filterCoveredDomainsOpenConnect domains bypassSuffixes =
    (if bypassSuffixes = [] then domains
     else filter (\<lambda>d. \<not> domainCoveredBySuffixesOpenConnect d bypassSuffixes) domains)"

text \<open>The command line has the same test lies_under another name.\<close>

definition domainCoveredByBypass :: "string \<Rightarrow> string list \<Rightarrow> bool" where
  "domainCoveredByBypass domain0 bypassSuffixes \<longleftrightarrow>
    (let domain = suffix_form domain0 in
     domain \<noteq> [] \<and> list_ex (\<lambda>b. suffix_form b \<noteq> [] \<and> lies_under domain (suffix_form b)) bypassSuffixes)"

definition subtractBypassCoveredDomains :: "string list \<Rightarrow> string list \<Rightarrow> string list" where
  "subtractBypassCoveredDomains vpnDomains bypassSuffixes =
    (if bypassSuffixes = [] then vpnDomains
     else filter (\<lambda>d. \<not> domainCoveredByBypass d bypassSuffixes) vpnDomains)"

text \<open>A value that lies under another one is dropped; a value at its own place is never compared with itself.\<close>

definition collapseCoveredDomainSuffixes :: "string list \<Rightarrow> string list" where
  "collapseCoveredDomainSuffixes values =
    filter (\<lambda>value. value \<noteq> [] \<and>
      \<not> list_ex (\<lambda>candidate. candidate \<noteq> [] \<and> value \<noteq> candidate \<and> HasSuffix value (CHR ''.'' # candidate)) values) values"

definition normalizeDomainSuffixList :: "string list \<Rightarrow> string list" where
  "normalizeDomainSuffixList values =
    collapseCoveredDomainSuffixes (mergeNormalizedList (filter (\<lambda>v. v \<noteq> []) (map suffix_form values)) [])"

section \<open>Split-include targets\<close>

definition ConnectModeFull :: string where "ConnectModeFull = ''full''"
definition ConnectModeSplitInclude :: string where "ConnectModeSplitInclude = ''split-include''"

record SplitIncludeConfig =
  si_Routes :: "string list"
  si_VPNDomains :: "string list"
  si_BypassSuffixes :: "string list"
  si_Nameservers :: "string list"

definition resolveSplitIncludeTargets ::
    "string \<Rightarrow> SplitIncludeConfig \<Rightarrow> string list \<Rightarrow> string list \<Rightarrow> string list \<Rightarrow> string list \<times> string list" where
  "resolveSplitIncludeTargets mode cfg cliRoutes cliVPNDomains bypassSuffixes =
    (if mode \<noteq> ConnectModeSplitInclude then ([], [])
     else (mergeNormalizedList (si_Routes cfg) cliRoutes,
       subtractBypassCoveredDomains (normalizeDomainSuffixList (mergeNormalizedList (si_VPNDomains cfg) cliVPNDomains)) bypassSuffixes))"

definition resolveSplitIncludeNameservers :: "string \<Rightarrow> SplitIncludeConfig \<Rightarrow> string list" where
  "resolveSplitIncludeNameservers mode cfg =
    (if mode \<noteq> ConnectModeSplitInclude then [] else mergeNormalizedList (si_Nameservers cfg) [])"

definition resolveSplitIncludeBypassSuffixes :: "string \<Rightarrow> SplitIncludeConfig \<Rightarrow> string list \<Rightarrow> string list" where
  "resolveSplitIncludeBypassSuffixes mode cfg cliBypassSuffixes =
    (if mode \<noteq> ConnectModeSplitInclude then []
     else normalizeDomainSuffixList (mergeNormalizedList (si_BypassSuffixes cfg) cliBypassSuffixes))"

section \<open>The resolver specification\<close>

record supplementalResolverSpec =
  rv_Label :: string
  rv_Nameservers :: "string list"
  rv_Domains :: "string list"
  rv_BypassDomains :: "string list"
  rv_SearchDomain :: string
  rv_SearchCleanupDomains :: "string list"
  rv_ProbeHosts :: "string list"
  rv_RouteOverrides :: "string list"
  rv_ManageSearchResolver :: bool
  rv_UseScutilState :: bool
  rv_ServiceID :: string

definition corp_domains :: "string list" where
  "corp_domains = [''inside.corp.example'', ''region.corp.example'', ''edge.region.corp.example'', ''corp.example'',
     ''corp-it.example'', ''corp-it.internal'', ''erp.example'', ''short.example'', ''corp-sec.example'', ''branch.example'',
     ''branch.corp.example'', ''lab.corp.example'', ''intra.corp.example'', ''docs.example'', ''analytics.example'', ''tabs.example'',
     ''bank.example'', ''tickets.example'', ''retail.example'', ''workspace.example'', ''media.example'', ''auth.example'',
     ''fleet.example'', ''security.example'']"

definition supplementalResolverSpecForServer :: "string \<Rightarrow> supplementalResolverSpec option" where
  "supplementalResolverSpecForServer server0 =
    (let server = ToLower (TrimSpace server0) in
     if \<not> Contains server ''.corp.example'' \<or> \<not> Contains server ''/outside'' then None
     else Some \<lparr>rv_Label = ''corp-outside'', rv_Nameservers = [''10.23.16.4'', ''10.23.0.23''], rv_Domains = corp_domains,
       rv_BypassDomains = [], rv_SearchDomain = ''region.corp.example'', rv_SearchCleanupDomains = corp_domains,
       rv_ProbeHosts = [''gitlab.services.corp.example''], rv_RouteOverrides = [], rv_ManageSearchResolver = True,
       rv_UseScutilState = False, rv_ServiceID = []\<rparr>)"

text \<open>\<open>net.ParseIP\<close> accepts IPv4 and IPv6 addresses without a zone.\<close>

definition ParseIP_ok :: "string \<Rightarrow> bool" where
  "ParseIP_ok s = (case ParseAddr s of None \<Rightarrow> False | Some (IPv4 _) \<Rightarrow> True | Some (IPv6 _ zone) \<Rightarrow> zone = [])"

definition nameserver_routes :: "string list \<Rightarrow> string list" where
  "nameserver_routes nameservers = map (\<lambda>n. n @ ''/32'') (filter ParseIP_ok (map TrimSpace nameservers))"

text \<open>The lists of the connect options the specification is made of.\<close>

record resolver_lists =
  li_IncludeRoutes :: "string list"
  li_VPNDomains :: "string list"
  li_BypassSuffixes :: "string list"
  li_VPNNameservers :: "string list"

definition supplementalResolverSpecForConnect :: "string \<Rightarrow> string \<Rightarrow> resolver_lists \<Rightarrow> supplementalResolverSpec option" where
  "supplementalResolverSpecForConnect mode server options =
    (if mode = ConnectModeFull then supplementalResolverSpecForServer server
     else if mode = ConnectModeSplitInclude then
       (let serverSpec = supplementalResolverSpecForServer server;
            vpnDomains = (if li_VPNDomains options = [] then (case serverSpec of None \<Rightarrow> [] | Some s \<Rightarrow> rv_Domains s)
                          else li_VPNDomains options);
            vpnNameservers = (if li_VPNNameservers options = [] then (case serverSpec of None \<Rightarrow> [] | Some s \<Rightarrow> rv_Nameservers s)
                          else li_VPNNameservers options) in
        if vpnDomains = [] \<or> vpnNameservers = [] then None
        else
          (let bypassDomains = normalizeDomainSuffixesOpenConnect (li_BypassSuffixes options);
               allDomains = vpnDomains @ (case serverSpec of None \<Rightarrow> [] | Some s \<Rightarrow> rv_Domains s);
               allCleanup = vpnDomains @ (case serverSpec of None \<Rightarrow> [] | Some s \<Rightarrow> rv_SearchCleanupDomains s);
               search = (case serverSpec of
                   None \<Rightarrow> firstNonBlank [firstNonBlank vpnDomains, []]
                 | Some s \<Rightarrow> firstNonBlank [rv_SearchDomain s, firstNonBlank vpnDomains]);
               domains = filterCoveredDomainsOpenConnect (uniqueStrings allDomains) bypassDomains in
           Some \<lparr>rv_Label = ''split-include'', rv_Nameservers = vpnNameservers, rv_Domains = domains,
             rv_BypassDomains = bypassDomains,
             rv_SearchDomain = (if domainCoveredBySuffixesOpenConnect search bypassDomains
                then firstNonBlank [firstNonBlank domains, []] else search),
             rv_SearchCleanupDomains = filterCoveredDomainsOpenConnect (uniqueStrings allCleanup) bypassDomains,
             rv_ProbeHosts = [''gitlab.services.corp.example''],
             rv_RouteOverrides = uniqueStrings (nameserver_routes vpnNameservers @ li_IncludeRoutes options),
             rv_ManageSearchResolver = True, rv_UseScutilState = False, rv_ServiceID = []\<rparr>))
     else None)"

end
