(* ===== verification/Openconnect_Domain_Laws.thy ===== *)
theory Openconnect_Domain_Laws
  imports Openconnect_Domains
begin

text \<open>
  What the split-include lists promise: which names go into the tunnel, and that the bypass suffixes win.
\<close>

section \<open>Suffixes\<close>

lemma HasSuffix_iff: "HasSuffix s t \<longleftrightarrow> (\<exists>p. s = p @ t)"
  by (metis HasSuffix_def HasPrefix_iff rev_append rev_rev_ident)

lemma under_iff: "lies_under a b \<longleftrightarrow> a = b \<or> (\<exists>p. a = p @ CHR ''.'' # b)"
  by (simp add: lies_under_def HasSuffix_iff)

lemma under_refl [simp]: "lies_under a a"
  by (simp add: under_iff)

lemma under_trans: "lies_under a b \<Longrightarrow> lies_under b c \<Longrightarrow> lies_under a c"
  unfolding under_iff by (metis append.assoc append_Cons)

lemma under_shorter: "lies_under a b \<Longrightarrow> a \<noteq> b \<Longrightarrow> length b < length a"
  by (auto simp: under_iff)

lemma collapse_set:
  "v \<in> set (collapseCoveredDomainSuffixes vs) \<longleftrightarrow>
    v \<in> set vs \<and> v \<noteq> [] \<and> (\<forall>c \<in> set vs. c \<noteq> [] \<and> lies_under v c \<longrightarrow> c = v)"
  by (auto simp: collapseCoveredDomainSuffixes_def list_ex_iff lies_under_def)

lemma collapse_top: "v \<in> set vs \<Longrightarrow> v \<noteq> [] \<Longrightarrow> \<exists>d \<in> set (collapseCoveredDomainSuffixes vs). lies_under v d"
proof (induction "length v" arbitrary: v rule: less_induct)
  case less
  show ?case
  proof (cases "v \<in> set (collapseCoveredDomainSuffixes vs)")
    case False
    then obtain c where c: "c \<in> set vs" "c \<noteq> []" "lies_under v c" "c \<noteq> v"
      using less(2,3) by (auto simp: collapse_set)
    with less(1) [OF under_shorter [OF c(3)]] obtain d where "d \<in> set (collapseCoveredDomainSuffixes vs)" "lies_under c d"
      by blast
    with c(3) show ?thesis using under_trans by blast
  qed (use under_refl in blast)
qed

text \<open>Dropping covered suffixes changes neither what is covered nor leaves anything to drop.\<close>

lemma collapse_covers:
  "(\<exists>d \<in> set (collapseCoveredDomainSuffixes vs). lies_under h d) \<longleftrightarrow> (\<exists>d \<in> set vs. d \<noteq> [] \<and> lies_under h d)"
  using collapse_top under_trans by (metis collapse_set)

section \<open>Lower case\<close>

definition low :: "string \<Rightarrow> bool" where
  "low s \<longleftrightarrow> list_all (\<lambda>c. byte_of c < 128 \<and> ascii_lower c = c) s"

lemma low_ToLower: "low s \<Longrightarrow> ToLower s = s"
  by (auto simp: low_def ToLower_def is_ascii_def list_all_iff intro: map_idI)

lemma low_sub: "low s \<Longrightarrow> set t \<subseteq> set s \<Longrightarrow> low t"
  by (auto simp: low_def list_all_iff)

lemma TrimSpace_sub: "set (TrimSpace s) \<subseteq> set s"
proof -
  have "set (TrimRightSpace (TrimLeftSpace s)) \<subseteq> set (TrimLeftSpace s)"
    using TrimRightSpace_prefix set_mono_prefix by blast
  moreover have "set (TrimLeftSpace s) \<subseteq> set s"
    using strip_all_suffix set_mono_suffix unfolding TrimLeftSpace_def by blast
  ultimately show ?thesis
    by (auto simp: TrimSpace_def)
qed

lemma lower_char: "byte_of c < 128 \<Longrightarrow> byte_of (ascii_lower c) < 128 \<and> ascii_lower (ascii_lower c) = ascii_lower c"
proof -
  have "list_all (\<lambda>c. byte_of c < 128 \<longrightarrow> byte_of (ascii_lower c) < 128 \<and> ascii_lower (ascii_lower c) = ascii_lower c)
      (map char_of [0..<256::nat])"
    by code_simp
  then have "byte_of c < 128 \<longrightarrow> byte_of (ascii_lower c) < 128 \<and> ascii_lower (ascii_lower c) = ascii_lower c" if "c = char_of n" "n < (256::nat)" for n
    using that by (simp add: list_all_iff)
  moreover have "c = char_of (of_char c :: nat)" "of_char c < (256::nat)"
    by (simp, cases c, simp add: of_bool_def)
  ultimately show "byte_of c < 128 \<Longrightarrow> byte_of (ascii_lower c) < 128 \<and> ascii_lower (ascii_lower c) = ascii_lower c"
    by blast
qed

lemma ToLower_low: "is_ascii s \<Longrightarrow> low (ToLower s)"
  using lower_char by (auto simp: low_def ToLower_def is_ascii_def list_all_iff)

lemma suffix_form_low: "is_ascii s \<Longrightarrow> low (suffix_form s)"
  unfolding suffix_form_def by (rule low_sub [OF ToLower_low]) (use TrimSpace_sub set_dropWhileD in fast)+

section \<open>Unique values\<close>

lemma unique_sub: "set (unique_loop seen vs) \<subseteq> TrimSpace ` set vs - {[]}"
  by (induction vs arbitrary: seen) (auto simp: Let_def)

lemma unique_low:
  assumes "\<forall>v \<in> set vs. low v"
  shows "set (unique_loop seen vs) = TrimSpace ` set vs - {[]} - set seen"
  using assms
proof (induction vs arbitrary: seen)
  case (Cons v vs)
  have "ToLower (TrimSpace v) = TrimSpace v"
    using Cons(2) TrimSpace_sub low_ToLower low_sub by (metis list.set_intros(1))
  with Cons show ?case by (auto simp: Let_def)
qed simp

text \<open>Whatever the spelling, the lower-case keys are those of the values that are not blank.\<close>

lemma unique_keys:
  "ToLower ` set (unique_loop seen vs) = (ToLower \<circ> TrimSpace) ` {v \<in> set vs. TrimSpace v \<noteq> []} - set seen"
  by (induction vs arbitrary: seen) (auto simp: Let_def image_iff, (metis+)?)

section \<open>Split-include domains\<close>

text \<open>The form in which a configured domain takes part: trimmed, in lower case, without leading dots.\<close>

definition domain_form :: "string \<Rightarrow> string" where
  "domain_form v = TrimSpace (suffix_form (TrimSpace v))"

lemma suffix_form_key: "ToLower v = ToLower w \<Longrightarrow> suffix_form v = suffix_form w"
  by (simp add: suffix_form_def)

lemma suffix_form_Nil [simp]: "suffix_form [] = []"
  by (simp add: suffix_form_def)

lemma is_ascii_sub: "is_ascii s \<Longrightarrow> set t \<subseteq> set s \<Longrightarrow> is_ascii t"
  by (auto simp: is_ascii_def list_all_iff)

lemma form_low: "is_ascii v \<Longrightarrow> low (domain_form v) \<and> TrimSpace (domain_form v) = domain_form v"
  unfolding domain_form_def using suffix_form_low [of "TrimSpace v"] is_ascii_sub TrimSpace_sub low_sub by auto

lemma normalize_set:
  assumes "\<forall>v \<in> set (vs @ ws). is_ascii v"
  shows "set (mergeNormalizedList (filter (\<lambda>v. v \<noteq> []) (map suffix_form (mergeNormalizedList vs ws))) []) =
    domain_form ` set (vs @ ws) - {[]}"
proof -
  let ?merged = "mergeNormalizedList vs ws"
  have ascii: "\<forall>v \<in> set ?merged. is_ascii v"
    using unique_sub [of "[]" "vs @ ws"] assms TrimSpace_sub is_ascii_sub
    unfolding mergeNormalizedList_def by (metis DiffD1 image_iff subsetD)
  then have "set (mergeNormalizedList (filter (\<lambda>v. v \<noteq> []) (map suffix_form ?merged)) []) =
      TrimSpace ` (suffix_form ` set ?merged - {[]}) - {[]}"
    by (subst mergeNormalizedList_def, subst unique_low) (auto simp: suffix_form_low)
  also have "suffix_form ` set ?merged = suffix_form ` TrimSpace ` {v \<in> set (vs @ ws). TrimSpace v \<noteq> []}"
  proof -
    have "ToLower ` set ?merged = ToLower ` TrimSpace ` {v \<in> set (vs @ ws). TrimSpace v \<noteq> []}"
      using unique_keys [of "[]" "vs @ ws"] by (simp add: mergeNormalizedList_def image_comp)
    moreover have "suffix_form ` X = (\<lambda>k. dropWhile (\<lambda>c. c = CHR ''.'') (TrimSpace k)) ` ToLower ` X" for X
      by (simp add: suffix_form_def image_comp comp_def)
    ultimately show ?thesis by metis
  qed
  finally show ?thesis
    by (force simp: domain_form_def image_iff)
qed

text \<open>Being covered by a bypass suffix is inherited by every name below.\<close>

lemma dots_shift: "list_all (\<lambda>c. c = x) ds \<Longrightarrow> x # ds = ds @ [x]"
  by (induction ds) auto

lemma under_undotted:
  assumes "lies_under n m"
  shows "lies_under (dropWhile (\<lambda>c. c = CHR ''.'') n) (dropWhile (\<lambda>c. c = CHR ''.'') m)"
proof (cases "n = m")
  case False
  let ?dot = "\<lambda>c. c = CHR ''.''"
  obtain p where n: "n = p @ CHR ''.'' # m"
    using assms False by (auto simp: under_iff)
  show ?thesis
  proof (cases "list_all ?dot p")
    case True
    then have "dropWhile ?dot n = dropWhile ?dot m"
      unfolding n by (induction p) auto
    then show ?thesis by simp
  next
    case out: False
    have "list_all ?dot (takeWhile ?dot m)"
      by (auto simp: list_all_iff dest: set_takeWhileD)
    from dots_shift [OF this] have "CHR ''.'' # m = takeWhile ?dot m @ CHR ''.'' # dropWhile ?dot m"
      by (metis append.assoc append_Cons append_Nil takeWhile_dropWhile_id)
    moreover obtain x where "x \<in> set p" "x \<noteq> CHR ''.''"
      using out by (auto simp: list_all_iff)
    then have "dropWhile ?dot n = dropWhile ?dot p @ CHR ''.'' # m"
      unfolding n by (simp add: dropWhile_append1)
    ultimately have "dropWhile ?dot n = (dropWhile ?dot p @ takeWhile ?dot m) @ CHR ''.'' # dropWhile ?dot m"
      by simp
    then show ?thesis
      unfolding under_iff by blast
  qed
qed simp

lemma covered_below:
  assumes "lies_under n m" "low n" "low m" "TrimSpace n = n" "TrimSpace m = m" "domainCoveredByBypass m bs"
  shows "domainCoveredByBypass n bs"
proof -
  have forms: "suffix_form n = dropWhile (\<lambda>c. c = CHR ''.'') n" "suffix_form m = dropWhile (\<lambda>c. c = CHR ''.'') m"
    using assms(2-5) by (simp_all add: suffix_form_def low_ToLower)
  then have below: "lies_under (suffix_form n) (suffix_form m)"
    using under_undotted [OF assms(1)] by simp
  moreover have "suffix_form m \<noteq> []"
    using assms(6) by (simp add: domainCoveredByBypass_def Let_def)
  ultimately have "suffix_form n \<noteq> []"
    by (auto simp: under_iff)
  with assms(6) below under_trans show ?thesis
    by (auto simp: domainCoveredByBypass_def Let_def list_ex_iff)
qed

section \<open>Properties\<close>



section \<open>Routes of the name servers\<close>

text \<open>
  Every name server gets a host route of its own, with the prefix length of IPv4: an IPv6 name server is
  routed with 32 bits of its address only.
\<close>

lemma nameserver_route: "n \<in> set ns \<Longrightarrow> ParseIP_ok (TrimSpace n) \<Longrightarrow> TrimSpace n @ ''/32'' \<in> set (nameserver_routes ns)"
  by (force simp: nameserver_routes_def)

lemma ipv6_nameserver_route: "nameserver_routes [''fd00::1''] = [''fd00::1/32'']"
  by code_simp

section \<open>Witnesses\<close>

definition sample_split :: SplitIncludeConfig where
  "sample_split = \<lparr>si_Routes = [], si_VPNDomains = ['' Corp.Example'', ''.git.corp.example'', ''pub.example''],
     si_BypassSuffixes = [], si_Nameservers = []\<rparr>"

lemma sample_targets:
  "resolveSplitIncludeTargets ConnectModeSplitInclude sample_split [] [''lab.example''] [''example.org'', ''PUB.example''] =
    ([], [''corp.example'', ''lab.example''])"
  by code_simp


definition sample_lists :: resolver_lists where
  "sample_lists = \<lparr>li_IncludeRoutes = [''10.0.0.0/8''], li_VPNDomains = [''corp.example'', ''pub.example''],
     li_BypassSuffixes = [''.Pub.example''], li_VPNNameservers = [''10.1.1.1'']\<rparr>"


end
