(* ===== verification/Openconnect_Session.thy ===== *)
theory Openconnect_Session
  imports Openconnect_Domains Session_Process Go_Url
begin

text \<open>
  The session of \<open>openconnect-tun\<close>: its record, liveness and identity, and the signals to its process,
  \<open>anyconnect/openconnect/session.go\<close>, \<open>process_identity.go\<close>, \<open>helper.go\<close> and the end of \<open>runtime.go\<close>. As for the
  VLESS session, a look at the process is an observation, and every operation returns its result with the
  trace of what it did.
\<close>

section \<open>Records and errors\<close>

definition PrivilegedModeAuto :: string where "PrivilegedModeAuto = ''auto''"
definition PrivilegedModeSudo :: string where "PrivilegedModeSudo = ''sudo''"
definition PrivilegedModeDirect :: string where "PrivilegedModeDirect = ''direct''"
definition PrivilegedModeHelper :: string where "PrivilegedModeHelper = ''helper''"

record OcSession =
  oc_ProcessComm :: string
  oc_ProcessStart :: go_time
  oc_ID :: string
  oc_PID :: int
  oc_StartedAt :: go_time
  oc_LogPath :: string
  oc_MetadataPath :: string
  oc_PIDFilePath :: string
  oc_Server :: string
  oc_ResolvedFrom :: string
  oc_Mode :: string
  oc_PrivilegedMode :: string
  oc_Script :: string
  oc_Command :: "string list"
  oc_Interface :: string
  oc_Profile :: string
  oc_IncludeRoutes :: "string list"
  oc_VPNDomains :: "string list"
  oc_BypassSuffixes :: "string list"
  oc_VPNNameservers :: "string list"
  oc_HelperSocketPath :: string

definition zeroOc :: OcSession where
  "zeroOc = \<lparr>oc_ProcessComm = [], oc_ProcessStart = zero_time, oc_ID = [], oc_PID = 0, oc_StartedAt = zero_time, oc_LogPath = [],
     oc_MetadataPath = [], oc_PIDFilePath = [], oc_Server = [], oc_ResolvedFrom = [], oc_Mode = [], oc_PrivilegedMode = [],
     oc_Script = [], oc_Command = [], oc_Interface = [], oc_Profile = [], oc_IncludeRoutes = [], oc_VPNDomains = [],
     oc_BypassSuffixes = [], oc_VPNNameservers = [], oc_HelperSocketPath = []\<rparr>"

datatype oc_error =
    OcProcess session_error
  | OcVerify int string
  | OcRecord int string
  | OcUnreadable string
  | OcRemove string
  | OcLock string
  | SudoNotCached
  | SudoAuthFailed oc_error
  | HelperSignalRemoved
  | KillCommandFailed string
  | SignalJoined oc_error "oc_error option"
  | StopFailed int oc_error
  | StartedDuringStop
  | OcStopTimeout int
  | CleanupTimeout string
  | HelperLookup string
  | ScutilShow string
  | ResolverStat string
  | OrphanRuntimeDir string
  | OrphanHelper string
  | OrphanMode oc_error
  | OrphanSudo oc_error
  | OrphanLog string
  | OrphanRun string
  | OrphanStillPresent
  | HelperNotReachable
  | UnsupportedPrivilegedMode string
  | IdentityChanged int
  | InspectFailed int oc_error
  | RemainsAlive int "(string \<times> oc_error) list"
  | Several "oc_error list"
  | OcSystem string

datatype oc_event =
    OcSaw int observation
  | OcKill int string "string list"
  | OcLocked
  | OcCleared
  | OcSavedCurrent OcSession
  | OcSavedMetadata OcSession
  | OcRemovedPidFile string
  | OcCleanedByHelper
  | OcCleanedByScript "string list"
  | OcLaunched "string list"

type_synonym 'a oc_traced = "(oc_error + 'a) \<times> oc_event list"

section \<open>Liveness and identity\<close>

definition oc_matches :: "OcSession \<Rightarrow> observation \<Rightarrow> oc_error + bool" where
  "oc_matches current ob =
    (case ob_identity ob of
       Inl IdentityUnsupported \<Rightarrow> Inr True
     | Inl (IdentityFailed e) \<Rightarrow> Inl (OcVerify (oc_PID current) e)
     | Inr (comm, started) \<Rightarrow> Inr (Matches comm started (oc_ProcessComm current) (oc_ProcessStart current) ''openconnect''))"

definition oc_alive :: "OcSession \<Rightarrow> observation \<Rightarrow> oc_error + bool" where
  "oc_alive current ob =
    (case ProcessAlive (oc_PID current) ob of
       Inl e \<Rightarrow> Inl (OcProcess e)
     | Inr False \<Rightarrow> Inr False
     | Inr True \<Rightarrow> oc_matches current ob)"

definition oc_look :: "OcSession \<Rightarrow> observation \<Rightarrow> bool oc_traced" where
  "oc_look current ob = (oc_alive current ob, [OcSaw (oc_PID current) ob])"

definition oc_recordIdentity ::
    "(identity_error + string \<times> go_time) \<times> (identity_error + string \<times> go_time) \<Rightarrow> OcSession \<Rightarrow> oc_error + OcSession" where
  "oc_recordIdentity lookups s =
    (case (case fst lookups of Inl (IdentityFailed _) \<Rightarrow> snd lookups | r \<Rightarrow> r) of
       Inl IdentityUnsupported \<Rightarrow> Inr s
     | Inl (IdentityFailed e) \<Rightarrow> Inl (OcRecord (oc_PID s) e)
     | Inr (comm, started) \<Rightarrow> Inr (s\<lparr>oc_ProcessComm := comm, oc_ProcessStart := started\<rparr>))"

section \<open>Privileges\<close>

definition resolvePrivilegedMode :: "int \<Rightarrow> bool \<Rightarrow> string \<Rightarrow> oc_error + string" where
  "resolvePrivilegedMode euid available mode0 =
    (let mode = (if TrimSpace mode0 = [] then PrivilegedModeAuto else TrimSpace mode0);
         lane = (if euid = 0 then PrivilegedModeDirect else PrivilegedModeSudo) in
     if mode = PrivilegedModeAuto \<or> mode = PrivilegedModeSudo then Inr lane
     else if mode = PrivilegedModeDirect then Inr PrivilegedModeDirect
     else if mode = PrivilegedModeHelper then (if \<not> available then Inl HelperNotReachable else Inr PrivilegedModeSudo)
     else Inl (UnsupportedPrivilegedMode mode))"

text \<open>
  What a privileged command meets: the effective user, whether the helper answers at a socket path, whether
  sudo has its credentials cached, whether there is a terminal to ask at and what asking gives, and the
  failure of the command itself.
\<close>

record lane_world =
  ln_euid :: int
  ln_helper :: "string \<Rightarrow> bool"
  ln_cached :: bool
  ln_prompt :: bool
  ln_validate :: "string option"
  ln_run :: "string option"

definition ensureSudoCredentials :: "lane_world \<Rightarrow> oc_error + unit" where
  "ensureSudoCredentials w =
    (if ln_euid w = 0 \<or> ln_cached w then Inr ()
     else if \<not> ln_prompt w then Inl SudoNotCached
     else case ln_validate w of None \<Rightarrow> Inr () | Some e \<Rightarrow> Inl (OcSystem e))"

definition elevatedCommand :: "int \<Rightarrow> string \<Rightarrow> string list \<Rightarrow> string list" where
  "elevatedCommand euid mode args =
    (if euid = 0 \<or> mode \<noteq> PrivilegedModeSudo then args else [''sudo'', ''-n''] @ args)"

definition shouldUseHelperSignal :: "lane_world \<Rightarrow> string \<Rightarrow> string \<Rightarrow> bool" where
  "shouldUseHelperSignal w mode socketPath =
    (if TrimSpace mode = PrivilegedModeHelper then True
     else if TrimSpace mode = [] \<or> TrimSpace mode = PrivilegedModeAuto then ln_helper w socketPath
     else False)"

text \<open>The helper has no signal by process identifier any more: \<open>helperSignal\<close> always fails.\<close>

definition signalOpenConnectPID :: "lane_world \<Rightarrow> int \<Rightarrow> string \<Rightarrow> string \<Rightarrow> string \<Rightarrow> unit oc_traced" where
  "signalOpenConnectPID w pid sig mode socketPath =
    (if pid \<le> 0 then (Inr (), [])
     else if shouldUseHelperSignal w mode socketPath then (Inl HelperSignalRemoved, [])
     else case (if mode = PrivilegedModeSudo then ensureSudoCredentials w else Inr ()) of
       Inl e \<Rightarrow> (Inl (SudoAuthFailed e), [])
     | Inr _ \<Rightarrow>
        ((case ln_run w of None \<Rightarrow> Inr () | Some e \<Rightarrow> Inl (KillCommandFailed e)),
         [OcKill pid sig (elevatedCommand (ln_euid w) mode [''kill'', sig, itoa pid])]))"

text \<open>The process is looked at right before the signal, and again when the signal failed.\<close>

record signal_world =
  sg_look :: observation
  sg_lane :: lane_world
  sg_after :: observation

definition signalMatchingSession :: "signal_world \<Rightarrow> OcSession \<Rightarrow> string \<Rightarrow> string \<Rightarrow> unit oc_traced" where
  "signalMatchingSession w current sig mode =
    and_then (oc_look current (sg_look w)) (\<lambda>alive.
    if \<not> alive then (Inr (), [])
    else case signalOpenConnectPID (sg_lane w) (oc_PID current) sig mode (oc_HelperSocketPath current) of
      (Inr _, es) \<Rightarrow> (Inr (), es)
    | (Inl e, es) \<Rightarrow>
       (case oc_look current (sg_after w) of
          (Inr False, es') \<Rightarrow> (Inr (), es @ es')
        | (Inr True, es') \<Rightarrow> (Inl (SignalJoined e None), es @ es')
        | (Inl e', es') \<Rightarrow> (Inl (SignalJoined e (Some e')), es @ es')))"

section \<open>Files\<close>

text \<open>\<open>strconv.Atoi\<close> with an optional sign.\<close>

definition Atoi :: "string \<Rightarrow> int option" where
  "Atoi s =
    (case s of
       [] \<Rightarrow> None
     | c # rest \<Rightarrow>
        if c = CHR ''+'' then atoi_digits rest
        else if c = CHR ''-'' then
          (if rest \<noteq> [] \<and> list_all is_digit rest \<and> foldl (\<lambda>n d. n * 10 + (byte_of d - 48)) 0 rest = 2 ^ 63 then Some (- (2 ^ 63))
           else map_option uminus (atoi_digits rest))
        else atoi_digits s)"

definition findOpenConnectPIDFromOutput :: "string \<Rightarrow> int option" where
  "findOpenConnectPIDFromOutput output =
    (case Fields (TrimSpace output) of [] \<Rightarrow> None | words \<Rightarrow> Atoi (last words))"

text \<open>
  The session file: missing, unreadable, or a record; without one, the process list (\<open>pgrep\<close>) is asked.
\<close>

record oc_files =
  of_current :: "(string + OcSession) option"
  of_pgrep :: "string option"

definition oc_LoadCurrent :: "oc_files \<Rightarrow> (oc_error + OcSession) option" where
  "oc_LoadCurrent files = map_option (\<lambda>c. case c of Inl e \<Rightarrow> Inl (OcUnreadable e) | Inr s \<Rightarrow> Inr s) (of_current files)"

definition loadOpenConnectStopSession :: "oc_files \<Rightarrow> oc_error + OcSession" where
  "loadOpenConnectStopSession files =
    (case oc_LoadCurrent files of
       Some r \<Rightarrow> r
     | None \<Rightarrow> Inr (case Option.bind (of_pgrep files) findOpenConnectPIDFromOutput of
         None \<Rightarrow> zeroOc
       | Some pid \<Rightarrow> zeroOc\<lparr>oc_PID := pid\<rparr>))"

definition oc_ClearCurrent :: "string option \<Rightarrow> unit oc_traced" where
  "oc_ClearCurrent failure = (case failure of Some e \<Rightarrow> (Inl (OcRemove e), []) | None \<Rightarrow> (Inr (), [OcCleared]))"

definition session_spec :: "OcSession \<Rightarrow> supplementalResolverSpec option" where
  "session_spec current = supplementalResolverSpecForConnect (oc_Mode current) (oc_Server current)
     \<lparr>li_IncludeRoutes = oc_IncludeRoutes current, li_VPNDomains = oc_VPNDomains current,
      li_BypassSuffixes = oc_BypassSuffixes current, li_VPNNameservers = oc_VPNNameservers current\<rparr>"

section \<open>The overlay of an active session\<close>

record OverlayLists =
  ol_Domains :: "string list"
  ol_Nameservers :: "string list"
  ol_RouteExcludes :: "string list"

definition ActiveOverlayDNS :: "oc_files \<Rightarrow> observation \<Rightarrow> oc_error + OverlayLists option" where
  "ActiveOverlayDNS files ob =
    (case oc_LoadCurrent files of
       None \<Rightarrow> Inr None
     | Some (Inl e) \<Rightarrow> Inl e
     | Some (Inr current) \<Rightarrow>
        (case oc_alive current ob of
           Inl e \<Rightarrow> Inl e
         | Inr False \<Rightarrow> Inr None
         | Inr True \<Rightarrow>
            (case session_spec current of
               None \<Rightarrow> Inr None
             | Some spec \<Rightarrow>
                if rv_Domains spec = [] \<or> rv_Nameservers spec = [] then Inr None
                else Inr (Some \<lparr>ol_Domains = rv_Domains spec, ol_Nameservers = rv_Nameservers spec,
                  ol_RouteExcludes = rv_RouteOverrides spec\<rparr>))))"

end
