(* ===== verification/Openconnect_Stop.thy ===== *)
theory Openconnect_Stop
  imports Openconnect_Session Typed_Actions
begin

text \<open>
  Ending an OpenConnect session: \<open>Stop\<close> and the clean-up of what a session leaves behind,
  \<open>anyconnect/openconnect/session.go\<close>, and the clean-up after a failed start, \<open>runtime.go\<close>.
\<close>

section \<open>Orphaned resolver files\<close>

text \<open>The metadata of earlier sessions, in the order of the directory, each a record or unreadable.\<close>

record oc_metadata =
  om_name :: string
  om_isDir :: bool
  om_content :: "string + OcSession"

definition metadata_domains :: "oc_metadata \<Rightarrow> string list" where
  "metadata_domains entry =
    (if om_isDir entry \<or> \<not> HasPrefix (om_name entry) ''session-'' \<or> \<not> HasSuffix (om_name entry) ''.json'' then []
     else case om_content entry of
       Inl _ \<Rightarrow> []
     | Inr current \<Rightarrow> (case session_spec current of None \<Rightarrow> [] | Some spec \<Rightarrow> rv_Domains spec @ rv_BypassDomains spec))"

definition orphanedResolverArtifactDomains :: "oc_metadata list option \<Rightarrow> string list" where
  "orphanedResolverArtifactDomains entries =
    (case entries of None \<Rightarrow> [] | Some es \<Rightarrow> uniqueStrings (concat (map metadata_domains es)))"

text \<open>\<open>lines path\<close> is the first line of a regular file that can be read.\<close>

definition orphanedResolverArtifactsPresent :: "(string \<Rightarrow> string option) \<Rightarrow> oc_metadata list option \<Rightarrow> bool" where
  "orphanedResolverArtifactsPresent lines entries \<longleftrightarrow>
    list_ex (\<lambda>domain. case lines (filepath_Join [''/etc/resolver'', domain]) of
        None \<Rightarrow> False
      | Some line \<Rightarrow> IsOpenConnectResolverMarker line) (orphanedResolverArtifactDomains entries)"

text \<open>What the clean-up meets; \<open>rw_after\<close> are the files when it looks again.\<close>

record orphan_resolver_world =
  rw_entries :: "oc_metadata list option"
  rw_lines :: "string \<Rightarrow> string option"
  rw_ciscoConnected :: bool
  rw_mkdir :: "string option"
  rw_helper :: bool
  rw_helperRun :: "string option"
  rw_lane :: lane_world
  rw_openLog :: "string option"
  rw_after :: "string \<Rightarrow> string option"

definition orphanedResolverCleanupScript :: string where
  "orphanedResolverCleanupScript = Join [newline]
    [''set -eu'', [], ''resolver_dir='' @ [CHR 0x27] @ ''/etc/resolver'' @ [CHR 0x27],
     ''if [ ! -d '' @ [CHR 0x22] @ ''$resolver_dir'' @ [CHR 0x22] @ '' ]; then'', ''  exit 0'', ''fi'', [],
     ''for f in '' @ [CHR 0x22] @ ''$resolver_dir'' @ [CHR 0x22] @ ''/*; do'',
     ''  [ -L '' @ [CHR 0x22] @ ''$f'' @ [CHR 0x22] @ '' ] && continue'',
     ''  [ -f '' @ [CHR 0x22] @ ''$f'' @ [CHR 0x22] @ '' ] || continue'',
     ''  first_line=$(head -n 1 '' @ [CHR 0x22] @ ''$f'' @ [CHR 0x22] @ '' 2>/dev/null || true)'',
     ''  case '' @ [CHR 0x22] @ ''$first_line'' @ [CHR 0x22] @ '' in'',
     ''    '' @ [CHR 0x27] @ ''# Added by openconnect-tun DNS shim'' @ [CHR 0x27] @ ''*|'' @ [CHR 0x27]
       @ ''# Added by openconnect-tun public bypass'' @ [CHR 0x27] @ ''*)'',
     ''      rm -f '' @ [CHR 0x22] @ ''$f'' @ [CHR 0x22], ''      ;;'', ''  esac'', ''done'', []]"

definition run_cleanup :: "orphan_resolver_world \<Rightarrow> unit oc_traced" where
  "run_cleanup w =
    (if rw_helper w then
       (case rw_helperRun w of Some e \<Rightarrow> (Inl (OrphanHelper e), [OcCleanedByHelper]) | None \<Rightarrow> (Inr (), [OcCleanedByHelper]))
     else case resolvePrivilegedMode (ln_euid (rw_lane w)) (rw_helper w) PrivilegedModeAuto of
       Inl e \<Rightarrow> (Inl (OrphanMode e), [])
     | Inr mode \<Rightarrow>
        (case (if mode = PrivilegedModeSudo then ensureSudoCredentials (rw_lane w) else Inr ()) of
           Inl e \<Rightarrow> (Inl (OrphanSudo e), [])
         | Inr _ \<Rightarrow>
            (case rw_openLog w of
               Some e \<Rightarrow> (Inl (OrphanLog e), [])
             | None \<Rightarrow>
                ((case ln_run (rw_lane w) of None \<Rightarrow> Inr () | Some e \<Rightarrow> Inl (OrphanRun e)),
                 [OcCleanedByScript (elevatedCommand (ln_euid (rw_lane w)) mode
                   [''/bin/sh'', ''-c'', orphanedResolverCleanupScript])]))))"

definition cleanupOrphanedResolverState :: "orphan_resolver_world \<Rightarrow> bool oc_traced" where
  "cleanupOrphanedResolverState w =
    (if \<not> orphanedResolverArtifactsPresent (rw_lines w) (rw_entries w) \<or> rw_ciscoConnected w then (Inr False, [])
     else case rw_mkdir w of
       Some e \<Rightarrow> (Inl (OrphanRuntimeDir e), [])
     | None \<Rightarrow>
        and_then (run_cleanup w) (\<lambda>_.
        if orphanedResolverArtifactsPresent (rw_after w) (rw_entries w) then (Inl OrphanStillPresent, []) else (Inr True, [])))"

section \<open>Waiting for the script of a session\<close>

datatype stat_result = Present | Absent | StatError string

record cleanup_look =
  cl_ps :: "string + string"
  cl_scutil :: "string \<Rightarrow> string + string"
  cl_stat :: "string \<Rightarrow> stat_result"

definition helperProcessAlive :: "string + string \<Rightarrow> string \<Rightarrow> oc_error + bool" where
  "helperProcessAlive ps path0 =
    (let helperPath = TrimSpace path0 in
     if helperPath = [] then Inr False
     else case ps of
       Inl e \<Rightarrow> Inl (HelperLookup e)
     | Inr out \<Rightarrow> Inr (list_ex (\<lambda>line. TrimSpace line \<noteq> [] \<and> Contains (TrimSpace line) helperPath) (Split newline out)))"

definition dynamicStoreKeyExists :: "(string \<Rightarrow> string + string) \<Rightarrow> string \<Rightarrow> oc_error + bool" where
  "dynamicStoreKeyExists scutil key0 =
    (let key = TrimSpace key0 in
     if key = [] then Inr False
     else case scutil key of
       Inl e \<Rightarrow> Inl (ScutilShow e)
     | Inr out \<Rightarrow> Inr (\<not> Contains out ''No such key'' \<and> TrimSpace out \<noteq> []))"

text \<open>The first check that fails or holds decides.\<close>

fun any_pending :: "('a \<Rightarrow> oc_error + bool) \<Rightarrow> 'a list \<Rightarrow> oc_error + bool" where
  "any_pending test [] = Inr False"
| "any_pending test (x # xs) =
    (case test x of Inl e \<Rightarrow> Inl e | Inr True \<Rightarrow> Inr True | Inr False \<Rightarrow> any_pending test xs)"

definition supplementalResolverServiceID :: "(string \<Rightarrow> int list) \<Rightarrow> string \<Rightarrow> string \<Rightarrow> string" where
  "supplementalResolverServiceID sha1 sessionID label =
    (let token = map ascii_upper (hex_encode (take 16 (sha1 (''openconnect-tun:'' @ TrimSpace sessionID @ '':'' @ TrimSpace label)))) in
     Join ''-'' [take 8 token, take 4 (drop 8 token), take 4 (drop 12 token), take 4 (drop 16 token), take 12 (drop 20 token)])"

definition resolver_pending :: "(string \<Rightarrow> stat_result) \<Rightarrow> string \<Rightarrow> oc_error + bool" where
  "resolver_pending stat domain0 =
    (let domain = TrimSpace domain0 in
     if domain = [] then Inr False
     else case stat (filepath_Join [''/etc/resolver'', domain]) of
       Present \<Rightarrow> Inr True | Absent \<Rightarrow> Inr False | StatError e \<Rightarrow> Inl (ResolverStat e))"

definition sessionCleanupPending :: "(string \<Rightarrow> int list) \<Rightarrow> string \<Rightarrow> OcSession \<Rightarrow> cleanup_look \<Rightarrow> oc_error + bool" where
  "sessionCleanupPending sha1 cacheDir current look =
    (case helperProcessAlive (cl_ps look)
        (filepath_Join [filepath_Join [cacheDir, ''sessions''], ''openconnect-session-'' @ oc_ID current @ ''-helpers'', ''script-wrapper.sh'']) of
       Inl e \<Rightarrow> Inl e
     | Inr True \<Rightarrow> Inr True
     | Inr False \<Rightarrow>
        (case session_spec current of
           None \<Rightarrow> Inr False
         | Some spec \<Rightarrow>
            (case (if rv_UseScutilState spec then
                     any_pending (\<lambda>leaf. dynamicStoreKeyExists (cl_scutil look)
                       (''State:/Network/Service/'' @ supplementalResolverServiceID sha1 (oc_ID current) (rv_Label spec) @ ''/'' @ leaf))
                       [''DNS'', ''IPv4'']
                   else Inr False) of
               Inl e \<Rightarrow> Inl e
             | Inr True \<Rightarrow> Inr True
             | Inr False \<Rightarrow> any_pending (resolver_pending (cl_stat look)) (rv_Domains spec))))"

text \<open>One round per look; the deadline passes after the last one.\<close>

fun cleanup_rounds :: "(cleanup_look \<Rightarrow> oc_error + bool) \<Rightarrow> string \<Rightarrow> cleanup_look \<Rightarrow> cleanup_look list \<Rightarrow> oc_error + unit" where
  "cleanup_rounds test sid look looks =
    (case test look of
       Inl e \<Rightarrow> Inl e
     | Inr False \<Rightarrow> Inr ()
     | Inr True \<Rightarrow> (case looks of [] \<Rightarrow> Inl (CleanupTimeout sid) | l # ls \<Rightarrow> cleanup_rounds test sid l ls))"

declare cleanup_rounds.simps [simp del]

record cleanup_world =
  cw_timeLeft :: bool
  cw_looks :: "cleanup_look \<times> cleanup_look list"

definition waitForSessionCleanup :: "(string \<Rightarrow> int list) \<Rightarrow> cleanup_world \<Rightarrow> string \<Rightarrow> OcSession \<Rightarrow> oc_error + unit" where
  "waitForSessionCleanup sha1 w cacheDir current =
    (if oc_ID current = [] \<or> \<not> cw_timeLeft w then Inr ()
     else cleanup_rounds (sessionCleanupPending sha1 cacheDir current) (oc_ID current) (fst (cw_looks w)) (snd (cw_looks w)))"

section \<open>Stop\<close>

text \<open>One round of the waiting loop: a look, and whether the two deadlines for stronger signals have passed.\<close>

record stop_round =
  or_look :: observation
  or_cleanup :: cleanup_world
  or_termDue :: bool
  or_term :: signal_world
  or_killDue :: bool
  or_kill :: signal_world

text \<open>The result: what is met after the process is gone (or None at the deadline), and whether KILL was sent.\<close>

fun stop_rounds :: "OcSession \<Rightarrow> string \<Rightarrow> bool \<Rightarrow> bool \<Rightarrow> stop_round list \<Rightarrow> (cleanup_world option \<times> bool) oc_traced" where
  "stop_rounds current mode termSent killSent [] = (Inr (None, killSent), [])"
| "stop_rounds current mode termSent killSent (r # rs) =
    and_then (oc_look current (or_look r)) (\<lambda>alive.
    if \<not> alive then (Inr (Some (or_cleanup r), killSent), [])
    else and_then (if \<not> termSent \<and> or_termDue r then signalMatchingSession (or_term r) current ''-TERM'' mode else (Inr (), [])) (\<lambda>_.
      and_then (if \<not> killSent \<and> or_killDue r then signalMatchingSession (or_kill r) current ''-KILL'' mode else (Inr (), [])) (\<lambda>_.
      stop_rounds current mode (termSent \<or> or_termDue r) (killSent \<or> or_killDue r) rs)))"

fun final_rounds :: "OcSession \<Rightarrow> (observation \<times> cleanup_world) list \<Rightarrow> cleanup_world option oc_traced" where
  "final_rounds current [] = (Inr None, [])"
| "final_rounds current ((ob, cw) # rs) =
    and_then (oc_look current ob) (\<lambda>alive. if alive then final_rounds current rs else (Inr (Some cw), []))"

record oc_stop_world =
  ow_files :: oc_files
  ow_look :: observation
  ow_lock :: "string option"
  ow_files2 :: oc_files
  ow_look2 :: observation
  ow_remove :: "string option"
  ow_orphans :: orphan_resolver_world
  ow_int :: signal_world
  ow_rounds :: "stop_round list"
  ow_kill :: signal_world
  ow_final :: "(observation \<times> cleanup_world) list"
  ow_sha1 :: "string \<Rightarrow> int list"

text \<open>The process is gone: wait for its script, then drop the record if there is one.\<close>

definition stopped_session ::
    "oc_stop_world \<Rightarrow> string \<Rightarrow> OcSession \<Rightarrow> cleanup_world \<Rightarrow> string \<Rightarrow> string \<Rightarrow> (OcSession \<times> string) oc_traced" where
  "stopped_session w cacheDir current cw tracked untracked =
    and_then (waitForSessionCleanup (ow_sha1 w) cw cacheDir current, []) (\<lambda>_.
    if oc_ID current \<noteq> [] then and_then (oc_ClearCurrent (ow_remove w)) (\<lambda>_. (Inr (current, tracked), []))
    else (Inr (current, untracked), []))"

definition stop_mode :: "OcSession \<Rightarrow> string" where
  "stop_mode current = (if oc_PrivilegedMode current = [] then PrivilegedModeAuto else oc_PrivilegedMode current)"

definition stop_force :: "oc_stop_world \<Rightarrow> string \<Rightarrow> OcSession \<Rightarrow> bool \<Rightarrow> (OcSession \<times> string) oc_traced" where
  "stop_force w cacheDir current killSent =
    and_then (if killSent then (Inr (), []) else signalMatchingSession (ow_kill w) current ''-KILL'' (stop_mode current)) (\<lambda>_.
    and_then (final_rounds current (ow_final w)) (\<lambda>gone.
    case gone of
      Some cw \<Rightarrow> stopped_session w cacheDir current cw ''stopped_forced'' ''stopped_untracked_forced''
    | None \<Rightarrow> (Inl (OcStopTimeout (oc_PID current)), [])))"

definition stop_wait :: "oc_stop_world \<Rightarrow> string \<Rightarrow> OcSession \<Rightarrow> (OcSession \<times> string) oc_traced" where
  "stop_wait w cacheDir current =
    and_then (stop_rounds current (stop_mode current) False False (ow_rounds w)) (\<lambda>(gone, killSent).
    case gone of
      Some cw \<Rightarrow> stopped_session w cacheDir current cw ''stopped'' ''stopped_untracked''
    | None \<Rightarrow> stop_force w cacheDir current killSent)"

definition stop_alive :: "oc_stop_world \<Rightarrow> string \<Rightarrow> OcSession \<Rightarrow> (OcSession \<times> string) oc_traced" where
  "stop_alive w cacheDir current =
    (case signalMatchingSession (ow_int w) current ''-INT'' (stop_mode current) of
       (Inl e, es) \<Rightarrow> (Inl (StopFailed (oc_PID current) e), es)
     | (Inr _, es) \<Rightarrow> and_then (Inr (), es) (\<lambda>_. stop_wait w cacheDir current))"

text \<open>Nothing runs: the record, if any, goes, and so do resolver files that nothing owns.\<close>

definition clear_dead :: "oc_stop_world \<Rightarrow> OcSession \<Rightarrow> (OcSession \<times> string) oc_traced" where
  "clear_dead w current =
    (if oc_PID current \<le> 0 \<and> oc_ID current = [] then
       and_then (cleanupOrphanedResolverState (ow_orphans w)) (\<lambda>cleaned.
         (Inr (current, if cleaned then ''cleaned_orphaned'' else ''none''), []))
     else and_then (oc_ClearCurrent (ow_remove w)) (\<lambda>_.
       and_then (cleanupOrphanedResolverState (ow_orphans w)) (\<lambda>cleaned.
         (Inr (current, if oc_PID current \<le> 0 then (if cleaned then ''cleared_starting_cleaned'' else ''cleared_starting'')
            else (if cleaned then ''stale_cleaned'' else ''stale'')), []))))"

definition oc_Stop :: "oc_stop_world \<Rightarrow> string \<Rightarrow> (OcSession \<times> string) oc_traced" where
  "oc_Stop w cacheDir =
    and_then (loadOpenConnectStopSession (ow_files w), []) (\<lambda>current.
    and_then (oc_look current (ow_look w)) (\<lambda>alive.
    if oc_PID current \<le> 0 \<or> \<not> alive then
      (case ow_lock w of
         Some e \<Rightarrow> (Inl (OcLock e), [])
       | None \<Rightarrow>
          and_then (loadOpenConnectStopSession (ow_files2 w), [OcLocked]) (\<lambda>current.
          and_then (oc_look current (ow_look2 w)) (\<lambda>alive.
          if alive then (Inl StartedDuringStop, []) else clear_dead w current)))
    else stop_alive w cacheDir current))"

end
