(* ===== verification/Openconnect_Stop_Laws.thy ===== *)
theory Openconnect_Stop_Laws
  imports Openconnect_Stop Session_Laws
begin

text \<open>
  What stopping an OpenConnect session promises: a signal goes only to a process that was recognised by the
  look right before it, and the record of a session goes only after its process was seen gone.
\<close>

section \<open>Signals follow looks\<close>

text \<open>
  \<open>kills_follow ok prev es\<close>: every signal of the trace comes right after a look that satisfies \<open>ok\<close>;
  \<open>prev\<close> is the look right before the trace, if any.
\<close>

fun kills_follow :: "(int \<Rightarrow> observation \<Rightarrow> bool) \<Rightarrow> (int \<times> observation) option \<Rightarrow> oc_event list \<Rightarrow> bool" where
  "kills_follow ok prev [] = True"
| "kills_follow ok prev (OcSaw pid ob # es) = kills_follow ok (Some (pid, ob)) es"
| "kills_follow ok prev (OcKill pid sig cmd # es) =
    ((case prev of None \<Rightarrow> False | Some (p, ob) \<Rightarrow> p = pid \<and> ok p ob) \<and> kills_follow ok None es)"
| "kills_follow ok prev (_ # es) = kills_follow ok None es"

lemma kills_follow_mono: "kills_follow ok None es \<Longrightarrow> kills_follow ok prev es"
  by (cases es; cases "hd es") auto

lemma kills_follow_append:
  "kills_follow ok prev xs \<Longrightarrow> kills_follow ok None ys \<Longrightarrow> kills_follow ok prev (xs @ ys)"
  by (induction ok prev xs rule: kills_follow.induct) (auto intro: kills_follow_mono)

lemma kills_follow_and_then:
  assumes "kills_follow ok None (snd m)" and "\<And>x. kills_follow ok None (snd (f x))"
  shows "kills_follow ok None (snd (and_then m f))"
  using assms by (cases m; cases "fst m") (auto simp: kills_follow_append)

text \<open>A look recognises the recorded process.\<close>

definition oc_own :: "OcSession \<Rightarrow> int \<Rightarrow> observation \<Rightarrow> bool" where
  "oc_own current pid ob \<longleftrightarrow> pid = oc_PID current \<and> oc_alive current ob = Inr True"

lemma look_follows [simp]: "kills_follow ok prev (snd (oc_look current ob))"
  by (simp add: oc_look_def)

lemma signalOpenConnectPID_trace:
  "snd (signalOpenConnectPID w pid sig mode path) = [] \<or>
   snd (signalOpenConnectPID w pid sig mode path) =
     [OcKill pid sig (elevatedCommand (ln_euid w) mode [''kill'', sig, itoa pid])]"
  by (auto simp: signalOpenConnectPID_def split: sum.splits)

lemma signal_follows: "kills_follow (oc_own current) None (snd (signalMatchingSession w current sig mode))"
proof (cases "oc_alive current (sg_look w)")
  case (Inr alive)
  then show ?thesis
    using signalOpenConnectPID_trace [of "sg_lane w" "oc_PID current" sig mode "oc_HelperSocketPath current"]
    by (auto simp: signalMatchingSession_def oc_look_def oc_own_def split: prod.splits sum.splits bool.splits)
qed (simp add: signalMatchingSession_def oc_look_def)

lemma maybe_signal_follows: "kills_follow (oc_own current) None (snd (if b then signalMatchingSession w current sig mode else (Inr (), [])))"
  by (simp add: signal_follows)

lemma stop_rounds_follow: "kills_follow (oc_own current) None (snd (stop_rounds current mode t k rs))"
proof (induction rs arbitrary: t k)
  case (Cons r rs)
  show ?case
    unfolding stop_rounds.simps(2)
    by (intro kills_follow_and_then look_follows maybe_signal_follows if_split [where P = "\<lambda>m. kills_follow _ None (snd m)", THEN iffD2] conjI impI Cons.IH)
      simp
qed simp

lemma final_rounds_follow: "kills_follow ok None (snd (final_rounds current rs))"
  by (induction current rs rule: final_rounds.induct) (auto intro!: kills_follow_and_then)

lemma clear_follows [simp]: "kills_follow ok None (snd (oc_ClearCurrent e))"
  by (simp add: oc_ClearCurrent_def split: option.splits)

lemma run_cleanup_follows: "kills_follow ok None (snd (run_cleanup w))"
  by (simp add: run_cleanup_def split: option.splits sum.splits)

lemma orphan_cleanup_follows [simp]: "kills_follow ok None (snd (cleanupOrphanedResolverState w))"
  by (auto simp: cleanupOrphanedResolverState_def run_cleanup_follows intro!: kills_follow_and_then split: option.splits)

lemma stopped_follows [simp]: "kills_follow ok None (snd (stopped_session w dir current cw a b))"
  by (auto simp: stopped_session_def intro!: kills_follow_and_then)

lemma clear_dead_follows [simp]: "kills_follow ok None (snd (clear_dead w current))"
  by (auto simp: clear_dead_def intro!: kills_follow_and_then)

lemma stop_force_follows: "kills_follow (oc_own current) None (snd (stop_force w dir current k))"
  unfolding stop_force_def
  by (intro kills_follow_and_then final_rounds_follow) (auto simp: signal_follows split: option.splits)

lemma stop_wait_follows: "kills_follow (oc_own current) None (snd (stop_wait w dir current))"
  unfolding stop_wait_def
  by (intro kills_follow_and_then stop_rounds_follow) (auto simp: stop_force_follows split: option.splits)

lemma stop_alive_follows: "kills_follow (oc_own current) None (snd (stop_alive w dir current))"
  using signal_follows [of current "ow_int w" "''-INT''" "stop_mode current"]
  by (auto simp: stop_alive_def stop_wait_follows intro!: kills_follow_append split: prod.splits sum.splits)

lemma follows_weaken:
  "kills_follow ok prev es \<Longrightarrow> (\<And>p ob. ok p ob \<Longrightarrow> ok' p ob) \<Longrightarrow> kills_follow ok' prev es"
  by (induction ok prev es rule: kills_follow.induct) (auto split: option.splits)


section \<open>The record goes last\<close>

text \<open>The trace ends with a look that finds the process gone.\<close>

definition ends_gone :: "OcSession \<Rightarrow> oc_event list \<Rightarrow> bool" where
  "ends_gone current es \<longleftrightarrow> (\<exists>pre ob. es = pre @ [OcSaw (oc_PID current) ob] \<and> oc_alive current ob = Inr False)"

lemma ends_gone_append [intro]: "ends_gone current ys \<Longrightarrow> ends_gone current (xs @ ys)"
  by (auto simp: ends_gone_def)

lemma look_ends_gone: "oc_look current ob = (Inr False, es) \<Longrightarrow> ends_gone current es"
  by (auto simp: oc_look_def ends_gone_def)

lemma look_keeps [simp]: "OcCleared \<notin> set (snd (oc_look current ob))"
  by (simp add: oc_look_def)

lemma signal_keeps: "OcCleared \<notin> set (snd (signalMatchingSession w current sig mode))"
  using and_then_events [of "oc_look current (sg_look w)"] 
    signalOpenConnectPID_trace [of "sg_lane w" "oc_PID current" sig mode "oc_HelperSocketPath current"]
  by (cases "oc_alive current (sg_look w)")
    (auto simp: signalMatchingSession_def oc_look_def split: prod.splits sum.splits bool.splits)

lemma keeps_and_then:
  "OcCleared \<notin> set (snd m) \<Longrightarrow> (\<And>x. OcCleared \<notin> set (snd (f x))) \<Longrightarrow> OcCleared \<notin> set (snd (and_then m f))"
  using and_then_events [of m f] by blast

lemma stop_rounds_keep: "OcCleared \<notin> set (snd (stop_rounds current mode t k rs))"
proof (induction rs arbitrary: t k)
  case (Cons r rs)
  have maybe: "OcCleared \<notin> set (snd (if b then signalMatchingSession w current sig mode else (Inr (), [])))" for b w sig
    by (simp add: signal_keeps)
  show ?case
    unfolding stop_rounds.simps(2)
    by (intro keeps_and_then look_keeps maybe if_split [where P = "\<lambda>m. OcCleared \<notin> set (snd m)", THEN iffD2] conjI impI Cons.IH)
      simp
qed simp

lemma and_then_ends_gone:
  assumes "and_then m f = (Inr y, es)" and "\<And>x ys. f x = (Inr y, ys) \<Longrightarrow> ends_gone current ys"
  shows "ends_gone current es"
  using assms unfolding and_then_Inr by blast

lemma stop_rounds_gone:
  "stop_rounds current mode t k rs = (Inr (Some cw, k'), es) \<Longrightarrow> ends_gone current es"
proof (induction rs arbitrary: t k es)
  case (Cons r rs)
  from Cons.prems obtain alive es1 es2 where
    look: "oc_look current (or_look r) = (Inr alive, es1)" and es: "es = es1 @ es2" and
    rest: "(if \<not> alive then (Inr (Some (or_cleanup r), k), [])
      else and_then (if \<not> t \<and> or_termDue r then signalMatchingSession (or_term r) current ''-TERM'' mode else (Inr (), [])) (\<lambda>_.
        and_then (if \<not> k \<and> or_killDue r then signalMatchingSession (or_kill r) current ''-KILL'' mode else (Inr (), [])) (\<lambda>_.
        stop_rounds current mode (t \<or> or_termDue r) (k \<or> or_killDue r) rs))) = (Inr (Some cw, k'), es2)"
    unfolding stop_rounds.simps(2) and_then_Inr by blast
  show ?case
  proof (cases alive)
    case False
    then show ?thesis using look rest by (auto simp: es look_ends_gone)
  next
    case True
    from rest have "ends_gone current es2"
      unfolding if_not_P [of "\<not> alive", OF True [THEN not_not [THEN iffD2]]] by (elim and_then_ends_gone Cons.IH)
    then show ?thesis by (auto simp: es)
  qed
qed simp

lemma final_rounds_keep: "OcCleared \<notin> set (snd (final_rounds current rs))"
proof (induction current rs rule: final_rounds.induct)
  case (2 current ob cw rs)
  then show ?case unfolding final_rounds.simps by (intro keeps_and_then) auto
qed simp

lemma final_rounds_gone: "final_rounds current rs = (Inr (Some cw), es) \<Longrightarrow> ends_gone current es"
proof (induction current rs arbitrary: es rule: final_rounds.induct)
  case (2 current ob cw' rs)
  then show ?case by (auto simp: and_then_Inr look_ends_gone split: if_splits)
qed simp

text \<open>The record is removed only right after such a look.\<close>

definition clears_gone :: "OcSession \<Rightarrow> oc_event list \<Rightarrow> bool" where
  "clears_gone current es \<longleftrightarrow> (\<forall>pre post. es = pre @ OcCleared # post \<longrightarrow> ends_gone current pre)"

lemma clears_gone_keep: "OcCleared \<notin> set es \<Longrightarrow> clears_gone current es"
  by (auto simp: clears_gone_def)

lemma clears_gone_after:
  "OcCleared \<notin> set xs \<Longrightarrow> OcCleared \<notin> set (tl ys) \<Longrightarrow> ends_gone current xs \<Longrightarrow> clears_gone current (xs @ ys)"
  unfolding clears_gone_def
proof (intro allI impI)
  fix pre post
  assume xs: "OcCleared \<notin> set xs" and ys: "OcCleared \<notin> set (tl ys)" and gone: "ends_gone current xs"
    and eq: "xs @ ys = pre @ OcCleared # post"
  then obtain us where "pre = xs @ us" "ys = us @ OcCleared # post"
    unfolding append_eq_append_conv2 by (auto simp: append_eq_Cons_conv)
  with ys gone show "ends_gone current pre" by (cases us) auto
qed

lemma clears_gone_append: "OcCleared \<notin> set xs \<Longrightarrow> clears_gone current ys \<Longrightarrow> clears_gone current (xs @ ys)"
  unfolding clears_gone_def
proof (intro allI impI)
  fix pre post
  assume "OcCleared \<notin> set xs" and ys: "\<forall>pre post. ys = pre @ OcCleared # post \<longrightarrow> ends_gone current pre"
    and "xs @ ys = pre @ OcCleared # post"
  then obtain us where "pre = xs @ us" "ys = us @ OcCleared # post"
    unfolding append_eq_append_conv2 by (auto simp: append_eq_Cons_conv)
  with ys show "ends_gone current pre" by auto
qed

lemma clears_gone_and_then:
  assumes "OcCleared \<notin> set (snd m)" and "\<And>x es. m = (Inr x, es) \<Longrightarrow> clears_gone current (es @ snd (f x))"
  shows "clears_gone current (snd (and_then m f))"
  using assms by (cases m; cases "fst m") (auto simp: clears_gone_keep)

lemma snd_keeps: "OcCleared \<notin> set (snd m) \<Longrightarrow> m = (r, es) \<Longrightarrow> OcCleared \<notin> set es"
  by simp

lemma keeps_tl: "OcCleared \<notin> set es \<Longrightarrow> OcCleared \<notin> set (tl es)"
  by (cases es) auto

lemma orphans_keep [simp]: "OcCleared \<notin> set (snd (cleanupOrphanedResolverState w))"
proof -
  have "OcCleared \<notin> set (snd (run_cleanup w))" by (simp add: run_cleanup_def split: option.splits sum.splits)
  then have "OcCleared \<notin> set (snd (and_then (run_cleanup w) (\<lambda>_. (r, []))))" for r :: "oc_error + bool"
    by (rule keeps_and_then) simp
  then show ?thesis by (simp add: cleanupOrphanedResolverState_def split: option.splits)
qed

lemma stopped_clears_once: "OcCleared \<notin> set (tl (snd (stopped_session w dir current cw a b)))"
  by (cases "waitForSessionCleanup (ow_sha1 w) cw dir current") (auto simp: stopped_session_def oc_ClearCurrent_def split: option.splits)

lemma dead_clears_once: "OcCleared \<notin> set (tl (snd (clear_dead w current)))"
proof -
  have cleaned: "OcCleared \<notin> set (snd (and_then (cleanupOrphanedResolverState (ow_orphans w)) (\<lambda>cleaned. (Inr (g cleaned), []))))"
    for g :: "bool \<Rightarrow> OcSession \<times> string"
    by (intro keeps_and_then) auto
  show ?thesis
    using cleaned by (auto simp: clear_dead_def oc_ClearCurrent_def keeps_tl split: option.splits)
qed

lemma final_clears_gone:
  "clears_gone current (snd (and_then (final_rounds current rs) (\<lambda>gone. case gone of
     Some cw \<Rightarrow> stopped_session w dir current cw a b | None \<Rightarrow> (Inl e, []))))"
  using snd_keeps [OF final_rounds_keep]
  by (intro clears_gone_and_then final_rounds_keep)
    (auto simp: clears_gone_after clears_gone_keep stopped_clears_once final_rounds_gone split: option.splits)

lemma stop_force_clears_gone: "clears_gone current (snd (stop_force w dir current k))"
  unfolding stop_force_def using snd_keeps [OF signal_keeps]
  by (intro clears_gone_and_then) (auto simp: signal_keeps final_clears_gone intro!: clears_gone_append split: if_splits)

lemma stop_wait_clears_gone: "clears_gone current (snd (stop_wait w dir current))"
  unfolding stop_wait_def using snd_keeps [OF stop_rounds_keep]
  by (intro clears_gone_and_then stop_rounds_keep)
    (auto simp: clears_gone_after stopped_clears_once stop_rounds_gone
      clears_gone_append [OF _ stop_force_clears_gone] split: option.splits)

lemma stop_alive_clears_gone: "clears_gone current (snd (stop_alive w dir current))"
  using snd_keeps [OF signal_keeps]
  by (auto simp: stop_alive_def stop_wait_clears_gone clears_gone_keep intro!: clears_gone_append split: prod.splits sum.splits)

text \<open>The two ways through \<open>Stop\<close>: the process is there at the first look, or everything is read again under the lock.\<close>

definition stop_locked :: "oc_stop_world \<Rightarrow> OcSession \<Rightarrow> (OcSession \<times> string) oc_traced" where
  "stop_locked w current =
    and_then (oc_look current (ow_look2 w)) (\<lambda>alive. if alive then (Inl StartedDuringStop, []) else clear_dead w current)"

lemma stop_locked_clears_gone: "clears_gone current (snd (stop_locked w current))"
  unfolding stop_locked_def using snd_keeps [OF look_keeps]
  by (intro clears_gone_and_then look_keeps) (auto simp: clears_gone_after clears_gone_keep dead_clears_once look_ends_gone)

lemma oc_Stop_cases:
  obtains (unreadable) e where "oc_Stop w dir = (Inl e, [])"
  | (look) current where "loadOpenConnectStopSession (ow_files w) = Inr current"
      "OcCleared \<notin> set (snd (oc_Stop w dir))" "\<exists>e. fst (oc_Stop w dir) = Inl e"
  | (alive) current where "loadOpenConnectStopSession (ow_files w) = Inr current"
      "oc_Stop w dir = and_then (oc_look current (ow_look w)) (\<lambda>_. stop_alive w dir current)" "\<exists>es. oc_look current (ow_look w) = (Inr True, es)"
  | (locked) current where "loadOpenConnectStopSession (ow_files2 w) = Inr current"
      "\<exists>c :: OcSession. oc_Stop w dir = and_then (Inr (), [OcSaw (oc_PID c) (ow_look w), OcLocked]) (\<lambda>_. stop_locked w current)"
proof (cases "loadOpenConnectStopSession (ow_files w)")
  case (Inl e)
  then show ?thesis using unreadable by (simp add: oc_Stop_def)
next
  case (Inr c)
  show ?thesis
  proof (cases "oc_alive c (ow_look w)")
    case (Inl e)
    then show ?thesis using look Inr by (simp add: oc_Stop_def oc_look_def)
  next
    case alive: (Inr b)
    show ?thesis
    proof (cases "oc_PID c \<le> 0 \<or> \<not> b")
      case False
      then show ?thesis using that(3) [OF Inr] alive Inr by (simp add: oc_Stop_def oc_look_def)
    next
      case True
      consider e where "ow_lock w = Some e" | e where "ow_lock w = None" "loadOpenConnectStopSession (ow_files2 w) = Inl e"
        | c2 where "ow_lock w = None" "loadOpenConnectStopSession (ow_files2 w) = Inr c2"
        by (cases "ow_lock w"; cases "loadOpenConnectStopSession (ow_files2 w)") auto
      then show ?thesis
      proof cases
        case (3 c2)
        then have "oc_Stop w dir = and_then (Inr (), [OcSaw (oc_PID c) (ow_look w), OcLocked]) (\<lambda>_. stop_locked w c2)"
          using True alive Inr by (simp add: oc_Stop_def oc_look_def stop_locked_def)
        then show ?thesis using locked 3 by blast
      qed (use look Inr alive True in \<open>simp_all add: oc_Stop_def oc_look_def\<close>)
    qed
  qed
qed

text \<open>A sample: the session of process 42 ends after the interrupt.\<close>

definition sample_oc :: OcSession where
  "sample_oc = zeroOc\<lparr>oc_ID := ''a'', oc_PID := 42, oc_ProcessComm := ''openconnect'', oc_ProcessStart := 5,
     oc_PrivilegedMode := ''sudo''\<rparr>"

definition sample_there :: observation where
  "sample_there = \<lparr>ob_kill = KillEPERM, ob_identity = Inr (''openconnect'', 5), ob_launchd = Inl []\<rparr>"

definition sample_gone :: observation where "sample_gone = sample_there\<lparr>ob_kill := KillESRCH\<rparr>"

definition sample_lane :: "bool \<Rightarrow> lane_world" where
  "sample_lane helper = \<lparr>ln_euid = 501, ln_helper = (\<lambda>_. helper), ln_cached = True, ln_prompt = False, ln_validate = None, ln_run = None\<rparr>"

definition sample_signal :: "bool \<Rightarrow> signal_world" where
  "sample_signal helper = \<lparr>sg_look = sample_there, sg_lane = sample_lane helper, sg_after = sample_there\<rparr>"

definition sample_look :: cleanup_look where
  "sample_look = \<lparr>cl_ps = Inr [], cl_scutil = (\<lambda>_. Inr ''No such key''), cl_stat = (\<lambda>_. Absent)\<rparr>"

definition sample_tracked :: oc_files where "sample_tracked = \<lparr>of_current = Some (Inr sample_oc), of_pgrep = None\<rparr>"
definition sample_untracked :: oc_files where "sample_untracked = \<lparr>of_current = None, of_pgrep = Some ''42''\<rparr>"

definition sample_oc_stop :: "oc_files \<Rightarrow> bool \<Rightarrow> oc_stop_world" where
  "sample_oc_stop files helper = \<lparr>ow_files = files, ow_look = sample_there, ow_lock = None,
     ow_files2 = \<lparr>of_current = None, of_pgrep = None\<rparr>, ow_look2 = sample_gone, ow_remove = None,
     ow_orphans = \<lparr>rw_entries = None, rw_lines = (\<lambda>_. None), rw_ciscoConnected = False, rw_mkdir = None, rw_helper = helper,
       rw_helperRun = None, rw_lane = sample_lane helper, rw_openLog = None, rw_after = (\<lambda>_. None)\<rparr>,
     ow_int = sample_signal helper,
     ow_rounds = [\<lparr>or_look = sample_gone, or_cleanup = \<lparr>cw_timeLeft = True, cw_looks = (sample_look, [])\<rparr>, or_termDue = False,
       or_term = sample_signal helper, or_killDue = False, or_kill = sample_signal helper\<rparr>],
     ow_kill = sample_signal helper, ow_final = [], ow_sha1 = (\<lambda>_. [])\<rparr>"



section \<open>Outcomes\<close>

lemma look_unless_dead: "oc_look current ob = (Inr alive, es) \<longleftrightarrow> oc_alive current ob = Inr alive \<and> es = [OcSaw (oc_PID current) ob]"
  by (auto simp: oc_look_def)

text \<open>A stopped session: its process seen gone, and its record removed if it has one.\<close>

definition stopped_well :: "OcSession \<Rightarrow> string \<Rightarrow> oc_event list \<Rightarrow> bool" where
  "stopped_well current outcome es \<longleftrightarrow>
    (\<exists>ob. OcSaw (oc_PID current) ob \<in> set es \<and> oc_alive current ob = Inr False) \<and>
    (OcCleared \<in> set es \<longleftrightarrow> oc_ID current \<noteq> [] \<or> outcome = ''stale'' \<or> outcome = ''stale_cleaned'')"

lemma stopped_session_result:
  assumes "stopped_session w dir current cw a b = (Inr (c, outcome), es)"
  shows "c = current \<and> outcome = (if oc_ID current \<noteq> [] then a else b) \<and> (OcCleared \<in> set es \<longleftrightarrow> oc_ID current \<noteq> [])"
  using assms
  by (cases "waitForSessionCleanup (ow_sha1 w) cw dir current")
    (auto simp: stopped_session_def oc_ClearCurrent_def split: option.splits if_splits)

lemma after_gone:
  assumes "ends_gone current es1" and "OcCleared \<notin> set es1" and "stopped_session w dir current cw a b = (Inr (c, outcome), es2)"
    and "a \<noteq> ''stale''" "a \<noteq> ''stale_cleaned''" "b \<noteq> ''stale''" "b \<noteq> ''stale_cleaned''"
  shows "c = current \<and> stopped_well current outcome (es1 @ es2)"
  using assms stopped_session_result [OF assms(3)] by (auto simp: stopped_well_def ends_gone_def)

lemma stopped_well_append: "OcCleared \<notin> set xs \<Longrightarrow> stopped_well current outcome ys \<Longrightarrow> stopped_well current outcome (xs @ ys)"
  by (auto simp: stopped_well_def)

lemma stop_force_result:
  assumes "stop_force w dir current k = (Inr (c, outcome), es)"
  shows "c = current \<and> stopped_well current outcome es"
proof -
  from assms obtain x xs ys where first: "(if k then (Inr (), []) else signalMatchingSession (ow_kill w) current ''-KILL'' (stop_mode current)) = (Inr x, xs)"
    and es: "es = xs @ ys" and rest: "and_then (final_rounds current (ow_final w)) (\<lambda>gone. case gone of
      Some cw \<Rightarrow> stopped_session w dir current cw ''stopped_forced'' ''stopped_untracked_forced''
    | None \<Rightarrow> (Inl (OcStopTimeout (oc_PID current)), [])) = (Inr (c, outcome), ys)"
    unfolding stop_force_def and_then_Inr by blast
  have "OcCleared \<notin> set xs" using first snd_keeps [OF signal_keeps] by (auto split: if_splits)
  moreover from rest obtain cw ys1 ys2 where "final_rounds current (ow_final w) = (Inr (Some cw), ys1)"
    "stopped_session w dir current cw ''stopped_forced'' ''stopped_untracked_forced'' = (Inr (c, outcome), ys2)" "ys = ys1 @ ys2"
    unfolding and_then_Inr by (auto split: option.splits)
  ultimately show ?thesis
    using after_gone [OF final_rounds_gone, of _ _ cw ys1 w dir cw _ _ c outcome ys2] snd_keeps [OF final_rounds_keep]
    by (simp add: es stopped_well_append)
qed

lemma stop_wait_result:
  assumes "stop_wait w dir current = (Inr (c, outcome), es)"
  shows "c = current \<and> stopped_well current outcome es"
proof -
  from assms obtain gone k xs ys where
    first: "stop_rounds current (stop_mode current) False False (ow_rounds w) = (Inr (gone, k), xs)" and es: "es = xs @ ys" and
    rest: "(case gone of Some cw \<Rightarrow> stopped_session w dir current cw ''stopped'' ''stopped_untracked''
      | None \<Rightarrow> stop_force w dir current k) = (Inr (c, outcome), ys)"
    unfolding stop_wait_def and_then_Inr by auto
  note kept = snd_keeps [OF stop_rounds_keep first]
  show ?thesis
  proof (cases gone)
    case (Some cw)
    then show ?thesis using rest first kept after_gone [OF stop_rounds_gone] by (simp add: es)
  qed (use rest stop_force_result kept in \<open>auto simp: es stopped_well_append\<close>)
qed

lemma stop_alive_result:
  assumes "stop_alive w dir current = (Inr (c, outcome), es)"
  shows "c = current \<and> stopped_well current outcome es"
proof -
  from assms obtain xs ys where "signalMatchingSession (ow_int w) current ''-INT'' (stop_mode current) = (Inr (), xs)"
    "stop_wait w dir current = (Inr (c, outcome), ys)" "es = xs @ ys"
    unfolding stop_alive_def by (auto simp: and_then_Inr simp del: and_then_simps split: prod.splits sum.splits)
  then show ?thesis using stop_wait_result snd_keeps [OF signal_keeps] by (simp add: stopped_well_append)
qed

lemma clear_dead_result:
  assumes "clear_dead w current = (Inr (c, outcome), es)"
  shows "c = current \<and> (OcCleared \<in> set es \<longleftrightarrow> oc_ID current \<noteq> [] \<or> outcome = ''stale'' \<or> outcome = ''stale_cleaned'')"
proof (cases "oc_PID current \<le> 0 \<and> oc_ID current = []")
  case True
  then show ?thesis
    using assms snd_keeps [OF orphans_keep] by (auto simp: clear_dead_def and_then_Inr split: if_splits)
next
  case False
  then show ?thesis
    using assms by (auto simp: clear_dead_def and_then_Inr oc_ClearCurrent_def split: option.splits if_splits)
qed

text \<open>
  (C15) When stopping an OpenConnect session succeeds, the process of the session it reports was seen gone,
  and the record is removed exactly when there was one (a dead process found only in the process list
  counts as stale, and the removal then finds nothing).
\<close>

theorem oc_stop_outcome:
  assumes "oc_Stop w cacheDir = (Inr (current, outcome), es)"
  shows "(\<exists>ob. OcSaw (oc_PID current) ob \<in> set es \<and> oc_alive current ob = Inr False) \<and>
    (OcCleared \<in> set es \<longleftrightarrow> oc_ID current \<noteq> [] \<or> outcome = ''stale'' \<or> outcome = ''stale_cleaned'')"
proof (cases rule: oc_Stop_cases [of w cacheDir])
  case (alive c)
  then obtain ys where "stop_alive w cacheDir c = (Inr (current, outcome), ys)" "es = OcSaw (oc_PID c) (ow_look w) # ys"
    using assms by (auto simp: oc_look_def prod_eq_iff)
  then show ?thesis using stop_alive_result [of w cacheDir c] by (auto simp: stopped_well_def)
next
  case (locked c)
  then obtain c0 :: OcSession and ys where "stop_locked w c = (Inr (current, outcome), ys)"
    "es = [OcSaw (oc_PID c0) (ow_look w), OcLocked] @ ys"
    using assms by (auto simp: prod_eq_iff)
  moreover from this obtain zs where "clear_dead w c = (Inr (current, outcome), zs)" "oc_alive c (ow_look2 w) = Inr False"
    "ys = OcSaw (oc_PID c) (ow_look2 w) # zs"
    by (auto simp: stop_locked_def and_then_Inr look_unless_dead split: if_splits)
  ultimately show ?thesis using clear_dead_result [of w c] by auto
qed (use assms in auto)

theorem oc_stop_outcome_witness:
  "(\<exists>ob. OcSaw (oc_PID sample_oc) ob \<in> set (snd (oc_Stop (sample_oc_stop sample_tracked False) ''/c'')) \<and> oc_alive sample_oc ob = Inr False) \<and>
    (OcCleared \<in> set (snd (oc_Stop (sample_oc_stop sample_tracked False) ''/c'')) \<longleftrightarrow>
      oc_ID sample_oc \<noteq> [] \<or> ''stopped'' = ''stale'' \<or> ''stopped'' = ''stale_cleaned'')"
proof (rule oc_stop_outcome [where w = "sample_oc_stop sample_tracked False" and cacheDir = "''/c''" and outcome = "''stopped''"])
  have "fst (oc_Stop (sample_oc_stop sample_tracked False) ''/c'') = Inr (sample_oc, ''stopped'')" by code_simp
  then show "oc_Stop (sample_oc_stop sample_tracked False) ''/c'' =
      (Inr (sample_oc, ''stopped''), snd (oc_Stop (sample_oc_stop sample_tracked False) ''/c''))" by (metis prod.collapse)
qed

text \<open>
  (C16) A live OpenConnect process that is known only from the process list, or whose session asks for the
  helper, cannot be stopped while vpn-core answers: the signal goes to an action that was removed, and
  nothing but looks happens.
\<close>

theorem untracked_stop_fails:
  assumes "loadOpenConnectStopSession (ow_files w) = Inr current" and "0 < oc_PID current"
    and "oc_alive current (ow_look w) = Inr True" and "oc_alive current (sg_look (ow_int w)) = Inr True"
    and "oc_alive current (sg_after (ow_int w)) = Inr True"
    and "TrimSpace (oc_PrivilegedMode current) \<in> {[], PrivilegedModeAuto, PrivilegedModeHelper}"
    and "ln_helper (sg_lane (ow_int w)) (oc_HelperSocketPath current)"
  shows "oc_Stop w cacheDir =
    (Inl (StopFailed (oc_PID current) (SignalJoined HelperSignalRemoved None)),
     map (OcSaw (oc_PID current)) [ow_look w, sg_look (ow_int w), sg_after (ow_int w)])"
proof -
  have "TrimSpace (stop_mode current) \<in> {[], PrivilegedModeAuto, PrivilegedModeHelper}"
    using assms(6) by (simp add: stop_mode_def PrivilegedModeAuto_def) code_simp
  then have "shouldUseHelperSignal (sg_lane (ow_int w)) (stop_mode current) (oc_HelperSocketPath current)"
    using assms(7) by (auto simp: shouldUseHelperSignal_def)
  then show ?thesis
    using assms by (simp add: oc_Stop_def stop_alive_def signalMatchingSession_def signalOpenConnectPID_def oc_look_def)
qed

theorem untracked_stop_fails_witness:
  "oc_Stop (sample_oc_stop sample_untracked True) ''/c'' =
    (Inl (StopFailed 42 (SignalJoined HelperSignalRemoved None)), [OcSaw 42 sample_there, OcSaw 42 sample_there, OcSaw 42 sample_there])"
proof -
  have "loadOpenConnectStopSession (ow_files (sample_oc_stop sample_untracked True)) = Inr (zeroOc\<lparr>oc_PID := 42\<rparr>)"
    by code_simp
  moreover have "oc_alive (zeroOc\<lparr>oc_PID := 42\<rparr>) sample_there = Inr True" by code_simp
  moreover have "TrimSpace (oc_PrivilegedMode (zeroOc\<lparr>oc_PID := 42\<rparr>)) = []" by code_simp
  ultimately show ?thesis
    using untracked_stop_fails [of "sample_oc_stop sample_untracked True" "zeroOc\<lparr>oc_PID := 42\<rparr>" "''/c''"]
    by (simp add: sample_oc_stop_def sample_signal_def sample_lane_def)
qed

end
