(* ===== verification/Xray_Render.thy ===== *)
theory Xray_Render
  imports Render_Policy Subscription
begin

text \<open>
  The configuration of the Xray engine, \<open>vless/xray/render.go\<close>: one SOCKS listener for the sing-box front end
  and the VLESS upstream. The package's own \<open>firstNonEmpty\<close> is the one of the subscription package.
\<close>

datatype xray_error = XrayNetwork string | XraySecurity string

definition buildNetworkSettings :: "Profile \<Rightarrow> xray_error + (string \<times> json) list" where
  "buildNetworkSettings profile =
    (if md_Network profile = [] \<or> md_Network profile = ''tcp'' then Inr []
     else if md_Network profile = ''grpc'' then
       Inr [(''grpcSettings'', JObject (opt_field (md_ServiceName profile \<noteq> []) ''serviceName'' (JString (md_ServiceName profile))))]
     else Inl (XrayNetwork (md_Network profile)))"

definition security_settings :: "Profile \<Rightarrow> xray_error + (string \<times> json) list" where
  "security_settings profile =
    (let names = opt_field (md_SNI profile \<noteq> []) ''serverName'' (JString (md_SNI profile))
           @ opt_field (md_Fingerprint profile \<noteq> []) ''fingerprint'' (JString (md_Fingerprint profile)) in
     if md_Security profile = [] \<or> md_Security profile = ''none'' then Inr []
     else if md_Security profile = ''tls'' then Inr [(''security'', JString ''tls''), (''tlsSettings'', JObject names)]
     else if md_Security profile = ''reality'' then
       Inr [(''security'', JString ''reality''),
         (''realitySettings'', JObject (names
            @ opt_field (md_PublicKey profile \<noteq> []) ''publicKey'' (JString (md_PublicKey profile))
            @ opt_field (md_ShortID profile \<noteq> []) ''shortId'' (JString (md_ShortID profile))
            @ opt_field (md_SpiderX profile \<noteq> []) ''spiderX'' (JString (md_SpiderX profile))))]
     else Inl (XraySecurity (md_Security profile)))"

definition buildStreamSettings :: "Profile \<Rightarrow> xray_error + (string \<times> json) list" where
  "buildStreamSettings profile =
    result_bind (buildNetworkSettings profile) (\<lambda>network.
    result_bind (security_settings profile) (\<lambda>security.
      Inr ((''network'', JString (first_nonempty [md_Network profile, ''tcp''])) # network @ security)))"

definition xrayLogLevel :: "string \<Rightarrow> string" where
  "xrayLogLevel level = (if level = [] \<or> level = ''warn'' then ''warning'' else level)"

definition vless_user :: "Profile \<Rightarrow> json" where
  "vless_user profile =
    JObject ([(''id'', JString (md_UUID profile)), (''encryption'', JString (first_nonempty [md_Encryption profile, ''none'']))]
      @ opt_field (md_Flow profile \<noteq> []) ''flow'' (JString (md_Flow profile)))"

definition socks_inbound :: "ProjectConfig \<Rightarrow> (string \<times> json) list" where
  "socks_inbound cfg =
    [(''tag'', JString ''socks-in''), (''listen'', JString (XraySocksListen cfg)), (''port'', jint (XraySocksPort cfg)),
     (''protocol'', JString ''socks''), (''settings'', JObject [(''auth'', JString ''noauth''), (''udp'', JBool True)])]"

definition xray_Render :: "ProjectConfig \<Rightarrow> Profile \<Rightarrow> xray_error + (string \<times> json) list" where
  "xray_Render cfg profile =
    result_bind (buildStreamSettings profile) (\<lambda>streamSettings.
      Inr [(''log'', JObject [(''loglevel'', JString (xrayLogLevel (LogLevel cfg)))]),
        (''inbounds'', JArray [JObject (socks_inbound cfg)]),
        (''outbounds'', JArray
          [JObject [(''tag'', JString ''proxy''), (''protocol'', JString ''vless''),
             (''settings'', JObject [(''vnext'', JArray [JObject [(''address'', JString (md_Host profile)), (''port'', jint (md_Port profile)),
                (''users'', JArray [vless_user profile])]])]),
             (''streamSettings'', JObject streamSettings)],
           JObject [(''tag'', JString ''direct''), (''protocol'', JString ''freedom'')],
           JObject [(''tag'', JString ''block''), (''protocol'', JString ''blackhole'')]])])"

section \<open>Errors\<close>

lemma xray_render_ok_iff:
  "(\<exists>root. xray_Render cfg profile = Inr root) \<longleftrightarrow>
    md_Network profile \<in> {[], ''tcp'', ''grpc''} \<and> md_Security profile \<in> {[], ''none'', ''tls'', ''reality''}"
  by (auto simp: xray_Render_def buildStreamSettings_def buildNetworkSettings_def security_settings_def Let_def)

section \<open>The two engines fit\<close>

text \<open>
  The front end sends the tunnel's traffic to the address and port at which the engine listens, and the
  engine sends it on to the endpoint of the profile.
\<close>

lemma engines_fit:
  assumes "RenderXrayFrontendWithOptions cfg options = Inr front" and "xray_Render cfg profile = Inr engine"
  shows "texts ''server'' (take 1 (nodes [''outbounds''] front)) = texts ''listen'' (nodes [''inbounds''] engine)"
    and "jget ''server_port'' (hd (nodes [''outbounds''] front)) = jget ''port'' (hd (nodes [''inbounds''] engine))"
    and "texts ''address'' (concat (map (\<lambda>x. jlist (jpath [''settings'', ''vnext''] x)) (nodes [''outbounds''] engine))) = [md_Host profile]"
  using assms
  by (auto simp: RenderXrayFrontendWithOptions_def renderWithProxyOutbound_def xray_Render_def socks_inbound_def nodes_def texts_def Let_def)

end
