(* ===== verification/Vless_Cli.thy ===== *)
theory Vless_Cli
  imports Xray_Render Vless_Validate Session_Start Openconnect_Session
begin

text \<open>
  The commands of \<open>vless-tun\<close> that change a tunnel, \<open>vless/cli\<close>: choosing the server and profile, preparing a start,
  start, reconnect and stop. The flags of a command are given as parsed (\<open>flag.FlagSet\<close>); what is printed is
  left out, the exit code is determined by the result. A command returns its result with the trace of what
  it did to files and sessions.
\<close>

section \<open>Errors and events\<close>

datatype cli_error =
    UnexpectedArgument string
  | ServerTwice
  | ProfileTwice
  | NoConfigFound
  | ConfigNotThere string
  | CliLoad load_error
  | CliInvalid config_failure
  | ServersRequired
  | ServerUnknown string
  | NoCacheDir string
  | NoCacheDirs
  | RefreshError fetch_error
  | CacheFailed load_cache_error
  | InspectSession string session_error
  | SelectionError select_error
  | StillProbing
  | RenderError render_error
  | XrayError xray_error
  | UnsupportedEngine string
  | WriteError string
  | NotInPath string string
  | AlreadyRunning string int
  | StaleCleanup session_error
  | StopError string session_error
  | StartError session_error

datatype cli_event =
    CliCache string cache_dir
  | CliWrote string "(string \<times> json) list"
  | CliStop string "session_event list" "session_error option"
  | CliStart string "session_event list"

text \<open>
  \<open>CliCache\<close> is the cache directory after the subscription was loaded, \<open>CliStop\<close> and \<open>CliStart\<close> hold the trace of the
  session operation.
\<close>

text \<open>The exit codes: 2 for a wrong command line, 1 for any other failure.\<close>

fun exit_code :: "cli_error + 'a \<Rightarrow> int" where
  "exit_code (Inl (UnexpectedArgument _)) = 2"
| "exit_code (Inl ServerTwice) = 2"
| "exit_code (Inl ProfileTwice) = 2"
| "exit_code (Inl _) = 1"
| "exit_code (Inr _) = 0"

section \<open>Choosing the server and the profile\<close>

record positionalSelection =
  po_Server :: string
  po_Profile :: string

text \<open>The string before and after the first separator.\<close>

definition slash_pair :: "string \<Rightarrow> (string \<times> string) option" where
  "slash_pair arg =
    (case Cut arg ''/'' of
       None \<Rightarrow> None
     | Some (server, profile) \<Rightarrow>
        if TrimSpace server \<noteq> [] \<and> TrimSpace profile \<noteq> [] \<and> \<not> Contains profile ''/'' then Some (TrimSpace server, TrimSpace profile)
        else None)"

definition parsePositionalSelection :: "string list \<Rightarrow> bool \<Rightarrow> cli_error + positionalSelection" where
  "parsePositionalSelection args allowProfile =
    (let maxArgs = (if allowProfile then 2 else 1) in
     if length args > maxArgs then Inl (UnexpectedArgument (args ! maxArgs))
     else case args of
       [] \<Rightarrow> Inr \<lparr>po_Server = [], po_Profile = []\<rparr>
     | [a] \<Rightarrow>
        (case (if allowProfile then slash_pair (TrimSpace a) else None) of
           Some (server, profile) \<Rightarrow> Inr \<lparr>po_Server = server, po_Profile = profile\<rparr>
         | None \<Rightarrow> Inr \<lparr>po_Server = TrimSpace a, po_Profile = []\<rparr>)
     | a # b # _ \<Rightarrow> Inr \<lparr>po_Server = TrimSpace a, po_Profile = TrimSpace b\<rparr>)"

definition commandSelection :: "string \<Rightarrow> string \<Rightarrow> string \<Rightarrow> string list \<Rightarrow> bool \<Rightarrow> cli_error + SelectionOptions" where
  "commandSelection serverFlag profileFlag selectorFlag args allowProfile =
    result_bind (parsePositionalSelection args allowProfile) (\<lambda>selection.
    let server = TrimSpace serverFlag; profile = TrimSpace profileFlag in
    if server \<noteq> [] \<and> po_Server selection \<noteq> [] then Inl ServerTwice
    else if profile \<noteq> [] \<and> po_Profile selection \<noteq> [] then Inl ProfileTwice
    else Inr (noOptions
      \<lparr>op_Server := (if server = [] then po_Server selection else server),
       op_Profile := (if profile = [] then po_Profile selection else profile),
       op_Selector := TrimSpace selectorFlag\<rparr>))"

definition commandServerSelection :: "string \<Rightarrow> string list \<Rightarrow> cli_error + SelectionOptions" where
  "commandServerSelection serverFlag args = commandSelection serverFlag [] [] args False"

definition commandServerProfileSelection :: "string \<Rightarrow> string \<Rightarrow> string \<Rightarrow> string list \<Rightarrow> cli_error + SelectionOptions" where
  "commandServerProfileSelection serverFlag profileFlag selectorFlag args =
    commandSelection serverFlag profileFlag selectorFlag args True"

section \<open>The world of a command\<close>

text \<open>What is met when the session of a cache directory is looked at.\<close>

record session_view =
  vi_files :: session_files
  vi_launchd :: "string \<Rightarrow> string + int"
  vi_look :: observation

text \<open>
  \<open>vw_order\<close> is the order in which the servers are visited (the iteration order of a Go map); \<open>vw_notExist\<close> tells
  which errors of the file system say that a file does not exist.
\<close>

record cli_world =
  vw_env :: config_env
  vw_notExist :: "string \<Rightarrow> bool"
  vw_order :: "(string \<times> ServerConfig) list \<Rightarrow> (string \<times> ServerConfig) list"
  vw_fetch :: fetch_env
  vw_io :: cache_io
  vw_cache :: "string \<Rightarrow> cache_dir"
  vw_unicode :: unicode
  vw_compile :: "string \<Rightarrow> (string \<Rightarrow> bool) option"
  vw_probes :: "probe_event list"
  vw_policy :: "string \<Rightarrow> session_view"
  vw_overlay :: "oc_files \<times> observation"
  vw_write :: "string \<Rightarrow> string option"
  vw_lookPath :: "string \<Rightarrow> string + string"
  vw_first :: "string \<Rightarrow> session_view"
  vw_second :: "string \<Rightarrow> session_view"
  vw_stops :: "string \<Rightarrow> stop_world \<times> session_files"
  vw_start :: start_world

section \<open>Configuration\<close>

definition loadConfig :: "cli_world \<Rightarrow> string \<Rightarrow> cli_error + ProjectConfig" where
  "loadConfig w configPath =
    (case Load (vw_env w) configPath of
       Inr cfg \<Rightarrow> Inr cfg
     | Inl e \<Rightarrow>
        if (case e of LoadSystem s \<Rightarrow> vw_notExist w s | _ \<Rightarrow> False)
        then (if configPath = [] then Inl NoConfigFound else Inl (ConfigNotThere configPath))
        else Inl (CliLoad e))"

definition loadEffectiveConfig :: "cli_world \<Rightarrow> string \<Rightarrow> SelectionOptions \<Rightarrow> cli_error + ProjectConfig \<times> EffectiveSelection" where
  "loadEffectiveConfig w configPath options =
    result_bind (loadConfig w configPath) (\<lambda>cfg.
    case fst (Effective options cfg) of
      Inl e \<Rightarrow> Inl (CliInvalid e)
    | Inr (effective, selection) \<Rightarrow>
       (case Validate (ce_compiles (vw_env w)) effective of
          (Inl e, _) \<Rightarrow> Inl (CliInvalid e)
        | (Inr _, effective1) \<Rightarrow> Inr (effective1, selection)))"

text \<open>The cache directories a session of this configuration can live in.\<close>

record sessionTarget =
  tg_label :: string
  tg_cacheDir :: string
  tg_launch :: LaunchConfig

fun server_targets :: "ProjectConfig \<Rightarrow> string list \<Rightarrow> (string \<times> ServerConfig) list \<Rightarrow> sessionTarget list" where
  "server_targets cfg seen [] = []"
| "server_targets cfg seen ((name, server) # rest) =
    (let cacheDir = firstNonEmpty [sv_CacheDir server, pc_CacheDir cfg] in
     if cacheDir = [] \<or> cacheDir \<in> set seen then server_targets cfg seen rest
     else \<lparr>tg_label = name, tg_cacheDir = cacheDir, tg_launch = LaunchOrDefault cfg\<rparr> # server_targets cfg (cacheDir # seen) rest)"

definition sessionTargetsForConfig :: "cli_world \<Rightarrow> string \<Rightarrow> string \<Rightarrow> cli_error + sessionTarget list" where
  "sessionTargetsForConfig w configPath serverName =
    result_bind (loadConfig w configPath) (\<lambda>cfg.
    if pc_Servers cfg = [] then
      (if TrimSpace serverName \<noteq> [] then Inl ServersRequired
       else case fst (Effective noOptions cfg) of
         Inl e \<Rightarrow> Inl (CliInvalid e)
       | Inr (effective, _) \<Rightarrow>
          Inr [\<lparr>tg_label = [], tg_cacheDir = pc_CacheDir effective, tg_launch = LaunchOrDefault cfg\<rparr>])
    else if TrimSpace serverName \<noteq> [] then
      (case map_of (pc_Servers cfg) (TrimSpace serverName) of
         None \<Rightarrow> Inl (ServerUnknown (TrimSpace serverName))
       | Some server \<Rightarrow>
          (let cacheDir = firstNonEmpty [sv_CacheDir server, pc_CacheDir cfg] in
           if cacheDir = [] then Inl (NoCacheDir (TrimSpace serverName))
           else Inr [\<lparr>tg_label = TrimSpace serverName, tg_cacheDir = cacheDir, tg_launch = LaunchOrDefault cfg\<rparr>]))
    else let targets = server_targets cfg [] (vw_order w (pc_Servers cfg)) in
      if targets = [] then Inl NoCacheDirs else Inr targets)"

section \<open>Subscription\<close>

definition refreshSource :: "fetch_env \<Rightarrow> cache_io \<Rightarrow> ProjectConfig \<Rightarrow> cache_dir \<Rightarrow> (fetch_error + CacheSnapshot) \<times> cache_dir" where
  "refreshSource env io cfg d =
    RefreshWithOptions env io (SourceMode cfg) (SourceURL cfg) \<lparr>fo_UserAgent = SourceUserAgent cfg, fo_Headers = SourceHeaders cfg\<rparr> d"

definition loadSnapshot :: "fetch_env \<Rightarrow> cache_io \<Rightarrow> ProjectConfig \<Rightarrow> bool \<Rightarrow> cache_dir \<Rightarrow> (cli_error + CacheSnapshot) \<times> cache_dir" where
  "loadSnapshot env io cfg refresh d =
    (if refresh then map_prod (map_sum RefreshError (\<lambda>s. s)) (\<lambda>d. d) (refreshSource env io cfg d)
     else case LoadCache io d of
       Inr snap \<Rightarrow> (Inr snap, d)
     | Inl CacheMissing \<Rightarrow> map_prod (map_sum RefreshError (\<lambda>s. s)) (\<lambda>d. d) (refreshSource env io cfg d)
     | Inl e \<Rightarrow> (Inl (CacheFailed e), d))"

text \<open>The flag tells whether the snapshot was fetched just now.\<close>

definition loadStartSnapshot ::
    "fetch_env \<Rightarrow> cache_io \<Rightarrow> ProjectConfig \<Rightarrow> bool \<Rightarrow> cache_dir \<Rightarrow> (cli_error + CacheSnapshot \<times> bool) \<times> cache_dir" where
  "loadStartSnapshot env io cfg refresh d =
    (if \<not> refresh then
       (case LoadCache io d of
          Inr snap \<Rightarrow> (Inr (snap, False), d)
        | Inl CacheMissing \<Rightarrow> map_prod (map_sum RefreshError (\<lambda>s. (s, True))) (\<lambda>d. d) (refreshSource env io cfg d)
        | Inl e \<Rightarrow> (Inl (CacheFailed e), d))
     else case refreshSource env io cfg d of
       (Inr snap, d1) \<Rightarrow> (Inr (snap, True), d1)
     | (Inl e, d1) \<Rightarrow>
        if \<not> IsTransientFetchError e then (Inl (RefreshError e), d1)
        else case LoadCache io d1 of
          Inl _ \<Rightarrow> (Inl (RefreshError e), d1)
        | Inr cached \<Rightarrow> (Inr (cached, False), d1))"

section \<open>Sessions\<close>

definition currentSessionState :: "session_view \<Rightarrow> LaunchConfig \<Rightarrow> session_error + (CurrentSession \<times> bool) option" where
  "currentSessionState v launchCfg =
    (case ResolveCurrent (vi_launchd v) (vi_files v) launchCfg of
       Inl SessionMissing \<Rightarrow> Inr None
     | Inl e \<Rightarrow> Inl e
     | Inr current \<Rightarrow>
        (case session_alive current (vi_look v) of
           Inl e \<Rightarrow> Inl e
         | Inr (alive, pid) \<Rightarrow> Inr (Some (if pid > 0 then current\<lparr>cu_PID := pid\<rparr> else current, alive))))"

definition stopCurrentSession :: "stop_world \<times> session_files \<Rightarrow> LaunchConfig \<Rightarrow> bool \<Rightarrow> (CurrentSession \<times> string) option traced" where
  "stopCurrentSession met launchCfg force =
    (case Stop (fst met) (snd met) launchCfg force of
       (Inl SessionMissing, es) \<Rightarrow> (Inr None, es)
     | (Inl e, es) \<Rightarrow> (Inl e, es)
     | (Inr r, es) \<Rightarrow> (Inr (Some r), es))"

text \<open>One stop of a command, with its own error.\<close>

definition stop_target ::
    "cli_world \<Rightarrow> (session_error \<Rightarrow> cli_error) \<Rightarrow> string \<Rightarrow> LaunchConfig \<Rightarrow> bool \<Rightarrow>
     (cli_error + (CurrentSession \<times> string) option) \<times> cli_event list" where
  "stop_target w wrap cacheDir launchCfg force =
    (case stopCurrentSession (vw_stops w cacheDir) launchCfg force of
       (Inl e, es) \<Rightarrow> (Inl (wrap e), [CliStop cacheDir es (Some e)])
     | (Inr r, es) \<Rightarrow> (Inr r, [CliStop cacheDir es None]))"

definition cleanupStaleCurrentSession :: "cli_world \<Rightarrow> string \<Rightarrow> LaunchConfig \<Rightarrow> (cli_error + unit) \<times> cli_event list" where
  "cleanupStaleCurrentSession w cacheDir launchCfg = and_then (stop_target w StaleCleanup cacheDir launchCfg True) (\<lambda>_. (Inr (), []))"

fun stop_targets ::
    "cli_world \<Rightarrow> bool \<Rightarrow> sessionTarget list \<Rightarrow> (cli_error + (sessionTarget \<times> CurrentSession \<times> string) list) \<times> cli_event list" where
  "stop_targets w force [] = (Inr [], [])"
| "stop_targets w force (t # ts) =
    and_then (stop_target w (StopError (tg_label t)) (tg_cacheDir t) (tg_launch t) force) (\<lambda>r.
    and_then (stop_targets w force ts) (\<lambda>rest.
    (Inr ((case r of None \<Rightarrow> [] | Some x \<Rightarrow> [(t, x)]) @ rest), [])))"

definition stopConfiguredSessions ::
    "cli_world \<Rightarrow> string \<Rightarrow> bool \<Rightarrow> (cli_error + (sessionTarget \<times> CurrentSession \<times> string) list) \<times> cli_event list" where
  "stopConfiguredSessions w configPath force =
    and_then (sessionTargetsForConfig w configPath [], []) (stop_targets w force)"

section \<open>Preparing a start\<close>

record startOptions =
  so_configPath :: string
  so_serverName :: string
  so_configProfile :: string
  so_profileSelector :: string
  so_transport :: string
  so_outputPath :: string
  so_refresh :: bool
  so_refreshSet :: bool
  so_match :: "ProfileMatch option"
  so_pick :: string

definition withEffectiveSelection :: "startOptions \<Rightarrow> EffectiveSelection \<Rightarrow> startOptions" where
  "withEffectiveSelection options selection = options
    \<lparr>so_serverName := (if TrimSpace (so_serverName options) = [] then es_Server selection else so_serverName options),
     so_configProfile := (if TrimSpace (so_configProfile options) = [] then es_Profile selection else so_configProfile options),
     so_profileSelector := (if TrimSpace (so_profileSelector options) = [] then es_Selector selection else so_profileSelector options),
     so_transport := (if TrimSpace (so_transport options) = [] then es_Transport selection else so_transport options),
     so_match := (case so_match options of None \<Rightarrow> es_Match selection | m \<Rightarrow> m),
     so_pick := (if TrimSpace (so_pick options) = [] then es_Pick selection else so_pick options)\<rparr>"

definition effectiveStartRefresh :: "startOptions \<Rightarrow> bool" where
  "effectiveStartRefresh options = (if so_refreshSet options then so_refresh options else True)"

record profileSelectionPolicy =
  sy_skipProbe :: bool
  sy_stickyID :: string
  sy_skipReason :: string

fun policy_loop ::
    "cli_world \<Rightarrow> string \<Rightarrow> string \<Rightarrow> profileSelectionPolicy \<Rightarrow> sessionTarget list \<Rightarrow> cli_error + profileSelectionPolicy" where
  "policy_loop w serverName alias policy [] = Inr policy"
| "policy_loop w serverName alias policy (t # ts) =
    (case currentSessionState (vw_policy w (tg_cacheDir t)) (tg_launch t) of
       Inl e \<Rightarrow> Inl (InspectSession (tg_cacheDir t) e)
     | Inr (Some (current, True)) \<Rightarrow>
        policy_loop w serverName alias (policy
          \<lparr>sy_skipProbe := True, sy_skipReason := ''probe skipped while a tunnel is up'',
           sy_stickyID := (if cu_ResolvedServer current = serverName \<and> cu_ResolvedAlias current = alias
             then cu_ResolvedProfileID current else sy_stickyID policy)\<rparr>) ts
     | Inr _ \<Rightarrow> policy_loop w serverName alias policy ts)"

definition probeSelectionPolicy ::
    "cli_world \<Rightarrow> string \<Rightarrow> string \<Rightarrow> string \<Rightarrow> ProfileMatch option \<Rightarrow> string \<Rightarrow> cli_error + profileSelectionPolicy" where
  "probeSelectionPolicy w configPath serverName alias match pick =
    (let none = \<lparr>sy_skipProbe = False, sy_stickyID = [], sy_skipReason = []\<rparr> in
     if match = None \<or> \<not> EqualFold_ascii (TrimSpace pick) ''probe'' then Inr none
     else result_bind (sessionTargetsForConfig w configPath []) (policy_loop w serverName alias none))"

definition resolveProfileWithPolicy ::
    "cli_world \<Rightarrow> Profile list \<Rightarrow> string \<Rightarrow> string \<Rightarrow> ProfileMatch option \<Rightarrow> string \<Rightarrow> profileSelectionPolicy \<Rightarrow>
     (select_error + ProfileResolution) option" where
  "resolveProfileWithPolicy w profiles selector transport match pick policy =
    ResolveProfileWithOptions (vw_unicode w) (vw_compile w) (vw_probes w) profiles
      \<lparr>sl_Selector = selector, sl_Transport = transport, sl_Match = match, sl_Pick = pick,
       sl_SkipProbe = sy_skipProbe policy, sl_StickyID = sy_stickyID policy, sl_SkipReason = sy_skipReason policy\<rparr>"

text \<open>A copy by \<open>append\<close> to a nil slice: nil when there is nothing to copy.\<close>

definition copied :: "string list \<Rightarrow> string slice" where
  "copied xs = (if xs = [] then None else Some xs)"

definition resolveRenderOptions :: "oc_files \<times> observation \<Rightarrow> string \<Rightarrow> OverlayDNS option" where
  "resolveRenderOptions overlay mode =
    (if mode \<noteq> RenderModeTun then None
     else case ActiveOverlayDNS (fst overlay) (snd overlay) of
       Inr (Some found) \<Rightarrow>
         Some \<lparr>ov_Domains = copied (ol_Domains found), ov_Nameservers = copied (ol_Nameservers found), ov_RouteExcludes = copied (ol_RouteExcludes found)\<rparr>
     | _ \<Rightarrow> None)"

record preparedStart =
  pr_profile :: Profile
  pr_engine :: string
  pr_target :: string
  pr_xrayTarget :: string
  pr_sidecars :: "SidecarOptions list"
  pr_overlay :: "OverlayDNS option"
  pr_resolution :: ProfileResolution
  pr_resolutionServer :: string
  pr_resolutionAlias :: string
  pr_snapshotFetchedAt :: "go_time option"

definition write_config :: "cli_world \<Rightarrow> string \<Rightarrow> (string \<times> json) list \<Rightarrow> (cli_error + unit) \<times> cli_event list" where
  "write_config w path root =
    (case vw_write w path of Some e \<Rightarrow> (Inl (WriteError e), []) | None \<Rightarrow> (Inr (), [CliWrote path root]))"

text \<open>Rendering and writing for the chosen engine: the path of the Xray file and the sidecars.\<close>

definition render_engine ::
    "cli_world \<Rightarrow> ProjectConfig \<Rightarrow> Profile \<Rightarrow> OverlayDNS option \<Rightarrow> string \<Rightarrow> (cli_error + string \<times> SidecarOptions list) \<times> cli_event list" where
  "render_engine w cfg profile overlay target =
    (if EngineType cfg = EngineSingbox then
       and_then (map_sum RenderError (\<lambda>r. r) (RenderWithOptions cfg profile overlay), []) (\<lambda>root.
       and_then (write_config w target root) (\<lambda>_. (Inr ([], []), [])))
     else if EngineType cfg = EngineXray then
       and_then (map_sum XrayError (\<lambda>r. r) (xray_Render cfg profile), []) (\<lambda>xrayRoot.
       and_then (map_sum RenderError (\<lambda>r. r) (RenderXrayFrontendWithOptions cfg overlay), []) (\<lambda>root.
       and_then (write_config w (XrayConfigPath cfg) xrayRoot) (\<lambda>_.
       and_then (write_config w target root) (\<lambda>_.
         (Inr (XrayConfigPath cfg,
           [\<lparr>so_Name = ''xray'', so_Executable = XrayExecutable cfg, so_Args = [''run'', ''-c'', XrayConfigPath cfg]\<rparr>]), [])))))
     else (Inl (UnsupportedEngine (EngineType cfg)), []))"

definition prepare_resolved ::
    "cli_world \<Rightarrow> ProjectConfig \<Rightarrow> startOptions \<Rightarrow> CacheSnapshot \<Rightarrow> ProfileResolution \<Rightarrow> (cli_error + preparedStart) \<times> cli_event list" where
  "prepare_resolved w cfg options snap resolution =
    (let overlay = resolveRenderOptions (vw_overlay w) (NetworkMode cfg);
         target = (if so_outputPath options \<noteq> [] then so_outputPath options else SingboxConfigPath cfg) in
     and_then (render_engine w cfg (rs_Profile resolution) overlay target) (\<lambda>(xrayTarget, sidecars).
       (Inr \<lparr>pr_profile = rs_Profile resolution, pr_engine = EngineType cfg, pr_target = target, pr_xrayTarget = xrayTarget,
          pr_sidecars = sidecars, pr_overlay = overlay, pr_resolution = resolution, pr_resolutionServer = so_serverName options,
          pr_resolutionAlias = so_configProfile options,
          pr_snapshotFetchedAt = (if rs_Matched resolution \<and> cs_FetchedAt snap \<noteq> zero_time then Some (cs_FetchedAt snap) else None)\<rparr>, [])))"

definition prepareStart :: "cli_world \<Rightarrow> ProjectConfig \<Rightarrow> startOptions \<Rightarrow> (cli_error + preparedStart) \<times> cli_event list" where
  "prepareStart w cfg options =
    (let loaded = loadStartSnapshot (vw_fetch w) (vw_io w) cfg (effectiveStartRefresh options) (vw_cache w (pc_CacheDir cfg)) in
    and_then (fst loaded, [CliCache (pc_CacheDir cfg) (snd loaded)]) (\<lambda>(snap, refreshed).
    and_then (probeSelectionPolicy w (so_configPath options) (so_serverName options) (so_configProfile options) (so_match options) (so_pick options), []) (\<lambda>policy.
    case resolveProfileWithPolicy w (cs_Profiles snap) (DefaultProfileSelector cfg) (DefaultProfileTransport cfg) (so_match options) (so_pick options) policy of
      None \<Rightarrow> (Inl StillProbing, [])
    | Some (Inl e) \<Rightarrow> (Inl (SelectionError e), [])
    | Some (Inr resolution) \<Rightarrow> prepare_resolved w cfg options snap resolution)))"

definition preflightReplacement :: "cli_world \<Rightarrow> preparedStart \<Rightarrow> cli_error + unit" where
  "preflightReplacement w prepared =
    (case vw_lookPath w ''sing-box'' of
       Inl e \<Rightarrow> Inl (NotInPath ''sing-box'' e)
     | Inr _ \<Rightarrow>
        (case List.extract (\<lambda>s. isl (vw_lookPath w (so_Executable s))) (pr_sidecars prepared) of
           Some (_, s, _) \<Rightarrow> Inl (NotInPath (so_Name s) (projl (vw_lookPath w (so_Executable s))))
         | None \<Rightarrow> Inr ()))"

definition systemDNSServers :: "ProjectConfig \<Rightarrow> string list" where
  "systemDNSServers cfg = (let a = TrimSpace (px_Address (ProxyResolver cfg)) in if a = [] then [] else [a])"

definition overlayDNSDomains :: "OverlayDNS option \<Rightarrow> string list" where
  "overlayDNSDomains overlay = (case overlay of None \<Rightarrow> [] | Some ov \<Rightarrow> elems (ov_Domains ov))"

definition when_matched :: "preparedStart \<Rightarrow> string \<Rightarrow> string" where
  "when_matched prepared s = (if rs_Matched (pr_resolution prepared) then s else [])"

definition start_options :: "ProjectConfig \<Rightarrow> preparedStart \<Rightarrow> StartOptions" where
  "start_options cfg prepared =
    \<lparr>st_Mode = NetworkMode cfg, st_Engine = pr_engine prepared, st_BypassSuffixes = elems (BypassSuffixes cfg),
     st_InterfaceName = TunInterfaceName cfg, st_TunAddresses = elems (TunAddresses cfg),
     st_OverlayDNSActive = (pr_overlay prepared \<noteq> None), st_OverlayDNSDomains = overlayDNSDomains (pr_overlay prepared),
     st_SystemDNSServers = systemDNSServers cfg, st_PrivilegedLaunch = LaunchOrDefault cfg, st_Sidecars = pr_sidecars prepared,
     st_LogMaxLines = LogMaxLines cfg,
     st_ResolvedServer = when_matched prepared (pr_resolutionServer prepared),
     st_ResolvedAlias = when_matched prepared (pr_resolutionAlias prepared),
     st_ResolvedName = when_matched prepared (DisplayName (pr_profile prepared)),
     st_ResolvedID = when_matched prepared (md_ID (pr_profile prepared)),
     st_ResolutionReason = rs_Reason (pr_resolution prepared), st_SnapshotFetchedAt = pr_snapshotFetchedAt prepared\<rparr>"

definition start_session :: "cli_world \<Rightarrow> ProjectConfig \<Rightarrow> preparedStart \<Rightarrow> (cli_error + CurrentSession) \<times> cli_event list" where
  "start_session w cfg prepared =
    (case Start (vw_start w) (pc_CacheDir cfg) (pr_target prepared) (pr_profile prepared) (start_options cfg prepared) of
       (Inl e, es) \<Rightarrow> (Inl (StartError e), [CliStart (pc_CacheDir cfg) es])
     | (Inr s, es) \<Rightarrow> (Inr s, [CliStart (pc_CacheDir cfg) es]))"

section \<open>Commands\<close>

text \<open>The flags of start and reconnect, and the arguments that are no flags.\<close>

record start_flags =
  fl_config :: string
  fl_server :: string
  fl_profile :: string
  fl_selector :: string
  fl_transport :: string
  fl_output :: string
  fl_refresh :: bool
  fl_refreshSet :: bool
  fl_force :: bool
  fl_args :: "string list"

definition parseStartOptions :: "start_flags \<Rightarrow> cli_error + startOptions" where
  "parseStartOptions fl =
    result_bind (commandServerProfileSelection (fl_server fl) (fl_profile fl) (fl_selector fl) (fl_args fl)) (\<lambda>sel. Inr
      \<lparr>so_configPath = fl_config fl, so_serverName = op_Server sel, so_configProfile = op_Profile sel, so_profileSelector = op_Selector sel,
       so_transport = firstNonEmpty [op_Transport sel, fl_transport fl], so_outputPath = fl_output fl, so_refresh = fl_refresh fl,
       so_refreshSet = fl_refreshSet fl, so_match = None, so_pick = []\<rparr>)"

text \<open>Starting once everything is prepared: a session that is still recorded but dead is cleaned up first.\<close>

definition start_prepared :: "cli_world \<Rightarrow> ProjectConfig \<Rightarrow> preparedStart \<Rightarrow> (cli_error + CurrentSession) \<times> cli_event list" where
  "start_prepared w cfg prepared =
    (case currentSessionState (vw_second w (pc_CacheDir cfg)) (LaunchOrDefault cfg) of
       Inr (Some (current, True)) \<Rightarrow> (Inl (AlreadyRunning (cu_ID current) (cu_PID current)), [])
     | Inr (Some (current, False)) \<Rightarrow>
        and_then (cleanupStaleCurrentSession w (pc_CacheDir cfg) (LaunchOrDefault cfg)) (\<lambda>_. start_session w cfg prepared)
     | _ \<Rightarrow> start_session w cfg prepared)"

definition runStartCommand :: "cli_world \<Rightarrow> start_flags \<Rightarrow> (cli_error + CurrentSession) \<times> cli_event list" where
  "runStartCommand w fl =
    and_then (parseStartOptions fl, []) (\<lambda>options.
    and_then (loadEffectiveConfig w (so_configPath options)
      (noOptions\<lparr>op_Server := so_serverName options, op_Profile := so_configProfile options, op_Selector := so_profileSelector options,
         op_Transport := so_transport options\<rparr>), []) (\<lambda>(cfg, selection).
    case currentSessionState (vw_first w (pc_CacheDir cfg)) (LaunchOrDefault cfg) of
      Inr (Some (current, True)) \<Rightarrow> (Inl (AlreadyRunning (cu_ID current) (cu_PID current)), [])
    | _ \<Rightarrow> and_then (prepareStart w cfg (withEffectiveSelection options selection)) (start_prepared w cfg)))"

definition runReconnect :: "cli_world \<Rightarrow> start_flags \<Rightarrow> (cli_error + CurrentSession) \<times> cli_event list" where
  "runReconnect w fl =
    and_then (commandServerProfileSelection (fl_server fl) (fl_profile fl) (fl_selector fl) (fl_args fl), []) (\<lambda>sel0.
    let sel = sel0\<lparr>op_Transport := TrimSpace (fl_transport fl)\<rparr> in
    and_then (loadEffectiveConfig w (fl_config fl) sel, []) (\<lambda>(cfg, selection).
    and_then (prepareStart w cfg (withEffectiveSelection
      \<lparr>so_configPath = fl_config fl, so_serverName = op_Server sel, so_configProfile = op_Profile sel, so_profileSelector = op_Selector sel,
       so_transport = firstNonEmpty [op_Transport sel, fl_transport fl], so_outputPath = fl_output fl, so_refresh = fl_refresh fl,
       so_refreshSet = True, so_match = None, so_pick = []\<rparr> selection)) (\<lambda>prepared.
    and_then (preflightReplacement w prepared, []) (\<lambda>_.
    and_then (stopConfiguredSessions w (fl_config fl) (fl_force fl)) (\<lambda>_.
    start_session w cfg prepared)))))"

definition runStop :: "cli_world \<Rightarrow> start_flags \<Rightarrow> (cli_error + (sessionTarget \<times> CurrentSession \<times> string) list) \<times> cli_event list" where
  "runStop w fl =
    and_then (commandServerSelection (fl_server fl) (fl_args fl), []) (\<lambda>sel.
    and_then (sessionTargetsForConfig w (fl_config fl) (op_Server sel), []) (stop_targets w (fl_force fl)))"

section \<open>Status\<close>

definition statusSelectionExplicit :: "start_flags \<Rightarrow> bool" where
  "statusSelectionExplicit fl \<longleftrightarrow>
    TrimSpace (fl_server fl) \<noteq> [] \<or> TrimSpace (fl_profile fl) \<noteq> [] \<or> TrimSpace (fl_selector fl) \<noteq> [] \<or>
    TrimSpace (fl_transport fl) \<noteq> [] \<or> fl_args fl \<noteq> []"

text \<open>The label of the only live session; with none or several, no server is preferred.\<close>

fun active_loop :: "(string \<Rightarrow> session_view) \<Rightarrow> string \<Rightarrow> sessionTarget list \<Rightarrow> session_error + string option" where
  "active_loop view live [] = Inr (if live \<noteq> [] then Some live else None)"
| "active_loop view live (t # ts) =
    (if TrimSpace (tg_label t) = [] then active_loop view live ts
     else case currentSessionState (view (tg_cacheDir t)) (tg_launch t) of
       Inl e \<Rightarrow> Inl e
     | Inr (Some (_, True)) \<Rightarrow> if live \<noteq> [] then Inr None else active_loop view (tg_label t) ts
     | Inr _ \<Rightarrow> active_loop view live ts)"

definition activeStatusSelection :: "cli_world \<Rightarrow> string \<Rightarrow> cli_error + string option" where
  "activeStatusSelection w configPath =
    result_bind (sessionTargetsForConfig w configPath []) (\<lambda>targets.
      map_sum (InspectSession []) (\<lambda>r. r) (active_loop (vw_first w) [] targets))"

definition deriveConnectionStatus :: "bool \<Rightarrow> bool \<Rightarrow> string" where
  "deriveConnectionStatus sessionAlive interfacePresent =
    (if sessionAlive \<and> interfacePresent then ''up'' else if sessionAlive \<or> interfacePresent then ''degraded'' else ''down'')"

definition runtimeLoggingPerformanceWarning :: "ProjectConfig \<Rightarrow> (string \<times> int option) option" where
  "runtimeLoggingPerformanceWarning cfg =
    (let level = ToLower (TrimSpace (LogLevel cfg)) in
     if NetworkMode cfg \<noteq> RenderModeTun \<or> level \<notin> set [''trace'', ''debug'', ''info''] then None
     else Some (level, if LogMaxLines cfg > 0 then Some (LogMaxLines cfg) else None))"

end
