(* ===== verification/Vless_Cli_Laws.thy ===== *)
theory Vless_Cli_Laws
  imports Vless_Cli Subscription_Laws Session_Start_Laws
begin

text \<open>
  What the commands of \<open>vless-tun\<close> promise: stop and reconnect look into every cache directory that a start can
  use, a reconnect touches no session before its replacement is ready, a start does not run beside a live
  session, and what is written is what the privileged service accepts.
\<close>

section \<open>Targets\<close>

declare firstNonEmpty.simps [simp del]

lemma resolveServerConfig_member: "resolveServerConfig c override = Inr (name, server) \<Longrightarrow> (name, server) \<in> set (pc_Servers c)"
  by (auto simp: resolveServerConfig_def Let_def map_of_SomeD split: if_splits option.splits list.splits)

lemma default_frame [simp]:
  "pc_CacheDir (setDefaultProfileSelector a c) = pc_CacheDir c" "pc_CacheDir (setDefaultProfileTransport b c) = pc_CacheDir c"
  by (auto simp: setDefaultProfileSelector_def setDefaultProfileTransport_def Let_def split: option.splits)

lemma effective_cacheDir:
  assumes "fst (Effective opts c) = Inr (e, sel)"
  shows "(if pc_Servers c = [] then pc_CacheDir e = pc_CacheDir c
    else \<exists>(name, server) \<in> set (pc_Servers c). pc_CacheDir e = firstNonEmpty [sv_CacheDir server, pc_CacheDir c])"
proof (cases "pc_Servers c = []")
  case True
  then show ?thesis using assms by (auto simp: Effective_def set_defaults_def Let_def)
next
  case False
  with assms obtain name server where "resolveServerConfig c (TrimSpace (op_Server opts)) = Inr (name, server)"
    "pc_CacheDir e = firstNonEmpty [sv_CacheDir server, pc_CacheDir c]"
    by (auto simp: Effective_def set_defaults_def server_layer_def profile_layer_def Let_def split: sum.splits option.splits)
  then show ?thesis using False resolveServerConfig_member by fastforce
qed

lemma server_targets_dirs:
  "set (map tg_cacheDir (server_targets cfg seen servers)) =
     {firstNonEmpty [sv_CacheDir s, pc_CacheDir cfg] | name s. (name, s) \<in> set servers} - insert [] (set seen)
   \<and> distinct (map tg_cacheDir (server_targets cfg seen servers))"
proof (induction cfg seen servers rule: server_targets.induct)
  case (2 cfg seen name server rest)
  define dir where "dir = firstNonEmpty [sv_CacheDir server, pc_CacheDir cfg]"
  have split: "{firstNonEmpty [sv_CacheDir s, pc_CacheDir cfg] | n s. (n, s) \<in> set ((name, server) # rest)} =
      insert dir {firstNonEmpty [sv_CacheDir s, pc_CacheDir cfg] | n s. (n, s) \<in> set rest}"
    by (auto simp: dir_def)
  show ?case
  proof (cases "dir = [] \<or> dir \<in> set seen")
    case True
    then have "server_targets cfg seen ((name, server) # rest) = server_targets cfg seen rest" by (simp add: dir_def Let_def)
    moreover note 2(1) [OF dir_def True]
    ultimately show ?thesis unfolding split using True by auto
  next
    case False
    then have "server_targets cfg seen ((name, server) # rest) =
        \<lparr>tg_label = name, tg_cacheDir = dir, tg_launch = LaunchOrDefault cfg\<rparr> # server_targets cfg (dir # seen) rest"
      by (simp add: dir_def Let_def)
    moreover from 2(2) [OF dir_def] False have
      "set (map tg_cacheDir (server_targets cfg (dir # seen) rest)) =
         {firstNonEmpty [sv_CacheDir s, pc_CacheDir cfg] | n s. (n, s) \<in> set rest} - insert [] (set (dir # seen))"
      "distinct (map tg_cacheDir (server_targets cfg (dir # seen) rest))"
      by blast+
    ultimately show ?thesis unfolding split using False by auto
  qed
qed simp

lemma Validate_frame: "pc_CacheDir (snd (Validate compiles c)) = pc_CacheDir c"
proof -
  have "pc_CacheDir (snd (Effective opts c)) = pc_CacheDir c" for opts
    by (auto simp: Effective_def share_default_def Let_def split: sum.splits option.splits)
  then show ?thesis
    by (auto simp: Validate_def split: sum.splits prod.splits) (metis snd_conv)+
qed

lemma loadEffective_elim:
  assumes "loadEffectiveConfig w path options = Inr (cfg, selection)"
  obtains c e where "loadConfig w path = Inr c" "fst (Effective options c) = Inr (e, selection)"
    "Validate (ce_compiles (vw_env w)) e = (Inr (), cfg)"
proof -
  from assms obtain c where c: "loadConfig w path = Inr c" by (auto simp: loadEffectiveConfig_def)
  with assms obtain e sel where e: "fst (Effective options c) = Inr (e, sel)"
    by (cases "fst (Effective options c)") (auto simp: loadEffectiveConfig_def)
  obtain r e1 where v: "Validate (ce_compiles (vw_env w)) e = (r, e1)" by fastforce
  show thesis using assms c e v that by (cases r) (auto simp: loadEffectiveConfig_def)
qed

text \<open>
  (C11) Stop and reconnect look into every cache directory that a start can use: whatever server and profile a
  start resolves, the directory its session is recorded in is among the targets of a stop without a server,
  and no directory is visited twice, in whatever order the servers are visited.
\<close>

theorem stop_covers_start:
  assumes "loadEffectiveConfig w path options = Inr (cfg, selection)" and "pc_CacheDir cfg \<noteq> []"
    and "\<And>servers. set (vw_order w servers) = set servers"
  shows "\<exists>targets. sessionTargetsForConfig w path [] = Inr targets \<and>
    pc_CacheDir cfg \<in> set (map tg_cacheDir targets) \<and> distinct (map tg_cacheDir targets)"
proof -
  obtain c e where load: "loadConfig w path = Inr c" and eff: "fst (Effective options c) = Inr (e, selection)"
    and valid: "Validate (ce_compiles (vw_env w)) e = (Inr (), cfg)"
    using assms(1) by (rule loadEffective_elim)
  have dir: "pc_CacheDir cfg = pc_CacheDir e" using Validate_frame [of "ce_compiles (vw_env w)" e] by (simp add: valid)
  show ?thesis
  proof (cases "pc_Servers c = []")
    case True
    then have "fst (Effective noOptions c) = Inr (set_defaults (choose_flat noOptions c) c, choose_flat noOptions c)"
      by (simp add: Effective_def Let_def)
    then show ?thesis
      using True load effective_cacheDir [OF eff]
      by (simp add: sessionTargetsForConfig_def dir set_defaults_def TrimSpace_Nil)
  next
    case False
    define targets where "targets = server_targets c [] (vw_order w (pc_Servers c))"
    from effective_cacheDir [OF eff] False assms(2) have "pc_CacheDir e \<in> set (map tg_cacheDir targets)"
      using server_targets_dirs [of c "[]" "vw_order w (pc_Servers c)"] by (auto simp: targets_def assms(3) dir)
    moreover from this have "targets \<noteq> []" by auto
    ultimately show ?thesis
      using False load server_targets_dirs [of c "[]" "vw_order w (pc_Servers c)"]
      by (simp add: sessionTargetsForConfig_def dir targets_def [symmetric] TrimSpace_Nil Let_def)
  qed
qed

section \<open>Reconnect\<close>

fun is_prep :: "cli_event \<Rightarrow> bool" where
  "is_prep (CliCache dir d) = True"
| "is_prep (CliWrote path root) = True"
| "is_prep _ = False"

fun is_stop :: "cli_event \<Rightarrow> bool" where
  "is_stop (CliStop dir es e) = True"
| "is_stop _ = False"

fun is_start :: "cli_event \<Rightarrow> bool" where
  "is_start (CliStart dir es) = True"
| "is_start _ = False"

lemma write_prep [simp]: "list_all is_prep (snd (write_config w path root))"
  by (simp add: write_config_def split: option.splits)

lemma render_engine_prep: "list_all is_prep (snd (render_engine w cfg profile overlay target))"
  unfolding render_engine_def by (auto intro!: all_and_then)

lemma prepare_resolved_prep: "list_all is_prep (snd (prepare_resolved w cfg options snap resolution))"
  unfolding prepare_resolved_def Let_def by (intro all_and_then render_engine_prep) auto

lemma prepareStart_prep: "list_all is_prep (snd (prepareStart w cfg options))"
  unfolding prepareStart_def Let_def
  by (intro all_and_then) (auto intro!: all_and_then prepare_resolved_prep split: option.splits sum.splits prod.splits)

lemma stop_target_stop [simp]: "list_all is_stop (snd (stop_target w wrap dir l force))"
  by (simp add: stop_target_def split: prod.splits sum.splits)

lemma stop_targets_stop: "list_all is_stop (snd (stop_targets w force ts))"
  by (induction w force ts rule: stop_targets.induct) (auto intro!: all_and_then)

text \<open>When all targets were stopped, there is one successful stop for each of them, in their order.\<close>

definition stopped_each :: "sessionTarget list \<Rightarrow> cli_event list \<Rightarrow> bool" where
  "stopped_each targets es \<longleftrightarrow> list_all2 (\<lambda>t e. \<exists>ev. e = CliStop (tg_cacheDir t) ev None) targets es"

lemma stop_target_ok: "stop_target w wrap dir l force = (Inr r, es) \<Longrightarrow> \<exists>ev. es = [CliStop dir ev None]"
  by (auto simp: stop_target_def split: prod.splits sum.splits)

lemma stop_targets_ok: "stop_targets w force ts = (Inr rs, es) \<Longrightarrow> stopped_each ts es"
proof (induction ts arbitrary: rs es)
  case (Cons t ts)
  then obtain r es1 rest es2 where "stop_target w (StopError (tg_label t)) (tg_cacheDir t) (tg_launch t) force = (Inr r, es1)"
    "stop_targets w force ts = (Inr rest, es2)" "es = es1 @ es2"
    by (auto simp: and_then_Inr)
  with Cons.IH stop_target_ok show ?case by (fastforce simp: stopped_each_def)
qed (simp add: stopped_each_def)

lemma start_session_start: "list_all is_start (snd (start_session w cfg prepared))"
  by (simp add: start_session_def split: prod.splits sum.splits)

text \<open>The trace of a reconnect in its three parts.\<close>

definition reconnect_parts :: "cli_world \<Rightarrow> string \<Rightarrow> cli_event list \<Rightarrow> cli_event list \<Rightarrow> cli_event list \<Rightarrow> bool" where
  "reconnect_parts w path prep stops begun \<longleftrightarrow>
    list_all is_prep prep \<and> list_all is_stop stops \<and> list_all is_start begun \<and>
    (stops @ begun \<noteq> [] \<longrightarrow>
      (\<exists>cfg options prepared. prepareStart w cfg options = (Inr prepared, prep) \<and> preflightReplacement w prepared = Inr ())) \<and>
    (begun \<noteq> [] \<longrightarrow> (\<exists>targets. sessionTargetsForConfig w path [] = Inr targets \<and> stopped_each targets stops))"

lemma prep_parts: "list_all is_prep es \<Longrightarrow> reconnect_parts w path es [] []"
  by (simp add: reconnect_parts_def)

lemma replace_parts:
  assumes "prepareStart w cfg options = (Inr prepared, prep)" "preflightReplacement w prepared = Inr ()"
  shows "\<exists>stops begun. prep @ snd (and_then (stopConfiguredSessions w path force) (\<lambda>_. start_session w cfg prepared)) =
    prep @ stops @ begun \<and> reconnect_parts w path prep stops begun"
proof (cases "sessionTargetsForConfig w path []")
  case (Inl e)
  then show ?thesis using prep_parts prepareStart_prep [of w cfg options] assms by (simp add: stopConfiguredSessions_def)
next
  case (Inr targets)
  obtain r stops where stops: "stop_targets w force targets = (r, stops)" by fastforce
  have "list_all is_prep prep" "list_all is_stop stops"
    using prepareStart_prep [of w cfg options] stop_targets_stop [of w force targets] assms stops by simp_all
  moreover have "stopped_each targets stops" if "r = Inr rs" for rs using stop_targets_ok stops that by simp
  ultimately show ?thesis
    unfolding reconnect_parts_def using assms Inr stops start_session_start [of w cfg prepared]
    by (intro exI [of _ stops] exI [of _ "if isl r then [] else snd (start_session w cfg prepared)"])
      (cases r; auto simp: stopConfiguredSessions_def)
qed

lemma runReconnect_cases:
  obtains "snd (runReconnect w fl) = []"
  | cfg options where "snd (runReconnect w fl) = snd (and_then (prepareStart w cfg options) (\<lambda>prepared.
      and_then (preflightReplacement w prepared, []) (\<lambda>_.
      and_then (stopConfiguredSessions w (fl_config fl) (fl_force fl)) (\<lambda>_. start_session w cfg prepared))))"
proof (cases "commandServerProfileSelection (fl_server fl) (fl_profile fl) (fl_selector fl) (fl_args fl)")
  case (Inr sel)
  show ?thesis
  proof (cases "loadEffectiveConfig w (fl_config fl) (sel\<lparr>op_Transport := TrimSpace (fl_transport fl)\<rparr>)")
    case (Inl e)
    then show ?thesis using that(1) Inr by (simp add: runReconnect_def Let_def)
  next
    case cs: (Inr cs)
    obtain cfg selection where "cs = (cfg, selection)" by (cases cs)
    then show ?thesis using Inr cs by (intro that(2)) (simp add: runReconnect_def Let_def)
  qed
qed (use that(1) in \<open>simp add: runReconnect_def\<close>)


section \<open>Start\<close>

lemma no_start_in: "list_all is_prep es \<Longrightarrow> CliStart dir ev \<notin> set es" "list_all is_stop es \<Longrightarrow> CliStart dir ev \<notin> set es"
  by (auto simp: list_all_iff)

lemma start_session_dir: "CliStart dir es \<in> set (snd (start_session w cfg prepared)) \<Longrightarrow> dir = pc_CacheDir cfg"
  by (auto simp: start_session_def split: prod.splits sum.splits)

lemma cleanup_stop: "list_all is_stop (snd (cleanupStaleCurrentSession w dir l))"
  unfolding cleanupStaleCurrentSession_def by (intro all_and_then) auto

lemma start_prepared_start:
  assumes "CliStart dir es \<in> set (snd (start_prepared w cfg prepared))"
  shows "dir = pc_CacheDir cfg"
    and "currentSessionState (vw_second w dir) (LaunchOrDefault cfg) \<noteq> Inr (Some (c, True))"
    and "currentSessionState (vw_second w dir) (LaunchOrDefault cfg) = Inr (Some (c, False)) \<Longrightarrow>
      \<exists>ev. CliStop dir ev None \<in> set (snd (start_prepared w cfg prepared))"
proof -
  let ?state = "currentSessionState (vw_second w (pc_CacheDir cfg)) (LaunchOrDefault cfg)"
  let ?clean = "cleanupStaleCurrentSession w (pc_CacheDir cfg) (LaunchOrDefault cfg)"
  have stale: "\<exists>x ces. ?clean = (Inr x, ces) \<and> CliStart dir es \<in> set (snd (start_session w cfg prepared))"
    if "CliStart dir es \<in> set (snd (and_then ?clean (\<lambda>_. start_session w cfg prepared)))"
  proof (cases ?clean)
    case (Pair r ces)
    with that no_start_in(2) [OF cleanup_stop] show ?thesis by (cases r) (auto, (metis snd_conv)+)
  qed
  show dir: "dir = pc_CacheDir cfg"
    using assms stale start_session_dir
    by (auto simp: start_prepared_def split: sum.splits option.splits bool.splits prod.splits)
  show "currentSessionState (vw_second w dir) (LaunchOrDefault cfg) \<noteq> Inr (Some (c, True))"
    using assms by (auto simp: start_prepared_def dir)
  assume "currentSessionState (vw_second w dir) (LaunchOrDefault cfg) = Inr (Some (c, False))"
  then have run: "start_prepared w cfg prepared = and_then ?clean (\<lambda>_. start_session w cfg prepared)"
    by (simp add: start_prepared_def dir)
  with assms stale obtain x ces where clean: "?clean = (Inr x, ces)" by auto
  then obtain r where "stop_target w StaleCleanup (pc_CacheDir cfg) (LaunchOrDefault cfg) True = (Inr r, ces)"
    by (auto simp: cleanupStaleCurrentSession_def and_then_Inr)
  from stop_target_ok [OF this] clean show "\<exists>ev. CliStop dir ev None \<in> set (snd (start_prepared w cfg prepared))"
    by (auto simp: run dir)
qed

lemma runStartCommand_cases:
  obtains "snd (runStartCommand w fl) = []"
  | cfg options where "\<And>c. currentSessionState (vw_first w (pc_CacheDir cfg)) (LaunchOrDefault cfg) \<noteq> Inr (Some (c, True))"
      "snd (runStartCommand w fl) = snd (and_then (prepareStart w cfg options) (start_prepared w cfg))"
proof (cases "parseStartOptions fl")
  case (Inr options)
  let ?load = "loadEffectiveConfig w (so_configPath options)
      (noOptions\<lparr>op_Server := so_serverName options, op_Profile := so_configProfile options, op_Selector := so_profileSelector options,
         op_Transport := so_transport options\<rparr>)"
  show ?thesis
  proof (cases ?load)
    case (Inl e)
    then show ?thesis using that(1) Inr by (simp add: runStartCommand_def)
  next
    case cs: (Inr cs)
    obtain cfg selection where c: "cs = (cfg, selection)" by (cases cs)
    show ?thesis
    proof (cases "\<exists>c. currentSessionState (vw_first w (pc_CacheDir cfg)) (LaunchOrDefault cfg) = Inr (Some (c, True))")
      case True
      then show ?thesis using Inr cs by (intro that(1)) (auto simp: runStartCommand_def c)
    next
      case False
      then have "snd (runStartCommand w fl) = snd (and_then (prepareStart w cfg (withEffectiveSelection options selection)) (start_prepared w cfg))"
        using Inr cs by (auto simp: runStartCommand_def c split: sum.splits option.splits bool.splits prod.splits)
      then show ?thesis using that(2) False by blast
    qed
  qed
qed (use that(1) in \<open>simp add: runStartCommand_def\<close>)


section \<open>What is written\<close>

lemma loaded_addresses:
  assumes "loadEffectiveConfig w path options = Inr (cfg, selection)"
  shows "TunAddresses cfg \<noteq> None"
proof -
  obtain e where valid: "Validate (ce_compiles (vw_env w)) e = (Inr (), cfg)" using assms by (rule loadEffective_elim)
  then obtain e0 sel0 where eff: "Effective (noOptions\<lparr>op_AllowMissingProfile := True\<rparr>) e = (Inr (e0, sel0), cfg)" "validateFlat e0 = Inr ()"
    by (auto simp: Validate_def split: sum.splits prod.splits)
  then have "TunAddresses e0 = TunAddresses e" "elems (TunAddresses e0) \<noteq> []" using mode_frame(2) flat_modes by blast+
  moreover have "TunAddresses cfg = TunAddresses e"
    using eff(1) by (auto simp: Effective_def share_default_def TunAddresses_def Let_def split: sum.splits option.splits if_splits)
  ultimately show ?thesis by (metis elems_simps(1))
qed

lemma prepare_resolved_elim:
  assumes "prepare_resolved w cfg options snap resolution = (Inr p, es)"
  shows "pr_engine p = EngineType cfg \<and>
    render_engine w cfg (pr_profile p) (pr_overlay p) (pr_target p) = (Inr (pr_xrayTarget p, pr_sidecars p), es)"
  using assms unfolding prepare_resolved_def Let_def and_then_Inr by auto

lemma prepare_elim:
  assumes "prepareStart w cfg options = (Inr p, es)"
  obtains d es2 where "es = CliCache (pc_CacheDir cfg) d # es2" "pr_engine p = EngineType cfg"
    "render_engine w cfg (pr_profile p) (pr_overlay p) (pr_target p) = (Inr (pr_xrayTarget p, pr_sidecars p), es2)"
proof -
  let ?d = "snd (loadStartSnapshot (vw_fetch w) (vw_io w) cfg (effectiveStartRefresh options) (vw_cache w (pc_CacheDir cfg)))"
  from assms obtain snap refreshed policy es2 where es: "es = CliCache (pc_CacheDir cfg) ?d # es2" and
    rest: "(case resolveProfileWithPolicy w (cs_Profiles snap) (DefaultProfileSelector cfg) (DefaultProfileTransport cfg) (so_match options)
        (so_pick options) policy of
      None \<Rightarrow> (Inl StillProbing, []) | Some (Inl e) \<Rightarrow> (Inl (SelectionError e), [])
    | Some (Inr resolution) \<Rightarrow> prepare_resolved w cfg options snap resolution) = (Inr p, es2)"
    unfolding prepareStart_def Let_def and_then_Inr [of "(fst _, _)"] by (auto simp: and_then_Inr simp del: and_then_simps)
  from rest obtain resolution where "prepare_resolved w cfg options snap resolution = (Inr p, es2)"
    by (auto split: option.splits sum.splits)
  from prepare_resolved_elim [OF this] es show thesis by (auto intro: that)
qed

lemma write_ok: "write_config w path root = (Inr x, es) \<Longrightarrow> es = [CliWrote path root]"
  by (auto simp: write_config_def split: option.splits)

lemma render_engine_elim:
  assumes "render_engine w cfg profile overlay target = (Inr (xrayTarget, sidecars), es)"
  obtains (singbox) root where "EngineType cfg = EngineSingbox" "RenderWithOptions cfg profile overlay = Inr root" "es = [CliWrote target root]"
  | (xray) root engine where "EngineType cfg = EngineXray" "RenderXrayFrontendWithOptions cfg overlay = Inr root" "xray_Render cfg profile = Inr engine"
      "es = [CliWrote xrayTarget engine, CliWrote target root]" "map so_Args sidecars = [[''run'', ''-c'', xrayTarget]]"
  using assms
  by (auto simp: render_engine_def and_then_Inr map_sum_def simp del: and_then_simps split: if_splits sum.splits dest!: write_ok intro: that)

text \<open>
  (C12) A prepared start has written, at the path that is handed to sing-box, a configuration in which every
  tag that is referred to is defined once. Without Xray the privileged service accepts it. With Xray it is
  accepted exactly when the SOCKS listener is a loopback address, the file of the Xray sidecar is written
  too, and the front end sends to the address and port at which Xray listens.
\<close>

theorem prepared_configuration:
  assumes "loadEffectiveConfig w path opts = Inr (cfg, selection)" and "prepareStart w cfg options = (Inr p, es)"
  shows "\<exists>root. CliWrote (pr_target p) root \<in> set es \<and> references_closed root \<and>
    (if pr_engine p = EngineXray then
       (walkSingBoxSchema (JObject root) ''root'' ''$'' = Inr () \<longleftrightarrow> (\<exists>a. ParseAddr (XraySocksListen cfg) = Some a \<and> IsLoopback a)) \<and>
       (\<exists>engine. CliWrote (pr_xrayTarget p) engine \<in> set es \<and> map so_Args (pr_sidecars p) = [[''run'', ''-c'', pr_xrayTarget p]] \<and>
         texts ''server'' (take 1 (Render_Conforms.nodes [''outbounds''] root)) = texts ''listen'' (Render_Conforms.nodes [''inbounds''] engine) \<and>
         jget ''server_port'' (hd (Render_Conforms.nodes [''outbounds''] root)) = jget ''port'' (hd (Render_Conforms.nodes [''inbounds''] engine)))
     else walkSingBoxSchema (JObject root) ''root'' ''$'' = Inr ())"
proof -
  note addresses = loaded_addresses [OF assms(1)]
  from assms(2) obtain d es2 where es: "es = CliCache (pc_CacheDir cfg) d # es2" and engine: "pr_engine p = EngineType cfg"
    and render: "render_engine w cfg (pr_profile p) (pr_overlay p) (pr_target p) = (Inr (pr_xrayTarget p, pr_sidecars p), es2)"
    by (rule prepare_elim)
  from render show ?thesis
  proof (cases rule: render_engine_elim)
    case (singbox root)
    then show ?thesis
      using rendered_accepted [OF singbox(2) addresses] by (intro exI [of _ root]) (simp add: es engine EngineSingbox_def EngineXray_def)
  next
    case (xray root conf)
    then show ?thesis
      using xray_frontend_accepted_iff [OF xray(2) addresses] engines_fit [OF xray(2,3)] xray_closed [OF xray(2)]
      by (intro exI [of _ root]) (auto simp: es engine)
  qed
qed

section \<open>The subscription of a start\<close>

text \<open>
  A start that is asked to refresh uses what it fetched, or, when the fetch failed for a reason that may
  pass, the snapshot it already had, and then the cache is as before.
\<close>

theorem start_snapshot:
  assumes "loadStartSnapshot env io cfg True d = (Inr (snap, fetched), d')"
  shows "if fetched then refreshSource env io cfg d = (Inr snap, d')
    else d' = d \<and> LoadCache io d = Inr snap \<and> (\<exists>e. fst (refreshSource env io cfg d) = Inl e \<and> IsTransientFetchError e)"
proof (cases "refreshSource env io cfg d")
  case (Pair r d1)
  show ?thesis
  proof (cases r)
    case (Inl e)
    with Pair assms have e: "IsTransientFetchError e" "LoadCache io d1 = Inr snap" "d' = d1" "\<not> fetched"
      by (auto simp: loadStartSnapshot_def split: if_splits sum.splits)
    have "d1 = d"
      using Pair Inl e(1) save_not_transient
      by (auto simp: refreshSource_def RefreshWithOptions_def Let_def split: sum.splits prod.splits)
    with Pair Inl e show ?thesis by simp
  qed (use Pair assms in \<open>simp add: loadStartSnapshot_def\<close>)
qed

section \<open>Witnesses\<close>

definition flat_project :: ProjectConfig where
  "flat_project = (DefaultForPath sample_base ''/c'')
     \<lparr>pc_CacheDir := ''/k'', pc_Source := zeroSource\<lparr>so_Mode := SourceModeProxy, so_URL := ''u''\<rparr>,
      pc_Artifacts := zeroArtifacts\<lparr>ar_SingboxConfigPath := ''/s''\<rparr>, pc_Engine := Some (zeroEngine\<lparr>en_Type := ''xray''\<rparr>)\<rparr>"

definition no_session :: session_view where
  "no_session = \<lparr>vi_files = \<lparr>sf_current = None, sf_entries = None\<rparr>, vi_launchd = (\<lambda>_. Inr 0), vi_look = sample_look KillESRCH\<rparr>"

text \<open>A world in which the cached profile is used because the provider answers 503, and the start fails on a read-only disk.\<close>

definition sample_cli :: cli_world where
  "sample_cli = \<lparr>vw_env = sample_base\<lparr>ce_unmarshal := (\<lambda>_ _. Inr flat_project)\<rparr>, vw_notExist = (\<lambda>_. False),
     vw_order = (\<lambda>servers. servers), vw_fetch = sample_fetch, vw_io = sample_cache_io,
     vw_cache = (\<lambda>_. \<lparr>cd_raw = None, cd_snapshot = Some (Inr \<lparr>cs_SourceURL = [], cs_SourceMode = [], cs_FetchedAt = 5, cs_PayloadFormat = [],
       cs_Raw = [], cs_Profiles = [sample_target]\<rparr>)\<rparr>),
     vw_unicode = sample_unicode, vw_compile = (\<lambda>_. None), vw_probes = [], vw_policy = (\<lambda>_. no_session),
     vw_overlay = (\<lparr>of_current = None, of_pgrep = None\<rparr>, sample_look KillESRCH), vw_write = (\<lambda>_. None), vw_lookPath = Inr,
     vw_first = (\<lambda>_. no_session), vw_second = (\<lambda>_. no_session), vw_stops = (\<lambda>_. (sample_stop_world, vi_files no_session)),
     vw_start = (sample_start (sample_look KillOk))\<lparr>sa_mkdir := (\<lambda>_. Some ''read-only'')\<rparr>\<rparr>"

definition sample_flags :: start_flags where
  "sample_flags = \<lparr>fl_config = ''/c'', fl_server = [], fl_profile = [], fl_selector = [], fl_transport = [], fl_output = [],
     fl_refresh = True, fl_refreshSet = True, fl_force = True, fl_args = []\<rparr>"

definition flat_selection :: EffectiveSelection where
  "flat_selection = \<lparr>es_Server = [], es_Profile = [], es_Selector = [], es_Transport = [], es_Match = None, es_Pick = [], es_UsesServerModel = False\<rparr>"

definition flat_options :: startOptions where
  "flat_options = \<lparr>so_configPath = ''/c'', so_serverName = [], so_configProfile = [], so_profileSelector = [], so_transport = [],
     so_outputPath = [], so_refresh = True, so_refreshSet = True, so_match = None, so_pick = []\<rparr>"

lemma flat_parsed:
  "parseStartOptions sample_flags = Inr flat_options"
  "withEffectiveSelection flat_options flat_selection = flat_options"
  "commandServerProfileSelection (fl_server sample_flags) (fl_profile sample_flags) (fl_selector sample_flags) (fl_args sample_flags) = Inr noOptions"
  by code_simp+

lemmas flat_simps = flat_project_def sample_default sample_words_lower sample_trim zeroSource_def zeroRouting_def zeroArtifacts_def zeroEngine_def
  zeroDefault_def EngineSingbox_def EngineXray_def SourceModeProxy_def SourceModeDirect_def RenderModeTun_def defaultRenderMode_def

lemma flat_trim: "TrimSpace ''u'' = ''u''" "TrimSpace ''/s'' = ''/s''" "TrimSpace ''xray'' = ''xray''" "ToLower ''xray'' = ''xray''"
  by code_simp+

lemma flat_default: "DefaultForPath sample_base ''/c'' = DefaultForPath sample_base ''/work/c.json''"
proof -
  have "filepath_Abs sample_base ''/c'' = Inr ''/c''" "defaultPathAbs sample_base \<noteq> ''/c''"
    by code_simp+
  then show ?thesis unfolding sample_default by (simp add: DefaultForPath_def)
qed

lemma flat_checked: "validateFlat flat_project = Inr ()"
  by (simp add: validateFlat_def flat_flat flat_default flat_trim flat_simps firstNonEmpty.simps
     SourceURL_def SourceMode_def SingboxConfigPath_def EngineType_def EngineConfigOf_def ProxyResolver_def XraySocksPort_def
       NetworkMode_def TunInterfaceName_def TunAddresses_def LaunchOrDefault_def LogLevel_def LogMaxLines_def
   validateLogLevel_def normalizeLogLevel_def normalizeEngineType_def or_else_def Let_def defaultLaunch_def
     LaunchModeAuto_def allowedLogLevels_def cloneStrings_def append_nil_def
   legacyRenderLogLevel_def legacyRenderOutputPath_def legacyRenderInterfaceName_def check_def cloneEngineConfig_def cloneXrayEngineConfig_def)

lemma flat_effective:
  "Effective noOptions flat_project = (Inr (flat_project, flat_selection), flat_project)"
  "Effective (noOptions\<lparr>op_AllowMissingProfile := True\<rparr>) flat_project = (Inr (flat_project, flat_selection), flat_project)"
  by (simp_all add: Effective_def flat_default flat_simps choose_flat_def set_defaults_def setDefaultProfileSelector_def
      setDefaultProfileTransport_def legacyDefaultProfileSelector_def legacyDefaultProfileTransport_def firstNonEmpty.simps share_default_def
      normalizeTransport_def noOptions_def flat_selection_def Let_def)

lemma flat_validated: "Validate f flat_project = (Inr (), flat_project)"
proof -
  have "validateExplicitServerEngines flat_project = Inr ()" "validateConfiguredTransports flat_project = Inr ()" "validateProfileMatches f flat_project = Inr ()"
    by (simp_all add: flat_default flat_simps flat_trim validateExplicitServerEngines_def validateConfiguredTransports_def validateProfileMatches_def
      validateTransportValue_def legacyDefaultProfileTransport_def normalizeTransport_def profileTransport_def
      normalizeEngineType_def firstNonEmpty.simps Let_def check_def)
  then show ?thesis by (simp add: Validate_def flat_effective flat_checked)
qed

lemma flat_loaded: "loadEffectiveConfig sample_cli ''/c'' noOptions = Inr (flat_project, flat_selection)"
proof -
  have "ResolveLoadPath (vw_env sample_cli) ''/c'' = Inr ''/c''" by code_simp
  moreover have "IsAbs ''/k''" "IsAbs ''/s''" by code_simp+
  then have "resolveRelativePaths d flat_project = flat_project" for d
    by (simp add: resolveRelativePaths_def resolve_artifacts_def rel_join_def flat_default flat_simps flat_trim)
  ultimately have "Load (vw_env sample_cli) ''/c'' = Inr flat_project"
    by (simp add: Load_def flat_validated sample_cli_def sample_base_def)
  then show ?thesis
    by (simp add: loadEffectiveConfig_def loadConfig_def flat_effective flat_validated)
qed

lemma flat_engine: "EngineType flat_project = EngineXray" "NetworkMode flat_project = RenderModeTun"
  by (simp_all add: EngineType_def EngineConfigOf_def NetworkMode_def flat_flat flat_default flat_simps flat_trim normalizeEngineType_def
     cloneEngineConfig_def cloneXrayEngineConfig_def Let_def)

lemma flat_snapshot:
  "fst (loadStartSnapshot (vw_fetch sample_cli) (vw_io sample_cli) flat_project True (vw_cache sample_cli d)) =
    Inr (\<lparr>cs_SourceURL = [], cs_SourceMode = [], cs_FetchedAt = 5, cs_PayloadFormat = [], cs_Raw = [], cs_Profiles = [sample_target]\<rparr>, False)"
proof -
  have "SourceMode flat_project = ''proxy''"
    by (simp add: SourceMode_def flat_flat flat_default flat_simps flat_trim Let_def)
  then show ?thesis
    by (simp add: loadStartSnapshot_def refreshSource_def RefreshWithOptions_def resolveSourcePayload_def FetchWithOptions_def sample_cli_def
        sample_fetch_def sample_cache_io_def LoadCache_def Let_def)
qed

lemma flat_resolved:
  "resolveProfileWithPolicy sample_cli [sample_target] (DefaultProfileSelector flat_project) (DefaultProfileTransport flat_project) None [] policy =
    Some (Inr (unmatched sample_target))"
proof -
  have "DefaultProfileSelector flat_project = []" "DefaultProfileTransport flat_project = []"
    by (simp_all add: DefaultProfileSelector_def DefaultProfileTransport_def legacyDefaultProfileSelector_def legacyDefaultProfileTransport_def
       flat_flat flat_default flat_simps Let_def)
  then show ?thesis
    by (simp add: resolveProfileWithPolicy_def ResolveProfileWithOptions_def normalizeProfileTransport_def Let_def)
qed

lemma flat_prepared:
  obtains p es where "prepareStart sample_cli flat_project flat_options = (Inr p, es)"
proof -
  obtain engine where engine: "xray_Render flat_project sample_target = Inr engine"
    using xray_render_ok_iff [of flat_project sample_target] by (auto simp: sample_target_def)
  have front: "\<exists>root. RenderXrayFrontendWithOptions flat_project overlay = Inr root" for overlay
    by (simp add: RenderXrayFrontendWithOptions_def renderWithProxyOutbound_def buildInbounds_def flat_engine Let_def)
  have written: "vw_write sample_cli path = None" for path by (simp add: sample_cli_def)
  have "\<exists>r es. render_engine sample_cli flat_project sample_target overlay target = (Inr r, es)" for overlay target
    using front [of overlay] by (auto simp: render_engine_def flat_engine engine write_config_def written EngineXray_def EngineSingbox_def)
  then have "\<exists>p es. prepare_resolved sample_cli flat_project flat_options snap (unmatched sample_target) = (Inr p, es)" for snap
    unfolding prepare_resolved_def Let_def and_then_Inr by (auto simp: unmatched_def) blast+
  then show thesis
    using that by (simp add: prepareStart_def flat_snapshot flat_resolved probeSelectionPolicy_def flat_options_def effectiveStartRefresh_def Let_def) (metis fst_conv snd_conv)
qed

lemma flat_views [simp]:
  "vw_first sample_cli d = no_session" "vw_second sample_cli d = no_session" "vw_stops sample_cli d = (sample_stop_world, vi_files no_session)"
  "vw_order sample_cli servers = servers" "vw_lookPath sample_cli f = Inr f" "pc_CacheDir flat_project = ''/k''"
  by (simp_all add: sample_cli_def flat_project_def)

lemma flat_state: "currentSessionState no_session l = Inr None"
proof -
  have "ResolveCurrent (vi_launchd no_session) (vi_files no_session) l = Inl SessionMissing"
    by (auto simp: no_session_def ResolveCurrent_def LoadCurrent_def resolveLegacyLaunchdCurrent_def latestLaunchdSessionMetadata_def Let_def
        split: sum.splits)
  then show ?thesis by (simp add: currentSessionState_def)
qed

lemma flat_start: "\<exists>e. start_session sample_cli flat_project prepared = (e, [CliStart ''/k'' []])"
proof -
  have mk: "sa_mkdir (vw_start sample_cli) d = Some ''read-only''" for d by (simp add: sample_cli_def)
  have "snd (Start (vw_start sample_cli) d t profile options) = []" for d t profile options
    by (simp add: Start_def mk split: sum.splits)
  then show ?thesis by (auto simp: start_session_def split: prod.splits sum.splits) (metis snd_conv)+
qed

lemma flat_stop: "stop_target sample_cli wrap d l force = (Inr None, [CliStop d [] None])"
proof -
  have "ResolveCurrent (sp_launchdPID sample_stop_world) (vi_files no_session) l = Inl SessionMissing"
    by (auto simp: no_session_def sample_stop_world_def ResolveCurrent_def LoadCurrent_def resolveLegacyLaunchdCurrent_def Let_def)
  then show ?thesis by (simp add: stop_target_def stopCurrentSession_def Stop_def)
qed

lemma flat_load: "loadEffectiveConfig sample_cli (fl_config sample_flags) (noOptions\<lparr>op_Transport := TrimSpace (fl_transport sample_flags)\<rparr>) =
    Inr (flat_project, flat_selection)"
  using flat_loaded by (simp add: sample_flags_def noOptions_def)

lemma flat_same:
  "\<lparr>so_configPath = fl_config sample_flags, so_serverName = [], so_configProfile = [],
     so_profileSelector = [], so_transport = firstNonEmpty [TrimSpace (fl_transport sample_flags), fl_transport sample_flags],
     so_outputPath = fl_output sample_flags, so_refresh = fl_refresh sample_flags, so_refreshSet = True, so_match = None, so_pick = []\<rparr> = flat_options"
  by (simp add: flat_options_def sample_flags_def firstNonEmpty.simps)

theorem stop_covers_start_witness:
  "\<exists>targets. sessionTargetsForConfig sample_cli ''/c'' [] = Inr targets \<and> ''/k'' \<in> set (map tg_cacheDir targets)"
  using stop_covers_start [OF flat_loaded] by auto



theorem prepared_configuration_witness:
  "\<exists>p es root engine. prepareStart sample_cli flat_project flat_options = (Inr p, es) \<and> CliWrote (pr_target p) root \<in> set es \<and>
    CliWrote (pr_xrayTarget p) engine \<in> set es \<and> walkSingBoxSchema (JObject root) ''root'' ''$'' = Inr ()"
proof -
  obtain p es where p: "prepareStart sample_cli flat_project flat_options = (Inr p, es)" by (rule flat_prepared)
  then have "pr_engine p = EngineType flat_project" by (rule prepare_elim)
  moreover note flat_engine(1)
  moreover have "ParseAddr (XraySocksListen flat_project) = Some (IPv4 [127, 0, 0, 1])"
    "IsLoopback (IPv4 [127, 0, 0, 1])" by code_simp+
  ultimately show ?thesis using prepared_configuration [OF flat_loaded p] p by auto
qed

end
