(* ===== verification/Spec2Isabelle.thy ===== *)
theory Spec2Isabelle
  imports Vpn_Service Render_Policy Subscription_Laws Session_Start_Laws Openconnect_Domain_Laws Openconnect_Stop_Laws Vless_Cli_Laws
begin

text \<open>
  A verification development for \<open>multi-tun\<close>, a set of macOS command-line tools that run VPN tunnels
  through one privileged service. All paths below are relative to \<open>src/desktop/internal\<close>.

  \<^bold>\<open>The program.\<close> \<open>vless-tun\<close> (\<open>vless\<close>) reads a layered configuration, fetches a subscription of upstream
  profiles, chooses one, renders it to a sing-box configuration, and asks the privileged service to
  run it. The service, \<open>vpn-core\<close> (\<open>core/vpncore\<close>), runs as root behind a Unix socket: it accepts typed
  requests only, validates everything a client sends, starts and signals the tunnel processes, changes
  DNS settings, and can be drained for an upgrade. \<open>openconnect-tun\<close>, \<open>cisco-dump\<close> and \<open>ssh-proxy\<close> are
  further clients.

  \<^bold>\<open>The language.\<close> \<open>Go_Strings\<close>, \<open>Go_Prelude\<close>, \<open>Go_Filepath\<close>, \<open>Go_Netip\<close>, \<open>Go_Url\<close> and \<open>Go_Json\<close> model what
  the sources use of Go and its library. A Go string is a byte list, an \<open>int\<close> is an \<open>int\<close> whose bounds are
  stated where they matter, file modes are 16-bit words, a map is an association list whose order is the
  order of iteration, a slice that is compared with nil is a list option, and \<open>(T, error)\<close> is a sum.
  \<open>Go_Prelude\<close> holds the shared lemmas and two interfaces: \<open>normalizer\<close>, behind every normalised list, and
  \<open>invariant_system\<close>, a step relation with an invariant.

  \<^bold>\<open>The privileged service.\<close>
  \<^item> \<open>Request_Tracker\<close> (\<open>diagnostics.go\<close>): requests in flight; reachable states are well formed.
  \<^item> \<open>Child_Registry\<close> (\<open>service.go\<close>, \<open>typed_actions.go\<close>): the children of the daemon; a signal reaches only a
    process that was started by the daemon and has not been waited for.
  \<^item> \<open>Service_Config\<close> (\<open>config.go\<close>), \<open>Path_Verify\<close> (\<open>verify.go\<close>, \<open>acl_darwin_cgo.go\<close>): the trusted-path walk over a
    file system view, the ACL check, the manifest, the self-verification of the daemon.
  \<^item> \<open>Maintenance_Lease\<close>, \<open>Maintenance\<close> (\<open>maintenance_lease.go\<close>, \<open>maintenance.go\<close>): the lease file with every
    system call failing or not, and draining, undraining and renewing.
  \<^item> \<open>Sing_Box_Schema\<close> (\<open>typed_actions.go\<close>): the schema walk, shown to decide an inductively defined language.
  \<^item> \<open>Typed_Actions\<close>: what root executes for each action and on which input.
  \<^item> \<open>Vpn_Request\<close>, \<open>Vpn_Service\<close> (\<open>service.go\<close>, \<open>rpc.go\<close>): reading a request with its descriptors, dispatch, and
    the daemon as a step relation over interleaved connections and child exits; the properties that span
    the service (drain, privileged surface, bookkeeping) are proved by rule induction there.

  \<^bold>\<open>The VLESS tunnel.\<close>
  \<^item> \<open>Vless_Config\<close>, \<open>Vless_Selection\<close>, \<open>Vless_Validate\<close> (\<open>config/config.go\<close>): the records, the layers, the
    effective configuration, validation, loading, set-up; \<open>Vless_Laws\<close> has their laws.
  \<^item> \<open>Vless_Model\<close> (\<open>model/profile.go\<close>), \<open>Subscription\<close> (\<open>subscription/parse.go\<close>, \<open>fetch.go\<close>): payloads, URIs, selection,
    probing, the cache; \<open>Subscription_Laws\<close> has their laws.
  \<^item> \<open>Sing_Box_Render\<close> (\<open>singbox/render.go\<close>): rendering; \<open>Render_Conforms\<close> and \<open>Render_Policy\<close> show that what is
    rendered from a validated configuration is accepted by the service's schema, and how it routes.
  \<^item> \<open>Session_Record\<close>, \<open>Dns_Handoff\<close> (\<open>session/session.go\<close>, \<open>dns_handoff.go\<close>): the record of a session and the
    hand-over of the system DNS; \<open>Dns_Laws\<close> shows that the privileged service accepts its scripts and that it is undone.
  \<^item> \<open>Session_Process\<close>, \<open>Session_Stop\<close> (\<open>session.go\<close>, \<open>vpncore.go\<close>, \<open>launchd.go\<close>, \<open>processidentity/identity.go\<close>): liveness,
    identity, signals, and stopping a session; \<open>Session_Laws\<close> shows what a stop may signal and when the record goes.
  \<^item> \<open>Session_Sidecars\<close>, \<open>Session_Start\<close> (\<open>sidecar_cleanup.go\<close>, \<open>session.go\<close>): orphans, sidecars and starting a session;
    \<open>Session_Start_Laws\<close> shows what a failed and a successful start leave behind. The operations of a session
    return their result with the trace of events (looks, signals, calls, writes) in the order they happen.

  \<^item> \<open>Xray_Render\<close> (\<open>xray/render.go\<close>), \<open>Vless_Cli\<close> (\<open>cli/app.go\<close>, \<open>run_stop.go\<close>, \<open>status.go\<close>): the Xray engine, and the commands
    start, reconnect and stop with everything they call; \<open>Vless_Cli_Laws\<close> shows the order in which a reconnect touches
    sessions, that a start does not run beside a live session, that a stop finds every session a start can
    make, and what is written for the service.

  \<^bold>\<open>The OpenConnect tunnel\<close> (\<open>anyconnect\<close>).
  \<^item> \<open>Openconnect_Domains\<close> (\<open>openconnect/runtime.go\<close>, \<open>openconnectcli/app.go\<close>): merging, normalising and collapsing the
    domain lists of a split tunnel and the resolver specification; laws in \<open>Openconnect_Domain_Laws\<close>.
  \<^item> \<open>Openconnect_Session\<close>, \<open>Openconnect_Stop\<close> (\<open>session.go\<close>, \<open>process_identity.go\<close>, \<open>helper.go\<close>): the session record, liveness,
    privileges, signals, the overlay offered to \<open>vless-tun\<close>, stopping and the clean-up of resolver files;
    \<open>Openconnect_Stop_Laws\<close> shows what a stop signals and when the record goes.

  \<^bold>\<open>Parameters.\<close> What the sources only call is an argument: the operating system's answers (an environment
  record per component), JSON decoding and encoding, SHA-1, the regular expression engine, Unicode tables,
  random bytes, clocks and the HTTP client. Hypotheses about them are premises of the theorems that need
  them. Events that arrive from outside (connections, probe results, child exits) are explicit sequences.

  \<^bold>\<open>Loops.\<close> Every recursive definition terminates, by structure or by a measure; \<open>runes\<close> uses the length of
  its input as fuel, which is enough because a rune takes at least one byte. A probe that is still waiting
  for its events is the value \<open>None\<close>, and that it ends is proved.

  \<^bold>\<open>Not modelled.\<close> The authentication of OpenConnect (a SAML dialogue in a browser) and its session script,
  Cisco dumps, interface audits, the SSH proxy, the key chain, the Android release tool, installation of the
  service, the parsing of command-line flags, and text that is only printed.
\<close>

end
